(* ===== verification/Dns_Prelude.thy ===== *)
theory Dns_Prelude
  imports Main "HOL-Library.Word" "HOL-Library.Char_ord" "HOL-Library.List_Lexorder"
    "HOL-Library.Product_Lexorder" "HOL-Library.Multiset"
begin

text \<open>
  Shared vocabulary of the development: the machine integers of the Go code, the error values
  that its functions return, the result type of fallible operations, the collections of
  simplification rules the component proofs use, and generic lemmas on lists and words.
\<close>

section \<open>Machine integers and bytes\<close>

type_synonym u8 = "8 word"
type_synonym u32 = "32 word"
type_synonym u64 = "64 word"
type_synonym bytes = "u8 list"

section \<open>Error values\<close>

text \<open>
  One constructor per sentinel error that the code returns or compares with
  \<^verbatim>\<open>errors.Is\<close>. \<^verbatim>\<open>errorsmod.Wrap\<close> adds text and keeps the sentinel, so the wrapped
  error is the sentinel here. \<open>ErrNotFound\<close> is the error of \<^verbatim>\<open>collections\<close> for a missing key,
  \<open>ErrPlain\<close> an error made by \<^verbatim>\<open>fmt.Errorf\<close>, \<open>ErrExternal\<close> an error of a dependency (bank,
  codec, store) and \<open>Panic\<close> a run-time panic of the Go code.
\<close>

datatype gerr =
    ErrInvalidAddress | ErrInvalidRequest | ErrKeyNotFound | ErrLogic | ErrUnauthorized
  | ErrInvalidCoins
  | ErrInvalidSigner | ErrDuplicateDomainName | ErrInvalidTLD | ErrTLDReservedByICANN
  | ErrTLDNotPermitted | ErrInvalidDomainName
  | ErrInvalidProposalContent | ErrProposalNotFound | ErrInactiveProposal
  | ErrVotingPeriodEnded | ErrAlreadyVoted | ErrNoVotingPower | ErrDuplicateActiveProposal
  | StatusInvalidArgument | StatusNotFound | StatusInternal
  | ErrNotFound | ErrPlain string | ErrExternal nat | Panic

type_synonym 'a res = "gerr + 'a"

definition is_ok :: "'a res \<Rightarrow> bool" where
  "is_ok r = (case r of Inl _ \<Rightarrow> False | Inr _ \<Rightarrow> True)"

lemma is_ok_simps [simp]: "is_ok (Inl e) = False" "is_ok (Inr x) = True"
  by (simp_all add: is_ok_def)

lemma is_ok_iff: "is_ok r \<longleftrightarrow> (\<exists>x. r = Inr x)"
  by (cases r) auto

section \<open>Collections of rules\<close>

named_theorems store_simps \<open>what a read returns after a write\<close>
named_theorems frame_simps \<open>which parts of the state an operation leaves alone\<close>
named_theorems inv_intros \<open>preservation of the invariants\<close>

section \<open>Lists\<close>

lemma dropWhile_idem [simp]: "dropWhile P (dropWhile P xs) = dropWhile P xs"
  by (induction xs) auto

lemma dropWhile_hd_not: "dropWhile P xs = [] \<or> \<not> P (hd (dropWhile P xs))"
  by (induction xs) auto

lemma dropWhile_id: "xs = [] \<or> \<not> P (hd xs) \<Longrightarrow> dropWhile P xs = xs"
  by (cases xs) auto

lemma set_dropWhile_subset: "set (dropWhile P xs) \<subseteq> set xs"
  by (auto dest: set_dropWhileD)

lemma find_fresh: "f x \<notin> f ` set xs \<Longrightarrow> find (\<lambda>y. f y = f x) xs = None"
  by (induction xs) auto

lemma image_fixed: "(\<And>x. x \<in> A \<Longrightarrow> f x = x) \<Longrightarrow> f ` A = A"
  by (auto simp: image_def)

lemma sum_list_map_filter_split:
  fixes f :: "'a \<Rightarrow> int"
  shows "sum_list (map f (filter P xs)) + sum_list (map f (filter (\<lambda>x. \<not> P x) xs)) = sum_list (map f xs)"
  by (induction xs) auto

lemma sum_list_map_mono_int:
  fixes f g :: "'a \<Rightarrow> int"
  assumes "\<And>x. x \<in> set xs \<Longrightarrow> f x \<le> g x"
  shows "sum_list (map f xs) \<le> sum_list (map g xs)"
  using assms by (induction xs) (auto intro: add_mono)

section \<open>Decimal printing\<close>

text \<open>\<^verbatim>\<open>fmt.Sprintf("%d", n)\<close> for an unsigned integer.\<close>

fun show_nat :: "nat \<Rightarrow> string" where
  "show_nat n = (if n < 10 then [char_of (48 + n)] else show_nat (n div 10) @ [char_of (48 + n mod 10)])"

declare show_nat.simps [simp del]

definition show_u64 :: "u64 \<Rightarrow> string" where
  "show_u64 w = show_nat (unat w)"

text \<open>Two numbers that print alike are equal: the value is read back from the digits.\<close>

definition read_digits :: "string \<Rightarrow> nat" where
  "read_digits s = foldl (\<lambda>acc c. 10 * acc + (of_char c - 48)) 0 s"

lemma read_show_nat: "read_digits (show_nat n) = n"
proof (induction n rule: show_nat.induct)
  case (1 n)
  show ?case
  proof (cases "n < 10")
    case True
    then show ?thesis
      by (subst show_nat.simps) (simp add: read_digits_def of_char_of)
  next
    case False
    then have "read_digits (show_nat (n div 10)) = n div 10" by (rule 1)
    with False show ?thesis
      by (subst show_nat.simps) (simp add: read_digits_def of_char_of)
  qed
qed

lemma show_u64_inject: "show_u64 a = show_u64 b \<Longrightarrow> a = b"
  by (metis read_show_nat show_u64_def word_unat_eq_iff)

section \<open>Words\<close>

lemma word_less_succ_cases:
  fixes a b :: u64
  assumes "a < b + 1"
  shows "a < b \<or> a = b"
  using less_inc_imp_less_eq [OF assms] by auto

lemma word_less_succ_self:
  fixes b :: u64
  assumes "b \<noteq> - 1"
  shows "b < b + 1"
  using assms by (simp add: not_le [symmetric] inc_less_eq_self_iff_eq)

lemma word_less_succ_trans:
  fixes a b :: u64
  assumes "a < b" and "b \<noteq> - 1"
  shows "a < b + 1"
  using assms(1) word_less_succ_self [OF assms(2)] by (rule less_trans)

end
