(* ===== verification/Data_Types.thy ===== *)
theory Data_Types
  imports Dns_Prelude
begin

text \<open>
  The data of the two modules, as the generated Go structs have it: what the stores hold
  (\<^verbatim>\<open>Domain\<close>, \<^verbatim>\<open>Proposal\<close>, \<^verbatim>\<open>Vote\<close>, \<^verbatim>\<open>VoterVotingPowerLot\<close>, the parameters) and what the
  messages carry. A slice of pointers may hold \<^verbatim>\<open>nil\<close>, so its elements are options; a proto3
  enum is an open 32-bit integer. \<^verbatim>\<open>math.Int\<close> is an integer; a decimal (\<^verbatim>\<open>math.LegacyDec\<close>)
  has the type \<open>'d\<close>, a parameter of the model.
\<close>

section \<open>Coins\<close>

record coin =
  coin_denom :: string
  coin_amount :: int

type_synonym coins = "coin list"

section \<open>The dnsblockchain module\<close>

record ns_record =
  ns_name :: string
  ns_ipv4 :: "string list"
  ns_ipv6 :: "string list"

record domain =
  dom_id :: u64
  dom_name :: string
  dom_owner :: string
  dom_ns_records :: "ns_record option list"
  dom_creator :: string
  dom_expiration :: u64

record dns_params =
  domain_creation_fee :: coins

record dns_genesis =
  gs_params :: dns_params
  gs_domain_list :: "domain list"
  gs_domain_count :: u64
  gs_permitted_tlds :: "string list"

record msg_create_domain =
  cd_creator :: string
  cd_name :: string
  cd_owner :: string
  cd_ns_records :: "ns_record option list"

record msg_update_domain =
  ud_creator :: string
  ud_id :: u64
  ud_owner :: string
  ud_ns_records :: "ns_record option list"

record msg_delete_domain =
  dd_creator :: string
  dd_id :: u64

record msg_transfer_domain =
  td_creator :: string
  td_id :: u64
  td_new_owner :: string

record msg_heartbeat_domain =
  hd_creator :: string
  hd_id :: u64

record msg_update_params =
  up_authority :: string
  up_params :: dns_params

section \<open>The dao module\<close>

text \<open>\<^verbatim>\<open>google.protobuf.Any\<close>: a type URL and the bytes of a message of that type.\<close>

record any =
  type_url :: string
  any_value :: bytes

record add_tld_content =
  at_tld :: string
  at_description :: string

record request_tokens_content =
  rt_recipient :: string
  rt_amount :: coins
  rt_activity :: string

text \<open>The two implementations of \<^verbatim>\<open>ProposalContent\<close> that the module registers.\<close>

datatype proposal_content =
    AddTld add_tld_content
  | RequestTokens request_tokens_content

type_synonym proposal_status = u32

definition PROPOSAL_STATUS_UNSPECIFIED :: proposal_status where "PROPOSAL_STATUS_UNSPECIFIED = 0"
definition PROPOSAL_STATUS_SUBMITTED :: proposal_status where "PROPOSAL_STATUS_SUBMITTED = 1"
definition PROPOSAL_STATUS_VOTING_PERIOD :: proposal_status where "PROPOSAL_STATUS_VOTING_PERIOD = 2"
definition PROPOSAL_STATUS_PASSED :: proposal_status where "PROPOSAL_STATUS_PASSED = 3"
definition PROPOSAL_STATUS_REJECTED :: proposal_status where "PROPOSAL_STATUS_REJECTED = 4"
definition PROPOSAL_STATUS_EXECUTED :: proposal_status where "PROPOSAL_STATUS_EXECUTED = 5"
definition PROPOSAL_STATUS_FAILED :: proposal_status where "PROPOSAL_STATUS_FAILED = 6"

definition proposal_status_name :: "(u32 \<times> string) list" where
  "proposal_status_name =
     [(0, ''PROPOSAL_STATUS_UNSPECIFIED''), (1, ''PROPOSAL_STATUS_SUBMITTED''),
      (2, ''PROPOSAL_STATUS_VOTING_PERIOD''), (3, ''PROPOSAL_STATUS_PASSED''),
      (4, ''PROPOSAL_STATUS_REJECTED''), (5, ''PROPOSAL_STATUS_EXECUTED''),
      (6, ''PROPOSAL_STATUS_FAILED'')]"

type_synonym vote_option = u32

definition VOTE_OPTION_UNSPECIFIED :: vote_option where "VOTE_OPTION_UNSPECIFIED = 0"
definition VOTE_OPTION_YES :: vote_option where "VOTE_OPTION_YES = 1"
definition VOTE_OPTION_NO :: vote_option where "VOTE_OPTION_NO = 2"
definition VOTE_OPTION_ABSTAIN :: vote_option where "VOTE_OPTION_ABSTAIN = 3"

definition vote_option_name :: "(u32 \<times> string) list" where
  "vote_option_name = [(0, ''VOTE_OPTION_UNSPECIFIED''), (1, ''VOTE_OPTION_YES''),
      (2, ''VOTE_OPTION_NO''), (3, ''VOTE_OPTION_ABSTAIN'')]"

lemmas status_defs = PROPOSAL_STATUS_UNSPECIFIED_def PROPOSAL_STATUS_SUBMITTED_def
  PROPOSAL_STATUS_VOTING_PERIOD_def PROPOSAL_STATUS_PASSED_def PROPOSAL_STATUS_REJECTED_def
  PROPOSAL_STATUS_EXECUTED_def PROPOSAL_STATUS_FAILED_def

lemmas vote_option_defs = VOTE_OPTION_UNSPECIFIED_def VOTE_OPTION_YES_def VOTE_OPTION_NO_def
  VOTE_OPTION_ABSTAIN_def

lemma status_neq [simp]:
  "PROPOSAL_STATUS_PASSED \<noteq> PROPOSAL_STATUS_VOTING_PERIOD"
  "PROPOSAL_STATUS_REJECTED \<noteq> PROPOSAL_STATUS_VOTING_PERIOD"
  "PROPOSAL_STATUS_EXECUTED \<noteq> PROPOSAL_STATUS_VOTING_PERIOD"
  "PROPOSAL_STATUS_FAILED \<noteq> PROPOSAL_STATUS_VOTING_PERIOD"
  "PROPOSAL_STATUS_VOTING_PERIOD \<noteq> PROPOSAL_STATUS_PASSED"
  "PROPOSAL_STATUS_VOTING_PERIOD \<noteq> PROPOSAL_STATUS_REJECTED"
  "PROPOSAL_STATUS_VOTING_PERIOD \<noteq> PROPOSAL_STATUS_EXECUTED"
  "PROPOSAL_STATUS_VOTING_PERIOD \<noteq> PROPOSAL_STATUS_FAILED"
  "PROPOSAL_STATUS_REJECTED \<noteq> PROPOSAL_STATUS_PASSED"
  "PROPOSAL_STATUS_FAILED \<noteq> PROPOSAL_STATUS_PASSED"
  "PROPOSAL_STATUS_EXECUTED \<noteq> PROPOSAL_STATUS_PASSED"
  "PROPOSAL_STATUS_PASSED \<noteq> PROPOSAL_STATUS_REJECTED"
  "PROPOSAL_STATUS_PASSED \<noteq> PROPOSAL_STATUS_FAILED"
  "PROPOSAL_STATUS_PASSED \<noteq> PROPOSAL_STATUS_EXECUTED"
  "PROPOSAL_STATUS_REJECTED \<noteq> PROPOSAL_STATUS_EXECUTED"
  "PROPOSAL_STATUS_REJECTED \<noteq> PROPOSAL_STATUS_FAILED"
  "PROPOSAL_STATUS_FAILED \<noteq> PROPOSAL_STATUS_REJECTED"
  "PROPOSAL_STATUS_FAILED \<noteq> PROPOSAL_STATUS_EXECUTED"
  "PROPOSAL_STATUS_EXECUTED \<noteq> PROPOSAL_STATUS_REJECTED"
  "PROPOSAL_STATUS_EXECUTED \<noteq> PROPOSAL_STATUS_FAILED"
  by (simp_all add: status_defs)

record proposal =
  pr_id :: u64
  pr_proposer :: string
  pr_title :: string
  pr_description :: string
  pr_content :: "any option"
  pr_status :: proposal_status
  pr_submit_block :: u64
  pr_voting_start_block :: u64
  pr_voting_end_block :: u64
  pr_yes_votes :: int
  pr_no_votes :: int
  pr_abstain_votes :: int
  pr_total_power_at_snapshot :: int

record vote =
  vt_proposal_id :: u64
  vt_voter :: string
  vt_option :: vote_option
  vt_voting_power :: int

record power_lot =
  lot_voter :: string
  lot_proposal_id :: u64
  lot_initial_amount :: int
  lot_grant_height :: u64

record 'd dao_params =
  voting_period_blocks :: u64
  proposal_submission_deposit :: coins
  quorum_percent :: 'd
  min_yes_threshold_percent :: 'd
  voting_token_denom :: string
  voting_power_decay_blocks :: u64
  validator_reward_amount :: coin
  add_tld_proposal_cost :: coins

record 'd dao_genesis =
  dg_params :: "'d dao_params"

record msg_submit_proposal =
  sp_proposer :: string
  sp_title :: string
  sp_description :: string
  sp_initial_deposit :: coins
  sp_content :: "any option"

record msg_vote =
  mv_proposal_id :: u64
  mv_voter :: string
  mv_option :: vote_option

text \<open>The fields of \<^verbatim>\<open>query.PageRequest\<close> that the queries of the dao module read.\<close>

record page_request =
  page_offset :: u64
  page_limit :: u64

end
