(* ===== verification/KV_Store.thy ===== *)
theory KV_Store
  imports Dns_Prelude
begin

text \<open>
  The key-value collections that the keepers persist their state in: a finite map that is
  iterated in ascending key order (\<^verbatim>\<open>collections.Map\<close>, \<^verbatim>\<open>collections.KeySet\<close>). The state is
  a list of key-value pairs with strictly ascending keys. The interface the keepers rely on is
  the locale \<open>kv_store\<close>; its facts about walking the store are proved once there and the
  interpretation below gives them for the model's store.
\<close>

section \<open>The interface\<close>

locale kv_store =
  fixes get :: "'s \<Rightarrow> 'k \<Rightarrow> 'v option"
    and put :: "'k \<Rightarrow> 'v \<Rightarrow> 's \<Rightarrow> 's"
    and del :: "'k \<Rightarrow> 's \<Rightarrow> 's"
    and walk :: "'s \<Rightarrow> ('k \<times> 'v) list"
    and invar :: "'s \<Rightarrow> bool"
  assumes get_put: "get (put k v s) j = (if j = k then Some v else get s j)"
    and get_del: "get (del k s) j = (if j = k then None else get s j)"
    and walk_get: "invar s \<Longrightarrow> (k, v) \<in> set (walk s) \<longleftrightarrow> get s k = Some v"
    and walk_distinct: "invar s \<Longrightarrow> distinct (map fst (walk s))"
    and invar_put: "invar s \<Longrightarrow> invar (put k v s)"
    and invar_del: "invar s \<Longrightarrow> invar (del k s)"
begin

lemma walk_entries_distinct: "invar s \<Longrightarrow> distinct (walk s)"
  by (auto dest: walk_distinct simp: distinct_map)

lemma walk_put_mset:
  assumes "invar s" and "get s k = None"
  shows "mset (walk (put k v s)) = add_mset (k, v) (mset (walk s))"
proof -
  have d: "distinct (walk (put k v s))" "distinct (walk s)"
    using assms by (auto intro: walk_entries_distinct invar_put)
  have notin: "(k, v) \<notin> set (walk s)" using assms by (simp add: walk_get)
  have "set (walk (put k v s)) = insert (k, v) (set (walk s))"
  proof (rule set_eqI)
    fix x :: "'k \<times> 'v"
    obtain j u where x: "x = (j, u)" by (cases x)
    show "x \<in> set (walk (put k v s)) \<longleftrightarrow> x \<in> insert (k, v) (set (walk s))"
      using assms by (auto simp: x walk_get invar_put get_put)
  qed
  with d notin have "mset (walk (put k v s)) = mset ((k, v) # walk s)"
    by (metis distinct.simps(2) list.simps(15) set_eq_iff_mset_eq_distinct)
  then show ?thesis by simp
qed

lemma walk_update_mset:
  assumes "invar s" and "get s k = Some u"
  shows "add_mset (k, u) (mset (walk (put k v s))) = add_mset (k, v) (mset (walk s))"
proof -
  have "mset (walk (put k v s)) = mset (walk (put k v (del k s)))"
  proof -
    have "set (walk (put k v s)) = set (walk (put k v (del k s)))"
    proof (rule set_eqI)
      fix x :: "'k \<times> 'v"
      show "x \<in> set (walk (put k v s)) \<longleftrightarrow> x \<in> set (walk (put k v (del k s)))"
        using assms by (cases x) (auto simp: walk_get invar_put invar_del get_put get_del)
    qed
    then show ?thesis
      using assms by (metis invar_del invar_put set_eq_iff_mset_eq_distinct walk_entries_distinct)
  qed
  also have "\<dots> = add_mset (k, v) (mset (walk (del k s)))"
    using assms by (simp add: walk_put_mset invar_del get_del)
  finally have new: "mset (walk (put k v s)) = add_mset (k, v) (mset (walk (del k s)))" .
  have "mset (walk s) = mset (walk (put k u (del k s)))"
  proof -
    have "set (walk s) = set (walk (put k u (del k s)))"
    proof (rule set_eqI)
      fix x :: "'k \<times> 'v"
      show "x \<in> set (walk s) \<longleftrightarrow> x \<in> set (walk (put k u (del k s)))"
        using assms by (cases x) (auto simp: walk_get invar_put invar_del get_put get_del)
    qed
    then show ?thesis
      using assms by (metis invar_del invar_put set_eq_iff_mset_eq_distinct walk_entries_distinct)
  qed
  also have "\<dots> = add_mset (k, u) (mset (walk (del k s)))"
    using assms by (simp add: walk_put_mset invar_del get_del)
  finally show ?thesis using new by simp
qed

text \<open>A sum over a walk after an insertion and after an overwrite.\<close>

lemma sum_put_new:
  fixes f :: "'k \<times> 'v \<Rightarrow> int"
  assumes "invar s" and "get s k = None"
  shows "(\<Sum>x\<leftarrow>walk (put k v s). f x) = f (k, v) + (\<Sum>x\<leftarrow>walk s. f x)"
proof -
  have "(\<Sum>x\<leftarrow>walk (put k v s). f x) = \<Sum>\<^sub># (image_mset f (mset (walk (put k v s))))"
    by (metis mset_map sum_mset_sum_list)
  also have "\<dots> = f (k, v) + \<Sum>\<^sub># (image_mset f (mset (walk s)))"
    using assms by (simp add: walk_put_mset)
  also have "\<Sum>\<^sub># (image_mset f (mset (walk s))) = (\<Sum>x\<leftarrow>walk s. f x)"
    by (metis mset_map sum_mset_sum_list)
  finally show ?thesis .
qed

lemma sum_put_over:
  fixes f :: "'k \<times> 'v \<Rightarrow> int"
  assumes "invar s" and "get s k = Some u"
  shows "f (k, u) + (\<Sum>x\<leftarrow>walk (put k v s). f x) = f (k, v) + (\<Sum>x\<leftarrow>walk s. f x)"
proof -
  have "\<Sum>\<^sub># (image_mset f (add_mset (k, u) (mset (walk (put k v s)))))
      = \<Sum>\<^sub># (image_mset f (add_mset (k, v) (mset (walk s))))"
    using assms by (simp add: walk_update_mset)
  moreover have "\<Sum>\<^sub># (image_mset f (mset (walk t))) = (\<Sum>x\<leftarrow>walk t. f x)" for t
    by (metis mset_map sum_mset_sum_list)
  ultimately show ?thesis by simp
qed

end

section \<open>The store of the model\<close>

type_synonym ('k, 'v) kv = "('k \<times> 'v) list"

definition kv_get :: "('k, 'v) kv \<Rightarrow> 'k \<Rightarrow> 'v option" where
  "kv_get m k = map_of m k"

fun kv_set :: "'k::linorder \<Rightarrow> 'v \<Rightarrow> ('k, 'v) kv \<Rightarrow> ('k, 'v) kv" where
  "kv_set k v [] = [(k, v)]"
| "kv_set k v ((j, u) # m) =
     (if k < j then (k, v) # (j, u) # m
      else if k = j then (k, v) # m
      else (j, u) # kv_set k v m)"

definition kv_remove :: "'k \<Rightarrow> ('k, 'v) kv \<Rightarrow> ('k, 'v) kv" where
  "kv_remove k m = filter (\<lambda>x. fst x \<noteq> k) m"

definition kv_walk :: "('k, 'v) kv \<Rightarrow> ('k \<times> 'v) list" where
  "kv_walk m = m"

definition kv_ok :: "('k::linorder, 'v) kv \<Rightarrow> bool" where
  "kv_ok m = sorted_wrt (<) (map fst m)"

lemma kv_get_Nil [simp]: "kv_get [] k = None"
  by (simp add: kv_get_def)

lemma kv_get_Cons: "kv_get ((j, u) # m) k = (if k = j then Some u else kv_get m k)"
  by (simp add: kv_get_def)

lemma kv_get_set [simp, store_simps]:
  "kv_get (kv_set k v m) j = (if j = k then Some v else kv_get m j)"
  by (induction k v m rule: kv_set.induct) (auto simp: kv_get_Cons)

lemma kv_get_remove [simp, store_simps]:
  "kv_get (kv_remove k m) j = (if j = k then None else kv_get m j)"
  by (induction m) (auto simp: kv_remove_def kv_get_Cons)

lemma fst_kv_set: "fst ` set (kv_set k v m) = insert k (fst ` set m)"
  by (induction k v m rule: kv_set.induct) auto

lemma kv_ok_Nil [simp, intro]: "kv_ok []"
  by (simp add: kv_ok_def)

lemma kv_ok_set [simp, intro]: "kv_ok m \<Longrightarrow> kv_ok (kv_set k v m)"
proof (induction k v m rule: kv_set.induct)
  case (2 k v j u m)
  then show ?case
    using fst_kv_set [of k v m]
    by (auto simp: kv_ok_def set_map [symmetric] simp del: set_map)
qed (simp add: kv_ok_def)

lemma kv_ok_remove [simp, intro]: "kv_ok m \<Longrightarrow> kv_ok (kv_remove k m)"
  by (simp add: kv_ok_def kv_remove_def sorted_wrt_filter sorted_wrt_map)

lemma kv_ok_distinct: "kv_ok m \<Longrightarrow> distinct (map fst m)"
  by (simp add: kv_ok_def strict_sorted_iff)

lemma kv_walk_get: "kv_ok m \<Longrightarrow> (k, v) \<in> set (kv_walk m) \<longleftrightarrow> kv_get m k = Some v"
  by (simp add: kv_ok_distinct kv_get_def kv_walk_def)

interpretation kv: kv_store kv_get kv_set kv_remove kv_walk kv_ok
  by unfold_locales (simp_all add: kv_walk_get, simp add: kv_walk_def kv_ok_distinct)

text \<open>Two stores with the same contents are the same list, because the keys are in order.\<close>

lemma kv_get_walk_dom: "kv_get m k \<noteq> None \<longleftrightarrow> k \<in> fst ` set (kv_walk m)"
  by (metis dom_map_of_conv_image_fst domIff kv_get_def kv_walk_def)

lemma kv_ext:
  assumes "kv_ok m" and "kv_ok n" and "\<And>k. kv_get m k = kv_get n k"
  shows "m = n"
proof -
  have "set (map fst m) = set (map fst n)"
    using assms(3) kv_get_walk_dom [of m] kv_get_walk_dom [of n]
    by (auto simp: kv_walk_def set_eq_iff)
  then have keys: "map fst m = map fst n"
    using assms(1,2) by (intro sorted_distinct_set_unique) (auto simp: kv_ok_def strict_sorted_iff)
  show ?thesis
    using keys assms(3) kv_ok_distinct [OF assms(1)]
  proof (induction m arbitrary: n)
    case Nil
    then show ?case by simp
  next
    case (Cons x m)
    obtain j u where x: "x = (j, u)" by (cases x)
    obtain v n' where n: "n = (j, v) # n'"
      using Cons.prems(1) x by (cases n) auto
    have uv: "u = v" using Cons.prems(2) [of j] by (simp add: x n kv_get_Cons)
    have "kv_get m k = kv_get n' k" for k
    proof (cases "k = j")
      case True
      then have "k \<notin> set (map fst m)" "k \<notin> set (map fst n')"
        using Cons.prems(1,3) by (auto simp: x n)
      then have "kv_get m k = None" "kv_get n' k = None"
        by (simp_all add: kv_get_def map_of_eq_None_iff)
      then show ?thesis by simp
    next
      case False
      then show ?thesis using Cons.prems(2) [of k] by (simp add: x n kv_get_Cons)
    qed
    then have "m = n'" using Cons.IH [of n'] Cons.prems(1,3) by (simp add: x n)
    then show ?case by (simp add: x n uv)
  qed
qed

section \<open>Fallible access\<close>

text \<open>
  Every access of a collection returns an error besides its result. The store's behaviour under
  failure is a parameter \<open>fault\<close> of the model: \<open>fault op = Some e\<close> means that the operation
  \<open>op\<close> fails with \<open>e\<close> and writes nothing. A read of a missing key fails with \<open>ErrNotFound\<close>.
\<close>

definition read_kv :: "gerr option \<Rightarrow> ('k, 'v) kv \<Rightarrow> 'k \<Rightarrow> 'v res" where
  "read_kv f m k = (case f of Some e \<Rightarrow> Inl e | None \<Rightarrow>
     (case kv_get m k of None \<Rightarrow> Inl ErrNotFound | Some v \<Rightarrow> Inr v))"

definition has_kv :: "gerr option \<Rightarrow> ('k, 'v) kv \<Rightarrow> 'k \<Rightarrow> bool res" where
  "has_kv f m k = (case f of Some e \<Rightarrow> Inl e | None \<Rightarrow> Inr (kv_get m k \<noteq> None))"

definition walk_kv :: "gerr option \<Rightarrow> ('k, 'v) kv \<Rightarrow> ('k \<times> 'v) list res" where
  "walk_kv f m = (case f of Some e \<Rightarrow> Inl e | None \<Rightarrow> Inr (kv_walk m))"

lemma read_kv_None [simp]:
  "read_kv None m k = (case kv_get m k of None \<Rightarrow> Inl ErrNotFound | Some v \<Rightarrow> Inr v)"
  by (simp add: read_kv_def)

lemma read_kv_Some [simp]: "read_kv (Some e) m k = Inl e"
  by (simp add: read_kv_def)

lemma read_kv_InrD: "read_kv f m k = Inr v \<Longrightarrow> f = None \<and> kv_get m k = Some v"
  by (auto simp: read_kv_def split: option.splits)

lemma has_kv_simps [simp]:
  "has_kv None m k = Inr (kv_get m k \<noteq> None)" "has_kv (Some e) m k = Inl e"
  by (simp_all add: has_kv_def)

lemma has_kv_InrD: "has_kv f m k = Inr b \<Longrightarrow> f = None \<and> b = (kv_get m k \<noteq> None)"
  by (auto simp: has_kv_def split: option.splits)

lemma walk_kv_simps [simp]:
  "walk_kv None m = Inr (kv_walk m)" "walk_kv (Some e) m = Inl e"
  by (simp_all add: walk_kv_def)

lemma walk_kv_InrD: "walk_kv f m = Inr xs \<Longrightarrow> f = None \<and> xs = kv_walk m"
  by (auto simp: walk_kv_def split: option.splits)

end
