(* ===== verification/Environment.thy ===== *)
theory Environment
  imports Data_Types KV_Store
begin

text \<open>
  What the modules rely on and the repository does not contain, as a record of functions that
  every definition takes: the address codec, the coin and decimal arithmetic of the Cosmos SDK,
  the bank keeper, the codec for \<^verbatim>\<open>Any\<close> values, the Unicode tables and the failures of the
  store. Then the state that a block or a transaction runs on.
\<close>

section \<open>Dependencies\<close>

text \<open>The codec between address strings and address bytes, and \<^verbatim>\<open>sdk.AccAddressFromBech32\<close>.\<close>

record addr_ops =
  string_to_bytes :: "string \<Rightarrow> bytes option"
  bytes_to_string :: "bytes \<Rightarrow> string option"
  acc_from_bech32 :: "string \<Rightarrow> bytes option"

text \<open>\<^verbatim>\<open>sdk.Coin\<close> and \<^verbatim>\<open>sdk.Coins\<close>; \<open>validate\<close> functions return the error, if any.\<close>

record coin_ops =
  new_coins :: "coin list \<Rightarrow> coins"
  coins_is_zero :: "coins \<Rightarrow> bool"
  coins_validate :: "coins \<Rightarrow> gerr option"
  coins_all_positive :: "coins \<Rightarrow> bool"
  coins_any_negative :: "coins \<Rightarrow> bool"
  coins_string :: "coins \<Rightarrow> string"
  coin_validate :: "coin \<Rightarrow> gerr option"
  coin_is_zero :: "coin \<Rightarrow> bool"
  denom_validate :: "string \<Rightarrow> gerr option"

text \<open>\<^verbatim>\<open>math.LegacyDec\<close> over a type \<open>'d\<close>, and \<^verbatim>\<open>math.Int.String\<close>.\<close>

record 'd dec_ops =
  dec_one :: 'd
  dec_new :: "int \<Rightarrow> 'd"
  dec_from_int :: "int \<Rightarrow> 'd"
  dec_from_str :: "string \<Rightarrow> 'd res"
  dec_must_from_str :: "string \<Rightarrow> 'd"
  dec_sub :: "'d \<Rightarrow> 'd \<Rightarrow> 'd"
  dec_mul :: "'d \<Rightarrow> 'd \<Rightarrow> 'd"
  dec_quo :: "'d \<Rightarrow> 'd \<Rightarrow> 'd"
  dec_quo_int64 :: "'d \<Rightarrow> int \<Rightarrow> 'd"
  dec_truncate :: "'d \<Rightarrow> int"
  dec_is_nil :: "'d \<Rightarrow> bool"
  dec_is_zero :: "'d \<Rightarrow> bool"
  dec_is_negative :: "'d \<Rightarrow> bool"
  dec_is_positive :: "'d \<Rightarrow> bool"
  dec_gte :: "'d \<Rightarrow> 'd \<Rightarrow> bool"
  dec_gt :: "'d \<Rightarrow> 'd \<Rightarrow> bool"
  int_string :: "int \<Rightarrow> string"

text \<open>
  The bank keeper over a ledger of type \<open>'b\<close>. A failing call may have written to the ledger
  before it failed, so each returns a ledger in any case.
\<close>

record 'b bank_ops =
  send_account_to_module :: "bytes \<Rightarrow> string \<Rightarrow> coins \<Rightarrow> 'b \<Rightarrow> unit res \<times> 'b"
  send_module_to_account :: "string \<Rightarrow> bytes \<Rightarrow> coins \<Rightarrow> 'b \<Rightarrow> unit res \<times> 'b"
  mint_coins :: "string \<Rightarrow> coins \<Rightarrow> 'b \<Rightarrow> unit res \<times> 'b"
  burn_coins :: "string \<Rightarrow> coins \<Rightarrow> 'b \<Rightarrow> unit res \<times> 'b"
  get_balance :: "bytes \<Rightarrow> string \<Rightarrow> 'b \<Rightarrow> int"
  get_supply :: "string \<Rightarrow> 'b \<Rightarrow> int"

text \<open>
  \<open>unpack_any\<close> is \<^verbatim>\<open>codec.UnpackAny\<close> into a \<^verbatim>\<open>ProposalContent\<close> variable, which stays \<^verbatim>\<open>nil\<close>
  (\<open>None\<close>) for a \<^verbatim>\<open>nil\<close> argument; \<open>marshal_content\<close> is \<^verbatim>\<open>codec.MarshalInterface\<close>, with its error
  ignored as the code does.
\<close>

record codec_ops =
  unpack_any :: "any option \<Rightarrow> proposal_content option res"
  marshal_content :: "proposal_content option \<Rightarrow> bytes"

text \<open>The accesses of the collections that can fail.\<close>

datatype store_op =
    DnsParamsGet | DnsParamsSet | DomainGet | DomainSet | DomainRemove | DomainWalk
  | DomainNameGet | DomainNameSet | DomainNameRemove
  | DomainSeqNext | DomainSeqSet | DomainSeqPeek | TldHas | TldSet | TldWalk
  | DaoParamsGet | DaoParamsSet | ProposalSeqNext | ProposalGet | ProposalSet | ProposalWalk
  | VoteGet | VoteSet | VoteWalk | LotSet | LotWalk | QueueSet | QueueRemove | QueueWalk

text \<open>
  \<open>not_found_bare\<close>: whether a missing key gives the value \<^verbatim>\<open>collections.ErrNotFound\<close> itself. If it is
  false the error wraps that value: \<^verbatim>\<open>errors.Is\<close> finds it, a comparison with \<^verbatim>\<open>==\<close> does not.
\<close>

record ('b, 'd) env =
  addr :: addr_ops
  coin_lib :: coin_ops
  dec :: "'d dec_ops"
  bank :: "'b bank_ops"
  codec :: codec_ops
  unicode_lower :: "string \<Rightarrow> string"
  enum_name :: "(u32 \<times> string) list \<Rightarrow> u32 \<Rightarrow> string"
  fault :: "store_op \<Rightarrow> gerr option"
  not_found_bare :: bool
  dns_authority :: bytes

text \<open>The store of a running node: no access fails.\<close>

definition store_total :: "('b, 'd) env \<Rightarrow> bool" where
  "store_total E = (\<forall>op. fault E op = None)"

lemma store_totalD [simp]: "store_total E \<Longrightarrow> fault E op = None"
  by (simp add: store_total_def)

section \<open>State\<close>

record dns_store =
  dns_params_item :: "dns_params option"
  domain_seq :: u64
  domains :: "(u64, domain) kv"
  domain_names :: "(string, u64) kv"
  permitted_tlds :: "(string, unit) kv"

record 'd dao_store =
  dao_params_item :: "'d dao_params option"
  proposal_seq :: u64
  proposals :: "(u64, proposal) kv"
  votes :: "(u64 \<times> bytes, vote) kv"
  active_queue :: "(u64, unit) kv"
  power_lots :: "(bytes \<times> u64, power_lot) kv"

record event =
  ev_type :: string
  ev_attrs :: "(string \<times> string) list"

text \<open>The multistore and the event manager of an \<^verbatim>\<open>sdk.Context\<close>.\<close>

record ('b, 'd) world =
  dns :: dns_store
  dao :: "'d dao_store"
  ledger :: 'b
  events :: "event list"

text \<open>The block a message is executed in: its height and its time in seconds (both \<^verbatim>\<open>int64\<close>).\<close>

record ctx =
  block_height :: int
  block_time :: int

definition block_height_u64 :: "ctx \<Rightarrow> u64" where
  "block_height_u64 c = of_int (block_height c)"

definition emit :: "event list \<Rightarrow> ('b, 'd) world \<Rightarrow> ('b, 'd) world" where
  "emit evs w = w\<lparr>events := events w @ evs\<rparr>"

lemma emit_simps [simp, frame_simps]:
  "dns (emit evs w) = dns w" "dao (emit evs w) = dao w" "ledger (emit evs w) = ledger w"
  "events (emit evs w) = events w @ evs"
  by (simp_all add: emit_def)

section \<open>Access to singleton items and sequences\<close>

definition read_item :: "gerr option \<Rightarrow> 'a option \<Rightarrow> 'a res" where
  "read_item f x = (case f of Some e \<Rightarrow> Inl e | None \<Rightarrow>
     (case x of None \<Rightarrow> Inl ErrNotFound | Some v \<Rightarrow> Inr v))"

lemma read_item_simps [simp]:
  "read_item (Some e) x = Inl e" "read_item None (Some v) = Inr v" "read_item None None = Inl ErrNotFound"
  by (simp_all add: read_item_def)

lemma read_item_InrD: "read_item f x = Inr v \<Longrightarrow> f = None \<and> x = Some v"
  by (auto simp: read_item_def split: option.splits)

text \<open>An operation that runs a bank call and keeps the rest of the state.\<close>

definition run_bank :: "('b \<Rightarrow> unit res \<times> 'b) \<Rightarrow> ('b, 'd) world \<Rightarrow> unit res \<times> ('b, 'd) world" where
  "run_bank f w = (case f (ledger w) of (r, b) \<Rightarrow> (r, w\<lparr>ledger := b\<rparr>))"

lemma run_bank_frame [frame_simps]:
  assumes "run_bank f w = (r, w')"
  shows "dns w' = dns w" "dao w' = dao w" "events w' = events w"
    "f (ledger w) = (r, ledger w')"
  using assms by (auto simp: run_bank_def split: prod.splits)

lemma run_bank_Inr:
  "run_bank f w = (Inr r, w') \<longleftrightarrow> (\<exists>b. f (ledger w) = (Inr r, b) \<and> w' = w\<lparr>ledger := b\<rparr>)"
  by (auto simp: run_bank_def split: prod.splits)

text \<open>
  \<^verbatim>\<open>baseapp\<close> runs a message on a branch of the state and writes the branch back only when the
  handler returns no error.
\<close>

definition deliver :: "('w \<Rightarrow> 'a res \<times> 'w) \<Rightarrow> 'w \<Rightarrow> 'w" where
  "deliver h w = (case h w of (Inr x, w') \<Rightarrow> w' | (Inl e, w') \<Rightarrow> w)"

lemma deliver_cases:
  assumes "\<And>x w'. h w = (Inr x, w') \<Longrightarrow> P w'" and "P w"
  shows "P (deliver h w)"
  using assms by (auto simp: deliver_def split: prod.splits sum.splits)

section \<open>Documented behaviour of the dependencies\<close>

text \<open>
  \<^verbatim>\<open>LegacyDec\<close> is a fixed-point number with 18 decimals: \<open>R\<close> gives a decimal's value in units
  of its last place. Results whose magnitude stays below \<open>dec_max\<close> are representable (beyond that
  the library panics and the laws say nothing). Rounding is only assumed to be closer than one unit
  and, for the quotient by an integer, monotone in the dividend.
\<close>

definition dec_unit :: int where "dec_unit = 10 ^ 18"

definition dec_max :: int where "dec_max = 2 ^ 300"

definition dec_laws :: "'d dec_ops \<Rightarrow> ('d \<Rightarrow> int) \<Rightarrow> bool" where
  "dec_laws D R \<longleftrightarrow>
     R (dec_one D) = dec_unit
   \<and> (\<forall>n. R (dec_new D n) = n * dec_unit)
   \<and> (\<forall>n. R (dec_from_int D n) = n * dec_unit)
   \<and> (\<forall>n. \<bar>n\<bar> * dec_unit < dec_max \<longrightarrow> (\<exists>d. dec_from_str D (int_string D n) = Inr d \<and> R d = n * dec_unit))
   \<and> (\<forall>a b. \<bar>R a\<bar> + \<bar>R b\<bar> < dec_max \<longrightarrow> R (dec_sub D a b) = R a - R b)
   \<and> (\<forall>a b. \<bar>R a\<bar> * \<bar>R b\<bar> < dec_max * dec_unit \<longrightarrow> \<bar>R (dec_mul D a b) * dec_unit - R a * R b\<bar> < dec_unit)
   \<and> (\<forall>a b. 0 < R b \<longrightarrow> \<bar>R a\<bar> * dec_unit < dec_max * R b \<longrightarrow>
        \<bar>R (dec_quo D a b) * R b - R a * dec_unit\<bar> < R b)
   \<and> (\<forall>a i. 0 < i \<longrightarrow> \<bar>R (dec_quo_int64 D a i) * i - R a\<bar> < i)
   \<and> (\<forall>a b i. 0 < i \<longrightarrow> R a \<le> R b \<longrightarrow> R (dec_quo_int64 D a i) \<le> R (dec_quo_int64 D b i))
   \<and> (\<forall>a. 0 \<le> R a \<longrightarrow> R a < dec_max \<longrightarrow> dec_truncate D a = R a div dec_unit)
   \<and> (\<forall>a. dec_is_zero D a \<longleftrightarrow> R a = 0)
   \<and> (\<forall>a. dec_is_negative D a \<longleftrightarrow> R a < 0)
   \<and> (\<forall>a. dec_is_positive D a \<longleftrightarrow> 0 < R a)
   \<and> (\<forall>a b. dec_gte D a b \<longleftrightarrow> R b \<le> R a)
   \<and> (\<forall>a b. dec_gt D a b \<longleftrightarrow> R b < R a)"

lemma dec_lawsD:
  assumes "dec_laws D R"
  shows "R (dec_one D) = dec_unit" "R (dec_new D n) = n * dec_unit" "R (dec_from_int D n) = n * dec_unit"
    and "\<bar>n\<bar> * dec_unit < dec_max \<Longrightarrow> \<exists>d. dec_from_str D (int_string D n) = Inr d \<and> R d = n * dec_unit"
    and "\<bar>R a\<bar> + \<bar>R b\<bar> < dec_max \<Longrightarrow> R (dec_sub D a b) = R a - R b"
    and "\<bar>R a\<bar> * \<bar>R b\<bar> < dec_max * dec_unit \<Longrightarrow> \<bar>R (dec_mul D a b) * dec_unit - R a * R b\<bar> < dec_unit"
    and "0 < R b \<Longrightarrow> \<bar>R a\<bar> * dec_unit < dec_max * R b \<Longrightarrow>
        \<bar>R (dec_quo D a b) * R b - R a * dec_unit\<bar> < R b"
    and "0 < i \<Longrightarrow> \<bar>R (dec_quo_int64 D a i) * i - R a\<bar> < i"
    and "0 < i \<Longrightarrow> R a \<le> R b \<Longrightarrow> R (dec_quo_int64 D a i) \<le> R (dec_quo_int64 D b i)"
    and "0 \<le> R a \<Longrightarrow> R a < dec_max \<Longrightarrow> dec_truncate D a = R a div dec_unit"
    and "dec_is_zero D a \<longleftrightarrow> R a = 0" "dec_is_negative D a \<longleftrightarrow> R a < 0" "dec_is_positive D a \<longleftrightarrow> 0 < R a"
    and "dec_gte D a b \<longleftrightarrow> R b \<le> R a" "dec_gt D a b \<longleftrightarrow> R b < R a"
  using assms by (simp_all only: dec_laws_def)

lemma dec_unit_pos [simp]: "0 < dec_unit" "0 \<le> dec_unit"
  by (simp_all add: dec_unit_def)

end
