(* ===== verification/Go_Op.thy ===== *)
theory Go_Op
  imports Environment
begin

text \<open>
  A Go method that reads and writes the store and returns a result or an error: a function from
  the state to a result and the state it leaves. The writes made before an error stay in the
  state that is returned, as they do in Go; only \<open>deliver\<close> discards them. The combinators below
  are the sequencing, the early return and the error handling of the Go code; the rules for them
  decompose a successful run into the successful runs of its parts.
\<close>

type_synonym ('s, 'a) op = "'s \<Rightarrow> 'a res \<times> 's"

definition ret :: "'a \<Rightarrow> ('s, 'a) op" where
  "ret x s = (Inr x, s)"

definition fail :: "gerr \<Rightarrow> ('s, 'a) op" where
  "fail e s = (Inl e, s)"

text \<open>\<open>bind_op m k\<close> runs \<open>m\<close>, returns early when it fails and runs \<open>k\<close> on its result otherwise.\<close>

definition bind_op :: "('s, 'a) op \<Rightarrow> ('a \<Rightarrow> ('s, 'b) op) \<Rightarrow> ('s, 'b) op" where
  "bind_op m k s = (case m s of (Inl e, s') \<Rightarrow> (Inl e, s') | (Inr x, s') \<Rightarrow> k x s')"

text \<open>\<open>m ;; k\<close> of imperative code, where only the error of \<open>m\<close> matters.\<close>

definition then_op :: "('s, 'a) op \<Rightarrow> ('s, 'b) op \<Rightarrow> ('s, 'b) op" where
  "then_op m k = bind_op m (\<lambda>_. k)"

text \<open>A pure check that returns an error, and a pure computation that may fail.\<close>

definition check :: "gerr option \<Rightarrow> ('s, unit) op" where
  "check e = (case e of None \<Rightarrow> ret () | Some err \<Rightarrow> fail err)"

definition require :: "bool \<Rightarrow> gerr \<Rightarrow> ('s, unit) op" where
  "require b e = (if b then ret () else fail e)"

definition lift_res :: "'a res \<Rightarrow> ('s, 'a) op" where
  "lift_res r s = (r, s)"

definition of_option :: "gerr \<Rightarrow> 'a option \<Rightarrow> ('s, 'a) op" where
  "of_option e x = (case x of None \<Rightarrow> fail e | Some y \<Rightarrow> ret y)"

definition read_op :: "('s \<Rightarrow> 'a res) \<Rightarrow> ('s, 'a) op" where
  "read_op f s = (f s, s)"

definition update_op :: "('s \<Rightarrow> 's) \<Rightarrow> ('s, unit) op" where
  "update_op f s = (Inr (), f s)"

text \<open>A write that fails with the error \<open>e\<close> and writes nothing when the store does.\<close>

definition write_op :: "gerr option \<Rightarrow> ('s \<Rightarrow> 's) \<Rightarrow> ('s, unit) op" where
  "write_op e f = (case e of None \<Rightarrow> update_op f | Some err \<Rightarrow> fail err)"

text \<open>\<open>map_err f m\<close> replaces an error of \<open>m\<close>; \<open>try_op m\<close> gives the error to the caller as a value.\<close>

definition map_err :: "(gerr \<Rightarrow> gerr) \<Rightarrow> ('s, 'a) op \<Rightarrow> ('s, 'a) op" where
  "map_err f m s = (case m s of (Inl e, s') \<Rightarrow> (Inl (f e), s') | (Inr x, s') \<Rightarrow> (Inr x, s'))"

definition try_op :: "('s, 'a) op \<Rightarrow> ('s, 'a res) op" where
  "try_op m s = (case m s of (r, s') \<Rightarrow> (Inr r, s'))"

definition when_op :: "bool \<Rightarrow> ('s, unit) op \<Rightarrow> ('s, unit) op" where
  "when_op b m = (if b then m else ret ())"

text \<open>A loop over a slice, left at the first error.\<close>

fun for_op :: "'a list \<Rightarrow> ('a \<Rightarrow> ('s, unit) op) \<Rightarrow> ('s, unit) op" where
  "for_op [] f = ret ()"
| "for_op (x # xs) f = then_op (f x) (for_op xs f)"

definition emit_op :: "event list \<Rightarrow> (('b, 'd) world, unit) op" where
  "emit_op evs = update_op (emit evs)"

section \<open>Success of an operation\<close>

lemma ret_Inr [simp]: "ret x s = (Inr y, s') \<longleftrightarrow> y = x \<and> s' = s"
  by (auto simp: ret_def)

lemma fail_Inr [simp]: "fail e s = (Inr y, s') \<longleftrightarrow> False"
  by (simp add: fail_def)

lemma bind_op_Inr:
  "bind_op m k s = (Inr y, s') \<longleftrightarrow> (\<exists>x s1. m s = (Inr x, s1) \<and> k x s1 = (Inr y, s'))"
  by (auto simp: bind_op_def split: prod.splits sum.splits)

lemma then_op_Inr:
  "then_op m k s = (Inr y, s') \<longleftrightarrow> (\<exists>x s1. m s = (Inr x, s1) \<and> k s1 = (Inr y, s'))"
  by (simp add: then_op_def bind_op_Inr)

lemma check_Inr [simp]: "check e s = (Inr y, s') \<longleftrightarrow> e = None \<and> s' = s"
  by (auto simp: check_def split: option.splits)

lemma require_Inr [simp]: "require b e s = (Inr y, s') \<longleftrightarrow> b \<and> s' = s"
  by (auto simp: require_def)

lemma lift_res_Inr [simp]: "lift_res r s = (Inr y, s') \<longleftrightarrow> r = Inr y \<and> s' = s"
  by (auto simp: lift_res_def)

lemma of_option_Inr [simp]: "of_option e x s = (Inr y, s') \<longleftrightarrow> x = Some y \<and> s' = s"
  by (auto simp: of_option_def split: option.splits)

lemma read_op_Inr [simp]: "read_op f s = (Inr y, s') \<longleftrightarrow> f s = Inr y \<and> s' = s"
  by (auto simp: read_op_def)

lemma update_op_Inr [simp]: "update_op f s = (Inr y, s') \<longleftrightarrow> s' = f s"
  by (auto simp: update_op_def)

lemma write_op_Inr [simp]: "write_op e f s = (Inr y, s') \<longleftrightarrow> e = None \<and> s' = f s"
  by (auto simp: write_op_def split: option.splits)

lemma map_err_Inr [simp]: "map_err f m s = (Inr y, s') \<longleftrightarrow> m s = (Inr y, s')"
  by (auto simp: map_err_def split: prod.splits sum.splits)

lemma try_op_Inr: "try_op m s = (Inr r, s') \<longleftrightarrow> m s = (r, s')"
  by (auto simp: try_op_def split: prod.splits)

lemma when_op_Inr: "when_op b m s = (Inr y, s') \<longleftrightarrow> (if b then m s = (Inr y, s') else s' = s)"
  by (auto simp: when_op_def)

lemma emit_op_Inr [simp]: "emit_op evs s = (Inr y, s') \<longleftrightarrow> s' = emit evs s"
  by (simp add: emit_op_def)

lemmas op_success = bind_op_Inr then_op_Inr when_op_Inr

lemmas op_defs = ret_def fail_def bind_op_def then_op_def check_def require_def lift_res_def
  of_option_def read_op_def update_op_def write_op_def map_err_def try_op_def when_op_def emit_op_def

section \<open>Invariants of an operation\<close>

text \<open>\<open>keeps I m\<close>: the state that \<open>m\<close> leaves satisfies \<open>I\<close> whether or not it fails.\<close>

definition keeps :: "('s \<Rightarrow> bool) \<Rightarrow> ('s, 'a) op \<Rightarrow> bool" where
  "keeps I m \<longleftrightarrow> (\<forall>s. I s \<longrightarrow> I (snd (m s)))"

lemma keepsD: "keeps I m \<Longrightarrow> m s = (r, s') \<Longrightarrow> I s \<Longrightarrow> I s'"
  by (auto simp: keeps_def dest: spec [of _ s])

lemma keeps_pure [simp, intro]:
  "keeps I (ret x)" "keeps I (fail e)" "keeps I (check c)" "keeps I (require b e)"
  "keeps I (lift_res r)" "keeps I (of_option e y)" "keeps I (read_op f)"
  by (simp_all add: keeps_def op_defs split: option.splits)

lemma keeps_bind:
  assumes "keeps I m" and "\<And>x. keeps I (k x)"
  shows "keeps I (bind_op m k)"
proof -
  have "I (snd (bind_op m k s))" if "I s" for s
  proof (cases "m s")
    case (Pair r s1)
    with assms(1) that have "I s1" by (auto dest: keepsD)
    with Pair assms(2) show ?thesis
      by (cases r) (auto simp: bind_op_def keeps_def)
  qed
  then show ?thesis by (simp add: keeps_def)
qed

lemma keeps_then: "keeps I m \<Longrightarrow> keeps I k \<Longrightarrow> keeps I (then_op m k)"
  by (simp add: then_op_def keeps_bind)

lemma snd_map_err [simp]: "snd (map_err f m s) = snd (m s)"
  by (simp add: map_err_def split: prod.splits sum.splits)

lemma snd_try_op [simp]: "snd (try_op m s) = snd (m s)"
  by (simp add: try_op_def split: prod.splits)

lemma keeps_map_err: "keeps I m \<Longrightarrow> keeps I (map_err f m)"
  by (simp add: keeps_def)

lemma keeps_try: "keeps I m \<Longrightarrow> keeps I (try_op m)"
  by (simp add: keeps_def)

lemma keeps_when: "keeps I m \<Longrightarrow> keeps I (when_op b m)"
  by (simp add: when_op_def)

lemma keeps_update: "(\<And>s. I s \<Longrightarrow> I (f s)) \<Longrightarrow> keeps I (update_op f)"
  by (simp add: keeps_def update_op_def)

lemma keeps_write: "(\<And>s. I s \<Longrightarrow> I (f s)) \<Longrightarrow> keeps I (write_op e f)"
  by (simp add: write_op_def keeps_update split: option.splits)

lemma keeps_for: "(\<And>x. keeps I (f x)) \<Longrightarrow> keeps I (for_op xs f)"
  by (induction xs) (auto intro: keeps_then)

lemmas keeps_intros = keeps_pure keeps_bind keeps_then keeps_map_err keeps_try keeps_when keeps_for

lemma keeps_case_res:
  assumes "\<And>e. keeps I (f e)" and "\<And>x. keeps I (g x)"
  shows "keeps I (case r of Inl e \<Rightarrow> f e | Inr x \<Rightarrow> g x)"
  using assms by (cases r) auto

lemma keeps_case_option:
  assumes "keeps I f" and "\<And>x. keeps I (g x)"
  shows "keeps I (case r of None \<Rightarrow> f | Some x \<Rightarrow> g x)"
  using assms by (cases r) auto

lemma keeps_case_prod:
  assumes "\<And>x y. keeps I (f x y)"
  shows "keeps I (case r of (x, y) \<Rightarrow> f x y)"
  using assms by (cases r) auto

lemma keeps_if: "keeps I f \<Longrightarrow> keeps I g \<Longrightarrow> keeps I (if b then f else g)"
  by simp

lemmas keeps_cases = keeps_case_res keeps_case_option keeps_case_prod keeps_if

text \<open>An operation that keeps every property of the state reads only.\<close>

lemma keeps_all_read_only:
  assumes "\<And>I. keeps I m"
  shows "snd (m w) = w"
proof -
  have "keeps (\<lambda>v. v = w) m" by (rule assms)
  then show ?thesis by (simp add: keeps_def)
qed

lemma keeps_bind_of_option:
  assumes "\<And>y. x = Some y \<Longrightarrow> keeps I (k y)"
  shows "keeps I (bind_op (of_option e x) k)"
  using assms by (cases x) (auto simp: keeps_def bind_op_def of_option_def fail_def ret_def)

text \<open>A loop whose body never fails; \<open>P ys s\<close> holds after the elements \<open>ys\<close> have been processed.\<close>

lemma for_op_steps:
  assumes step: "\<And>ys x zs s. xs = ys @ x # zs \<Longrightarrow> P ys s \<Longrightarrow> \<exists>s'. f x s = (Inr (), s') \<and> P (ys @ [x]) s'"
    and init: "P [] s"
  shows "\<exists>s'. for_op xs f s = (Inr (), s') \<and> P xs s'"
proof -
  have "\<exists>s'. for_op zs f t = (Inr (), s') \<and> P (ys @ zs) s'" if "xs = ys @ zs" "P ys t" for ys zs t
    using that
  proof (induction zs arbitrary: ys t)
    case Nil
    then show ?case by (simp add: ret_def)
  next
    case (Cons x zs)
    obtain t1 where t1: "f x t = (Inr (), t1)" "P (ys @ [x]) t1"
      using step [OF Cons.prems] by blast
    then obtain s' where "for_op zs f t1 = (Inr (), s')" "P ((ys @ [x]) @ zs) s'"
      using Cons.IH [of "ys @ [x]" t1] Cons.prems(1) by auto
    with t1(1) show ?case by (simp add: then_op_def bind_op_def)
  qed
  from this [of "[]" xs s] init show ?thesis by simp
qed

section \<open>Handlers behind the message router\<close>

text \<open>
  A handler \<open>h\<close> that keeps the invariant \<open>I\<close> when it succeeds from a state that satisfies the
  guard \<open>G\<close>. What it does before it fails is discarded by the router, so \<open>I\<close> is kept in any case.
\<close>

locale message_handler =
  fixes I G :: "'w \<Rightarrow> bool" and h :: "'m \<Rightarrow> ('w, 'a) op"
  assumes success: "I w \<Longrightarrow> G w \<Longrightarrow> h m w = (Inr r, w') \<Longrightarrow> I w'"
begin

lemma deliver_inv: "I w \<Longrightarrow> G w \<Longrightarrow> I (deliver (h m) w)"
  by (rule deliver_cases) (auto intro: success)

lemma deliver_all_inv:
  assumes "I w" and "\<And>v. I v \<Longrightarrow> G v"
  shows "I (fold (\<lambda>m. deliver (h m)) ms w)"
  using assms(1) by (induction ms arbitrary: w) (auto intro: deliver_inv assms(2))

end

end
