(* ===== verification/Go_Strings.thy ===== *)
theory Go_Strings
  imports Dns_Prelude
begin

text \<open>
  The functions of Go's \<^verbatim>\<open>strings\<close> package that the modules normalise names with:
  \<^verbatim>\<open>ToLower\<close>, \<^verbatim>\<open>Trim(s, ".")\<close>, \<^verbatim>\<open>TrimSpace\<close>, \<^verbatim>\<open>Split(s, ".")\<close> and \<^verbatim>\<open>Contains(s, ".")\<close>, on
  strings as Go has them: sequences of bytes, here \<open>char list\<close>. The Unicode tables that
  \<^verbatim>\<open>ToLower\<close> uses on a string with a byte above 127 are a parameter.
\<close>

section \<open>Definitions\<close>

definition is_ascii :: "string \<Rightarrow> bool" where
  "is_ascii s = list_all (\<lambda>c. of_char c < (128 :: nat)) s"

definition lower_char :: "char \<Rightarrow> char" where
  "lower_char c = (if 65 \<le> (of_char c :: nat) \<and> (of_char c :: nat) \<le> 90
     then char_of ((of_char c :: nat) + 32) else c)"

text \<open>\<^verbatim>\<open>strings.ToLower\<close>: byte by byte on an ASCII string, the Unicode mapping \<open>ul\<close> otherwise.\<close>

definition to_lower :: "(string \<Rightarrow> string) \<Rightarrow> string \<Rightarrow> string" where
  "to_lower ul s = (if is_ascii s then map lower_char s else ul s)"

definition trim_end :: "(char \<Rightarrow> bool) \<Rightarrow> string \<Rightarrow> string" where
  "trim_end P s = rev (dropWhile P (rev s))"

text \<open>\<^verbatim>\<open>strings.Trim(s, ".")\<close>.\<close>

definition trim_dots :: "string \<Rightarrow> string" where
  "trim_dots s = trim_end (\<lambda>c. c = CHR ''.'') (dropWhile (\<lambda>c. c = CHR ''.'') s)"

text \<open>
  \<^verbatim>\<open>strings.TrimSpace\<close>. The white space of \<^verbatim>\<open>unicode.IsSpace\<close>, as UTF-8 byte sequences: tab, line
  feed, vertical tab, form feed, carriage return and blank, then U+0085, U+00A0, U+1680, U+2000 to
  U+200A, U+2028, U+2029, U+202F, U+205F and U+3000.
\<close>

definition space_runes :: "nat list list" where
  "space_runes = [[9], [10], [11], [12], [13], [32], [194, 133], [194, 160], [225, 154, 128],
     [226, 128, 128], [226, 128, 129], [226, 128, 130], [226, 128, 131], [226, 128, 132],
     [226, 128, 133], [226, 128, 134], [226, 128, 135], [226, 128, 136], [226, 128, 137],
     [226, 128, 138], [226, 128, 168], [226, 128, 169], [226, 128, 175], [226, 129, 159],
     [227, 128, 128]]"

definition space_prefix :: "nat list list \<Rightarrow> string \<Rightarrow> nat" where
  "space_prefix rs s = (case filter (\<lambda>r. take (length r) (map of_char s) = r) rs of
     [] \<Rightarrow> 0 | r # _ \<Rightarrow> length r)"

function trim_runes :: "nat list list \<Rightarrow> string \<Rightarrow> string" where
  "trim_runes rs s = (let n = space_prefix rs s in
     if n = 0 \<or> s = [] then s else trim_runes rs (drop n s))"
  by pat_completeness auto
termination
  by (relation "measure (\<lambda>(rs, s). length s)") auto

declare trim_runes.simps [simp del]

definition trim_space :: "string \<Rightarrow> string" where
  "trim_space s = rev (trim_runes (map rev space_runes) (rev (trim_runes space_runes s)))"

text \<open>\<^verbatim>\<open>strings.Split(s, ".")\<close>: always at least one part.\<close>

fun split_dots :: "string \<Rightarrow> string list" where
  "split_dots [] = [[]]"
| "split_dots (c # s) =
     (if c = CHR ''.'' then [] # split_dots s
      else (case split_dots s of [] \<Rightarrow> [[c]] | p # ps \<Rightarrow> (c # p) # ps))"

definition contains_dot :: "string \<Rightarrow> bool" where
  "contains_dot s = (CHR ''.'' \<in> set s)"

text \<open>The normal form of a domain name: \<^verbatim>\<open>strings.ToLower(strings.Trim(name, "."))\<close>.\<close>

definition normalize_name :: "(string \<Rightarrow> string) \<Rightarrow> string \<Rightarrow> string" where
  "normalize_name ul s = to_lower ul (trim_dots s)"

text \<open>The normal form of a TLD: \<^verbatim>\<open>strings.ToLower(strings.TrimSpace(tld))\<close>.\<close>

definition normalize_tld :: "(string \<Rightarrow> string) \<Rightarrow> string \<Rightarrow> string" where
  "normalize_tld ul s = to_lower ul (trim_space s)"

section \<open>Lower case\<close>

lemma lower_char_code:
  "(of_char (lower_char c) :: nat) =
     (if 65 \<le> (of_char c :: nat) \<and> (of_char c :: nat) \<le> 90 then of_char c + 32 else of_char c)"
  by (simp add: lower_char_def)

lemma lower_char_idem [simp]: "lower_char (lower_char c) = lower_char c"
  by (auto simp: lower_char_def)

lemma lower_char_dot [simp]: "lower_char c = CHR ''.'' \<longleftrightarrow> c = CHR ''.''"
proof -
  have "(of_char (lower_char c) :: nat) = of_char (CHR ''.'') \<longleftrightarrow> (of_char c :: nat) = of_char (CHR ''.'')"
    by (auto simp: lower_char_code)
  then show ?thesis by (metis of_char_eq_iff)
qed

lemma is_ascii_Cons [simp]: "is_ascii (c # s) = ((of_char c :: nat) < 128 \<and> is_ascii s)"
  and is_ascii_Nil [simp]: "is_ascii []"
  by (simp_all add: is_ascii_def)

lemma is_ascii_mono: "is_ascii s \<Longrightarrow> set t \<subseteq> set s \<Longrightarrow> is_ascii t"
  by (auto simp: is_ascii_def list_all_iff)

lemma is_ascii_map_lower [simp]: "is_ascii (map lower_char s) = is_ascii s"
  by (induction s) (auto simp: lower_char_code)

lemma to_lower_ascii: "is_ascii s \<Longrightarrow> to_lower ul s = map lower_char s"
  by (simp add: to_lower_def)

lemma to_lower_Nil [simp]: "to_lower ul [] = []"
  by (simp add: to_lower_def)

lemma to_lower_ascii_idem: "is_ascii s \<Longrightarrow> to_lower ul (to_lower ul s) = to_lower ul s"
  by (simp add: to_lower_ascii comp_def)

section \<open>Trimming\<close>

lemma dropWhile_map_dot: "dropWhile (\<lambda>c. c = CHR ''.'') (map lower_char s) = map lower_char (dropWhile (\<lambda>c. c = CHR ''.'') s)"
  by (induction s) auto

lemma trim_dots_map_lower: "trim_dots (map lower_char s) = map lower_char (trim_dots s)"
  by (simp add: trim_dots_def trim_end_def dropWhile_map_dot rev_map)

lemma set_trim_dots: "set (trim_dots s) \<subseteq> set s"
  by (auto simp: trim_dots_def trim_end_def dest!: set_dropWhileD)

lemma is_ascii_trim_dots: "is_ascii s \<Longrightarrow> is_ascii (trim_dots s)"
  using is_ascii_mono set_trim_dots by blast

lemma trim_end_hd: "trim_end P s = [] \<or> hd (trim_end P s) = hd s"
proof -
  have "s = trim_end P s @ rev (takeWhile P (rev s))"
    by (metis rev_append rev_rev_ident takeWhile_dropWhile_id trim_end_def)
  then show ?thesis by (metis hd_append)
qed

lemma trim_dots_no_dot_ends:
  "trim_dots s = [] \<or> hd (trim_dots s) \<noteq> CHR ''.'' \<and> last (trim_dots s) \<noteq> CHR ''.''"
proof -
  let ?d = "dropWhile (\<lambda>c. c = CHR ''.'') s"
  have "trim_dots s = [] \<or> hd (trim_dots s) = hd ?d"
    using trim_end_hd by (simp add: trim_dots_def)
  moreover have "?d = [] \<or> hd ?d \<noteq> CHR ''.''" by (rule dropWhile_hd_not)
  moreover have "trim_dots s = []" if "?d = []"
    using that by (simp only: trim_dots_def trim_end_def) simp
  moreover have "trim_dots s = [] \<or> last (trim_dots s) \<noteq> CHR ''.''"
    using dropWhile_hd_not [of "\<lambda>c. c = CHR ''.''" "rev ?d"]
    by (auto simp: trim_dots_def trim_end_def last_rev)
  ultimately show ?thesis by metis
qed

lemma trim_dots_id:
  assumes "s = [] \<or> hd s \<noteq> CHR ''.'' \<and> last s \<noteq> CHR ''.''"
  shows "trim_dots s = s"
proof -
  have 1: "dropWhile (\<lambda>c. c = CHR ''.'') s = s"
    using assms by (auto intro: dropWhile_id)
  have "dropWhile (\<lambda>c. c = CHR ''.'') (rev s) = rev s"
    using assms by (intro dropWhile_id) (auto simp: hd_rev)
  then show ?thesis by (simp add: trim_dots_def trim_end_def 1)
qed

lemma trim_dots_idem [simp]: "trim_dots (trim_dots s) = trim_dots s"
  by (rule trim_dots_id) (rule trim_dots_no_dot_ends)

text \<open>On an ASCII name the normal form is a fixed point of normalisation.\<close>

lemma normalize_name_ascii_idem:
  assumes "is_ascii s"
  shows "normalize_name ul (normalize_name ul s) = normalize_name ul s"
proof -
  have "is_ascii (trim_dots s)" using assms by (rule is_ascii_trim_dots)
  then show ?thesis
    by (simp add: normalize_name_def to_lower_ascii trim_dots_map_lower comp_def)
qed

text \<open>
  What the Unicode tables guarantee: lower case is a fixed point of the mapping, and since runes are
  mapped one by one and no other rune has the dot as its lower case, a string without a dot at its
  ends keeps none.
\<close>

definition lower_laws :: "(string \<Rightarrow> string) \<Rightarrow> bool" where
  "lower_laws ul \<longleftrightarrow> (\<forall>s. to_lower ul (to_lower ul s) = to_lower ul s)
     \<and> (\<forall>s. trim_dots s = s \<longrightarrow> trim_dots (to_lower ul s) = to_lower ul s)"

lemma normalize_name_idem:
  assumes "lower_laws ul"
  shows "normalize_name ul (normalize_name ul s) = normalize_name ul s"
  using assms by (simp add: lower_laws_def normalize_name_def)

lemma lower_laws_id: "lower_laws (\<lambda>s. s)"
proof -
  have "to_lower (\<lambda>s. s) (to_lower (\<lambda>s. s) s) = to_lower (\<lambda>s. s) s" for s
    by (cases "is_ascii s") (simp_all add: to_lower_def comp_def)
  moreover have "trim_dots s = s \<Longrightarrow> trim_dots (to_lower (\<lambda>s. s) s) = to_lower (\<lambda>s. s) s" for s
    by (cases "is_ascii s") (simp_all add: to_lower_def trim_dots_map_lower)
  ultimately show ?thesis by (simp add: lower_laws_def)
qed

lemma trim_runes_nospace: "space_prefix rs s = 0 \<Longrightarrow> trim_runes rs s = s"
  by (subst trim_runes.simps) (simp add: Let_def)

lemma set_trim_runes: "set (trim_runes rs s) \<subseteq> set s"
proof (induction rs s rule: trim_runes.induct)
  case (1 rs s)
  show ?case
  proof (cases "space_prefix rs s = 0 \<or> s = []")
    case True
    then show ?thesis by (subst trim_runes.simps) (auto simp: Let_def)
  next
    case False
    then have "set (trim_runes rs (drop (space_prefix rs s) s)) \<subseteq> set s"
      using 1 set_drop_subset by fastforce
    with False show ?thesis by (subst trim_runes.simps) (auto simp: Let_def)
  qed
qed

lemma set_trim_space: "set (trim_space s) \<subseteq> set s"
proof -
  have "set (trim_space s) \<subseteq> set (rev (trim_runes space_runes s))"
    unfolding trim_space_def by (metis set_rev set_trim_runes)
  also have "\<dots> \<subseteq> set s" using set_trim_runes by simp
  finally show ?thesis .
qed

lemma trim_space_Nil [simp]: "trim_space [] = []"
  using set_trim_space [of "[]"] by simp

text \<open>A string without white space or non-ASCII bytes is left alone.\<close>

definition plain_char :: "char \<Rightarrow> bool" where
  "plain_char c = (32 < (of_char c :: nat) \<and> (of_char c :: nat) < 128)"

lemma space_prefix_plain:
  assumes "rs = space_runes \<or> rs = map rev space_runes" and "s = [] \<or> plain_char (hd s)"
  shows "space_prefix rs s = 0"
proof (cases s)
  case Nil
  have "filter (\<lambda>r. r = []) rs = []"
    using assms(1) by (auto simp: space_runes_def)
  moreover have "(take (length r) [] = r) = (r = ([] :: nat list))" for r by auto
  ultimately have "filter (\<lambda>r. take (length r) (map of_char s) = r) rs = []"
    using Nil by (simp add: filter_empty_conv) 
  then show ?thesis by (simp add: space_prefix_def)
next
  case (Cons c t)
  then have c: "32 < (of_char c :: nat)" "(of_char c :: nat) < 128"
    using assms(2) by (auto simp: plain_char_def)
  have "\<forall>r \<in> set rs. r \<noteq> [] \<and> (hd r \<le> 32 \<or> 128 \<le> hd r)"
    using assms(1) by (auto simp: space_runes_def)
  then have "\<forall>r \<in> set rs. take (length r) (map of_char s) \<noteq> r"
    using c Cons by (auto simp: neq_Nil_conv)
  then show ?thesis by (simp add: space_prefix_def filter_empty_conv)
qed

lemma trim_space_plain:
  assumes "list_all plain_char s"
  shows "trim_space s = s"
proof -
  have hd_last: "s = [] \<or> plain_char (hd s)" "rev s = [] \<or> plain_char (hd (rev s))"
    using assms by (cases "s = []"; simp add: list_all_iff hd_rev)+
  have 1: "trim_runes space_runes s = s"
    using hd_last(1) by (intro trim_runes_nospace space_prefix_plain) auto
  have 2: "trim_runes (map rev space_runes) (rev s) = rev s"
    using hd_last(2) by (intro trim_runes_nospace space_prefix_plain) auto
  show ?thesis unfolding trim_space_def 1 2 by simp
qed

section \<open>Splitting\<close>

fun join_dots :: "string list \<Rightarrow> string" where
  "join_dots [] = []"
| "join_dots [p] = p"
| "join_dots (p # q # ps) = p @ CHR ''.'' # join_dots (q # ps)"

lemma split_dots_nonempty [simp]: "split_dots s \<noteq> []"
  by (induction s) (auto split: list.splits)

lemma join_split_dots: "join_dots (split_dots s) = s"
proof (induction s)
  case (Cons c s)
  show ?case
  proof (cases "split_dots s")
    case (Cons p ps)
    then show ?thesis using Cons.IH by (cases ps) auto
  qed simp
qed simp

lemma split_dots_parts: "p \<in> set (split_dots s) \<Longrightarrow> CHR ''.'' \<notin> set p"
  by (induction s arbitrary: p) (auto split: list.splits if_splits)

lemma length_split_dots: "length (split_dots s) = Suc (count_list s (CHR ''.''))"
  by (induction s) (auto split: list.splits)

text \<open>Splitting inverts joining on parts that hold no dot.\<close>

lemma split_dots_no_dot: "CHR ''.'' \<notin> set p \<Longrightarrow> split_dots p = [p]"
  by (induction p) auto

lemma split_dots_append_dot:
  "CHR ''.'' \<notin> set p \<Longrightarrow> split_dots (p @ CHR ''.'' # s) = p # split_dots s"
  by (induction p) auto

lemma split_dots_two:
  "split_dots s = [l, t] \<longleftrightarrow> s = l @ CHR ''.'' # t \<and> CHR ''.'' \<notin> set l \<and> CHR ''.'' \<notin> set t"
proof
  assume a: "split_dots s = [l, t]"
  have "s = join_dots [l, t]" using join_split_dots [of s] by (simp add: a)
  moreover have "CHR ''.'' \<notin> set l" "CHR ''.'' \<notin> set t"
    using split_dots_parts [of _ s] by (auto simp: a)
  ultimately show "s = l @ CHR ''.'' # t \<and> CHR ''.'' \<notin> set l \<and> CHR ''.'' \<notin> set t" by simp
qed (auto simp: split_dots_append_dot split_dots_no_dot)

end
