(* ===== verification/Net_IP.thy ===== *)
theory Net_IP
  imports Go_Strings
begin

text \<open>
  \<^verbatim>\<open>net.ParseIP\<close> of Go's standard library, the only check the domain messages make on the
  addresses of a name server. The result is the 16-byte form of the address, \<open>None\<close> where Go
  returns \<^verbatim>\<open>nil\<close>. The scanners follow \<^verbatim>\<open>netip.ParseAddr\<close>: decimal fields without leading
  zeros for IPv4, groups of at most four hexadecimal digits with at most one \<^verbatim>\<open>::\<close> and an
  optional IPv4 tail for IPv6. An address with a zone is not an IP.
\<close>

section \<open>Definitions\<close>

definition digit_val :: "char \<Rightarrow> nat option" where
  "digit_val c = (if 48 \<le> (of_char c :: nat) \<and> (of_char c :: nat) \<le> 57
     then Some (of_char c - 48) else None)"

definition hex_val :: "char \<Rightarrow> nat option" where
  "hex_val c = (let n = (of_char c :: nat) in
     if 48 \<le> n \<and> n \<le> 57 then Some (n - 48)
     else if 97 \<le> n \<and> n \<le> 102 then Some (n - 87)
     else if 65 \<le> n \<and> n \<le> 70 then Some (n - 55)
     else None)"

text \<open>
  \<open>ipv4_fields at_start val digits fields s\<close>: \<open>at_start\<close> holds at the first byte and after a dot,
  \<open>val\<close> and \<open>digits\<close> are the value and the number of digits of the current field, \<open>fields\<close> the
  finished ones.
\<close>

fun ipv4_fields :: "bool \<Rightarrow> nat \<Rightarrow> nat \<Rightarrow> nat list \<Rightarrow> string \<Rightarrow> nat list option" where
  "ipv4_fields at_start v digits fields [] =
     (if length fields < 3 then None else Some (fields @ [v]))"
| "ipv4_fields at_start v digits fields (c # s) =
     (case digit_val c of
        Some d \<Rightarrow>
          (if digits = 1 \<and> v = 0 then None
           else if 255 < v * 10 + d then None
           else ipv4_fields False (v * 10 + d) (digits + 1) fields s)
      | None \<Rightarrow>
          (if c = CHR ''.'' then
             (if at_start \<or> s = [] then None
              else if length fields = 3 then None
              else ipv4_fields True 0 0 (fields @ [v]) s)
           else None))"

definition parse_ipv4 :: "string \<Rightarrow> nat list option" where
  "parse_ipv4 s = ipv4_fields True 0 0 [] s"

fun hex_run :: "nat \<Rightarrow> nat \<Rightarrow> string \<Rightarrow> (nat \<times> nat \<times> string) option" where
  "hex_run off acc [] = Some (off, acc, [])"
| "hex_run off acc (c # s) =
     (case hex_val c of
        None \<Rightarrow> Some (off, acc, c # s)
      | Some v \<Rightarrow>
          (if 3 < off then None
           else if 65535 < acc * 16 + v then None
           else hex_run (off + 1) (acc * 16 + v) s))"

text \<open>
  The loop of \<^verbatim>\<open>parseIPv6\<close>: \<open>i\<close> bytes are written, \<open>ell\<close> is the position of the \<^verbatim>\<open>::\<close>. The
  result is the state in which the loop ends.
\<close>

function ipv6_loop :: "nat \<Rightarrow> nat option \<Rightarrow> nat list \<Rightarrow> string
    \<Rightarrow> (nat \<times> nat option \<times> nat list \<times> string) option" where
  "ipv6_loop i ell acc s =
     (if 16 \<le> i then Some (i, ell, acc, s)
      else (case hex_run 0 0 s of
          None \<Rightarrow> None
        | Some (off, v, rest) \<Rightarrow>
            (if off = 0 then None
             else if rest \<noteq> [] \<and> hd rest = CHR ''.'' then
               (if ell = None \<and> i \<noteq> 12 then None
                else if 16 < i + 4 then None
                else (case parse_ipv4 s of
                    None \<Rightarrow> None
                  | Some fs \<Rightarrow> Some (i + 4, ell, acc @ fs, [])))
             else if rest = [] then Some (i + 2, ell, acc @ [v div 256, v mod 256], [])
             else if hd rest \<noteq> CHR '':'' then None
             else if tl rest = [] then None
             else if hd (tl rest) = CHR '':'' then
               (if ell \<noteq> None then None
                else if tl (tl rest) = [] then
                  Some (i + 2, Some (i + 2), acc @ [v div 256, v mod 256], [])
                else ipv6_loop (i + 2) (Some (i + 2)) (acc @ [v div 256, v mod 256]) (tl (tl rest)))
             else ipv6_loop (i + 2) ell (acc @ [v div 256, v mod 256]) (tl rest))))"
  by pat_completeness auto
termination
  by (relation "measure (\<lambda>(i, ell, acc, s). 16 - i)") auto

declare ipv6_loop.simps [simp del]

definition expand_ellipsis :: "nat option \<Rightarrow> nat list \<Rightarrow> nat list" where
  "expand_ellipsis ell acc = (case ell of None \<Rightarrow> acc
     | Some e \<Rightarrow> take e acc @ replicate (16 - length acc) 0 @ drop e acc)"

definition parse_ipv6 :: "string \<Rightarrow> nat list option" where
  "parse_ipv6 s =
     (if CHR ''%'' \<in> set s then None
      else let lead = take 2 s = ''::'' in
        if lead \<and> length s = 2 then Some (replicate 16 0)
        else (case ipv6_loop 0 (if lead then Some 0 else None) [] (if lead then drop 2 s else s) of
            None \<Rightarrow> None
          | Some (i, ell, acc, rest) \<Rightarrow>
              (if rest \<noteq> [] then None
               else if i < 16 then (if ell = None then None else Some (expand_ellipsis ell acc))
               else if ell \<noteq> None then None
               else Some acc)))"

fun first_sep :: "string \<Rightarrow> char option" where
  "first_sep [] = None"
| "first_sep (c # s) = (if c \<in> {CHR ''.'', CHR '':'', CHR ''%''} then Some c else first_sep s)"

definition parse_ip :: "string \<Rightarrow> nat list option" where
  "parse_ip s = (case first_sep s of
      Some c \<Rightarrow>
        (if c = CHR ''.'' then map_option (\<lambda>fs. replicate 10 0 @ [255, 255] @ fs) (parse_ipv4 s)
         else if c = CHR '':'' then parse_ipv6 s
         else None)
    | None \<Rightarrow> None)"

definition is_ip :: "string \<Rightarrow> bool" where
  "is_ip s = (parse_ip s \<noteq> None)"

section \<open>The result is a 16-byte address\<close>

lemma digit_val_bound: "digit_val c = Some d \<Longrightarrow> d < 10"
  by (auto simp: digit_val_def split: if_splits)

lemma hex_val_bound: "hex_val c = Some d \<Longrightarrow> d < 16"
  by (auto simp: hex_val_def Let_def split: if_splits)

lemma ipv4_fields_sound:
  assumes "ipv4_fields st v k fs s = Some out" and "length fs \<le> 3" and "v < 256" and "\<forall>x \<in> set fs. x < 256"
  shows "length out = 4 \<and> (\<forall>x \<in> set out. x < 256)"
  using assms
proof (induction st v k fs s rule: ipv4_fields.induct)
  case (2 at_start v digits fields c s)
  show ?case
  proof (cases "digit_val c")
    case None
    with 2 show ?thesis by (auto split: if_splits)
  next
    case (Some d)
    with 2 show ?thesis by (auto split: if_splits)
  qed
qed (auto split: if_splits)

lemma parse_ipv4_sound: "parse_ipv4 s = Some fs \<Longrightarrow> length fs = 4 \<and> (\<forall>x \<in> set fs. x < 256)"
  unfolding parse_ipv4_def by (rule ipv4_fields_sound) auto

lemma hex_run_bound: "hex_run off acc s = Some (o', v, r) \<Longrightarrow> acc < 65536 \<Longrightarrow> v < 65536"
  by (induction off acc s rule: hex_run.induct) (auto split: option.splits if_splits)

definition loop_inv :: "nat \<Rightarrow> nat option \<Rightarrow> nat list \<Rightarrow> bool" where
  "loop_inv i ell acc = (length acc = i \<and> i \<le> 16 \<and> even i \<and> (\<forall>x \<in> set acc. x < 256)
     \<and> (\<forall>e. ell = Some e \<longrightarrow> e \<le> i))"

lemma loop_inv_group:
  assumes "loop_inv i ell acc" and "i < 16" and "v < 65536"
  shows "loop_inv (i + 2) ell (acc @ [v div 256, v mod 256])"
    and "loop_inv (i + 2) (Some (i + 2)) (acc @ [v div 256, v mod 256])"
  using assms by (auto simp: loop_inv_def intro: le_SucI)

lemma ipv6_loop_inv:
  assumes "ipv6_loop i ell acc s = Some (i', ell', acc', s')" and "loop_inv i ell acc"
  shows "loop_inv i' ell' acc'"
  using assms
proof (induction i ell acc s rule: ipv6_loop.induct)
  case (1 i ell acc s)
  show ?case
  proof (cases "16 \<le> i")
    case True
    with 1(3,4) show ?thesis by (subst (asm) ipv6_loop.simps) auto
  next
    case False
    then obtain off v rest where h: "hex_run 0 0 s = Some (off, v, rest)"
      using 1(3) by (subst (asm) ipv6_loop.simps) (auto split: option.splits)
    have v: "v < 65536" using hex_run_bound [OF h] by simp
    note g = loop_inv_group [OF 1(4) _ v]
    show ?thesis
    proof (cases "rest \<noteq> [] \<and> hd rest = CHR ''.''")
      case True
      with 1(3) False h obtain fs where f: "parse_ipv4 s = Some fs"
        "i' = i + 4" "ell' = ell" "acc' = acc @ fs" "i + 4 \<le> 16"
        by (subst (asm) ipv6_loop.simps) (auto split: option.splits if_splits)
      then show ?thesis
        using 1(4) parse_ipv4_sound [OF f(1)] by (fastforce simp: loop_inv_def)
    next
      case nodot: False
      from 1(3) False h nodot show ?thesis
        using 1(1,2) [OF False h refl refl] g
        by (subst (asm) ipv6_loop.simps) (auto split: if_splits)
    qed
  qed
qed

lemma length_expand_ellipsis:
  "length acc \<le> 16 \<Longrightarrow> (\<forall>e. ell = Some e \<longrightarrow> e \<le> length acc) \<Longrightarrow> ell \<noteq> None
    \<Longrightarrow> length (expand_ellipsis ell acc) = 16"
  by (auto simp: expand_ellipsis_def)

lemma parse_ipv6_sound:
  assumes "parse_ipv6 s = Some out"
  shows "length out = 16 \<and> (\<forall>x \<in> set out. x < 256)"
proof (cases "take 2 s = ''::'' \<and> length s = 2")
  case True
  then show ?thesis using assms by (auto simp: parse_ipv6_def Let_def split: if_splits)
next
  case False
  let ?e = "if take 2 s = ''::'' then Some 0 else None"
  from assms False obtain i ell acc where l:
    "ipv6_loop 0 ?e [] (if take 2 s = ''::'' then drop 2 s else s) = Some (i, ell, acc, [])"
    "(if i < 16 then ell \<noteq> None \<and> out = expand_ellipsis ell acc else out = acc)"
    by (auto simp: parse_ipv6_def Let_def split: if_splits option.splits)
  have inv: "loop_inv i ell acc"
    by (rule ipv6_loop_inv [OF l(1)]) (auto simp: loop_inv_def)
  then have "length out = 16"
    using l(2) length_expand_ellipsis by (auto simp: loop_inv_def split: if_splits)
  moreover have "\<forall>x \<in> set out. x < 256"
    using inv l(2)
    by (auto simp: loop_inv_def expand_ellipsis_def split: if_splits option.splits
        dest: in_set_takeD in_set_dropD)
  ultimately show ?thesis by simp
qed

lemma parse_ip_sound: "parse_ip s = Some out \<Longrightarrow> length out = 16 \<and> (\<forall>x \<in> set out. x < 256)"
  by (auto simp: parse_ip_def split: option.splits if_splits
      dest!: parse_ipv4_sound parse_ipv6_sound)

section \<open>Printed IPv4 addresses are accepted\<close>

text \<open>One printed field is read back to its value.\<close>

lemma show_nat_small: "n < 10 \<Longrightarrow> show_nat n = [char_of (48 + n)]"
  by (subst show_nat.simps) simp

lemma show_nat_big: "10 \<le> n \<Longrightarrow> show_nat n = show_nat (n div 10) @ [char_of (48 + n mod 10)]"
  by (subst show_nat.simps) simp

lemma digit_val_char_of: "d < 10 \<Longrightarrow> digit_val (char_of (48 + d)) = Some d"
  by (simp add: digit_val_def of_char_of)

lemma ipv4_fields_digit:
  assumes "d < 10" and "\<not> (k = 1 \<and> v = 0)" and "v * 10 + d \<le> 255"
  shows "ipv4_fields st v k fs (char_of (48 + d) # s) = ipv4_fields False (v * 10 + d) (k + 1) fs s"
  using assms by (cases "k = 1") (auto simp: digit_val_char_of)

lemma ipv4_fields_show:
  assumes "n < 256"
  shows "\<exists>k. 0 < k \<and> ipv4_fields True 0 0 fs (show_nat n @ s) = ipv4_fields False n k fs s"
proof -
  have one: "ipv4_fields True 0 0 fs (show_nat m @ t) = ipv4_fields False m 1 fs t" if "m < 10" for m t
    using that by (simp add: show_nat_small digit_val_char_of)
  have two: "ipv4_fields True 0 0 fs (show_nat m @ t) = ipv4_fields False m 2 fs t"
    if m: "10 \<le> m" "m < 100" for m t
  proof -
    have "m div 10 < 10" "m div 10 \<noteq> 0" "m mod 10 < 10" "m div 10 * 10 + m mod 10 = m"
      using m by auto
    then show ?thesis
      using m by (simp add: show_nat_big one ipv4_fields_digit numeral_2_eq_2 del: ipv4_fields.simps)
  qed
  consider "n < 10" | "10 \<le> n" "n < 100" | "100 \<le> n" by linarith
  then show ?thesis
  proof cases
    case 1 then show ?thesis using one by (intro exI [of _ 1]) simp
  next
    case 2 then show ?thesis using two by (intro exI [of _ 2]) simp
  next
    case 3
    have "10 \<le> n div 10" "n div 10 < 100" "n mod 10 < 10" "n div 10 * 10 + n mod 10 = n"
      using 3 assms by auto
    then have "ipv4_fields True 0 0 fs (show_nat n @ s) = ipv4_fields False n 3 fs s"
      using 3 assms by (simp add: show_nat_big [of n] two ipv4_fields_digit numeral_2_eq_2 numeral_3_eq_3 del: ipv4_fields.simps)
    then show ?thesis by (intro exI [of _ 3]) simp
  qed
qed

lemma show_nat_nonempty [simp]: "show_nat n \<noteq> []"
  by (subst show_nat.simps) simp

lemma ipv4_fields_show_dot:
  assumes "n < 256" and "length fs < 3" and "s \<noteq> []"
  shows "ipv4_fields True 0 0 fs (show_nat n @ CHR ''.'' # s) = ipv4_fields True 0 0 (fs @ [n]) s"
  using ipv4_fields_show [OF assms(1), of fs "CHR ''.'' # s"] assms(2,3)
  by (auto simp: digit_val_def)

definition dotted :: "nat list \<Rightarrow> string" where
  "dotted fs = join_dots (map show_nat fs)"

lemma parse_ipv4_dotted:
  assumes "a < 256" "b < 256" "c < 256" "d < 256"
  shows "parse_ipv4 (dotted [a, b, c, d]) = Some [a, b, c, d]"
proof -
  have "ipv4_fields True 0 0 [a, b, c] (show_nat d) = Some [a, b, c, d]"
    using ipv4_fields_show [OF assms(4), of "[a, b, c]" "[]"] by auto
  then show ?thesis
    using assms by (simp add: parse_ipv4_def dotted_def ipv4_fields_show_dot del: ipv4_fields.simps)
qed

lemma show_nat_digits: "c \<in> set (show_nat n) \<Longrightarrow> digit_val c \<noteq> None"
proof (induction n arbitrary: c rule: show_nat.induct)
  case (1 n)
  then show ?case
    by (subst (asm) (2) show_nat.simps) (auto simp: digit_val_char_of split: if_splits)
qed

lemma first_sep_show: "first_sep (show_nat n @ CHR ''.'' # s) = Some (CHR ''.'')"
proof -
  have "first_sep (p @ CHR ''.'' # s) = Some (CHR ''.'')" if "\<forall>c \<in> set p. digit_val c \<noteq> None" for p
    using that by (induction p) (auto simp: digit_val_def)
  then show ?thesis using show_nat_digits by blast
qed

lemma parse_ip_dotted:
  assumes "a < 256" "b < 256" "c < 256" "d < 256"
  shows "parse_ip (dotted [a, b, c, d]) = Some (replicate 10 0 @ [255, 255, a, b, c, d])"
  using parse_ipv4_dotted [OF assms] by (simp add: parse_ip_def dotted_def first_sep_show)

end
