(* ===== verification/Go_Time.thy ===== *)
theory Go_Time
  imports Dns_Prelude
begin

text \<open>
  The part of Go's \<^verbatim>\<open>time\<close> package that computes a domain's expiration:
  \<^verbatim>\<open>ctx.BlockTime().AddDate(1, 0, 0).Unix()\<close>. A time is its number of seconds since the Unix
  epoch (block times are in UTC, and \<^verbatim>\<open>Unix\<close> drops the nanoseconds). \<^verbatim>\<open>AddDate\<close> splits it
  into a civil date and a clock, adds one to the year and normalises, so that February 29 plus
  one year is March 1.
\<close>

section \<open>Civil dates\<close>

definition is_leap :: "int \<Rightarrow> bool" where
  "is_leap y = (y mod 4 = 0 \<and> (y mod 100 \<noteq> 0 \<or> y mod 400 = 0))"

text \<open>Days from 0001-01-01 to the first day of year \<open>y\<close>.\<close>

definition days_before_year :: "int \<Rightarrow> int" where
  "days_before_year y = 365 * (y - 1) + (y - 1) div 4 - (y - 1) div 100 + (y - 1) div 400"

text \<open>Days of a year before month \<open>m\<close>, \<open>m\<close> from 1 to 12.\<close>

definition days_before_month :: "bool \<Rightarrow> nat \<Rightarrow> int" where
  "days_before_month leap m =
     [0, 31, 59, 90, 120, 151, 181, 212, 243, 273, 304, 334] ! (m - 1)
     + (if leap \<and> 2 < m then 1 else 0)"

text \<open>The largest month that starts on or before day \<open>yd\<close> of the year (\<open>yd\<close> from 0).\<close>

definition month_of_yday :: "bool \<Rightarrow> int \<Rightarrow> nat" where
  "month_of_yday leap yd = length (filter (\<lambda>m. days_before_month leap m \<le> yd) [1..<13])"

text \<open>
  Year and day of the year (from 0) of a number of days since 0001-01-01: cycles of 400 years, then
  of 100, of 4 and of one; the last cycle of a larger one may be a day longer, hence the \<open>min\<close>.
\<close>

definition year_yday :: "int \<Rightarrow> int \<times> int" where
  "year_yday d = (let n400 = d div 146097; r = d mod 146097;
       n100 = min 3 (r div 36524); r2 = r - 36524 * n100;
       n4 = r2 div 1461; r3 = r2 - 1461 * n4;
       n1 = min 3 (r3 div 365); yd = r3 - 365 * n1
     in (400 * n400 + 100 * n100 + 4 * n4 + n1 + 1, yd))"

text \<open>\<^verbatim>\<open>Time.Date\<close>: year, month and day of the month of a day number (0 is 1970-01-01).\<close>

definition date_of_days :: "int \<Rightarrow> int \<times> nat \<times> int" where
  "date_of_days n = (case year_yday (n + 719162) of (y, yd) \<Rightarrow>
     let m = month_of_yday (is_leap y) yd in (y, m, yd - days_before_month (is_leap y) m + 1))"

text \<open>\<^verbatim>\<open>time.Date\<close> with a month in range: a day past the end of the month runs on into the next.\<close>

definition days_of_date :: "int \<Rightarrow> nat \<Rightarrow> int \<Rightarrow> int" where
  "days_of_date y m d = days_before_year y + days_before_month (is_leap y) m + (d - 1) - 719162"

definition add_year_days :: "int \<Rightarrow> int" where
  "add_year_days n = (case date_of_days n of (y, m, d) \<Rightarrow> days_of_date (y + 1) m d)"

text \<open>\<^verbatim>\<open>t.AddDate(1, 0, 0).Unix()\<close> for a \<open>t\<close> with \<^verbatim>\<open>t.Unix() = s\<close>.\<close>

definition add_date_one_year :: "int \<Rightarrow> int" where
  "add_date_one_year s = 86400 * add_year_days (s div 86400) + s mod 86400"

section \<open>A date is read back to its day\<close>

lemma year_split:
  fixes d :: int
  assumes "n400 = d div 146097" "r = d mod 146097" "n100 = min 3 (r div 36524)"
    "r2 = r - 36524 * n100" "n4 = r2 div 1461" "r3 = r2 - 1461 * n4"
    "n1 = min 3 (r3 div 365)" "yd = r3 - 365 * n1"
    "y = 400 * n400 + 100 * n100 + 4 * n4 + n1 + 1"
  shows "days_before_year y + yd = d" and "0 \<le> yd" and "yd \<le> 365"
proof -
  have r: "0 \<le> r" "r < 146097" "d = 146097 * n400 + r" using assms(1,2) by auto
  have n100: "0 \<le> n100" "n100 \<le> 3" using r(1) assms(3) by auto
  have "36524 * (r div 36524) \<le> r" "r < 36524 * (r div 36524) + 36524" by presburger+
  then have r2: "0 \<le> r2" "r2 \<le> 36524" using assms(3,4) r(2) by (auto simp: min_def)
  have "1461 * (r2 div 1461) \<le> r2" "r2 < 1461 * (r2 div 1461) + 1461" by presburger+
  then have n4: "0 \<le> n4" "n4 \<le> 24" "0 \<le> r3" "r3 < 1461" using assms(5,6) r2 by auto
  have "365 * (r3 div 365) \<le> r3" "r3 < 365 * (r3 div 365) + 365" by presburger+
  then have n1: "0 \<le> n1" "n1 \<le> 3" "0 \<le> yd" "yd \<le> 365"
    using assms(7,8) n4(3,4) by (auto simp: min_def)
  have q4: "(y - 1) div 4 = 100 * n400 + 25 * n100 + n4"
    using n1(1,2) assms(9) by auto
  have q100: "(y - 1) div 100 = 4 * n400 + n100"
    using n1(1,2) n4(1,2) assms(9) by auto
  have q400: "(y - 1) div 400 = n400"
    using n1(1,2) n4(1,2) n100 assms(9) by auto
  show "days_before_year y + yd = d"
    unfolding days_before_year_def q4 q100 q400
    using r(3) assms(4,6,8,9) by simp
  show "0 \<le> yd" "yd \<le> 365" by fact+
qed

lemma year_yday_spec:
  "case year_yday d of (y, yd) \<Rightarrow> days_before_year y + yd = d \<and> 0 \<le> yd \<and> yd \<le> 365"
proof -
  define n400 where "n400 = d div 146097"
  define r where "r = d mod 146097"
  define n100 where "n100 = min 3 (r div 36524)"
  define r2 where "r2 = r - 36524 * n100"
  define n4 where "n4 = r2 div 1461"
  define r3 where "r3 = r2 - 1461 * n4"
  define n1 where "n1 = min 3 (r3 div 365)"
  define yd where "yd = r3 - 365 * n1"
  define y where "y = 400 * n400 + 100 * n100 + 4 * n4 + n1 + 1"
  note defs = n400_def r_def n100_def r2_def n4_def r3_def n1_def yd_def y_def
  have "year_yday d = (y, yd)" unfolding year_yday_def Let_def defs ..
  then show ?thesis
    using year_split [OF defs] by simp
qed

text \<open>The date of a day names that day.\<close>

lemma days_of_date_of_days:
  assumes "date_of_days n = (y, m, d)"
  shows "days_of_date y m d = n"
  using assms year_yday_spec [of "n + 719162"]
  by (auto simp: date_of_days_def days_of_date_def Let_def split: prod.splits)

lemma div_pred_int:
  fixes y k :: int
  assumes "0 < k"
  shows "y div k = (y - 1) div k + (if y mod k = 0 then 1 else 0)"
proof -
  let ?q = "(y - 1) div k" and ?r = "(y - 1) mod k"
  have y: "y = k * ?q + (?r + 1)" using div_mult_mod_eq [of "y - 1" k] by (simp add: mult.commute)
  have r: "0 \<le> ?r" "?r < k" using assms by simp_all
  show ?thesis
  proof (cases "?r + 1 = k")
    case True
    then have "y = k * (?q + 1) + 0" using y by (simp add: distrib_left)
    then show ?thesis using assms by (metis add.right_neutral mod_mult_self1_is_0 nonzero_mult_div_cancel_left less_irrefl)
  next
    case False
    then have "?r + 1 < k" using r by simp
    then have "y div k = ?q" "y mod k = ?r + 1"
      using y r by (metis int_div_pos_eq zle_add1_eq_le add_increasing2 zero_le_one,
        metis int_mod_pos_eq zle_add1_eq_le add_increasing2 zero_le_one)
    then show ?thesis using r by simp
  qed
qed

lemma mod_multiple: "y mod (m * k) = 0 \<Longrightarrow> y mod k = 0" for y m k :: int
  by (metis dvd_mult_right mod_0_imp_dvd mod_eq_0_iff_dvd)

lemma days_before_year_succ:
  "days_before_year (y + 1) = days_before_year y + (if is_leap y then 366 else 365)"
proof -
  define a b c where "a = y div 4" and "b = y div 100" and "c = y div 400"
  define a' b' c' where "a' = (y - 1) div 4" and "b' = (y - 1) div 100" and "c' = (y - 1) div 400"
  define l4 l100 l400 where "l4 \<longleftrightarrow> y mod 4 = 0" and "l100 \<longleftrightarrow> y mod 100 = 0" and "l400 \<longleftrightarrow> y mod 400 = 0"
  have step: "a = a' + (if l4 then 1 else 0)" "b = b' + (if l100 then 1 else 0)"
    "c = c' + (if l400 then 1 else 0)"
    unfolding a_def b_def c_def a'_def b'_def c'_def l4_def l100_def l400_def
    by (rule div_pred_int, simp)+
  have imp: "l400 \<Longrightarrow> l100" "l100 \<Longrightarrow> l4"
    using mod_multiple [of y 4 100] mod_multiple [of y 25 4]
    unfolding l4_def l100_def l400_def by simp_all
  have now: "days_before_year y = 365 * y - 365 + a' - b' + c'"
    by (simp add: days_before_year_def a'_def b'_def c'_def)
  have nxt: "days_before_year (y + 1) = 365 * y + a - b + c"
    by (simp add: days_before_year_def a_def b_def c_def)
  have leap: "is_leap y \<longleftrightarrow> l4 \<and> (\<not> l100 \<or> l400)"
    by (simp add: is_leap_def l4_def l100_def l400_def)
  have "a - b + c = a' - b' + c' + (if l4 \<and> (\<not> l100 \<or> l400) then 1 else 0)"
    using imp unfolding step by (cases l4; cases l100; cases l400; simp only: if_True if_False simp_thms; arith)
  then show ?thesis unfolding now nxt leap 
    by (cases "l4 \<and> (\<not> l100 \<or> l400)"; simp only: if_True if_False simp_thms; arith)
qed

lemma leap_not_successive: "is_leap y \<Longrightarrow> \<not> is_leap (y + 1)"
proof -
  assume "is_leap y"
  then have "y mod 4 = 0" by (simp add: is_leap_def)
  then have "(y + 1) mod 4 \<noteq> 0" by presburger
  then show ?thesis by (simp add: is_leap_def)
qed

text \<open>One calendar year later is 365 or 366 days later.\<close>

lemma add_year_days_range: "add_year_days n = n + 365 \<or> add_year_days n = n + 366"
proof -
  obtain y m d where ymd: "date_of_days n = (y, m, d)" by (cases "date_of_days n") auto
  have n: "days_of_date y m d = n" by (rule days_of_date_of_days [OF ymd])
  show ?thesis
    using n leap_not_successive [of y]
    by (auto simp: add_year_days_def ymd days_of_date_def days_before_year_succ
        days_before_month_def split: if_splits)
qed

lemma add_date_one_year_range:
  "add_date_one_year s = s + 365 * 86400 \<or> add_date_one_year s = s + 366 * 86400"
  using add_year_days_range [of "s div 86400"] div_mult_mod_eq [of s 86400]
  by (auto simp: add_date_one_year_def)

lemma add_date_one_year_gt: "s < add_date_one_year s"
  using add_date_one_year_range [of s] by auto

end
