(* ===== verification/Reserved_TLDs.thy ===== *)
theory Reserved_TLDs
  imports Go_Strings
begin

text \<open>
  The deny list of TLDs that ICANN reserves (\<^verbatim>\<open>types/reserved_tlds.go\<close>), the check against it and
  the extraction of a TLD from a full name (\<^verbatim>\<open>types/utils.go\<close>).
\<close>

section \<open>The list\<close>

text \<open>Common generic TLDs.\<close>

definition reserved_gtlds :: "string list" where
  "reserved_gtlds = [
    ''com'', ''org'', ''net'', ''gov'', ''edu'', ''mil'', ''int'', ''info'', ''biz'', ''name'',
    ''pro'', ''aero'', ''coop'', ''mobi'', ''cat'', ''jobs'', ''tel'', ''asia'', ''xyz'',
    ''club'', ''site'', ''online'', ''tech'', ''store'', ''app'', ''io'', ''co'']"

text \<open>Common country-code TLDs.\<close>

definition reserved_cctlds :: "string list" where
  "reserved_cctlds = [
    ''us'', ''uk'', ''de'', ''jp'', ''cn'', ''in'', ''br'', ''ca'', ''au'', ''fr'', ''ru'',
    ''it'', ''es'', ''mx'', ''ch'', ''nl'', ''se'', ''no'', ''fi'', ''dk'', ''pl'', ''ar'',
    ''at'', ''be'', ''kr'', ''sg'', ''za'']"

text \<open>New generic TLDs.\<close>

definition reserved_new_gtlds :: "string list" where
  "reserved_new_gtlds = [
    ''academy'', ''agency'', ''accountant'', ''ai'', ''bitcoin'', ''blockchain'', ''camera'',
    ''coffee'', ''company'', ''computer'', ''construction'', ''contact'', ''cool'', ''credit'',
    ''cruise'', ''dance'', ''data'', ''design'', ''diamond'', ''digital'', ''direct'',
    ''directory'', ''discount'', ''doctor'', ''dog'', ''domains'', ''email'', ''energy'',
    ''engineer'', ''enterprises'', ''equipment'', ''estate'', ''events'', ''expert'',
    ''express'', ''farm'', ''fashion'', ''finance'', ''fitness'', ''flights'', ''flowers'',
    ''foundation'', ''fund'', ''furniture'', ''futbol'', ''gallery'', ''gifts'', ''glass'',
    ''global'', ''graphics'', ''gratis'', ''green'', ''gripe'', ''guide'', ''guru'',
    ''health'', ''hockey'', ''holdings'', ''holiday'', ''home'', ''hospital'', ''hotel'',
    ''house'', ''immobilien'', ''industries'', ''institute'', ''insure'', ''international'',
    ''investments'', ''jewelry'', ''kitchen'', ''land'', ''lawyer'', ''lease'', ''legal'',
    ''life'', ''lighting'', ''limited'', ''limo'', ''link'', ''living'', ''loans'', ''london'',
    ''ltd'', ''luxury'', ''management'', ''marketing'', ''media'', ''medical'', ''men'',
    ''money'', ''movie'', ''music'', ''network'', ''news'', ''ninja'', ''partners'']"

text \<open>Special-use names (RFC 6761) and the infrastructure TLD.\<close>

definition reserved_special :: "string list" where
  "reserved_special = [
    ''example'', ''invalid'', ''local'', ''localhost'', ''test'', ''arpa'']"

definition ReservedTLDs :: "string list" where
  "ReservedTLDs = reserved_gtlds @ reserved_cctlds @ reserved_new_gtlds @ reserved_special"

definition is_reserved_tld :: "(string \<Rightarrow> string) \<Rightarrow> string \<Rightarrow> bool" where
  "is_reserved_tld ul tld = (normalize_name ul tld \<in> set ReservedTLDs)"

text \<open>\<^verbatim>\<open>ExtractTLD\<close>.\<close>

definition extract_tld :: "(string \<Rightarrow> string) \<Rightarrow> string \<Rightarrow> string" where
  "extract_tld ul name = (let trimmed = trim_dots name in
     if trimmed = [] then []
     else (let parts = split_dots trimmed in
       if length parts < 2 then [] else to_lower ul (last parts)))"

section \<open>Facts\<close>

lemma ReservedTLDs_normal: "t \<in> set ReservedTLDs \<Longrightarrow> is_ascii t \<and> map lower_char t = t \<and> CHR ''.'' \<notin> set t \<and> t \<noteq> []"
proof -
  have "list_all (\<lambda>t. is_ascii t \<and> map lower_char t = t \<and> CHR ''.'' \<notin> set t \<and> t \<noteq> []) ReservedTLDs"
    by code_simp
  then show "t \<in> set ReservedTLDs \<Longrightarrow> ?thesis" by (simp add: list_all_iff)
qed

text \<open>Every listed TLD is its own normal form, so the check finds it.\<close>

lemma normalize_reserved: "t \<in> set ReservedTLDs \<Longrightarrow> normalize_name ul t = t"
  using ReservedTLDs_normal [of t]
  by (metis trim_dots_id hd_in_set last_in_set normalize_name_def to_lower_ascii)

lemma is_reserved_listed: "t \<in> set ReservedTLDs \<Longrightarrow> is_reserved_tld ul t"
  by (simp add: is_reserved_tld_def normalize_reserved)

text \<open>Case and surrounding dots do not matter for an ASCII name.\<close>

lemma is_reserved_map_lower:
  "is_ascii t \<Longrightarrow> is_reserved_tld ul (map lower_char t) = is_reserved_tld ul t"
  by (simp add: is_reserved_tld_def normalize_name_def trim_dots_map_lower to_lower_ascii
      is_ascii_trim_dots comp_def)

lemma is_reserved_trim_dots: "is_reserved_tld ul (trim_dots t) = is_reserved_tld ul t"
  by (simp add: is_reserved_tld_def normalize_name_def)

text \<open>The TLD of a two-label name is its second label in lower case.\<close>

lemma extract_tld_two:
  assumes "CHR ''.'' \<notin> set l" "CHR ''.'' \<notin> set t" "l \<noteq> []" "t \<noteq> []"
  shows "extract_tld ul (l @ CHR ''.'' # t) = to_lower ul t"
proof -
  have "hd (l @ CHR ''.'' # t) \<noteq> CHR ''.''" "last (l @ CHR ''.'' # t) \<noteq> CHR ''.''"
    using assms by (metis hd_append2 hd_in_set, metis last_ConsR last_appendR last_in_set list.distinct(1))
  then have "trim_dots (l @ CHR ''.'' # t) = l @ CHR ''.'' # t" by (intro trim_dots_id) simp
  moreover have "split_dots (l @ CHR ''.'' # t) = [l, t]" using assms by (simp add: split_dots_two)
  ultimately show ?thesis by (simp add: extract_tld_def Let_def)
qed

end
