(* ===== verification/Dns_Types.thy ===== *)
theory Dns_Types
  imports Environment Net_IP Go_Time Reserved_TLDs
begin

text \<open>
  The \<^verbatim>\<open>types\<close> package of \<^verbatim>\<open>x/dnsblockchain\<close>: validation of the messages, of the parameters and
  of the genesis state, and the check of name server records that the message server makes.
\<close>

section \<open>Validation of messages (messages_domain.go)\<close>

definition bech32_error :: "('b, 'd) env \<Rightarrow> string \<Rightarrow> gerr option" where
  "bech32_error E a = (case acc_from_bech32 (addr E) a of None \<Rightarrow> Some ErrInvalidAddress | Some _ \<Rightarrow> None)"

text \<open>The loop over \<^verbatim>\<open>NsRecords\<close> of \<^verbatim>\<open>ValidateBasic\<close>: no entry is \<^verbatim>\<open>nil\<close> or has an empty name.\<close>

fun ns_basic_error :: "ns_record option list \<Rightarrow> gerr option" where
  "ns_basic_error [] = None"
| "ns_basic_error (None # es) = Some ErrInvalidRequest"
| "ns_basic_error (Some e # es) = (if ns_name e = [] then Some ErrInvalidRequest else ns_basic_error es)"

definition validate_basic_create :: "('b, 'd) env \<Rightarrow> msg_create_domain \<Rightarrow> gerr option" where
  "validate_basic_create E m =
     (case bech32_error E (cd_creator m) of Some e \<Rightarrow> Some e | None \<Rightarrow>
     (case bech32_error E (cd_owner m) of Some e \<Rightarrow> Some e | None \<Rightarrow>
     (if cd_name m = [] then Some ErrInvalidRequest
      else if cd_ns_records m = [] then Some ErrInvalidRequest
      else ns_basic_error (cd_ns_records m))))"

definition validate_basic_update :: "('b, 'd) env \<Rightarrow> msg_update_domain \<Rightarrow> gerr option" where
  "validate_basic_update E m =
     (case bech32_error E (ud_creator m) of Some e \<Rightarrow> Some e | None \<Rightarrow>
     (case (if ud_owner m \<noteq> [] then bech32_error E (ud_owner m) else None) of Some e \<Rightarrow> Some e | None \<Rightarrow>
     (case ns_basic_error (ud_ns_records m) of Some e \<Rightarrow> Some e | None \<Rightarrow>
     (if ud_owner m = [] \<and> ud_ns_records m = [] then Some ErrInvalidRequest else None))))"

definition validate_basic_delete :: "('b, 'd) env \<Rightarrow> msg_delete_domain \<Rightarrow> gerr option" where
  "validate_basic_delete E m = bech32_error E (dd_creator m)"

definition validate_basic_transfer :: "('b, 'd) env \<Rightarrow> msg_transfer_domain \<Rightarrow> gerr option" where
  "validate_basic_transfer E m =
     (case bech32_error E (td_creator m) of Some e \<Rightarrow> Some e | None \<Rightarrow> bech32_error E (td_new_owner m))"

definition validate_basic_heartbeat :: "('b, 'd) env \<Rightarrow> msg_heartbeat_domain \<Rightarrow> gerr option" where
  "validate_basic_heartbeat E m = bech32_error E (hd_creator m)"

text \<open>\<^verbatim>\<open>GetSigners\<close> of each message: the creator's address, a panic when it does not parse.\<close>

definition signers_of :: "('b, 'd) env \<Rightarrow> string \<Rightarrow> bytes list res" where
  "signers_of E creator = (case acc_from_bech32 (addr E) creator of None \<Rightarrow> Inl Panic | Some a \<Rightarrow> Inr [a])"

definition get_signers_create :: "('b, 'd) env \<Rightarrow> msg_create_domain \<Rightarrow> bytes list res" where
  "get_signers_create E m = signers_of E (cd_creator m)"

definition get_signers_update :: "('b, 'd) env \<Rightarrow> msg_update_domain \<Rightarrow> bytes list res" where
  "get_signers_update E m = signers_of E (ud_creator m)"

definition get_signers_delete :: "('b, 'd) env \<Rightarrow> msg_delete_domain \<Rightarrow> bytes list res" where
  "get_signers_delete E m = signers_of E (dd_creator m)"

definition get_signers_transfer :: "('b, 'd) env \<Rightarrow> msg_transfer_domain \<Rightarrow> bytes list res" where
  "get_signers_transfer E m = signers_of E (td_creator m)"

definition get_signers_heartbeat :: "('b, 'd) env \<Rightarrow> msg_heartbeat_domain \<Rightarrow> bytes list res" where
  "get_signers_heartbeat E m = signers_of E (hd_creator m)"

section \<open>Name server records in the message server\<close>

text \<open>
  The loop that \<^verbatim>\<open>CreateDomain\<close> and \<^verbatim>\<open>UpdateDomain\<close> run over the records: an entry that is
  \<^verbatim>\<open>nil\<close>, whose name is blank or that lists something \<^verbatim>\<open>net.ParseIP\<close> rejects is an error.
\<close>

fun ip_list_error :: "string list \<Rightarrow> gerr option" where
  "ip_list_error [] = None"
| "ip_list_error (s # ss) = (if parse_ip s = None then Some ErrInvalidRequest else ip_list_error ss)"

fun ns_records_error :: "ns_record option list \<Rightarrow> gerr option" where
  "ns_records_error [] = None"
| "ns_records_error (None # es) = Some ErrInvalidRequest"
| "ns_records_error (Some e # es) =
     (if trim_space (ns_name e) = [] then Some ErrInvalidRequest
      else (case ip_list_error (ns_ipv4 e) of Some err \<Rightarrow> Some err | None \<Rightarrow>
           (case ip_list_error (ns_ipv6 e) of Some err \<Rightarrow> Some err | None \<Rightarrow> ns_records_error es)))"

lemma ip_list_error_eq: "ip_list_error ss = (if list_all is_ip ss then None else Some ErrInvalidRequest)"
  by (induction ss) (auto simp: is_ip_def)

definition ns_entry_ok :: "ns_record option \<Rightarrow> bool" where
  "ns_entry_ok x = (case x of None \<Rightarrow> False
     | Some e \<Rightarrow> trim_space (ns_name e) \<noteq> [] \<and> list_all is_ip (ns_ipv4 e) \<and> list_all is_ip (ns_ipv6 e))"

lemma ns_records_error_eq:
  "ns_records_error es = (if list_all ns_entry_ok es then None else Some ErrInvalidRequest)"
  by (induction es rule: ns_records_error.induct) (auto simp: ns_entry_ok_def ip_list_error_eq)

lemma ns_basic_error_eq:
  "ns_basic_error es = (if list_all (\<lambda>x. \<exists>e. x = Some e \<and> ns_name e \<noteq> []) es
     then None else Some ErrInvalidRequest)"
  by (induction es rule: ns_basic_error.induct) auto

section \<open>Parameters (params.go)\<close>

definition new_dns_params :: "coins \<Rightarrow> dns_params" where
  "new_dns_params fee = \<lparr>domain_creation_fee = fee\<rparr>"

definition default_dns_params :: "('b, 'd) env \<Rightarrow> dns_params" where
  "default_dns_params E =
     new_dns_params (new_coins (coin_lib E) [\<lparr>coin_denom = ''udns'', coin_amount = 20000000\<rparr>])"

definition validate_domain_creation_fee :: "('b, 'd) env \<Rightarrow> coins \<Rightarrow> gerr option" where
  "validate_domain_creation_fee E v =
     (case coins_validate (coin_lib E) v of Some e \<Rightarrow> Some ErrInvalidCoins | None \<Rightarrow>
     (if coins_any_negative (coin_lib E) v then Some ErrInvalidCoins else None))"

definition validate_dns_params :: "('b, 'd) env \<Rightarrow> dns_params \<Rightarrow> gerr option" where
  "validate_dns_params E p =
     (case validate_domain_creation_fee E (domain_creation_fee p) of Some e \<Rightarrow> Some e | None \<Rightarrow> None)"

section \<open>Genesis state (genesis.go)\<close>

definition default_dns_genesis :: "('b, 'd) env \<Rightarrow> dns_genesis" where
  "default_dns_genesis E = \<lparr>gs_params = default_dns_params E, gs_domain_list = [],
     gs_domain_count = 0, gs_permitted_tlds = []\<rparr>"

text \<open>The loop over the domains; \<open>seen\<close> is \<^verbatim>\<open>domainIdMap\<close>.\<close>

fun genesis_domains_error :: "u64 \<Rightarrow> u64 list \<Rightarrow> domain list \<Rightarrow> gerr option" where
  "genesis_domains_error n seen [] = None"
| "genesis_domains_error n seen (d # ds) =
     (if dom_id d \<in> set seen then Some (ErrPlain ''duplicated id for domain'')
      else if n \<le> dom_id d then
        Some (ErrPlain ''domain id should be lower or equal than the last id'')
      else genesis_domains_error n (dom_id d # seen) ds)"

fun genesis_tlds_error :: "string list \<Rightarrow> string list \<Rightarrow> gerr option" where
  "genesis_tlds_error seen [] = None"
| "genesis_tlds_error seen (t # ts) =
     (if t \<in> set seen then Some (ErrPlain ''duplicated permitted TLD'')
      else genesis_tlds_error (t # seen) ts)"

definition validate_dns_genesis :: "('b, 'd) env \<Rightarrow> dns_genesis \<Rightarrow> gerr option" where
  "validate_dns_genesis E gs =
     (case genesis_domains_error (gs_domain_count gs) [] (gs_domain_list gs) of Some e \<Rightarrow> Some e | None \<Rightarrow>
     (case genesis_tlds_error [] (gs_permitted_tlds gs) of Some e \<Rightarrow> Some e | None \<Rightarrow>
      validate_dns_params E (gs_params gs)))"

lemma genesis_domains_error_None:
  "genesis_domains_error n seen ds = None \<longleftrightarrow>
     distinct (map dom_id ds) \<and> set (map dom_id ds) \<inter> set seen = {} \<and> (\<forall>d \<in> set ds. dom_id d < n)"
  by (induction n seen ds rule: genesis_domains_error.induct) (auto simp: not_le)

lemma genesis_tlds_error_None:
  "genesis_tlds_error seen ts = None \<longleftrightarrow> distinct ts \<and> set ts \<inter> set seen = {}"
  by (induction seen ts rule: genesis_tlds_error.induct) auto

lemma validate_dns_genesis_None:
  "validate_dns_genesis E gs = None \<longleftrightarrow>
     distinct (map dom_id (gs_domain_list gs))
   \<and> (\<forall>d \<in> set (gs_domain_list gs). dom_id d < gs_domain_count gs)
   \<and> distinct (gs_permitted_tlds gs) \<and> validate_dns_params E (gs_params gs) = None"
proof -
  have "validate_dns_genesis E gs = None \<longleftrightarrow>
     genesis_domains_error (gs_domain_count gs) [] (gs_domain_list gs) = None
   \<and> genesis_tlds_error [] (gs_permitted_tlds gs) = None \<and> validate_dns_params E (gs_params gs) = None"
    by (simp add: validate_dns_genesis_def split: option.splits)
  then show ?thesis by (simp add: genesis_domains_error_None genesis_tlds_error_None)
qed

end
