(* ===== verification/Dns_Keeper.thy ===== *)
theory Dns_Keeper
  imports Go_Op Dns_Types "HOL-Library.Sublist"
begin

text \<open>
  The keeper of \<^verbatim>\<open>x/dnsblockchain\<close> (\<^verbatim>\<open>keeper.go\<close>, \<^verbatim>\<open>keys.go\<close>): the layout of its store, access
  to its collections, the operations on permitted TLDs that the dao module calls, and the
  invariant that every operation of the module keeps.
\<close>

section \<open>Key spaces (keys.go)\<close>

text \<open>The prefixes of the collections in the module's store, in the order of the file.\<close>

definition ModuleName :: string where "ModuleName = ''dnsblockchain''"

definition dns_prefixes :: "string list" where
  "dns_prefixes = [''p_dnsblockchain'', ''domain_by_id/value/'', ''domain_by_name/value/'',
     ''domain/count/'', ''permitted_tlds/'']"

definition prefix_free :: "string list \<Rightarrow> bool" where
  "prefix_free ps = (\<forall>p \<in> set ps. \<forall>q \<in> set ps. prefix p q \<longrightarrow> p = q)"

text \<open>Keys below two prefixes of a prefix-free list never coincide.\<close>

lemma prefix_free_disjoint:
  assumes "prefix_free ps" "p \<in> set ps" "q \<in> set ps" "p @ k = q @ j"
  shows "p = q \<and> k = j"
proof -
  have "prefix p q \<or> prefix q p"
    using assms(4) by (metis prefixI prefix_same_cases)
  with assms(1-3) have "p = q" by (auto simp: prefix_free_def)
  with assms(4) show ?thesis by simp
qed

section \<open>Access to the collections\<close>

definition upd_dns :: "(dns_store \<Rightarrow> dns_store) \<Rightarrow> ('b, 'd) world \<Rightarrow> ('b, 'd) world" where
  "upd_dns f w = w\<lparr>dns := f (dns w)\<rparr>"

lemma upd_dns_simps [simp, frame_simps]:
  "dns (upd_dns f w) = f (dns w)" "dao (upd_dns f w) = dao w"
  "ledger (upd_dns f w) = ledger w" "events (upd_dns f w) = events w"
  by (simp_all add: upd_dns_def)

definition dns_params_get :: "('b, 'd) env \<Rightarrow> (('b, 'd) world, dns_params) op" where
  "dns_params_get E = read_op (\<lambda>w. read_item (fault E DnsParamsGet) (dns_params_item (dns w)))"

definition dns_params_set :: "('b, 'd) env \<Rightarrow> dns_params \<Rightarrow> (('b, 'd) world, unit) op" where
  "dns_params_set E p = write_op (fault E DnsParamsSet) (upd_dns (\<lambda>s. s\<lparr>dns_params_item := Some p\<rparr>))"

definition domain_get :: "('b, 'd) env \<Rightarrow> u64 \<Rightarrow> (('b, 'd) world, domain) op" where
  "domain_get E i = read_op (\<lambda>w. read_kv (fault E DomainGet) (domains (dns w)) i)"

definition domain_set :: "('b, 'd) env \<Rightarrow> u64 \<Rightarrow> domain \<Rightarrow> (('b, 'd) world, unit) op" where
  "domain_set E i d = write_op (fault E DomainSet) (upd_dns (\<lambda>s. s\<lparr>domains := kv_set i d (domains s)\<rparr>))"

definition domain_remove :: "('b, 'd) env \<Rightarrow> u64 \<Rightarrow> (('b, 'd) world, unit) op" where
  "domain_remove E i = write_op (fault E DomainRemove) (upd_dns (\<lambda>s. s\<lparr>domains := kv_remove i (domains s)\<rparr>))"

definition name_get :: "('b, 'd) env \<Rightarrow> string \<Rightarrow> (('b, 'd) world, u64) op" where
  "name_get E n = read_op (\<lambda>w. read_kv (fault E DomainNameGet) (domain_names (dns w)) n)"

definition name_set :: "('b, 'd) env \<Rightarrow> string \<Rightarrow> u64 \<Rightarrow> (('b, 'd) world, unit) op" where
  "name_set E n i = write_op (fault E DomainNameSet)
     (upd_dns (\<lambda>s. s\<lparr>domain_names := kv_set n i (domain_names s)\<rparr>))"

definition name_remove :: "('b, 'd) env \<Rightarrow> string \<Rightarrow> (('b, 'd) world, unit) op" where
  "name_remove E n = write_op (fault E DomainNameRemove)
     (upd_dns (\<lambda>s. s\<lparr>domain_names := kv_remove n (domain_names s)\<rparr>))"

text \<open>\<^verbatim>\<open>Sequence.Next\<close> returns the number in the store (0 at first) and stores its successor.\<close>

definition domain_seq_next :: "('b, 'd) env \<Rightarrow> (('b, 'd) world, u64) op" where
  "domain_seq_next E = bind_op (read_op (\<lambda>w. Inr (domain_seq (dns w)))) (\<lambda>n.
     then_op (write_op (fault E DomainSeqNext) (upd_dns (\<lambda>s. s\<lparr>domain_seq := n + 1\<rparr>))) (ret n))"

definition domain_seq_set :: "('b, 'd) env \<Rightarrow> u64 \<Rightarrow> (('b, 'd) world, unit) op" where
  "domain_seq_set E n = write_op (fault E DomainSeqSet) (upd_dns (\<lambda>s. s\<lparr>domain_seq := n\<rparr>))"

definition tld_has :: "('b, 'd) env \<Rightarrow> string \<Rightarrow> (('b, 'd) world, bool) op" where
  "tld_has E t = read_op (\<lambda>w. has_kv (fault E TldHas) (permitted_tlds (dns w)) t)"

definition tld_set :: "('b, 'd) env \<Rightarrow> string \<Rightarrow> (('b, 'd) world, unit) op" where
  "tld_set E t = write_op (fault E TldSet) (upd_dns (\<lambda>s. s\<lparr>permitted_tlds := kv_set t () (permitted_tlds s)\<rparr>))"

lemmas dns_access_defs = dns_params_get_def dns_params_set_def domain_get_def domain_set_def
  domain_remove_def name_get_def name_set_def name_remove_def domain_seq_set_def tld_has_def tld_set_def

lemma domain_seq_next_Inr [simp]:
  "domain_seq_next E w = (Inr n, w') \<longleftrightarrow>
     fault E DomainSeqNext = None \<and> n = domain_seq (dns w) \<and> w' = upd_dns (\<lambda>s. s\<lparr>domain_seq := n + 1\<rparr>) w"
  by (auto simp: domain_seq_next_def op_success)

section \<open>The keeper (keeper.go)\<close>

text \<open>A fresh store, and \<^verbatim>\<open>NewKeeper\<close> on it: the authority has to be a valid address.\<close>

definition empty_dns_store :: dns_store where
  "empty_dns_store = \<lparr>dns_params_item = None, domain_seq = 0, domains = [], domain_names = [],
     permitted_tlds = []\<rparr>"

definition new_dns_keeper :: "('b, 'd) env \<Rightarrow> dns_store res" where
  "new_dns_keeper E =
     (case bytes_to_string (addr E) (dns_authority E) of None \<Rightarrow> Inl Panic
      | Some _ \<Rightarrow> (if prefix_free dns_prefixes \<and> distinct dns_prefixes then Inr empty_dns_store else Inl Panic))"

definition get_authority :: "('b, 'd) env \<Rightarrow> bytes" where
  "get_authority E = dns_authority E"

definition is_tld_globally_reserved :: "('b, 'd) env \<Rightarrow> string \<Rightarrow> (('b, 'd) world, bool) op" where
  "is_tld_globally_reserved E tld = ret (is_reserved_tld (unicode_lower E) tld)"

definition is_tld_permitted :: "('b, 'd) env \<Rightarrow> string \<Rightarrow> (('b, 'd) world, bool) op" where
  "is_tld_permitted E tld =
     (let normalizedTLD = normalize_tld (unicode_lower E) tld in
      if normalizedTLD = [] then ret False else tld_has E normalizedTLD)"

definition add_permitted_tld :: "('b, 'd) env \<Rightarrow> string \<Rightarrow> (('b, 'd) world, unit) op" where
  "add_permitted_tld E tld =
     (let normalizedTLD = normalize_tld (unicode_lower E) tld in
      bind_op (is_tld_globally_reserved E normalizedTLD) (\<lambda>isGloballyReserved.
      then_op (require (\<not> isGloballyReserved) ErrTLDReservedByICANN)
     (then_op (require (normalizedTLD \<noteq> []) ErrInvalidTLD)
     (then_op (require (\<not> contains_dot normalizedTLD) ErrInvalidTLD)
     (then_op (require (\<not> (63 < length normalizedTLD \<or> length normalizedTLD < 2)) ErrInvalidTLD)
     (bind_op (tld_has E normalizedTLD) (\<lambda>has.
      then_op (require (\<not> has) ErrInvalidTLD)
     (tld_set E normalizedTLD))))))))"

text \<open>
  A successful \<^verbatim>\<open>AddPermittedTLD\<close> adds exactly the normal form of its argument, which is none of the
  reserved TLDs, has no dot and the length of a DNS label.
\<close>

lemma add_permitted_tld_Inr:
  "add_permitted_tld E tld w = (Inr r, w') \<longleftrightarrow>
     (let t = normalize_tld (unicode_lower E) tld in
        \<not> is_reserved_tld (unicode_lower E) t \<and> \<not> contains_dot t \<and> 2 \<le> length t \<and> length t \<le> 63
      \<and> kv_get (permitted_tlds (dns w)) t = None \<and> fault E TldHas = None \<and> fault E TldSet = None
      \<and> w' = upd_dns (\<lambda>s. s\<lparr>permitted_tlds := kv_set t () (permitted_tlds s)\<rparr>) w)"
  by (auto simp: add_permitted_tld_def Let_def op_success is_tld_globally_reserved_def tld_has_def
      tld_set_def dest!: has_kv_InrD)

lemma is_tld_permitted_Inr:
  "is_tld_permitted E tld w = (Inr b, w') \<longleftrightarrow>
     (let t = normalize_tld (unicode_lower E) tld in
        w' = w \<and> (t = [] \<and> \<not> b \<or> t \<noteq> [] \<and> fault E TldHas = None \<and> b = (kv_get (permitted_tlds (dns w)) t \<noteq> None)))"
  by (auto simp: is_tld_permitted_def Let_def tld_has_def dest!: has_kv_InrD)

section \<open>The keeper as the dao module sees it (x/dao/types/expected\_keepers.go)\<close>

text \<open>\<^verbatim>\<open>DnsblockchainKeeper\<close>: the three methods the dao keeper is given.\<close>

record ('b, 'd) dns_keeper =
  dk_add_permitted_tld :: "string \<Rightarrow> (('b, 'd) world, unit) op"
  dk_is_tld_permitted :: "string \<Rightarrow> (('b, 'd) world, bool) op"
  dk_is_tld_globally_reserved :: "string \<Rightarrow> (('b, 'd) world, bool) op"

definition dns_keeper_of :: "('b, 'd) env \<Rightarrow> ('b, 'd) dns_keeper" where
  "dns_keeper_of E = \<lparr>dk_add_permitted_tld = add_permitted_tld E,
     dk_is_tld_permitted = is_tld_permitted E,
     dk_is_tld_globally_reserved = is_tld_globally_reserved E\<rparr>"

lemma dns_keeper_of_sel [simp]:
  "dk_add_permitted_tld (dns_keeper_of E) = add_permitted_tld E"
  "dk_is_tld_permitted (dns_keeper_of E) = is_tld_permitted E"
  "dk_is_tld_globally_reserved (dns_keeper_of E) = is_tld_globally_reserved E"
  by (simp_all add: dns_keeper_of_def)

text \<open>
  What the dao module may rely on: the two checks read only, adding a TLD writes nothing outside
  the store of the module and leaves everything else in it alone, after an addition the TLD is
  permitted and was not reserved, and nothing else became permitted.
\<close>

locale dnsblockchain_keeper =
  fixes add :: "string \<Rightarrow> (('b, 'd) world, unit) op"
    and permitted :: "string \<Rightarrow> (('b, 'd) world, bool) op"
    and reserved :: "string \<Rightarrow> (('b, 'd) world, bool) op"
    and norm :: "string \<Rightarrow> string"
  assumes permitted_reads: "permitted t w = (q, w') \<Longrightarrow> w' = w"
    and reserved_reads: "reserved t w = (q, w') \<Longrightarrow> w' = w"
    and reserved_total: "\<exists>b. fst (reserved t w) = Inr b"
    and add_frame: "add t w = (r, w') \<Longrightarrow> dao w' = dao w \<and> ledger w' = ledger w \<and> events w' = events w"
    and add_domains: "add t w = (r, w') \<Longrightarrow> domains (dns w') = domains (dns w)
          \<and> domain_names (dns w') = domain_names (dns w) \<and> domain_seq (dns w') = domain_seq (dns w)"
    and add_failed: "add t w = (Inl e, w') \<Longrightarrow> w' = w"
    and add_permits: "add t w = (Inr (), w') \<Longrightarrow> norm s = norm t \<Longrightarrow> fst (permitted s w') = Inr True"
    and add_permits_only: "add t w = (r, w') \<Longrightarrow> norm s \<noteq> norm t \<Longrightarrow> fst (permitted s w') = fst (permitted s w)"
    and permitted_dns: "dns v = dns w \<Longrightarrow> fst (permitted s v) = fst (permitted s w)"
    and add_unreserved: "add t w = (Inr (), w') \<Longrightarrow> fst (reserved (norm t) w) = Inr False"
begin

lemma permitted_run: "permitted s w = (fst (permitted s w), w)"
  using permitted_reads [of s w] by (cases "permitted s w") auto

lemma add_then_permitted:
  assumes "add t w = (Inr (), w')"
  shows "permitted t w' = (Inr True, w')"
  using add_permits [OF assms refl] permitted_run by metis

lemma add_keeps_world:
  assumes "add t w = (r, w')" and "\<And>v. dao v = dao w \<Longrightarrow> ledger v = ledger w \<Longrightarrow> events v = events w \<Longrightarrow> P v"
  shows "P w'"
  using assms add_frame by blast

end

lemma add_permitted_tld_Inl: "add_permitted_tld E t w = (Inl e, w') \<Longrightarrow> w' = w"
  by (auto simp: add_permitted_tld_def Let_def op_defs is_tld_globally_reserved_def tld_has_def
      tld_set_def split: if_splits option.splits prod.splits sum.splits)

lemma is_tld_permitted_reads: "is_tld_permitted E t w = (r, w') \<Longrightarrow> w' = w"
  by (auto simp: is_tld_permitted_def Let_def tld_has_def op_defs split: if_splits)

interpretation dk: dnsblockchain_keeper "add_permitted_tld E" "is_tld_permitted E"
    "is_tld_globally_reserved E" "normalize_tld (unicode_lower E)" for E :: "('b, 'd) env"
proof
  fix t s :: string and w w' :: "('b, 'd) world" and r :: "unit res"
  show "add_permitted_tld E t w = (r, w') \<Longrightarrow> dao w' = dao w \<and> ledger w' = ledger w \<and> events w' = events w"
    by (cases r) (auto simp: add_permitted_tld_Inr Let_def dest: add_permitted_tld_Inl)
  show "add_permitted_tld E t w = (r, w') \<Longrightarrow> domains (dns w') = domains (dns w)
          \<and> domain_names (dns w') = domain_names (dns w) \<and> domain_seq (dns w') = domain_seq (dns w)"
    by (cases r) (auto simp: add_permitted_tld_Inr Let_def dest: add_permitted_tld_Inl)
  show "fst (is_tld_permitted E s w') = Inr True"
    if "add_permitted_tld E t w = (Inr (), w')" "normalize_tld (unicode_lower E) s = normalize_tld (unicode_lower E) t"
    using that by (auto simp: add_permitted_tld_Inr Let_def is_tld_permitted_def tld_has_def op_defs)
  show "fst (is_tld_globally_reserved E (normalize_tld (unicode_lower E) t) w) = Inr False"
    if "add_permitted_tld E t w = (Inr (), w')"
    using that by (auto simp: add_permitted_tld_Inr Let_def is_tld_globally_reserved_def op_defs)
  show "fst (is_tld_permitted E s w') = fst (is_tld_permitted E s w)"
    if "add_permitted_tld E t w = (r, w')" "normalize_tld (unicode_lower E) s \<noteq> normalize_tld (unicode_lower E) t"
    using that by (cases r) (auto simp: add_permitted_tld_Inr Let_def is_tld_permitted_def tld_has_def op_defs has_kv_def
        split: option.splits dest: add_permitted_tld_Inl)
  show "dns v = dns w \<Longrightarrow> fst (is_tld_permitted E s v) = fst (is_tld_permitted E s w)" for v
    by (simp add: is_tld_permitted_def tld_has_def op_defs Let_def)
qed (auto dest: is_tld_permitted_reads add_permitted_tld_Inl simp: is_tld_globally_reserved_def op_defs)

section \<open>The invariant of the store\<close>

text \<open>
  A registered name is two labels separated by a dot, and the second one is permitted.
\<close>

definition name_ok :: "('b, 'd) env \<Rightarrow> (string, unit) kv \<Rightarrow> string \<Rightarrow> bool" where
  "name_ok E tlds n = (case split_dots n of [l, t] \<Rightarrow>
       t \<noteq> [] \<and> normalize_tld (unicode_lower E) t \<noteq> [] \<and> kv_get tlds (normalize_tld (unicode_lower E) t) \<noteq> None
     | _ \<Rightarrow> False)"

definition domain_ok :: "('b, 'd) env \<Rightarrow> (string, unit) kv \<Rightarrow> domain \<Rightarrow> bool" where
  "domain_ok E tlds d = (name_ok E tlds (dom_name d) \<and> dom_ns_records d \<noteq> []
     \<and> list_all ns_entry_ok (dom_ns_records d)
     \<and> string_to_bytes (addr E) (dom_owner d) \<noteq> None \<and> string_to_bytes (addr E) (dom_creator d) \<noteq> None)"

definition dns_ok :: "('b, 'd) env \<Rightarrow> dns_store \<Rightarrow> bool" where
  "dns_ok E s \<longleftrightarrow> kv_ok (domains s) \<and> kv_ok (domain_names s) \<and> kv_ok (permitted_tlds s)
   \<and> (\<forall>i d. kv_get (domains s) i = Some d \<longrightarrow> dom_id d = i \<and> i < domain_seq s \<and> domain_ok E (permitted_tlds s) d)
   \<and> (\<forall>n i. kv_get (domain_names s) n = Some i \<longleftrightarrow> (\<exists>d. kv_get (domains s) i = Some d \<and> dom_name d = n))"

text \<open>Every permitted TLD went through the checks of \<^verbatim>\<open>AddPermittedTLD\<close>.\<close>

definition tlds_ok :: "('b, 'd) env \<Rightarrow> dns_store \<Rightarrow> bool" where
  "tlds_ok E s \<longleftrightarrow> (\<forall>t. kv_get (permitted_tlds s) t \<noteq> None \<longrightarrow>
     \<not> is_reserved_tld (unicode_lower E) t \<and> \<not> contains_dot t \<and> 2 \<le> length t \<and> length t \<le> 63)"

lemma dns_okD:
  assumes "dns_ok E s"
  shows "kv_ok (domains s)" "kv_ok (domain_names s)" "kv_ok (permitted_tlds s)"
    and "kv_get (domains s) i = Some d \<Longrightarrow> dom_id d = i \<and> i < domain_seq s \<and> domain_ok E (permitted_tlds s) d"
    and "kv_get (domain_names s) n = Some i \<longleftrightarrow> (\<exists>d. kv_get (domains s) i = Some d \<and> dom_name d = n)"
  using assms by (auto simp: dns_ok_def)

lemma dns_ok_empty: "dns_ok E empty_dns_store" "tlds_ok E empty_dns_store"
  by (simp_all add: dns_ok_def tlds_ok_def empty_dns_store_def)

lemma domain_ok_mono:
  "domain_ok E tlds d \<Longrightarrow> domain_ok E (kv_set t () tlds) d"
  by (auto simp: domain_ok_def name_ok_def split: list.splits)

lemma dns_ok_index_inj:
  assumes "dns_ok E s" "kv_get (domains s) i = Some d" "kv_get (domains s) j = Some d'"
    and "dom_name d = dom_name d'"
  shows "i = j"
proof -
  have "kv_get (domain_names s) (dom_name d) = Some i" "kv_get (domain_names s) (dom_name d) = Some j"
    using assms dns_okD(5) [OF assms(1)] by auto
  then show ?thesis by simp
qed

lemma dns_ok_add_tld [inv_intros]:
  assumes "dns_ok E s"
  shows "dns_ok E (s\<lparr>permitted_tlds := kv_set t () (permitted_tlds s)\<rparr>)"
  using assms by (auto simp: dns_ok_def domain_ok_mono)

lemma tlds_ok_add_tld [inv_intros]:
  assumes "tlds_ok E s" "\<not> is_reserved_tld (unicode_lower E) t" "\<not> contains_dot t" "2 \<le> length t" "length t \<le> 63"
  shows "tlds_ok E (s\<lparr>permitted_tlds := kv_set t () (permitted_tlds s)\<rparr>)"
  using assms by (auto simp: tlds_ok_def)

text \<open>Overwriting a domain with one of the same name and identifier.\<close>

lemma dns_ok_overwrite [inv_intros]:
  assumes "dns_ok E s" "kv_get (domains s) i = Some d" "dom_id d' = dom_id d" "dom_name d' = dom_name d"
    and "domain_ok E (permitted_tlds s) d'"
  shows "dns_ok E (s\<lparr>domains := kv_set i d' (domains s)\<rparr>)"
  using assms by (auto simp: dns_ok_def)

lemma dns_ok_delete [inv_intros]:
  assumes ok: "dns_ok E s" and i: "kv_get (domains s) i = Some d"
  shows "dns_ok E (s\<lparr>domain_names := kv_remove (dom_name d) (domain_names s),
     domains := kv_remove i (domains s)\<rparr>)"
proof -
  have inj: "dom_name e \<noteq> dom_name d" if "kv_get (domains s) j = Some e" "j \<noteq> i" for j e
    using dns_ok_index_inj [OF ok i that(1)] that(2) by auto
  have "kv_get (kv_remove (dom_name d) (domain_names s)) n = Some j \<longleftrightarrow>
      (\<exists>e. kv_get (kv_remove i (domains s)) j = Some e \<and> dom_name e = n)" for n j
    using inj i dns_okD(5) [OF ok, of n j] by (cases "j = i") auto
  then show ?thesis
    using ok by (simp add: dns_ok_def)
qed

lemma dns_ok_insert [inv_intros]:
  assumes ok: "dns_ok E s" and fresh: "kv_get (domain_names s) (dom_name d) = None"
    and id: "dom_id d = domain_seq s" and bound: "domain_seq s \<noteq> - 1"
    and d: "domain_ok E (permitted_tlds s) d"
  shows "dns_ok E (s\<lparr>domain_seq := domain_seq s + 1, domains := kv_set (dom_id d) d (domains s),
     domain_names := kv_set (dom_name d) (dom_id d) (domain_names s)\<rparr>)"
proof -
  have new: "kv_get (domains s) (dom_id d) = None"
    using dns_okD(4) [OF ok, of "dom_id d"] id by (cases "kv_get (domains s) (dom_id d)") auto
  have names: "dom_name e \<noteq> dom_name d" if "kv_get (domains s) j = Some e" for j e
    using that dns_okD(5) [OF ok, of "dom_name d" j] fresh by auto
  show ?thesis
    using ok id d new names word_less_succ_self [OF bound] word_less_succ_trans [OF _ bound]
    by (auto simp: dns_ok_def)
qed

end
