(* ===== verification/Dns_Msgs.thy ===== *)
theory Dns_Msgs
  imports Dns_Keeper
begin

text \<open>
  The message server of \<^verbatim>\<open>x/dnsblockchain\<close> (\<^verbatim>\<open>msg_server_domain.go\<close>, \<^verbatim>\<open>msg_update_params.go\<close>) with
  its events: one definition per handler, what a successful run of it did, and that it keeps the
  invariant of the store.
\<close>

section \<open>Events (events.go)\<close>

definition EventTypeCreateDomain :: string where "EventTypeCreateDomain = ''create_domain''"
definition EventTypeUpdateDomain :: string where "EventTypeUpdateDomain = ''update_domain''"
definition EventTypeDeleteDomain :: string where "EventTypeDeleteDomain = ''delete_domain''"
definition EventTypeTransferDomain :: string where "EventTypeTransferDomain = ''transfer_domain''"
definition EventTypeHeartbeatDomain :: string where "EventTypeHeartbeatDomain = ''heartbeat_domain''"
definition EventTypeDomainFeeCollected :: string where "EventTypeDomainFeeCollected = ''domain_fee_collected''"
definition EventTypeDomainFeeBurned :: string where "EventTypeDomainFeeBurned = ''domain_fee_burned''"
definition AttributeKeyDomainID :: string where "AttributeKeyDomainID = ''domain_id''"
definition AttributeKeyDomainName :: string where "AttributeKeyDomainName = ''domain_name''"
definition AttributeKeyOwner :: string where "AttributeKeyOwner = ''owner''"
definition AttributeKeyCreator :: string where "AttributeKeyCreator = ''creator''"
definition AttributeKeyUpdater :: string where "AttributeKeyUpdater = ''updater''"
definition AttributeKeyActor :: string where "AttributeKeyActor = ''actor''"
definition AttributeKeyNewOwner :: string where "AttributeKeyNewOwner = ''new_owner''"
definition AttributeKeyOldOwner :: string where "AttributeKeyOldOwner = ''old_owner''"
definition AttributeKeyNewExpiration :: string where "AttributeKeyNewExpiration = ''new_expiration''"
definition AttributeKeyFeeCollector :: string where "AttributeKeyFeeCollector = ''fee_collector''"
definition AttributeKeyBurnerModule :: string where "AttributeKeyBurnerModule = ''burner_module''"

text \<open>\<^verbatim>\<open>sdk.AttributeKeyAmount\<close> of the SDK.\<close>

definition AttributeKeyAmount :: string where "AttributeKeyAmount = ''amount''"

definition new_event :: "string \<Rightarrow> (string \<times> string) list \<Rightarrow> event" where
  "new_event t attrs = \<lparr>ev_type = t, ev_attrs = attrs\<rparr>"

section \<open>CreateDomain\<close>

text \<open>\<^verbatim>\<open>uint64(ctx.BlockTime().AddDate(1, 0, 0).Unix())\<close>\<close>

definition one_year_later :: "ctx \<Rightarrow> u64" where
  "one_year_later c = of_int (add_date_one_year (block_time c))"

definition charge_creation_fee :: "('b, 'd) env \<Rightarrow> bytes \<Rightarrow> string \<Rightarrow> coins \<Rightarrow> (('b, 'd) world, unit) op" where
  "charge_creation_fee E creatorAddr creator fee =
     when_op (\<not> coins_is_zero (coin_lib E) fee)
      (then_op (run_bank (send_account_to_module (bank E) creatorAddr ModuleName fee))
      (then_op (run_bank (burn_coins (bank E) ModuleName fee))
      (emit_op
        [new_event EventTypeDomainFeeCollected
           [(AttributeKeyFeeCollector, creator), (AttributeKeyAmount, coins_string (coin_lib E) fee)],
         new_event EventTypeDomainFeeBurned
           [(AttributeKeyBurnerModule, ModuleName), (AttributeKeyAmount, coins_string (coin_lib E) fee)]])))"

text \<open>The look-up of the name in the index: found is an error, and so is any failure but \<^verbatim>\<open>ErrNotFound\<close>.\<close>

definition check_duplicate_name :: "('b, 'd) env \<Rightarrow> string \<Rightarrow> (('b, 'd) world, unit) op" where
  "check_duplicate_name E n = bind_op (try_op (name_get E n)) (\<lambda>r.
     case r of Inr _ \<Rightarrow> fail ErrDuplicateDomainName
             | Inl e \<Rightarrow> require (e = ErrNotFound) e)"

definition check_ns_records :: "ns_record option list \<Rightarrow> ('s, unit) op" where
  "check_ns_records rs = then_op (require (rs \<noteq> []) ErrInvalidRequest) (check (ns_records_error rs))"

text \<open>Both writes of a new domain; when the second fails the first is undone, best effort.\<close>

definition store_new_domain :: "('b, 'd) env \<Rightarrow> domain \<Rightarrow> (('b, 'd) world, unit) op" where
  "store_new_domain E d =
     then_op (map_err (\<lambda>_. ErrLogic) (domain_set E (dom_id d) d))
    (bind_op (try_op (name_set E (dom_name d) (dom_id d))) (\<lambda>r.
       case r of Inr _ \<Rightarrow> ret ()
               | Inl _ \<Rightarrow> then_op (try_op (domain_remove E (dom_id d))) (fail ErrLogic)))"

definition new_domain :: "ctx \<Rightarrow> msg_create_domain \<Rightarrow> string \<Rightarrow> u64 \<Rightarrow> domain" where
  "new_domain c m normalizedName nextID =
     \<lparr>dom_id = nextID, dom_name = normalizedName, dom_owner = cd_owner m,
      dom_ns_records = cd_ns_records m, dom_creator = cd_creator m, dom_expiration = one_year_later c\<rparr>"

definition create_domain :: "('b, 'd) env \<Rightarrow> ctx \<Rightarrow> msg_create_domain \<Rightarrow> (('b, 'd) world, u64) op" where
  "create_domain E c m =
     bind_op (of_option ErrInvalidAddress (string_to_bytes (addr E) (cd_creator m))) (\<lambda>creatorAddr.
     bind_op (of_option ErrInvalidAddress (string_to_bytes (addr E) (cd_owner m))) (\<lambda>_.
     bind_op (dns_params_get E) (\<lambda>params.
     then_op (charge_creation_fee E creatorAddr (cd_creator m) (domain_creation_fee params))
    (let normalizedName = normalize_name (unicode_lower E) (cd_name m) in
     case split_dots normalizedName of
       [_, extractedTLD] \<Rightarrow>
         then_op (require (extractedTLD \<noteq> []) ErrInvalidDomainName)
        (bind_op (is_tld_permitted E extractedTLD) (\<lambda>isPermitted.
         then_op (require isPermitted ErrTLDNotPermitted)
        (then_op (check_duplicate_name E normalizedName)
        (then_op (check_ns_records (cd_ns_records m))
        (bind_op (map_err (\<lambda>_. ErrInvalidRequest) (domain_seq_next E)) (\<lambda>nextID.
         then_op (store_new_domain E (new_domain c m normalizedName nextID))
        (then_op (emit_op [new_event EventTypeCreateDomain
            [(AttributeKeyDomainID, show_u64 nextID), (AttributeKeyDomainName, normalizedName),
             (AttributeKeyOwner, cd_owner m), (AttributeKeyCreator, cd_creator m)]])
        (ret nextID))))))))
     | _ \<Rightarrow> fail ErrInvalidDomainName))))"

section \<open>UpdateDomain, DeleteDomain, HeartbeatDomain, TransferDomain\<close>

definition fetch_domain :: "('b, 'd) env \<Rightarrow> u64 \<Rightarrow> (('b, 'd) world, domain) op" where
  "fetch_domain E i = map_err (\<lambda>e. if e = ErrNotFound then ErrKeyNotFound else ErrLogic) (domain_get E i)"

text \<open>
  The new owner and the new records of an update with the flag \<^verbatim>\<open>changed\<close>: the creator may change
  both, an owner who is not the creator only the records.
\<close>

definition updated_fields ::
  "('b, 'd) env \<Rightarrow> msg_update_domain \<Rightarrow> domain \<Rightarrow> (('b, 'd) world, string \<times> ns_record option list \<times> bool) op" where
  "updated_fields E m val =
     (let ownerChange = (ud_owner m \<noteq> [] \<and> ud_owner m \<noteq> dom_owner val);
          nsChange = (ud_ns_records m \<noteq> []);
          newNs = (if nsChange then ud_ns_records m else dom_ns_records val) in
      if ud_creator m = dom_creator val then
        then_op (when_op ownerChange (require (string_to_bytes (addr E) (ud_owner m) \<noteq> None) ErrInvalidAddress))
       (then_op (when_op nsChange (check (ns_records_error (ud_ns_records m))))
       (ret (if ownerChange then ud_owner m else dom_owner val, newNs, ownerChange \<or> nsChange)))
      else
        then_op (require (\<not> ownerChange) ErrUnauthorized)
       (then_op (when_op nsChange (check (ns_records_error (ud_ns_records m))))
       (ret (dom_owner val, newNs, nsChange))))"

definition update_domain :: "('b, 'd) env \<Rightarrow> ctx \<Rightarrow> msg_update_domain \<Rightarrow> (('b, 'd) world, unit) op" where
  "update_domain E c m =
     bind_op (of_option ErrInvalidAddress (string_to_bytes (addr E) (ud_creator m))) (\<lambda>_.
     bind_op (fetch_domain E (ud_id m)) (\<lambda>val.
     then_op (require (ud_creator m = dom_creator val \<or> ud_creator m = dom_owner val) ErrUnauthorized)
    (bind_op (updated_fields E m val) (\<lambda>(newOwner, newNsRecords, changed).
     then_op (require changed ErrInvalidRequest)
    (then_op (map_err (\<lambda>_. ErrLogic) (domain_set E (ud_id m)
        \<lparr>dom_id = ud_id m, dom_name = dom_name val, dom_owner = newOwner,
         dom_ns_records = newNsRecords, dom_creator = dom_creator val, dom_expiration = dom_expiration val\<rparr>))
    (emit_op [new_event EventTypeUpdateDomain
        [(AttributeKeyDomainID, show_u64 (ud_id m)), (AttributeKeyUpdater, ud_creator m)]]))))))"

definition delete_domain :: "('b, 'd) env \<Rightarrow> ctx \<Rightarrow> msg_delete_domain \<Rightarrow> (('b, 'd) world, unit) op" where
  "delete_domain E c m =
     bind_op (of_option ErrInvalidAddress (string_to_bytes (addr E) (dd_creator m))) (\<lambda>_.
     bind_op (fetch_domain E (dd_id m)) (\<lambda>val.
     then_op (require (dd_creator m = dom_owner val) ErrUnauthorized)
    (then_op (try_op (name_remove E (dom_name val)))
    (then_op (map_err (\<lambda>_. ErrLogic) (domain_remove E (dd_id m)))
    (emit_op [new_event EventTypeDeleteDomain
        [(AttributeKeyDomainID, show_u64 (dd_id m)), (AttributeKeyDomainName, dom_name val),
         (AttributeKeyActor, dd_creator m)]])))))"

definition heartbeat_domain :: "('b, 'd) env \<Rightarrow> ctx \<Rightarrow> msg_heartbeat_domain \<Rightarrow> (('b, 'd) world, unit) op" where
  "heartbeat_domain E c m =
     bind_op (of_option ErrInvalidAddress (string_to_bytes (addr E) (hd_creator m))) (\<lambda>_.
     bind_op (fetch_domain E (hd_id m)) (\<lambda>d.
     then_op (require (hd_creator m = dom_creator d \<or> hd_creator m = dom_owner d) ErrUnauthorized)
    (then_op (map_err (\<lambda>_. ErrLogic) (domain_set E (hd_id m) (d\<lparr>dom_expiration := one_year_later c\<rparr>)))
    (emit_op [new_event EventTypeHeartbeatDomain
        [(AttributeKeyDomainID, show_u64 (hd_id m)), (AttributeKeyDomainName, dom_name d),
         (AttributeKeyActor, hd_creator m), (AttributeKeyNewExpiration, show_u64 (one_year_later c))]]))))"

definition transfer_domain :: "('b, 'd) env \<Rightarrow> ctx \<Rightarrow> msg_transfer_domain \<Rightarrow> (('b, 'd) world, unit) op" where
  "transfer_domain E c m =
     bind_op (of_option ErrInvalidAddress (string_to_bytes (addr E) (td_creator m))) (\<lambda>_.
     bind_op (of_option ErrInvalidAddress (string_to_bytes (addr E) (td_new_owner m))) (\<lambda>_.
     bind_op (fetch_domain E (td_id m)) (\<lambda>d.
     then_op (require (dom_creator d = td_creator m) ErrUnauthorized)
    (then_op (map_err (\<lambda>_. ErrLogic) (domain_set E (td_id m)
        (d\<lparr>dom_creator := td_new_owner m, dom_owner := td_new_owner m\<rparr>)))
    (emit_op [new_event EventTypeTransferDomain
        [(AttributeKeyDomainID, show_u64 (td_id m)), (AttributeKeyDomainName, dom_name d),
         (AttributeKeyOldOwner, dom_owner d), (AttributeKeyNewOwner, td_new_owner m),
         (''old_creator'', dom_creator d), (''new_creator'', td_new_owner m),
         (AttributeKeyActor, td_creator m)]])))))"

section \<open>UpdateParams (msg\_update\_params.go)\<close>

text \<open>The error of the address codec is returned as it is; \<open>ErrExternal 0\<close> stands for it.\<close>

definition update_params :: "('b, 'd) env \<Rightarrow> msg_update_params \<Rightarrow> (('b, 'd) world, unit) op" where
  "update_params E req =
     bind_op (of_option (ErrExternal 0) (string_to_bytes (addr E) (up_authority req))) (\<lambda>authority.
     then_op (require (get_authority E = authority) ErrInvalidSigner)
    (then_op (check (validate_dns_params E (up_params req)))
    (dns_params_set E (up_params req))))"

section \<open>What a successful run did\<close>

lemma charge_creation_fee_InrE:
  assumes "charge_creation_fee E ca creator fee w = (Inr r, w')"
  shows "dns w' = dns w" "dao w' = dao w"
    and "if coins_is_zero (coin_lib E) fee then w' = w
         else \<exists>b. send_account_to_module (bank E) ca ModuleName fee (ledger w) = (Inr (), b)
            \<and> burn_coins (bank E) ModuleName fee b = (Inr (), ledger w')"
  using assms
  by (auto simp: charge_creation_fee_def op_success run_bank_def split: prod.splits if_splits)

lemma check_duplicate_name_Inr:
  "check_duplicate_name E n w = (Inr r, w') \<longleftrightarrow>
     w' = w \<and> fault E DomainNameGet \<in> {None, Some ErrNotFound} \<and> (fault E DomainNameGet = None \<longrightarrow> kv_get (domain_names (dns w)) n = None)"
  by (auto simp: check_duplicate_name_def op_success try_op_Inr name_get_def read_op_def read_kv_def
      split: option.splits sum.splits)

lemma check_ns_records_Inr [simp]:
  "check_ns_records rs w = (Inr r, w') \<longleftrightarrow> w' = w \<and> rs \<noteq> [] \<and> list_all ns_entry_ok rs"
  by (auto simp: check_ns_records_def op_success ns_records_error_eq split: if_splits)

lemma store_new_domain_Inr [simp]:
  "store_new_domain E d w = (Inr r, w') \<longleftrightarrow> fault E DomainSet = None \<and> fault E DomainNameSet = None
     \<and> w' = upd_dns (\<lambda>s. s\<lparr>domains := kv_set (dom_id d) d (domains s),
          domain_names := kv_set (dom_name d) (dom_id d) (domain_names s)\<rparr>) w"
  by (auto simp: store_new_domain_def op_success try_op_def domain_set_def name_set_def write_op_def
      update_op_def upd_dns_def fail_def split: option.splits sum.splits prod.splits)

lemma fetch_domain_Inr [simp]:
  "fetch_domain E i w = (Inr d, w') \<longleftrightarrow> w' = w \<and> fault E DomainGet = None \<and> kv_get (domains (dns w)) i = Some d"
  by (auto simp: fetch_domain_def domain_get_def read_kv_def split: option.splits)

lemma create_domain_success:
  assumes "create_domain E c m w = (Inr i, w')"
  defines "n \<equiv> normalize_name (unicode_lower E) (cd_name m)"
  shows "\<exists>l t. split_dots n = [l, t] \<and> t \<noteq> [] \<and> normalize_tld (unicode_lower E) t \<noteq> []
        \<and> kv_get (permitted_tlds (dns w)) (normalize_tld (unicode_lower E) t) \<noteq> None"
    and "fault E DomainNameGet = None \<Longrightarrow> kv_get (domain_names (dns w)) n = None"
    and "cd_ns_records m \<noteq> [] \<and> list_all ns_entry_ok (cd_ns_records m)"
    and "string_to_bytes (addr E) (cd_owner m) \<noteq> None \<and> string_to_bytes (addr E) (cd_creator m) \<noteq> None"
    and "i = domain_seq (dns w)"
    and "dns w' = (dns w)\<lparr>domain_seq := i + 1, domains := kv_set i (new_domain c m n i) (domains (dns w)),
           domain_names := kv_set n i (domain_names (dns w))\<rparr>"
    and "dao w' = dao w"
    and "\<exists>ca params. string_to_bytes (addr E) (cd_creator m) = Some ca \<and> dns_params_item (dns w) = Some params
         \<and> (if coins_is_zero (coin_lib E) (domain_creation_fee params) then ledger w' = ledger w
            else \<exists>b. send_account_to_module (bank E) ca ModuleName (domain_creation_fee params) (ledger w) = (Inr (), b)
              \<and> burn_coins (bank E) ModuleName (domain_creation_fee params) b = (Inr (), ledger w'))"
proof -
  obtain ca ob ps w1 where ca: "string_to_bytes (addr E) (cd_creator m) = Some ca"
    and ob: "string_to_bytes (addr E) (cd_owner m) = Some ob"
    and ps: "dns_params_item (dns w) = Some ps"
    and fee: "charge_creation_fee E ca (cd_creator m) (domain_creation_fee ps) w = (Inr (), w1)"
    and rest: "(case split_dots n of
       [_, extractedTLD] \<Rightarrow>
         then_op (require (extractedTLD \<noteq> []) ErrInvalidDomainName)
        (bind_op (is_tld_permitted E extractedTLD) (\<lambda>isPermitted.
         then_op (require isPermitted ErrTLDNotPermitted)
        (then_op (check_duplicate_name E n)
        (then_op (check_ns_records (cd_ns_records m))
        (bind_op (map_err (\<lambda>_. ErrInvalidRequest) (domain_seq_next E)) (\<lambda>nextID.
         then_op (store_new_domain E (new_domain c m n nextID))
        (then_op (emit_op [new_event EventTypeCreateDomain
            [(AttributeKeyDomainID, show_u64 nextID), (AttributeKeyDomainName, n),
             (AttributeKeyOwner, cd_owner m), (AttributeKeyCreator, cd_creator m)]])
        (ret nextID))))))))
     | _ \<Rightarrow> fail ErrInvalidDomainName) w1 = (Inr i, w')"
    using assms(1)
    by (auto simp: create_domain_def op_success dns_params_get_def Let_def simp flip: n_def dest!: read_item_InrD)
  note frame = charge_creation_fee_InrE [OF fee]
  obtain l t where lt: "split_dots n = [l, t]"
    using rest by (auto split: list.splits)
  have steps: "t \<noteq> [] \<and> normalize_tld (unicode_lower E) t \<noteq> [] \<and> kv_get (permitted_tlds (dns w)) (normalize_tld (unicode_lower E) t) \<noteq> None
     \<and> (fault E DomainNameGet = None \<longrightarrow> kv_get (domain_names (dns w)) n = None)
     \<and> cd_ns_records m \<noteq> [] \<and> list_all ns_entry_ok (cd_ns_records m) \<and> i = domain_seq (dns w)
     \<and> dns w' = (dns w)\<lparr>domain_seq := i + 1, domains := kv_set i (new_domain c m n i) (domains (dns w)),
           domain_names := kv_set n i (domain_names (dns w))\<rparr> \<and> dao w' = dao w \<and> ledger w' = ledger w1"
    using rest frame(1,2)
    by (auto simp: lt op_success is_tld_permitted_Inr Let_def check_duplicate_name_Inr new_domain_def)
  show "\<exists>l t. split_dots n = [l, t] \<and> t \<noteq> [] \<and> normalize_tld (unicode_lower E) t \<noteq> []
        \<and> kv_get (permitted_tlds (dns w)) (normalize_tld (unicode_lower E) t) \<noteq> None"
    using lt steps by blast
  show "\<exists>ca params. string_to_bytes (addr E) (cd_creator m) = Some ca \<and> dns_params_item (dns w) = Some params
         \<and> (if coins_is_zero (coin_lib E) (domain_creation_fee params) then ledger w' = ledger w
            else \<exists>b. send_account_to_module (bank E) ca ModuleName (domain_creation_fee params) (ledger w) = (Inr (), b)
              \<and> burn_coins (bank E) ModuleName (domain_creation_fee params) b = (Inr (), ledger w'))"
    using ca ps frame(3) steps by (auto split: if_splits)
  show "fault E DomainNameGet = None \<Longrightarrow> kv_get (domain_names (dns w)) n = None"
    and "cd_ns_records m \<noteq> [] \<and> list_all ns_entry_ok (cd_ns_records m)"
    and "string_to_bytes (addr E) (cd_owner m) \<noteq> None \<and> string_to_bytes (addr E) (cd_creator m) \<noteq> None"
    and "i = domain_seq (dns w)"
    and "dns w' = (dns w)\<lparr>domain_seq := i + 1, domains := kv_set i (new_domain c m n i) (domains (dns w)),
           domain_names := kv_set n i (domain_names (dns w))\<rparr>"
    and "dao w' = dao w"
    using steps ca ob by simp_all
qed

text \<open>An update changes the owner and the records of one domain and nothing else.\<close>

lemma updated_fields_Inr:
  assumes "updated_fields E m val w = (Inr (ow, ns, ch), w')"
  shows "w' = w" and "ow \<noteq> dom_owner val \<Longrightarrow> ud_creator m = dom_creator val \<and> ow = ud_owner m
           \<and> ow \<noteq> [] \<and> string_to_bytes (addr E) ow \<noteq> None"
    and "ns \<noteq> dom_ns_records val \<Longrightarrow> ns = ud_ns_records m"
    and "ns = dom_ns_records val \<or> ns \<noteq> [] \<and> list_all ns_entry_ok ns"
    and "ch \<longleftrightarrow> ow \<noteq> dom_owner val \<or> ud_ns_records m \<noteq> []"
    and "ud_ns_records m \<noteq> [] \<longrightarrow> ns = ud_ns_records m"
  using assms
  by (auto simp: updated_fields_def Let_def op_success ns_records_error_eq split: if_splits)

lemma update_domain_success:
  assumes "update_domain E c m w = (Inr r, w')"
  obtains d ow ns where "kv_get (domains (dns w)) (ud_id m) = Some d"
    and "ud_creator m = dom_creator d \<or> ud_creator m = dom_owner d"
    and "ow \<noteq> dom_owner d \<Longrightarrow> ud_creator m = dom_creator d \<and> ow = ud_owner m \<and> string_to_bytes (addr E) ow \<noteq> None"
    and "ns = dom_ns_records d \<or> ns = ud_ns_records m \<and> ns \<noteq> [] \<and> list_all ns_entry_ok ns"
    and "ow \<noteq> dom_owner d \<or> ud_ns_records m \<noteq> []"
    and "dns w' = (dns w)\<lparr>domains := kv_set (ud_id m)
          (d\<lparr>dom_id := ud_id m, dom_owner := ow, dom_ns_records := ns\<rparr>) (domains (dns w))\<rparr>"
    and "dao w' = dao w" "ledger w' = ledger w"
proof -
  obtain d x w1 where d: "kv_get (domains (dns w)) (ud_id m) = Some d"
    and auth: "ud_creator m = dom_creator d \<or> ud_creator m = dom_owner d"
    and f0: "updated_fields E m d w = (Inr x, w1)"
    and rest: "(case x of (newOwner, newNsRecords, changed) \<Rightarrow>
        then_op (require changed ErrInvalidRequest)
       (then_op (map_err (\<lambda>_. ErrLogic) (domain_set E (ud_id m)
          \<lparr>dom_id = ud_id m, dom_name = dom_name d, dom_owner = newOwner,
           dom_ns_records = newNsRecords, dom_creator = dom_creator d, dom_expiration = dom_expiration d\<rparr>))
       (emit_op [new_event EventTypeUpdateDomain
          [(AttributeKeyDomainID, show_u64 (ud_id m)), (AttributeKeyUpdater, ud_creator m)]]))) w1 = (Inr r, w')"
    using assms unfolding update_domain_def bind_op_Inr then_op_Inr of_option_Inr fetch_domain_Inr require_Inr
    by blast
  obtain ow ns ch where x: "x = (ow, ns, ch)" by (cases x)
  have w': "ch" "dns w' = (dns w1)\<lparr>domains := kv_set (ud_id m)
        \<lparr>dom_id = ud_id m, dom_name = dom_name d, dom_owner = ow,
         dom_ns_records = ns, dom_creator = dom_creator d, dom_expiration = dom_expiration d\<rparr> (domains (dns w1))\<rparr>"
      "dao w' = dao w1" "ledger w' = ledger w1"
    using rest by (auto simp: x then_op_Inr domain_set_def)
  have f: "updated_fields E m d w = (Inr (ow, ns, ch), w1)" using f0 by (simp only: x)
  note u = updated_fields_Inr [OF f]
  show ?thesis
  proof (rule that [OF d auth, of ow ns])
    show "ud_creator m = dom_creator d \<and> ow = ud_owner m \<and> string_to_bytes (addr E) ow \<noteq> None"
      if "ow \<noteq> dom_owner d" using u(2) [OF that] by blast
    show "ns = dom_ns_records d \<or> ns = ud_ns_records m \<and> ns \<noteq> [] \<and> list_all ns_entry_ok ns"
      using u(3,4) by blast
    show "ow \<noteq> dom_owner d \<or> ud_ns_records m \<noteq> []" using u(5) w'(1) by blast
    show "dns w' = (dns w)\<lparr>domains := kv_set (ud_id m)
          (d\<lparr>dom_id := ud_id m, dom_owner := ow, dom_ns_records := ns\<rparr>) (domains (dns w))\<rparr>"
      by (cases d) (simp add: w'(2) u(1))
  qed (simp_all add: w'(3,4) u(1))
qed

lemma delete_domain_success:
  assumes "delete_domain E c m w = (Inr r, w')"
  obtains d where "kv_get (domains (dns w)) (dd_id m) = Some d" and "dd_creator m = dom_owner d"
    and "dns w' = (dns w)\<lparr>domain_names := (if fault E DomainNameRemove = None
           then kv_remove (dom_name d) (domain_names (dns w)) else domain_names (dns w)),
         domains := kv_remove (dd_id m) (domains (dns w))\<rparr>"
    and "dao w' = dao w" "ledger w' = ledger w"
proof -
  obtain d r1 w1 where d: "kv_get (domains (dns w)) (dd_id m) = Some d" "dd_creator m = dom_owner d"
    and rm: "name_remove E (dom_name d) w = (r1, w1)"
    and w': "dns w' = (dns w1)\<lparr>domains := kv_remove (dd_id m) (domains (dns w1))\<rparr>"
      "dao w' = dao w1" "ledger w' = ledger w1"
    using assms by (auto simp: delete_domain_def op_success try_op_Inr domain_remove_def)
  show ?thesis
    by (rule that [OF d]; use rm w' in
      \<open>cases "fault E DomainNameRemove"; force simp: name_remove_def write_op_def update_op_def fail_def\<close>)
qed

lemma heartbeat_domain_success:
  assumes "heartbeat_domain E c m w = (Inr r, w')"
  obtains d where "kv_get (domains (dns w)) (hd_id m) = Some d"
    and "hd_creator m = dom_creator d \<or> hd_creator m = dom_owner d"
    and "dns w' = (dns w)\<lparr>domains := kv_set (hd_id m) (d\<lparr>dom_expiration := one_year_later c\<rparr>) (domains (dns w))\<rparr>"
    and "dao w' = dao w" "ledger w' = ledger w"
  using assms by (auto simp: heartbeat_domain_def op_success domain_set_def)

lemma transfer_domain_success:
  assumes "transfer_domain E c m w = (Inr r, w')"
  obtains d where "kv_get (domains (dns w)) (td_id m) = Some d" and "td_creator m = dom_creator d"
    and "string_to_bytes (addr E) (td_new_owner m) \<noteq> None"
    and "dns w' = (dns w)\<lparr>domains := kv_set (td_id m)
          (d\<lparr>dom_creator := td_new_owner m, dom_owner := td_new_owner m\<rparr>) (domains (dns w))\<rparr>"
    and "dao w' = dao w" "ledger w' = ledger w"
  using assms by (auto simp: transfer_domain_def op_success domain_set_def)

lemma update_params_Inr:
  "update_params E req w = (Inr r, w') \<longleftrightarrow>
     string_to_bytes (addr E) (up_authority req) = Some (dns_authority E)
   \<and> validate_dns_params E (up_params req) = None \<and> fault E DnsParamsSet = None
   \<and> w' = upd_dns (\<lambda>s. s\<lparr>dns_params_item := Some (up_params req)\<rparr>) w"
  by (auto simp: update_params_def op_success dns_params_set_def get_authority_def)

section \<open>The handlers keep the invariant\<close>

definition dns_inv :: "('b, 'd) env \<Rightarrow> ('b, 'd) world \<Rightarrow> bool" where
  "dns_inv E w \<longleftrightarrow> store_total E \<and> dns_ok E (dns w)"

text \<open>The sequence has not reached its last number.\<close>

definition ids_left :: "('b, 'd) world \<Rightarrow> bool" where
  "ids_left w \<longleftrightarrow> domain_seq (dns w) \<noteq> - 1"

lemma create_domain_inv [inv_intros]:
  assumes inv: "dns_inv E w" and left: "ids_left w" and run: "create_domain E c m w = (Inr i, w')"
  shows "dns_inv E w'"
proof -
  define n where "n = normalize_name (unicode_lower E) (cd_name m)"
  note s = create_domain_success [OF run, folded n_def]
  have E: "store_total E" and ok: "dns_ok E (dns w)" using inv by (auto simp: dns_inv_def)
  have name: "name_ok E (permitted_tlds (dns w)) n"
    using s(1) by (auto simp: name_ok_def)
  have "domain_ok E (permitted_tlds (dns w)) (new_domain c m n i)"
    using s(3,4) name by (simp add: domain_ok_def new_domain_def)
  then have "dns_ok E (dns w')"
    using dns_ok_insert [OF ok, of "new_domain c m n i"] s(2,5,6) left E
    by (simp add: new_domain_def ids_left_def)
  with E show ?thesis by (simp add: dns_inv_def)
qed

lemma update_domain_inv [inv_intros]:
  assumes "dns_inv E w" and "update_domain E c m w = (Inr r, w')"
  shows "dns_inv E w'"
  using assms(2)
proof (rule update_domain_success)
  fix d ow ns
  assume d: "kv_get (domains (dns w)) (ud_id m) = Some d"
    and ow: "ow \<noteq> dom_owner d \<Longrightarrow> ud_creator m = dom_creator d \<and> ow = ud_owner m \<and> string_to_bytes (addr E) ow \<noteq> None"
    and ns: "ns = dom_ns_records d \<or> ns = ud_ns_records m \<and> ns \<noteq> [] \<and> list_all ns_entry_ok ns"
    and w': "dns w' = (dns w)\<lparr>domains := kv_set (ud_id m)
          (d\<lparr>dom_id := ud_id m, dom_owner := ow, dom_ns_records := ns\<rparr>) (domains (dns w))\<rparr>"
  have ok: "dns_ok E (dns w)" and E: "store_total E" using assms(1) by (auto simp: dns_inv_def)
  note old = dns_okD(4) [OF ok d]
  have "domain_ok E (permitted_tlds (dns w)) (d\<lparr>dom_id := ud_id m, dom_owner := ow, dom_ns_records := ns\<rparr>)"
    using old ns ow by (cases "ow = dom_owner d") (auto simp: domain_ok_def)
  then have "dns_ok E (dns w')"
    unfolding w' using old by (intro dns_ok_overwrite [OF ok d]) auto
  with E show ?thesis by (simp add: dns_inv_def)
qed

lemma delete_domain_inv [inv_intros]:
  assumes "dns_inv E w" and "delete_domain E c m w = (Inr r, w')"
  shows "dns_inv E w'"
  using assms(2)
  by (rule delete_domain_success) (use assms(1) in \<open>auto simp: dns_inv_def intro: dns_ok_delete\<close>)

lemma heartbeat_domain_inv [inv_intros]:
  assumes "dns_inv E w" and "heartbeat_domain E c m w = (Inr r, w')"
  shows "dns_inv E w'"
  using assms(2)
proof (rule heartbeat_domain_success)
  fix d
  assume d: "kv_get (domains (dns w)) (hd_id m) = Some d"
    and w': "dns w' = (dns w)\<lparr>domains := kv_set (hd_id m) (d\<lparr>dom_expiration := one_year_later c\<rparr>) (domains (dns w))\<rparr>"
  have ok: "dns_ok E (dns w)" and E: "store_total E" using assms(1) by (auto simp: dns_inv_def)
  have "dns_ok E (dns w')"
    unfolding w' using dns_okD(4) [OF ok d] by (intro dns_ok_overwrite [OF ok d]) (auto simp: domain_ok_def)
  with E show ?thesis by (simp add: dns_inv_def)
qed

lemma transfer_domain_inv [inv_intros]:
  assumes "dns_inv E w" and "transfer_domain E c m w = (Inr r, w')"
  shows "dns_inv E w'"
  using assms(2)
proof (rule transfer_domain_success)
  fix d
  assume d: "kv_get (domains (dns w)) (td_id m) = Some d"
    and addr: "string_to_bytes (addr E) (td_new_owner m) \<noteq> None"
    and w': "dns w' = (dns w)\<lparr>domains := kv_set (td_id m)
          (d\<lparr>dom_creator := td_new_owner m, dom_owner := td_new_owner m\<rparr>) (domains (dns w))\<rparr>"
  have ok: "dns_ok E (dns w)" and E: "store_total E" using assms(1) by (auto simp: dns_inv_def)
  have "dns_ok E (dns w')"
    unfolding w' using dns_okD(4) [OF ok d] addr by (intro dns_ok_overwrite [OF ok d]) (auto simp: domain_ok_def)
  with E show ?thesis by (simp add: dns_inv_def)
qed

lemma dns_ok_params [simp]: "dns_ok E (s\<lparr>dns_params_item := p\<rparr>) = dns_ok E s"
  by (simp add: dns_ok_def)

lemma update_params_inv [inv_intros]:
  "dns_inv E w \<Longrightarrow> update_params E m w = (Inr r, w') \<Longrightarrow> dns_inv E w'"
  by (simp add: update_params_Inr dns_inv_def)

lemma add_permitted_tld_inv [inv_intros]:
  "dns_inv E w \<Longrightarrow> add_permitted_tld E t w = (Inr r, w') \<Longrightarrow> dns_inv E w'"
  by (auto simp: add_permitted_tld_Inr Let_def dns_inv_def intro: dns_ok_add_tld)

interpretation create: message_handler "dns_inv E" ids_left "create_domain E c" for E c
  by unfold_locales (rule create_domain_inv)

interpretation update: message_handler "dns_inv E" "\<lambda>_. True" "update_domain E c" for E c
  by unfold_locales (rule update_domain_inv)

interpretation delete: message_handler "dns_inv E" "\<lambda>_. True" "delete_domain E c" for E c
  by unfold_locales (rule delete_domain_inv)

interpretation heartbeat: message_handler "dns_inv E" "\<lambda>_. True" "heartbeat_domain E c" for E c
  by unfold_locales (rule heartbeat_domain_inv)

interpretation transfer: message_handler "dns_inv E" "\<lambda>_. True" "transfer_domain E c" for E c
  by unfold_locales (rule transfer_domain_inv)

interpretation params: message_handler "dns_inv E" "\<lambda>_. True" "update_params E" for E
  by unfold_locales (rule update_params_inv)

end
