(* ===== verification/Dns_Queries.thy ===== *)
theory Dns_Queries
  imports Dns_Msgs
begin

text \<open>
  The query server of \<^verbatim>\<open>x/dnsblockchain\<close> (\<^verbatim>\<open>query_domain.go\<close>, \<^verbatim>\<open>query_params.go\<close>,
  \<^verbatim>\<open>query_permitted_tlds.go\<close>). A request is an option, because the handlers check it for \<^verbatim>\<open>nil\<close>.
\<close>

section \<open>Handlers\<close>

definition query_get_domain :: "('b, 'd) env \<Rightarrow> u64 option \<Rightarrow> (('b, 'd) world, domain) op" where
  "query_get_domain E req = (case req of None \<Rightarrow> fail StatusInvalidArgument
     | Some i \<Rightarrow> map_err (\<lambda>e. if e = ErrNotFound then ErrKeyNotFound else StatusInternal) (domain_get E i))"

text \<open>
  \<^verbatim>\<open>query.CollectionPaginate\<close> belongs to the SDK: \<open>paginate\<close> maps the contents of the collection in
  key order and the page request (of type \<open>'p\<close>) to the page and the page response (of type \<open>'r\<close>).
\<close>

definition query_list_domain ::
  "('b, 'd) env \<Rightarrow> ((u64 \<times> domain) list \<Rightarrow> 'p option \<Rightarrow> (domain list \<times> 'r) res) \<Rightarrow> 'p option option \<Rightarrow>
    (('b, 'd) world, domain list \<times> 'r) op" where
  "query_list_domain E paginate req = (case req of None \<Rightarrow> fail StatusInvalidArgument
     | Some page \<Rightarrow> map_err (\<lambda>_. StatusInternal)
         (bind_op (read_op (\<lambda>w. walk_kv (fault E DomainWalk) (domains (dns w)))) (\<lambda>entries.
            lift_res (paginate entries page))))"

record name_response =
  qn_domain :: domain
  qn_found :: bool
  qn_expired :: bool

text \<open>The zero value of \<^verbatim>\<open>types.Domain\<close>.\<close>

definition zero_domain :: domain where
  "zero_domain = \<lparr>dom_id = 0, dom_name = [], dom_owner = [], dom_ns_records = [], dom_creator = [],
     dom_expiration = 0\<rparr>"

definition not_found_response :: name_response where
  "not_found_response = \<lparr>qn_domain = zero_domain, qn_found = False, qn_expired = False\<rparr>"

definition is_expired :: "ctx \<Rightarrow> domain \<Rightarrow> bool" where
  "is_expired c d = (dom_expiration d \<le> of_int (block_time c))"

definition query_domain_by_name :: "('b, 'd) env \<Rightarrow> ctx \<Rightarrow> string option \<Rightarrow> (('b, 'd) world, name_response) op" where
  "query_domain_by_name E c req = (case req of None \<Rightarrow> fail StatusInvalidArgument
     | Some name \<Rightarrow>
        then_op (require (name \<noteq> []) StatusInvalidArgument)
       (bind_op (try_op (name_get E (normalize_name (unicode_lower E) name))) (\<lambda>r. case r of
          Inl e \<Rightarrow> if e = ErrNotFound then ret not_found_response else fail StatusInternal
        | Inr domainID \<Rightarrow>
            bind_op (try_op (domain_get E domainID)) (\<lambda>r2. case r2 of
              Inl e \<Rightarrow> if e = ErrNotFound then ret not_found_response else fail StatusInternal
            | Inr d \<Rightarrow> ret \<lparr>qn_domain = d, qn_found = True, qn_expired = is_expired c d\<rparr>))))"

text \<open>A missing parameter item gives the zero value of \<^verbatim>\<open>types.Params\<close>.\<close>

definition query_dns_params :: "('b, 'd) env \<Rightarrow> unit option \<Rightarrow> (('b, 'd) world, dns_params) op" where
  "query_dns_params E req = (case req of None \<Rightarrow> fail StatusInvalidArgument
     | Some _ \<Rightarrow> bind_op (try_op (dns_params_get E)) (\<lambda>r. case r of
          Inl e \<Rightarrow> if e = ErrNotFound then ret \<lparr>domain_creation_fee = []\<rparr> else fail StatusInternal
        | Inr p \<Rightarrow> ret p))"

definition query_list_permitted_tlds :: "('b, 'd) env \<Rightarrow> unit option \<Rightarrow> (('b, 'd) world, string list) op" where
  "query_list_permitted_tlds E req = (case req of None \<Rightarrow> fail StatusInvalidArgument
     | Some _ \<Rightarrow> map_err (\<lambda>_. StatusInternal)
         (bind_op (read_op (\<lambda>w. walk_kv (fault E TldWalk) (permitted_tlds (dns w)))) (\<lambda>entries.
            ret (map fst entries))))"

lemmas query_defs = query_get_domain_def query_list_domain_def query_domain_by_name_def
  query_dns_params_def query_list_permitted_tlds_def

section \<open>Queries read only\<close>

lemma try_read_op: "try_op (read_op f) w = (Inr (f w), w)"
  by (simp add: try_op_def read_op_def)

lemma dns_queries_read_only:
  "snd (query_get_domain E i w) = w"
  "snd (query_list_domain E paginate p w) = w"
  "snd (query_domain_by_name E c n w) = w"
  "snd (query_dns_params E u w) = w"
  "snd (query_list_permitted_tlds E u w) = w"
  by (auto simp: query_defs op_defs name_get_def domain_get_def dns_params_get_def
      split: option.splits sum.splits if_splits)

section \<open>What the queries return\<close>

text \<open>On a running node the answer is a function of the store.\<close>

definition resolve :: "('b, 'd) env \<Rightarrow> ('b, 'd) world \<Rightarrow> string \<Rightarrow> domain option" where
  "resolve E w name = (case kv_get (domain_names (dns w)) (normalize_name (unicode_lower E) name) of
     None \<Rightarrow> None | Some i \<Rightarrow> kv_get (domains (dns w)) i)"

lemma query_domain_by_name_resolve:
  assumes "store_total E" and "name \<noteq> []"
  shows "query_domain_by_name E c (Some name) w =
    (Inr (case resolve E w name of None \<Rightarrow> not_found_response
       | Some d \<Rightarrow> \<lparr>qn_domain = d, qn_found = True, qn_expired = is_expired c d\<rparr>), w)"
  using assms
  by (simp add: query_domain_by_name_def name_get_def domain_get_def resolve_def bind_op_def then_op_def
      require_def ret_def try_read_op split: option.splits)

lemma resolve_iff:
  assumes "dns_inv E w"
  shows "resolve E w name = Some d \<longleftrightarrow>
    kv_get (domains (dns w)) (dom_id d) = Some d \<and> dom_name d = normalize_name (unicode_lower E) name"
proof -
  have ok: "dns_ok E (dns w)" using assms by (simp add: dns_inv_def)
  note index = dns_okD(5) [OF ok, of "normalize_name (unicode_lower E) name"]
  show ?thesis
  proof
    assume "resolve E w name = Some d"
    then obtain i where "kv_get (domain_names (dns w)) (normalize_name (unicode_lower E) name) = Some i"
      and d: "kv_get (domains (dns w)) i = Some d"
      by (auto simp: resolve_def split: option.splits)
    then have "dom_name d = normalize_name (unicode_lower E) name" using index by auto
    moreover have "dom_id d = i" using dns_okD(4) [OF ok d] by simp
    ultimately show "kv_get (domains (dns w)) (dom_id d) = Some d
        \<and> dom_name d = normalize_name (unicode_lower E) name" using d by simp
  next
    assume d: "kv_get (domains (dns w)) (dom_id d) = Some d
        \<and> dom_name d = normalize_name (unicode_lower E) name"
    then have "kv_get (domain_names (dns w)) (normalize_name (unicode_lower E) name) = Some (dom_id d)"
      using index by blast
    with d show "resolve E w name = Some d" by (simp add: resolve_def)
  qed
qed

lemma resolve_None_iff:
  assumes "dns_inv E w"
  shows "resolve E w name = None \<longleftrightarrow>
    (\<forall>i d. kv_get (domains (dns w)) i = Some d \<longrightarrow> dom_name d \<noteq> normalize_name (unicode_lower E) name)"
proof -
  have ok: "dns_ok E (dns w)" using assms by (simp add: dns_inv_def)
  have "resolve E w name = None \<longleftrightarrow> (\<forall>d. resolve E w name \<noteq> Some d)" by auto
  then show ?thesis
    using dns_okD(4) [OF ok] by (auto simp: resolve_iff [OF assms])
qed

end
