(* ===== verification/Dns_Genesis.thy ===== *)
theory Dns_Genesis
  imports Dns_Queries
begin

text \<open>
  Import and export of the genesis state of \<^verbatim>\<open>x/dnsblockchain\<close> (\<^verbatim>\<open>keeper/genesis.go\<close>), and the
  round trip: what is exported imports into the same store.
\<close>

section \<open>InitGenesis and ExportGenesis\<close>

definition init_genesis_domain :: "('b, 'd) env \<Rightarrow> domain \<Rightarrow> (('b, 'd) world, unit) op" where
  "init_genesis_domain E elem =
     then_op (domain_set E (dom_id elem) elem)
    (let normalizedName = normalize_name (unicode_lower E) (dom_name elem) in
     if normalizedName = [] \<and> dom_name elem \<noteq> [] then ret ()
     else when_op (normalizedName \<noteq> []) (name_set E normalizedName (dom_id elem)))"

definition init_genesis_tld :: "('b, 'd) env \<Rightarrow> string \<Rightarrow> (('b, 'd) world, unit) op" where
  "init_genesis_tld E elem =
     (let normalizedTLD = normalize_name (unicode_lower E) elem in
      when_op (normalizedTLD \<noteq> []) (tld_set E normalizedTLD))"

definition init_dns_genesis :: "('b, 'd) env \<Rightarrow> dns_genesis \<Rightarrow> (('b, 'd) world, unit) op" where
  "init_dns_genesis E gs =
     then_op (for_op (gs_domain_list gs) (init_genesis_domain E))
    (then_op (domain_seq_set E (gs_domain_count gs))
    (then_op (for_op (gs_permitted_tlds gs) (init_genesis_tld E))
    (dns_params_set E (gs_params gs))))"

definition export_dns_genesis :: "('b, 'd) env \<Rightarrow> (('b, 'd) world, dns_genesis) op" where
  "export_dns_genesis E =
     bind_op (dns_params_get E) (\<lambda>params.
     bind_op (read_op (\<lambda>w. walk_kv (fault E DomainWalk) (domains (dns w)))) (\<lambda>ds.
     bind_op (read_op (\<lambda>w. case fault E DomainSeqPeek of Some e \<Rightarrow> Inl e | None \<Rightarrow> Inr (domain_seq (dns w)))) (\<lambda>n.
     bind_op (read_op (\<lambda>w. walk_kv (fault E TldWalk) (permitted_tlds (dns w)))) (\<lambda>ts.
     ret ((default_dns_genesis E)\<lparr>gs_params := params,
            gs_domain_list := gs_domain_list (default_dns_genesis E) @ map snd ds, gs_domain_count := n,
            gs_permitted_tlds := gs_permitted_tlds (default_dns_genesis E) @ map fst ts\<rparr>)))))"

lemma export_dns_genesis_eq:
  assumes "store_total E" "dns_params_item (dns w) = Some p"
  shows "export_dns_genesis E w = (Inr \<lparr>gs_params = p, gs_domain_list = map snd (kv_walk (domains (dns w))),
     gs_domain_count = domain_seq (dns w), gs_permitted_tlds = map fst (kv_walk (permitted_tlds (dns w)))\<rparr>, w)"
  using assms by (simp add: export_dns_genesis_def dns_params_get_def bind_op_def read_op_def ret_def
      default_dns_genesis_def)

section \<open>The store that an import builds\<close>

definition import_domain :: "('b, 'd) env \<Rightarrow> dns_store \<Rightarrow> domain \<Rightarrow> dns_store" where
  "import_domain E s d = s\<lparr>domains := kv_set (dom_id d) d (domains s),
     domain_names := (let n = normalize_name (unicode_lower E) (dom_name d) in
       if n = [] then domain_names s else kv_set n (dom_id d) (domain_names s))\<rparr>"

definition import_tld :: "('b, 'd) env \<Rightarrow> dns_store \<Rightarrow> string \<Rightarrow> dns_store" where
  "import_tld E s t = s\<lparr>permitted_tlds := (let n = normalize_name (unicode_lower E) t in
     if n = [] then permitted_tlds s else kv_set n () (permitted_tlds s))\<rparr>"

definition import_genesis :: "('b, 'd) env \<Rightarrow> dns_genesis \<Rightarrow> dns_store \<Rightarrow> dns_store" where
  "import_genesis E gs s = (foldl (import_tld E)
     ((foldl (import_domain E) s (gs_domain_list gs))\<lparr>domain_seq := gs_domain_count gs\<rparr>)
     (gs_permitted_tlds gs))\<lparr>dns_params_item := Some (gs_params gs)\<rparr>"

lemma upd_dns_upd_dns: "upd_dns f (upd_dns g w) = upd_dns (\<lambda>s. f (g s)) w"
  by (simp add: upd_dns_def)

lemma for_op_dns:
  assumes "\<And>x w. f x w = (Inr (), upd_dns (\<lambda>s. g s x) w)"
  shows "for_op xs f w = (Inr (), upd_dns (\<lambda>s. foldl g s xs) w)"
proof (induction xs arbitrary: w)
  case Nil
  then show ?case by (simp add: ret_def upd_dns_def)
next
  case (Cons x xs)
  then show ?case by (simp add: then_op_def bind_op_def assms upd_dns_upd_dns)
qed

lemma init_genesis_domain_eq:
  assumes "store_total E"
  shows "init_genesis_domain E d w = (Inr (), upd_dns (\<lambda>s. import_domain E s d) w)"
  using assms by (auto simp: init_genesis_domain_def import_domain_def then_op_def bind_op_def domain_set_def
      write_op_def update_op_def name_set_def when_op_def ret_def Let_def upd_dns_def)

lemma init_genesis_tld_eq:
  assumes "store_total E"
  shows "init_genesis_tld E t w = (Inr (), upd_dns (\<lambda>s. import_tld E s t) w)"
  using assms by (auto simp: init_genesis_tld_def import_tld_def tld_set_def
      write_op_def update_op_def when_op_def ret_def Let_def upd_dns_def)

lemma init_dns_genesis_eq:
  assumes "store_total E"
  shows "init_dns_genesis E gs w = (Inr (), upd_dns (import_genesis E gs) w)"
proof -
  have "init_dns_genesis E gs w = (Inr (), upd_dns (\<lambda>s. import_genesis E gs s) w)"
    using assms
    by (simp add: init_dns_genesis_def then_op_def bind_op_def domain_seq_set_def dns_params_set_def
        write_op_def update_op_def upd_dns_upd_dns import_genesis_def
        for_op_dns [where g = "import_domain E", OF init_genesis_domain_eq [OF assms]]
        for_op_dns [where g = "import_tld E", OF init_genesis_tld_eq [OF assms]])
  then show ?thesis by simp
qed

text \<open>The fields of the imported store, one loop at a time.\<close>

lemma import_domains_frame [simp]:
  "permitted_tlds (foldl (import_domain E) s ds) = permitted_tlds s"
  "dns_params_item (foldl (import_domain E) s ds) = dns_params_item s"
  by (induction ds arbitrary: s) (auto simp: import_domain_def)

lemma import_tlds_frame [simp]:
  "domains (foldl (import_tld E) s ts) = domains s"
  "domain_names (foldl (import_tld E) s ts) = domain_names s"
  "domain_seq (foldl (import_tld E) s ts) = domain_seq s"
  by (induction ts arbitrary: s) (auto simp: import_tld_def)

lemma import_domains_ok:
  assumes "kv_ok (domains s)" "kv_ok (domain_names s)"
  shows "kv_ok (domains (foldl (import_domain E) s ds)) \<and> kv_ok (domain_names (foldl (import_domain E) s ds))"
  using assms by (induction ds arbitrary: s) (auto simp: import_domain_def Let_def)

lemma import_tlds_ok:
  assumes "kv_ok (permitted_tlds s)"
  shows "kv_ok (permitted_tlds (foldl (import_tld E) s ts))"
  using assms by (induction ts arbitrary: s) (auto simp: import_tld_def Let_def)

lemma import_domains_get:
  assumes "distinct (map dom_id ds)"
  shows "kv_get (domains (foldl (import_domain E) s ds)) i =
    (case find (\<lambda>d. dom_id d = i) ds of Some d \<Rightarrow> Some d | None \<Rightarrow> kv_get (domains s) i)"
  using assms
proof (induction ds arbitrary: s)
  case (Cons d ds)
  have "find (\<lambda>e. dom_id e = dom_id d) ds = None"
    using Cons.prems by (intro find_fresh) simp
  with Cons show ?case by (auto simp: import_domain_def split: option.splits)
qed simp

lemma import_names_get:
  fixes E :: "('b, 'd) env"
  defines "nm \<equiv> \<lambda>d. normalize_name (unicode_lower E) (dom_name d)"
  assumes "distinct (map nm ds)" and "\<And>d. d \<in> set ds \<Longrightarrow> nm d \<noteq> []"
  shows "kv_get (domain_names (foldl (import_domain E) s ds)) n =
    (case find (\<lambda>d. nm d = n) ds of Some d \<Rightarrow> Some (dom_id d) | None \<Rightarrow> kv_get (domain_names s) n)"
  using assms(2,3)
proof (induction ds arbitrary: s)
  case (Cons d ds)
  have "find (\<lambda>e. nm e = nm d) ds = None"
    using Cons.prems by (intro find_fresh) simp
  moreover have "domain_names (import_domain E s d) = kv_set (nm d) (dom_id d) (domain_names s)"
    using Cons.prems(2) [of d] by (simp add: import_domain_def nm_def)
  ultimately show ?case using Cons by (auto split: option.splits)
qed simp

lemma import_tlds_get:
  "kv_get (permitted_tlds (foldl (import_tld E) s ts)) t =
    (if t \<noteq> [] \<and> t \<in> normalize_name (unicode_lower E) ` set ts then Some () else kv_get (permitted_tlds s) t)"
  by (induction ts arbitrary: s) (auto simp: import_tld_def Let_def)

section \<open>Round trip\<close>

text \<open>The names and TLDs of the store are in the normal form that the import brings them to.\<close>

definition names_normal :: "('b, 'd) env \<Rightarrow> dns_store \<Rightarrow> bool" where
  "names_normal E s \<longleftrightarrow>
     (\<forall>i d. kv_get (domains s) i = Some d \<longrightarrow> normalize_name (unicode_lower E) (dom_name d) = dom_name d)
   \<and> (\<forall>t. kv_get (permitted_tlds s) t \<noteq> None \<longrightarrow> t \<noteq> [] \<and> normalize_name (unicode_lower E) t = t)"

definition exported :: "dns_store \<Rightarrow> dns_params \<Rightarrow> dns_genesis" where
  "exported s p = \<lparr>gs_params = p, gs_domain_list = map snd (kv_walk (domains s)),
     gs_domain_count = domain_seq s, gs_permitted_tlds = map fst (kv_walk (permitted_tlds s))\<rparr>"

lemma exported_domains:
  assumes "dns_ok E s"
  shows "d \<in> set (map snd (kv_walk (domains s))) \<longleftrightarrow> kv_get (domains s) (dom_id d) = Some d"
    and "distinct (map dom_id (map snd (kv_walk (domains s))))"
proof -
  note ok = dns_okD [OF assms]
  have mem: "(i, e) \<in> set (kv_walk (domains s)) \<longleftrightarrow> kv_get (domains s) i = Some e" for i e
    using ok(1) by (rule kv_walk_get)
  have "snd x \<in> set (map snd (kv_walk (domains s))) \<Longrightarrow> x \<in> set (kv_walk (domains s)) \<Longrightarrow> dom_id (snd x) = fst x" for x
    using ok(4) by (cases x) (auto simp: mem)
  then have ids: "map dom_id (map snd (kv_walk (domains s))) = map fst (kv_walk (domains s))"
    by simp
  show "distinct (map dom_id (map snd (kv_walk (domains s))))"
    unfolding ids using ok(1) by (rule kv.walk_distinct)
  show "d \<in> set (map snd (kv_walk (domains s))) \<longleftrightarrow> kv_get (domains s) (dom_id d) = Some d"
  proof
    assume "d \<in> set (map snd (kv_walk (domains s)))"
    then obtain i where "(i, d) \<in> set (kv_walk (domains s))" by auto
    then have "kv_get (domains s) i = Some d" by (simp add: mem)
    with ok(4) [of i d] show "kv_get (domains s) (dom_id d) = Some d" by simp
  next
    assume "kv_get (domains s) (dom_id d) = Some d"
    then have "(dom_id d, d) \<in> set (kv_walk (domains s))" by (simp add: mem)
    then show "d \<in> set (map snd (kv_walk (domains s)))" by force
  qed
qed

lemma find_exported:
  assumes "dns_ok E s"
  shows "find (\<lambda>d. dom_id d = i) (map snd (kv_walk (domains s))) = kv_get (domains s) i"
proof (cases "find (\<lambda>d. dom_id d = i) (map snd (kv_walk (domains s)))")
  case None
  then have "kv_get (domains s) i \<noteq> Some d" for d
    using exported_domains(1) [OF assms, of d] dns_okD(4) [OF assms, of i d] by (auto simp: find_None_iff)
  with None show ?thesis by (metis not_None_eq)
next
  case (Some d)
  then have "d \<in> set (map snd (kv_walk (domains s)))" "dom_id d = i"
    by (auto simp: find_Some_iff)
  with Some show ?thesis using exported_domains(1) [OF assms] by simp
qed

lemma name_ok_nonempty: "name_ok E tlds n \<Longrightarrow> n \<noteq> []"
  by (auto simp: name_ok_def split: list.splits)

lemma names_exported:
  assumes "dns_ok E s" "names_normal E s"
  defines "ds \<equiv> map snd (kv_walk (domains s))"
  shows "d \<in> set ds \<Longrightarrow> normalize_name (unicode_lower E) (dom_name d) = dom_name d \<and> dom_name d \<noteq> []"
    and "distinct (map (\<lambda>d. normalize_name (unicode_lower E) (dom_name d)) ds)"
proof -
  show norm: "normalize_name (unicode_lower E) (dom_name d) = dom_name d \<and> dom_name d \<noteq> []" if "d \<in> set ds" for d
  proof -
    have g: "kv_get (domains s) (dom_id d) = Some d"
      using that exported_domains(1) [OF assms(1)] by (simp add: ds_def)
    then show ?thesis
      using assms(2) dns_okD(4) [OF assms(1) g] name_ok_nonempty by (auto simp: names_normal_def domain_ok_def)
  qed
  have "inj_on (\<lambda>d. normalize_name (unicode_lower E) (dom_name d)) (set ds)"
  proof (rule inj_onI)
    fix d e
    assume "d \<in> set ds" "e \<in> set ds"
      and "normalize_name (unicode_lower E) (dom_name d) = normalize_name (unicode_lower E) (dom_name e)"
    then have "dom_name d = dom_name e" "kv_get (domains s) (dom_id d) = Some d"
      "kv_get (domains s) (dom_id e) = Some e"
      using norm exported_domains(1) [OF assms(1)] by (auto simp: ds_def)
    then show "d = e" using dns_ok_index_inj [OF assms(1)] by (metis option.inject)
  qed
  moreover have "distinct ds"
    using exported_domains(2) [OF assms(1)] by (simp add: ds_def distinct_map del: map_map)
  ultimately show "distinct (map (\<lambda>d. normalize_name (unicode_lower E) (dom_name d)) ds)"
    by (simp add: distinct_map)
qed

lemma import_exported_domain_names:
  assumes "dns_ok E s" "names_normal E s"
  shows "kv_get (domain_names (foldl (import_domain E) empty_dns_store (map snd (kv_walk (domains s))))) n
    = kv_get (domain_names s) n"
proof -
  define ds where "ds = map snd (kv_walk (domains s))"
  note nm = names_exported [OF assms, folded ds_def]
  let ?f = "find (\<lambda>d. normalize_name (unicode_lower E) (dom_name d) = n) ds"
  have "kv_get (domain_names (foldl (import_domain E) empty_dns_store ds)) n =
      (case ?f of Some d \<Rightarrow> Some (dom_id d) | None \<Rightarrow> None)"
    using nm by (subst import_names_get) (auto simp: empty_dns_store_def split: option.splits)
  also have "\<dots> = kv_get (domain_names s) n"
  proof (cases ?f)
    case None
    have "kv_get (domain_names s) n \<noteq> Some i" for i
    proof
      assume "kv_get (domain_names s) n = Some i"
      then obtain d where "kv_get (domains s) i = Some d" "dom_name d = n"
        using dns_okD(5) [OF assms(1)] by blast
      then have "d \<in> set ds" "dom_name d = n"
        using exported_domains(1) [OF assms(1), of d] dns_okD(4) [OF assms(1), of i d] by (auto simp: ds_def)
      with None nm(1) show False by (auto simp: find_None_iff)
    qed
    then have "kv_get (domain_names s) n = None" by (metis not_None_eq)
    then show ?thesis by (simp only: None option.case)
  next
    case (Some d)
    then have d: "d \<in> set ds" "normalize_name (unicode_lower E) (dom_name d) = n" by (auto simp: find_Some_iff)
    then have "dom_name d = n" "kv_get (domains s) (dom_id d) = Some d"
      using nm(1) [of d] exported_domains(1) [OF assms(1), of d] by (auto simp: ds_def)
    then have "kv_get (domain_names s) n = Some (dom_id d)"
      using dns_okD(5) [OF assms(1)] by blast
    then show ?thesis by (simp only: Some option.case)
  qed
  finally show ?thesis by (simp add: ds_def)
qed

lemma import_exported_tlds:
  assumes "dns_ok E s" "names_normal E s"
  shows "kv_get (permitted_tlds (foldl (import_tld E) s0 (map fst (kv_walk (permitted_tlds s))))) t
    = (if kv_get (permitted_tlds s) t \<noteq> None then Some () else kv_get (permitted_tlds s0) t)"
proof -
  have mem: "u \<in> set (map fst (kv_walk (permitted_tlds s))) \<longleftrightarrow> kv_get (permitted_tlds s) u \<noteq> None" for u
    using kv_get_walk_dom [of "permitted_tlds s" u] by simp
  have norm: "u \<noteq> [] \<and> normalize_name (unicode_lower E) u = u"
    if "u \<in> set (map fst (kv_walk (permitted_tlds s)))" for u
    using that assms(2) unfolding mem names_normal_def by blast
  have "normalize_name (unicode_lower E) ` set (map fst (kv_walk (permitted_tlds s)))
      = set (map fst (kv_walk (permitted_tlds s)))"
    using norm by (intro image_fixed) blast
  then show ?thesis
    using norm mem by (simp only: import_tlds_get) (metis (no_types))
qed

lemma import_exported:
  assumes ok: "dns_ok E s" and norm: "names_normal E s" and p: "dns_params_item s = Some p"
  shows "import_genesis E (exported s p) empty_dns_store = s"
proof -
  define ds where "ds = map snd (kv_walk (domains s))"
  define ts where "ts = map fst (kv_walk (permitted_tlds s))"
  define s1 where "s1 = foldl (import_domain E) empty_dns_store ds"
  define s2 where "s2 = foldl (import_tld E) (s1\<lparr>domain_seq := domain_seq s\<rparr>) ts"
  have k1: "kv_ok (domains s1)" "kv_ok (domain_names s1)"
    using import_domains_ok [of empty_dns_store E ds] by (auto simp: s1_def empty_dns_store_def)
  have k2: "kv_ok (permitted_tlds s2)"
    unfolding s2_def by (rule import_tlds_ok) (simp add: s1_def empty_dns_store_def)
  have "kv_get (domains s1) i = kv_get (domains s) i" for i
    using exported_domains(2) [OF ok] find_exported [OF ok, of i]
    by (simp add: s1_def ds_def import_domains_get empty_dns_store_def split: option.splits)
  then have d: "domains s1 = domains s" by (rule kv_ext [OF k1(1) dns_okD(1) [OF ok]])
  have n: "domain_names s1 = domain_names s"
    using import_exported_domain_names [OF ok norm]
    by (intro kv_ext [OF k1(2) dns_okD(2) [OF ok]]) (simp add: s1_def ds_def)
  have "kv_get (permitted_tlds s2) t = kv_get (permitted_tlds s) t" for t
    by (cases "kv_get (permitted_tlds s) t")
      (simp_all add: s2_def ts_def import_exported_tlds [OF ok norm] s1_def empty_dns_store_def)
  then have t: "permitted_tlds s2 = permitted_tlds s" by (rule kv_ext [OF k2 dns_okD(3) [OF ok]])
  have "import_genesis E (exported s p) empty_dns_store = s2\<lparr>dns_params_item := Some p\<rparr>"
    by (simp add: import_genesis_def exported_def s2_def s1_def ds_def ts_def)
  also have "\<dots> = s"
    using d n t p by (simp add: s2_def)
  finally show ?thesis .
qed

end
