(* ===== verification/Example_Env.thy ===== *)
theory Example_Env
  imports Environment Net_IP
begin

text \<open>
  A concrete instance of the dependencies, on which the theorems with hypotheses are shown to
  apply: addresses are their own bytes, decimals are integers in units of their last place, the
  ledger maps an account and a denomination to an amount.
\<close>

section \<open>Addresses and coins\<close>

definition ex_bytes :: "string \<Rightarrow> bytes" where
  "ex_bytes s = map of_char s"

definition ex_string :: "bytes \<Rightarrow> string" where
  "ex_string b = map (\<lambda>x. char_of (unat x)) b"

lemma ex_string_bytes [simp]: "ex_string (ex_bytes s) = s"
proof -
  have "char_of (unat (of_char c :: u8)) = c" for c :: char
  proof -
    have "(of_char c :: u8) = of_nat (of_char c)" by (simp add: of_nat_of_char)
    moreover have "(of_char c :: nat) < 256" by simp
    ultimately show ?thesis by (simp add: unat_of_nat)
  qed
  then show ?thesis by (simp add: ex_string_def ex_bytes_def comp_def)
qed

definition ex_addr :: addr_ops where
  "ex_addr = \<lparr>string_to_bytes = (\<lambda>s. if s = [] then None else Some (ex_bytes s)),
     bytes_to_string = (\<lambda>b. if b = [] then None else Some (ex_string b)),
     acc_from_bech32 = (\<lambda>s. if s = [] then None else Some (ex_bytes s))\<rparr>"

definition ex_int_string :: "int \<Rightarrow> string" where
  "ex_int_string n = (if n < 0 then CHR ''-'' # show_nat (nat (- n)) else show_nat (nat n))"

definition ex_coin_lib :: coin_ops where
  "ex_coin_lib = \<lparr>new_coins = filter (\<lambda>x. coin_amount x \<noteq> 0),
     coins_is_zero = list_all (\<lambda>x. coin_amount x = 0),
     coins_validate = (\<lambda>cs. if list_all (\<lambda>x. 0 < coin_amount x \<and> coin_denom x \<noteq> []) cs
        \<and> sorted_wrt (<) (map coin_denom cs) then None else Some ErrInvalidCoins),
     coins_all_positive = (\<lambda>cs. cs \<noteq> [] \<and> list_all (\<lambda>x. 0 < coin_amount x) cs),
     coins_any_negative = list_ex (\<lambda>x. coin_amount x < 0),
     coins_string = concat \<circ> map (\<lambda>x. ex_int_string (coin_amount x) @ coin_denom x @ '','' ),
     coin_validate = (\<lambda>x. if 0 \<le> coin_amount x \<and> coin_denom x \<noteq> [] then None else Some ErrInvalidCoins),
     coin_is_zero = (\<lambda>x. coin_amount x = 0),
     denom_validate = (\<lambda>s. if s = [] then Some ErrInvalidCoins else None)\<rparr>"

section \<open>Decimals\<close>

definition ex_dec_read :: "string \<Rightarrow> int" where
  "ex_dec_read s = (case split_dots s of
     [n, f] \<Rightarrow> int (read_digits n) * dec_unit + int (read_digits f) * 10 ^ (18 - length f)
   | _ \<Rightarrow> (case s of [] \<Rightarrow> 0
        | c # r \<Rightarrow> if c = CHR ''-'' then - int (read_digits r) * dec_unit else int (read_digits s) * dec_unit))"

definition ex_dec :: "int dec_ops" where
  "ex_dec = \<lparr>dec_one = dec_unit, dec_new = (\<lambda>n. n * dec_unit), dec_from_int = (\<lambda>n. n * dec_unit),
     dec_from_str = (\<lambda>s. Inr (ex_dec_read s)), dec_must_from_str = ex_dec_read,
     dec_sub = (\<lambda>a b. a - b), dec_mul = (\<lambda>a b. a * b div dec_unit), dec_quo = (\<lambda>a b. a * dec_unit div b),
     dec_quo_int64 = (\<lambda>a i. a div i), dec_truncate = (\<lambda>a. a div dec_unit), dec_is_nil = (\<lambda>a. False),
     dec_is_zero = (\<lambda>a. a = 0), dec_is_negative = (\<lambda>a. a < 0), dec_is_positive = (\<lambda>a. 0 < a),
     dec_gte = (\<lambda>a b. b \<le> a), dec_gt = (\<lambda>a b. b < a), int_string = ex_int_string\<rparr>"

lemma show_nat_chars: "c \<in> set (show_nat n) \<Longrightarrow> 48 \<le> (of_char c :: nat) \<and> (of_char c :: nat) \<le> 57"
proof (induction n rule: show_nat.induct)
  case (1 n)
  have digits: "set (show_nat n) =
      (if n < 10 then {char_of (48 + n)} else insert (char_of (48 + n mod 10)) (set (show_nat (n div 10))))"
    by (subst show_nat.simps) simp
  have "n mod 10 < 10" by simp
  with 1 show ?case
    unfolding digits by (cases "n < 10") (auto simp: of_char_of)
qed

lemma show_nat_no_char: "(of_char c :: nat) < 48 \<Longrightarrow> c \<notin> set (show_nat n)"
  using show_nat_chars by fastforce

lemma ex_dec_read_int_string: "ex_dec_read (ex_int_string n) = n * dec_unit"
proof -
  have nodot: "CHR ''.'' \<notin> set (ex_int_string n)"
    using show_nat_no_char [of "CHR ''.''"] by (simp add: ex_int_string_def)
  then have split: "split_dots (ex_int_string n) = [ex_int_string n]" by (rule split_dots_no_dot)
  obtain c r where cr: "show_nat (nat n) = c # r" using show_nat_nonempty by (cases "show_nat (nat n)") auto
  then have "c \<noteq> CHR ''-''" using show_nat_no_char [of "CHR ''-''" "nat n"] by auto
  moreover have "int (read_digits (c # r)) = int (nat n)" using read_show_nat [of "nat n"] cr by simp
  ultimately show ?thesis
    unfolding ex_dec_read_def split by (auto simp: ex_int_string_def cr read_show_nat)
qed

lemma div_close: "0 < k \<Longrightarrow> \<bar>a div k * k - a\<bar> < k" for a k :: int
  using pos_mod_bound [of k a] pos_mod_sign [of k a] minus_mod_eq_div_mult [of a k] by linarith

lemma ex_dec_laws: "dec_laws ex_dec (\<lambda>x. x)"
  unfolding dec_laws_def
  by (auto simp: ex_dec_def ex_dec_read_int_string intro: div_close zdiv_mono1)

section \<open>The ledger\<close>

type_synonym ex_ledger = "(string \<times> string, int) kv"

definition ex_balance :: "string \<Rightarrow> string \<Rightarrow> ex_ledger \<Rightarrow> int" where
  "ex_balance a denom b = (case kv_get b (a, denom) of None \<Rightarrow> 0 | Some n \<Rightarrow> n)"

definition ex_account :: "bytes \<Rightarrow> string" where "ex_account a = ''account/'' @ ex_string a"
definition ex_module :: "string \<Rightarrow> string" where "ex_module m = ''module/'' @ m"

fun ex_credit :: "string \<Rightarrow> coins \<Rightarrow> ex_ledger \<Rightarrow> ex_ledger" where
  "ex_credit a [] b = b"
| "ex_credit a (x # cs) b =
     ex_credit a cs (kv_set (a, coin_denom x) (ex_balance a (coin_denom x) b + coin_amount x) b)"

fun ex_debit :: "string \<Rightarrow> coins \<Rightarrow> ex_ledger \<Rightarrow> ex_ledger option" where
  "ex_debit a [] b = Some b"
| "ex_debit a (x # cs) b =
     (if ex_balance a (coin_denom x) b < coin_amount x then None
      else ex_debit a cs (kv_set (a, coin_denom x) (ex_balance a (coin_denom x) b - coin_amount x) b))"

definition ex_move :: "string \<Rightarrow> string \<Rightarrow> coins \<Rightarrow> ex_ledger \<Rightarrow> unit res \<times> ex_ledger" where
  "ex_move a a' cs b = (case ex_debit a cs b of None \<Rightarrow> (Inl (ErrExternal 5), b)
     | Some b' \<Rightarrow> (Inr (), ex_credit a' cs b'))"

definition ex_bank :: "ex_ledger bank_ops" where
  "ex_bank = \<lparr>send_account_to_module = (\<lambda>a m. ex_move (ex_account a) (ex_module m)),
     send_module_to_account = (\<lambda>m a. ex_move (ex_module m) (ex_account a)),
     mint_coins = (\<lambda>m cs b. (Inr (), ex_credit (ex_module m) cs b)),
     burn_coins = (\<lambda>m cs b. case ex_debit (ex_module m) cs b of None \<Rightarrow> (Inl (ErrExternal 5), b)
        | Some b' \<Rightarrow> (Inr (), b')),
     get_balance = (\<lambda>a. ex_balance (ex_account a)),
     get_supply = (\<lambda>denom b. sum_list (map snd (filter (\<lambda>x. snd (fst x) = denom) (kv_walk b))))\<rparr>"

section \<open>The codec and the environment\<close>

text \<open>Proposal contents that are encoded by the characters of one of their fields.\<close>

definition ex_unpack :: "any option \<Rightarrow> proposal_content option res" where
  "ex_unpack x = (case x of None \<Rightarrow> Inr None
     | Some y \<Rightarrow>
        if type_url y = ''/dnsblockchain.dao.v1.AddTldProposalContent'' then
          Inr (Some (AddTld \<lparr>at_tld = ex_string (any_value y), at_description = []\<rparr>))
        else if type_url y = ''/dnsblockchain.dao.v1.RequestTokensProposalContent'' then
          Inr (Some (RequestTokens \<lparr>rt_recipient = ex_string (any_value y),
            rt_amount = [\<lparr>coin_denom = ''udns'', coin_amount = 1000\<rparr>], rt_activity = ''work''\<rparr>))
        else Inl (ErrExternal 2))"

definition ex_marshal :: "proposal_content option \<Rightarrow> bytes" where
  "ex_marshal x = (case x of None \<Rightarrow> [] | Some (AddTld a) \<Rightarrow> 1 # ex_bytes (at_tld a)
     | Some (RequestTokens r) \<Rightarrow> 2 # ex_bytes (rt_recipient r))"

definition ex_env :: "(ex_ledger, int) env" where
  "ex_env = \<lparr>addr = ex_addr, coin_lib = ex_coin_lib, dec = ex_dec, bank = ex_bank,
     codec = \<lparr>unpack_any = ex_unpack, marshal_content = ex_marshal\<rparr>,
     unicode_lower = (\<lambda>s. s),
     enum_name = (\<lambda>names n. case map_of names n of None \<Rightarrow> show_nat (unat n) | Some s \<Rightarrow> s),
     fault = (\<lambda>_. None), not_found_bare = False, dns_authority = ex_bytes ''gov''\<rparr>"

lemma ex_env_total [simp]: "store_total ex_env"
  by (simp add: store_total_def ex_env_def)

lemmas ex_env_defs = ex_env_def ex_addr_def ex_coin_lib_def ex_dec_def ex_bank_def

section \<open>A state\<close>

definition ex_coins :: "int \<Rightarrow> coins" where
  "ex_coins n = [\<lparr>coin_denom = ''udns'', coin_amount = n\<rparr>]"

definition ex_dns :: dns_store where
  "ex_dns = \<lparr>dns_params_item = Some \<lparr>domain_creation_fee = ex_coins 20\<rparr>, domain_seq = 0,
     domains = [], domain_names = [], permitted_tlds = [(''web3'', ())]\<rparr>"

definition ex_dao_params :: "int dao_params" where
  "ex_dao_params = \<lparr>voting_period_blocks = 10, proposal_submission_deposit = ex_coins 10,
     quorum_percent = 334 * 10 ^ 15, min_yes_threshold_percent = 500 * 10 ^ 15,
     voting_token_denom = ''udns'', voting_power_decay_blocks = 100,
     validator_reward_amount = \<lparr>coin_denom = ''udns'', coin_amount = 0\<rparr>,
     add_tld_proposal_cost = ex_coins 5\<rparr>"

definition ex_dao :: "int dao_store" where
  "ex_dao = \<lparr>dao_params_item = Some ex_dao_params, proposal_seq = 0, proposals = [], votes = [],
     active_queue = [], power_lots = []\<rparr>"

definition ex_world :: "(ex_ledger, int) world" where
  "ex_world = \<lparr>dns = ex_dns, dao = ex_dao,
     ledger = [((''account/alice'', ''udns''), 1000), ((''account/bob'', ''udns''), 500)], events = []\<rparr>"

definition ex_ctx :: ctx where
  "ex_ctx = \<lparr>block_height = 5, block_time = 1700000000\<rparr>"

definition ex_ns :: "ns_record option list" where
  "ex_ns = [Some \<lparr>ns_name = ''ns1.host'', ns_ipv4 = [''1.2.3.4''], ns_ipv6 = [''::1'']\<rparr>]"

definition ex_create :: msg_create_domain where
  "ex_create = \<lparr>cd_creator = ''alice'', cd_name = ''Foo.Web3.'', cd_owner = ''bob'', cd_ns_records = ex_ns\<rparr>"

section \<open>Evaluation\<close>

lemmas ip_eval = is_ip_def parse_ip_def parse_ipv4_def parse_ipv6_def digit_val_def hex_val_def
  ipv6_loop.simps

lemmas ledger_eval = run_bank_def ex_move_def ex_account_def ex_module_def ex_balance_def kv_get_def

end
