(* ===== verification/Dns_Module.thy ===== *)
theory Dns_Module
  imports Dns_Genesis Example_Env
begin

text \<open>
  The messages of \<^verbatim>\<open>x/dnsblockchain\<close> behind the router: \<^verbatim>\<open>baseapp\<close> runs \<^verbatim>\<open>ValidateBasic\<close> of a
  message that has one and then its handler, as the module registers them
  (\<^verbatim>\<open>module.go\<close>, \<^verbatim>\<open>messages_domain.go\<close>). The properties of the module follow.
\<close>

section \<open>Messages\<close>

datatype dns_msg =
    CreateDomain msg_create_domain
  | UpdateDomain msg_update_domain
  | DeleteDomain msg_delete_domain
  | HeartbeatDomain msg_heartbeat_domain
  | TransferDomain msg_transfer_domain
  | UpdateParams msg_update_params

definition dns_validate_basic :: "('b, 'd) env \<Rightarrow> dns_msg \<Rightarrow> gerr option" where
  "dns_validate_basic E m = (case m of
     CreateDomain x \<Rightarrow> validate_basic_create E x
   | UpdateDomain x \<Rightarrow> validate_basic_update E x
   | DeleteDomain x \<Rightarrow> validate_basic_delete E x
   | HeartbeatDomain x \<Rightarrow> validate_basic_heartbeat E x
   | TransferDomain x \<Rightarrow> validate_basic_transfer E x
   | UpdateParams x \<Rightarrow> None)"

text \<open>The signer that each message names, whose signature the ante handler has checked.\<close>

definition dns_signer :: "dns_msg \<Rightarrow> string" where
  "dns_signer m = (case m of
     CreateDomain x \<Rightarrow> cd_creator x | UpdateDomain x \<Rightarrow> ud_creator x | DeleteDomain x \<Rightarrow> dd_creator x
   | HeartbeatDomain x \<Rightarrow> hd_creator x | TransferDomain x \<Rightarrow> td_creator x
   | UpdateParams x \<Rightarrow> up_authority x)"

definition dns_handle :: "('b, 'd) env \<Rightarrow> ctx \<Rightarrow> dns_msg \<Rightarrow> (('b, 'd) world, unit) op" where
  "dns_handle E c m = (case m of
     CreateDomain x \<Rightarrow> then_op (create_domain E c x) (ret ())
   | UpdateDomain x \<Rightarrow> update_domain E c x
   | DeleteDomain x \<Rightarrow> delete_domain E c x
   | HeartbeatDomain x \<Rightarrow> heartbeat_domain E c x
   | TransferDomain x \<Rightarrow> transfer_domain E c x
   | UpdateParams x \<Rightarrow> update_params E x)"

definition run_dns_msg :: "('b, 'd) env \<Rightarrow> ctx \<Rightarrow> dns_msg \<Rightarrow> (('b, 'd) world, unit) op" where
  "run_dns_msg E c m = then_op (check (dns_validate_basic E m)) (dns_handle E c m)"

lemma run_dns_msg_Inr:
  "run_dns_msg E c m w = (Inr r, w') \<longleftrightarrow> dns_validate_basic E m = None \<and> dns_handle E c m w = (Inr r, w')"
  by (auto simp: run_dns_msg_def op_success)

lemma dns_handle_inv:
  assumes "dns_inv E w" and "ids_left w" and "dns_handle E c m w = (Inr r, w')"
  shows "dns_inv E w'"
  using assms
  by (cases m) (auto simp: dns_handle_def op_success intro: create_domain_inv update_domain_inv
      delete_domain_inv heartbeat_domain_inv transfer_domain_inv update_params_inv)

interpretation dns_router: message_handler "dns_inv E" ids_left "run_dns_msg E c" for E c
  by unfold_locales (auto simp: run_dns_msg_Inr intro: dns_handle_inv)

text \<open>What a message leaves alone: the other module, the permitted TLDs, and all but one number of the sequence.\<close>

lemma dns_handle_frame:
  assumes "dns_handle E c m w = (Inr r, w')"
  shows "dao w' = dao w" "permitted_tlds (dns w') = permitted_tlds (dns w)"
    and "domain_seq (dns w') = domain_seq (dns w) \<or> domain_seq (dns w') = domain_seq (dns w) + 1"
proof -
  have "dao w' = dao w \<and> permitted_tlds (dns w') = permitted_tlds (dns w)
    \<and> (domain_seq (dns w') = domain_seq (dns w) \<or> domain_seq (dns w') = domain_seq (dns w) + 1)"
  proof (cases m)
    case (CreateDomain x)
    then obtain i where "create_domain E c x w = (Inr i, w')"
      using assms by (auto simp: dns_handle_def op_success)
    from create_domain_success(5-7) [OF this] show ?thesis by simp
  qed (use assms in \<open>auto simp: dns_handle_def update_params_Inr elim!: update_domain_success
      delete_domain_success heartbeat_domain_success transfer_domain_success\<close>)
  then show "dao w' = dao w" "permitted_tlds (dns w') = permitted_tlds (dns w)"
    and "domain_seq (dns w') = domain_seq (dns w) \<or> domain_seq (dns w') = domain_seq (dns w) + 1" by auto
qed

section \<open>An example run\<close>

lemma ex_norm: "normalize_name ul ''Foo.Web3.'' = ''foo.web3''" by code_simp
lemma ex_split: "split_dots ''foo.web3'' = [''foo'', ''web3'']" by code_simp
lemma ex_tld: "normalize_tld ul ''web3'' = ''web3''" by code_simp
lemma ex_ns_ok: "list_all ns_entry_ok ex_ns" "ex_ns \<noteq> []"
  by (simp_all add: ex_ns_def ns_entry_ok_def trim_space_plain plain_char_def ip_eval)

lemmas create_eval = create_domain_def op_defs ex_env_defs dns_params_get_def charge_creation_fee_def
  ledger_eval ModuleName_def is_tld_permitted_def tld_has_def check_duplicate_name_def name_get_def
  check_ns_records_def ns_records_error_eq domain_seq_next_def store_new_domain_def domain_set_def
  name_set_def read_kv_def has_kv_def Let_def

definition ex_world1 :: "(ex_ledger, int) world" where
  "ex_world1 = snd (create_domain ex_env ex_ctx ex_create ex_world)"

lemma ex_create_run: "create_domain ex_env ex_ctx ex_create ex_world = (Inr 0, ex_world1)"
proof -
  have "fst (create_domain ex_env ex_ctx ex_create ex_world) = Inr 0"
    by (simp add: create_eval ex_create_def ex_world_def ex_dns_def ex_coins_def ex_norm ex_split ex_tld ex_ns_ok)
  then show ?thesis by (simp add: ex_world1_def prod_eq_iff)
qed

lemma ex_world_inv: "dns_inv ex_env ex_world" "ids_left ex_world" "tlds_ok ex_env (dns ex_world)"
proof -
  show "dns_inv ex_env ex_world"
    by (simp add: dns_inv_def dns_ok_def ex_world_def ex_dns_def kv_ok_def)
  show "ids_left ex_world" by (simp add: ids_left_def ex_world_def ex_dns_def)
  have "\<not> is_reserved_tld ul ''web3''" for ul by code_simp
  then show "tlds_ok ex_env (dns ex_world)"
    by (simp add: tlds_ok_def ex_world_def ex_dns_def kv_get_def contains_dot_def)
qed

lemma ex_world1_inv: "dns_inv ex_env ex_world1"
  by (rule create_domain_inv [OF ex_world_inv(1,2) ex_create_run])

definition ex_domain :: domain where
  "ex_domain = \<lparr>dom_id = 0, dom_name = ''foo.web3'', dom_owner = ''bob'', dom_ns_records = ex_ns,
     dom_creator = ''alice'', dom_expiration = one_year_later ex_ctx\<rparr>"

lemma ex_lower [simp]: "unicode_lower ex_env = (\<lambda>s. s)"
  by (simp add: ex_env_def)

lemma ex_world1_dns: "dns ex_world1 = ex_dns\<lparr>domain_seq := 1, domains := [(0, ex_domain)],
    domain_names := [(''foo.web3'', 0)]\<rparr>"
  using create_domain_success(6) [OF ex_create_run]
  by (simp add: ex_norm ex_create_def ex_world_def ex_dns_def new_domain_def ex_domain_def)

end
