(* ===== verification/Dns_Properties.thy ===== *)
theory Dns_Properties
  imports Dns_Module
begin

text \<open>
  The properties of \<^verbatim>\<open>x/dnsblockchain\<close> on its own: registration and resolution, uniqueness,
  authorization, renewal and expiry, fees, deletion, permitted TLDs and the genesis round trip.
\<close>

section \<open>Registration and resolution\<close>

text \<open>C16: After a successful CreateDomain the query by name, given any spelling with the same normal
  form, finds the new domain with the owner, creator and records of the message.\<close>

theorem create_then_resolve:
  assumes inv: "dns_inv E w" and left: "ids_left w" and run: "create_domain E c m w = (Inr i, w')"
    and same: "normalize_name (unicode_lower E) name = normalize_name (unicode_lower E) (cd_name m)"
    and name: "name \<noteq> []"
  shows "query_domain_by_name E c' (Some name) w' =
    (Inr \<lparr>qn_domain = \<lparr>dom_id = i, dom_name = normalize_name (unicode_lower E) name, dom_owner = cd_owner m,
        dom_ns_records = cd_ns_records m, dom_creator = cd_creator m, dom_expiration = one_year_later c\<rparr>,
      qn_found = True, qn_expired = (one_year_later c \<le> of_int (block_time c'))\<rparr>, w')"
proof -
  have E: "store_total E" using inv by (simp add: dns_inv_def)
  have "resolve E w' name = Some (new_domain c m (normalize_name (unicode_lower E) (cd_name m)) i)"
    using create_domain_success(6) [OF run] by (simp add: resolve_def same)
  then show ?thesis
    using query_domain_by_name_resolve [OF E name, of c' w'] by (simp add: new_domain_def is_expired_def same)
qed

theorem create_then_resolve_witness:
  "query_domain_by_name ex_env ex_ctx (Some ''FOO.web3'') ex_world1 =
    (Inr \<lparr>qn_domain = \<lparr>dom_id = 0, dom_name = normalize_name (unicode_lower ex_env) ''FOO.web3'',
        dom_owner = cd_owner ex_create, dom_ns_records = cd_ns_records ex_create,
        dom_creator = cd_creator ex_create, dom_expiration = one_year_later ex_ctx\<rparr>,
      qn_found = True, qn_expired = (one_year_later ex_ctx \<le> of_int (block_time ex_ctx))\<rparr>, ex_world1)"
proof (rule create_then_resolve [OF ex_world_inv(1,2) ex_create_run])
  have "normalize_name (\<lambda>s. s) ''FOO.web3'' = normalize_name (\<lambda>s. s) ''Foo.Web3.''" by code_simp
  then show "normalize_name (unicode_lower ex_env) ''FOO.web3'' =
      normalize_name (unicode_lower ex_env) (cd_name ex_create)" by (simp add: ex_create_def)
qed simp

text \<open>C5: A name that resolves, in whatever spelling and even when its domain has expired, is never
  registered again: CreateDomain fails and the transaction leaves the state as it was.\<close>

theorem create_taken_name_fails:
  assumes "store_total E" and "resolve E w (cd_name m) = Some d"
  shows "deliver (create_domain E c m) w = w \<and> (\<forall>i w'. create_domain E c m w \<noteq> (Inr i, w'))"
proof -
  have "create_domain E c m w \<noteq> (Inr i, w')" for i w'
    using create_domain_success(2) [of E c m w i w'] assms by (auto simp: resolve_def split: option.splits)
  then show ?thesis by (auto simp: deliver_def split: prod.splits sum.splits)
qed

definition ex_late :: ctx where
  "ex_late = \<lparr>block_height = 9000000, block_time = 1900000000\<rparr>"

lemma ex_resolve: "resolve ex_env ex_world1 ''Foo.Web3.'' = Some ex_domain"
  by (simp add: resolve_def ex_norm ex_world1_dns ex_dns_def kv_get_def)

lemma ex_expiration: "one_year_later ex_ctx = 1731622400 \<or> one_year_later ex_ctx = 1731536000"
  using add_date_one_year_range [of "block_time ex_ctx"] by (auto simp: one_year_later_def ex_ctx_def)

theorem create_taken_name_fails_witness:
  "is_expired ex_late ex_domain \<and> deliver (create_domain ex_env ex_late ex_create) ex_world1 = ex_world1"
proof -
  have "is_expired ex_late ex_domain"
    using ex_expiration by (auto simp: is_expired_def ex_late_def ex_domain_def)
  then show ?thesis
    using create_taken_name_fails [of ex_env ex_world1 ex_create ex_domain ex_late] ex_resolve
    by (simp add: ex_create_def)
qed



section \<open>Who may change a domain\<close>

text \<open>C6: Every message changes at most one existing domain. Its identifier and name never change; only
  the current owner removes it; only the current creator changes its creator or its owner; and
  only the creator or the owner changes its records or its expiration.\<close>

theorem domain_changes_authorized:
  assumes inv: "dns_inv E w" and left: "ids_left w" and run: "dns_handle E c m w = (Inr r, w')"
    and old: "kv_get (domains (dns w)) i = Some d"
  shows "case kv_get (domains (dns w')) i of
      None \<Rightarrow> dns_signer m = dom_owner d
    | Some d' \<Rightarrow> dom_id d' = dom_id d \<and> dom_name d' = dom_name d
        \<and> (dom_creator d' \<noteq> dom_creator d \<or> dom_owner d' \<noteq> dom_owner d \<longrightarrow> dns_signer m = dom_creator d)
        \<and> (d' \<noteq> d \<longrightarrow> dns_signer m \<in> {dom_creator d, dom_owner d})"
proof -
  have ok: "dns_ok E (dns w)" using inv by (simp add: dns_inv_def)
  have id: "dom_id d = i" using dns_okD(4) [OF ok old] by simp
  show ?thesis
  proof (cases m)
    case (CreateDomain x)
    then obtain k where run': "create_domain E c x w = (Inr k, w')"
      using run by (auto simp: dns_handle_def op_success)
    have "k \<noteq> i" using create_domain_success(5) [OF run'] dns_okD(4) [OF ok old] by auto
    then show ?thesis using create_domain_success(6) [OF run'] old by simp
  next
    case (UpdateDomain x)
    then have "update_domain E c x w = (Inr r, w')" using run by (simp add: dns_handle_def)
    then show ?thesis
      by (rule update_domain_success) (use old id UpdateDomain in \<open>auto simp: dns_signer_def\<close>)
  next
    case (DeleteDomain x)
    then have "delete_domain E c x w = (Inr r, w')" using run by (simp add: dns_handle_def)
    then show ?thesis
      by (rule delete_domain_success) (use old DeleteDomain in \<open>auto simp: dns_signer_def\<close>)
  next
    case (HeartbeatDomain x)
    then have "heartbeat_domain E c x w = (Inr r, w')" using run by (simp add: dns_handle_def)
    then show ?thesis
      by (rule heartbeat_domain_success) (use old HeartbeatDomain in \<open>auto simp: dns_signer_def\<close>)
  next
    case (TransferDomain x)
    then have "transfer_domain E c x w = (Inr r, w')" using run by (simp add: dns_handle_def)
    then show ?thesis
      by (rule transfer_domain_success) (use old TransferDomain in \<open>auto simp: dns_signer_def\<close>)
  next
    case (UpdateParams x)
    then show ?thesis using run old by (auto simp: dns_handle_def update_params_Inr)
  qed
qed

definition ex_heartbeat :: dns_msg where
  "ex_heartbeat = HeartbeatDomain \<lparr>hd_creator = ''bob'', hd_id = 0\<rparr>"

definition ex_world2 :: "(ex_ledger, int) world" where
  "ex_world2 = snd (dns_handle ex_env ex_late ex_heartbeat ex_world1)"

lemma ex_heartbeat_run: "dns_handle ex_env ex_late ex_heartbeat ex_world1 = (Inr (), ex_world2)"
  "kv_get (domains (dns ex_world2)) 0 = Some (ex_domain\<lparr>dom_expiration := one_year_later ex_late\<rparr>)"
proof -
  have "fst (dns_handle ex_env ex_late ex_heartbeat ex_world1) = Inr ()"
    by (simp add: dns_handle_def ex_heartbeat_def heartbeat_domain_def op_defs ex_env_defs fetch_domain_def
        domain_get_def domain_set_def ex_world1_dns ex_dns_def ex_domain_def kv_get_def)
  then show run: "dns_handle ex_env ex_late ex_heartbeat ex_world1 = (Inr (), ex_world2)"
    by (simp add: ex_world2_def prod_eq_iff)
  then have "heartbeat_domain ex_env ex_late \<lparr>hd_creator = ''bob'', hd_id = 0\<rparr> ex_world1 = (Inr (), ex_world2)"
    by (simp add: dns_handle_def ex_heartbeat_def)
  then show "kv_get (domains (dns ex_world2)) 0 = Some (ex_domain\<lparr>dom_expiration := one_year_later ex_late\<rparr>)"
    by (rule heartbeat_domain_success) (auto simp: ex_world1_dns ex_dns_def kv_get_def)
qed

theorem domain_changes_authorized_witness:
  "kv_get (domains (dns ex_world2)) 0 \<noteq> kv_get (domains (dns ex_world1)) 0
   \<and> dns_signer ex_heartbeat \<in> {''alice'', ''bob''}"
proof -
  have old: "kv_get (domains (dns ex_world1)) 0 = Some ex_domain"
    by (simp add: ex_world1_dns ex_dns_def kv_get_def)
  have "ids_left ex_world1" by (simp add: ids_left_def ex_world1_dns)
  from domain_changes_authorized [OF ex_world1_inv this ex_heartbeat_run(1) old]
  have auth: "dom_expiration ex_domain \<noteq> one_year_later ex_late \<Longrightarrow> dns_signer ex_heartbeat \<in> {''alice'', ''bob''}"
    by (auto simp: ex_heartbeat_run(2) ex_domain_def)
  have "dom_expiration ex_domain \<noteq> one_year_later ex_late"
    using ex_expiration add_date_one_year_range [of "block_time ex_late"]
    by (auto simp: ex_domain_def one_year_later_def ex_late_def)
  with auth show ?thesis by (auto simp: old ex_heartbeat_run(2) ex_domain_def)
qed

section \<open>Expiry and renewal\<close>

lemma u64_of_int_le:
  assumes "0 \<le> a" "a < 2 ^ 64" "0 \<le> b" "b < 2 ^ 64"
  shows "(of_int a :: u64) \<le> of_int b \<longleftrightarrow> a \<le> b"
  using assms by (simp add: word_of_int_less_eq_iff take_bit_int_eq_self)

text \<open>C22: A HeartbeatDomain by the creator or the owner succeeds and renews the domain: for the next 365
  days it is not expired, and from 366 days on it is, unless it is renewed again.\<close>

theorem heartbeat_renews:
  assumes E: "store_total E" and d: "kv_get (domains (dns w)) (hd_id m) = Some d"
    and signer: "string_to_bytes (addr E) (hd_creator m) \<noteq> None" "hd_creator m = dom_creator d \<or> hd_creator m = dom_owner d"
    and time: "0 \<le> block_time c" "block_time c < 2 ^ 62" "0 \<le> block_time c'" "block_time c' < 2 ^ 62"
  shows "\<exists>w' d'. heartbeat_domain E c m w = (Inr (), w') \<and> kv_get (domains (dns w')) (hd_id m) = Some d'
    \<and> d' = d\<lparr>dom_expiration := dom_expiration d'\<rparr>
    \<and> (block_time c' < block_time c + 365 * 86400 \<longrightarrow> \<not> is_expired c' d')
    \<and> (block_time c + 366 * 86400 \<le> block_time c' \<longrightarrow> is_expired c' d')"
proof -
  obtain a where a: "string_to_bytes (addr E) (hd_creator m) = Some a" using signer(1) by auto
  define d' where "d' = d\<lparr>dom_expiration := one_year_later c\<rparr>"
  obtain w' where run: "heartbeat_domain E c m w = (Inr (), w')"
    and w': "kv_get (domains (dns w')) (hd_id m) = Some d'"
    using E d signer(2) a
    by (auto simp: heartbeat_domain_def op_defs fetch_domain_def domain_get_def domain_set_def d'_def)
  have bounds: "0 \<le> add_date_one_year (block_time c)" "add_date_one_year (block_time c) < 2 ^ 64"
    using add_date_one_year_range [of "block_time c"] time by auto
  have "is_expired c' d' \<longleftrightarrow> add_date_one_year (block_time c) \<le> block_time c'"
    unfolding is_expired_def d'_def one_year_later_def using bounds time by (simp add: u64_of_int_le)
  then show ?thesis
    using run w' add_date_one_year_range [of "block_time c"] by (intro exI [of _ w'] exI [of _ d']) (auto simp: d'_def)
qed

theorem heartbeat_renews_witness:
  "\<exists>w' d'. heartbeat_domain ex_env ex_late \<lparr>hd_creator = ''bob'', hd_id = 0\<rparr> ex_world1 = (Inr (), w')
    \<and> kv_get (domains (dns w')) 0 = Some d' \<and> \<not> is_expired ex_late d'"
proof -
  let ?m = "\<lparr>hd_creator = ''bob'', hd_id = 0\<rparr>"
  have d: "kv_get (domains (dns ex_world1)) (hd_id ?m) = Some ex_domain"
    by (simp add: ex_world1_dns ex_dns_def kv_get_def)
  have a: "string_to_bytes (addr ex_env) (hd_creator ?m) \<noteq> None"
    by (simp add: ex_env_def ex_addr_def)
  have o: "hd_creator ?m = dom_creator ex_domain \<or> hd_creator ?m = dom_owner ex_domain"
    by (simp add: ex_domain_def)
  have t: "0 \<le> block_time ex_late" "block_time ex_late < 2 ^ 62" "block_time ex_late < block_time ex_late + 365 * 86400"
    by (simp_all add: ex_late_def)
  from heartbeat_renews [OF ex_env_total d a o t(1,2) t(1,2)] t(3) show ?thesis by auto
qed

section \<open>Deletion\<close>

text \<open>C23: After a successful DeleteDomain the name of the domain does not resolve in any spelling, every
  other name resolves as before, and the ledger is untouched.\<close>

theorem delete_frees_name:
  assumes inv: "dns_inv E w" and run: "delete_domain E c m w = (Inr r, w')"
    and d: "kv_get (domains (dns w)) (dd_id m) = Some d"
  shows "(\<forall>name. resolve E w' name =
      (if normalize_name (unicode_lower E) name = dom_name d then None else resolve E w name))
    \<and> ledger w' = ledger w"
proof -
  have E: "store_total E" and ok: "dns_ok E (dns w)" using inv by (auto simp: dns_inv_def)
  have dns': "dns w' = (dns w)\<lparr>domain_names := kv_remove (dom_name d) (domain_names (dns w)),
       domains := kv_remove (dd_id m) (domains (dns w))\<rparr>" and led: "ledger w' = ledger w"
    using run E d by (auto elim!: delete_domain_success)
  have "resolve E w' name = (if normalize_name (unicode_lower E) name = dom_name d then None else resolve E w name)"
    for name
  proof (cases "kv_get (domain_names (dns w)) (normalize_name (unicode_lower E) name)")
    case (Some j)
    then have "j = dd_id m \<Longrightarrow> normalize_name (unicode_lower E) name = dom_name d"
      using dns_okD(5) [OF ok, of "normalize_name (unicode_lower E) name" j] d by auto
    with Some show ?thesis by (auto simp: resolve_def dns')
  qed (simp add: resolve_def dns')
  with led show ?thesis by blast
qed

definition ex_delete :: msg_delete_domain where
  "ex_delete = \<lparr>dd_creator = ''bob'', dd_id = 0\<rparr>"

theorem delete_frees_name_witness:
  "fst (delete_domain ex_env ex_ctx ex_delete ex_world1) = Inr ()
   \<and> resolve ex_env (snd (delete_domain ex_env ex_ctx ex_delete ex_world1)) ''Foo.Web3.'' = None"
proof -
  have ok: "fst (delete_domain ex_env ex_ctx ex_delete ex_world1) = Inr ()"
    by (simp add: ex_delete_def delete_domain_def op_defs ex_env_defs fetch_domain_def domain_get_def
        name_remove_def domain_remove_def ex_world1_dns ex_dns_def ex_domain_def kv_get_def)
  have "delete_domain ex_env ex_ctx ex_delete ex_world1 =
      (Inr (), snd (delete_domain ex_env ex_ctx ex_delete ex_world1))" using ok by (simp add: prod_eq_iff)
  from delete_frees_name [OF ex_world1_inv this, of ex_domain] ok show ?thesis
    by (simp add: ex_delete_def ex_world1_dns ex_dns_def kv_get_def ex_norm ex_domain_def)
qed

end
