(* ===== verification/Dns_Registry.thy ===== *)
theory Dns_Registry
  imports Dns_Module
begin

text \<open>
  The abstract specification of \<^verbatim>\<open>x/dnsblockchain\<close>: a registry is a partial map from names in
  normal form to domains, and every message is one step on that map. The handlers, which keep the
  domains by identifier next to an index of names, implement it.
\<close>

section \<open>The abstract registry\<close>

type_synonym registry = "string \<Rightarrow> domain option"

definition registry_of :: "dns_store \<Rightarrow> registry" where
  "registry_of s n = (case kv_get (domain_names s) n of None \<Rightarrow> None | Some i \<Rightarrow> kv_get (domains s) i)"

text \<open>The change of the one domain with an identifier; \<open>None\<close> removes it.\<close>

definition reg_change :: "u64 \<Rightarrow> (domain \<Rightarrow> domain option) \<Rightarrow> registry \<Rightarrow> registry" where
  "reg_change i f m n = (case m n of None \<Rightarrow> None | Some d \<Rightarrow> if dom_id d = i then f d else Some d)"

text \<open>What each message promises; \<open>next\<close> is the next identifier.\<close>

definition registry_step :: "('b, 'd) env \<Rightarrow> ctx \<Rightarrow> u64 \<Rightarrow> dns_msg \<Rightarrow> registry \<Rightarrow> registry" where
  "registry_step E c next m reg = (case m of
     CreateDomain x \<Rightarrow> let n = normalize_name (unicode_lower E) (cd_name x) in
       reg(n \<mapsto> \<lparr>dom_id = next, dom_name = n, dom_owner = cd_owner x, dom_ns_records = cd_ns_records x,
                dom_creator = cd_creator x, dom_expiration = one_year_later c\<rparr>)
   | UpdateDomain x \<Rightarrow> reg_change (ud_id x) (\<lambda>d. Some (d\<lparr>
         dom_owner := (if ud_owner x = [] then dom_owner d else ud_owner x),
         dom_ns_records := (if ud_ns_records x = [] then dom_ns_records d else ud_ns_records x)\<rparr>)) reg
   | DeleteDomain x \<Rightarrow> reg_change (dd_id x) (\<lambda>d. None) reg
   | HeartbeatDomain x \<Rightarrow> reg_change (hd_id x) (\<lambda>d. Some (d\<lparr>dom_expiration := one_year_later c\<rparr>)) reg
   | TransferDomain x \<Rightarrow> reg_change (td_id x) (\<lambda>d. Some (d\<lparr>dom_creator := td_new_owner x,
         dom_owner := td_new_owner x\<rparr>)) reg
   | UpdateParams x \<Rightarrow> reg)"

lemma reg_change_Some_iff:
  "reg_change i f m n = Some x \<longleftrightarrow> (\<exists>d. m n = Some d \<and> (if dom_id d = i then f d = Some x else d = x))"
  by (auto simp: reg_change_def split: option.splits if_splits)

lemma registry_of_Some_iff:
  assumes "dns_ok E s"
  shows "registry_of s n = Some d \<longleftrightarrow> kv_get (domains s) (dom_id d) = Some d \<and> dom_name d = n"
proof
  note ok = dns_okD(4,5) [OF assms]
  assume "registry_of s n = Some d"
  then obtain i where i: "kv_get (domain_names s) n = Some i" "kv_get (domains s) i = Some d"
    by (auto simp: registry_of_def split: option.splits)
  moreover obtain d' where "kv_get (domains s) i = Some d'" "dom_name d' = n"
    using ok(2) [of n i] i(1) by blast
  ultimately show "kv_get (domains s) (dom_id d) = Some d \<and> dom_name d = n"
    using ok(1) [of i d] by simp
next
  assume d: "kv_get (domains s) (dom_id d) = Some d \<and> dom_name d = n"
  then have "kv_get (domain_names s) n = Some (dom_id d)" using dns_okD(5) [OF assms, of n "dom_id d"] by blast
  with d show "registry_of s n = Some d" by (simp add: registry_of_def)
qed

lemma registry_of_params [simp]: "registry_of (s\<lparr>dns_params_item := p\<rparr>) = registry_of s"
  by (rule ext) (simp add: registry_of_def split: option.splits)

lemma resolve_registry: "resolve E w name = registry_of (dns w) (normalize_name (unicode_lower E) name)"
  by (simp add: resolve_def registry_of_def)

lemma registry_ext:
  fixes r r' :: registry
  assumes "\<And>n d. r n = Some d \<longleftrightarrow> r' n = Some d"
  shows "r = r'"
proof
  fix n
  show "r n = r' n"
  proof (cases "r n")
    case None
    then have "r' n \<noteq> Some d" for d using assms [of n d] by simp
    with None show ?thesis by (cases "r' n") auto
  next
    case (Some d)
    with assms [of n d] show ?thesis by simp
  qed
qed

text \<open>An overwritten domain with the same identifier and name.\<close>

lemma registry_overwrite:
  assumes ok: "dns_ok E s" and ok': "dns_ok E (s\<lparr>domains := kv_set i d' (domains s)\<rparr>)"
    and d: "kv_get (domains s) i = Some d" and same: "dom_id d' = dom_id d" "dom_name d' = dom_name d"
    and f: "f d = Some d'"
  shows "registry_of (s\<lparr>domains := kv_set i d' (domains s)\<rparr>) = reg_change i f (registry_of s)"
proof (rule registry_ext)
  fix n x
  let ?s = "s\<lparr>domains := kv_set i d' (domains s)\<rparr>"
  have id: "dom_id d = i" using dns_okD(4) [OF ok d] by simp
  show "registry_of ?s n = Some x \<longleftrightarrow> reg_change i f (registry_of s) n = Some x"
  proof (cases "dom_id x = i")
    case True
    have "registry_of ?s n = Some x \<longleftrightarrow> x = d' \<and> dom_name d' = n"
      unfolding registry_of_Some_iff [OF ok'] using True same id by auto
    moreover have "reg_change i f (registry_of s) n = Some x \<longleftrightarrow> x = d' \<and> dom_name d = n"
    proof
      assume "reg_change i f (registry_of s) n = Some x"
      then obtain e where e: "kv_get (domains s) (dom_id e) = Some e" "dom_name e = n"
          "if dom_id e = i then f e = Some x else e = x"
        unfolding reg_change_Some_iff registry_of_Some_iff [OF ok] by blast
      then have "dom_id e = i" using True by metis
      with e d f show "x = d' \<and> dom_name d = n" by simp
    qed (use d id f registry_of_Some_iff [OF ok, of n d] in \<open>auto simp: reg_change_Some_iff\<close>)
    ultimately show ?thesis using same by simp
  next
    case False
    have "registry_of ?s n = Some x \<longleftrightarrow> registry_of s n = Some x"
      unfolding registry_of_Some_iff [OF ok'] registry_of_Some_iff [OF ok] using False by simp
    moreover have "reg_change i f (registry_of s) n = Some x \<longleftrightarrow> registry_of s n = Some x"
    proof
      assume "reg_change i f (registry_of s) n = Some x"
      then obtain e where e: "kv_get (domains s) (dom_id e) = Some e" "registry_of s n = Some e"
          "if dom_id e = i then f e = Some x else e = x"
        unfolding reg_change_Some_iff using registry_of_Some_iff [OF ok] by blast
      have "dom_id e \<noteq> i"
      proof
        assume "dom_id e = i"
        with e d f have "x = d'" by simp
        with False same id show False by simp
      qed
      with e show "registry_of s n = Some x" by simp
    qed (use False in \<open>auto simp: reg_change_Some_iff\<close>)
    ultimately show ?thesis by simp
  qed
qed

lemma update_domain_exact:
  assumes "update_domain E c m w = (Inr r, w')"
  obtains d where "kv_get (domains (dns w)) (ud_id m) = Some d"
    and "dns w' = (dns w)\<lparr>domains := kv_set (ud_id m) (d\<lparr>dom_id := ud_id m,
         dom_owner := (if ud_owner m = [] then dom_owner d else ud_owner m),
         dom_ns_records := (if ud_ns_records m = [] then dom_ns_records d else ud_ns_records m)\<rparr>) (domains (dns w))\<rparr>"
proof -
  obtain d x w1 where d: "kv_get (domains (dns w)) (ud_id m) = Some d"
    and f: "updated_fields E m d w = (Inr x, w1)"
    and rest: "(case x of (newOwner, newNsRecords, changed) \<Rightarrow>
        then_op (require changed ErrInvalidRequest)
       (then_op (map_err (\<lambda>_. ErrLogic) (domain_set E (ud_id m)
          \<lparr>dom_id = ud_id m, dom_name = dom_name d, dom_owner = newOwner,
           dom_ns_records = newNsRecords, dom_creator = dom_creator d, dom_expiration = dom_expiration d\<rparr>))
       (emit_op [new_event EventTypeUpdateDomain
          [(AttributeKeyDomainID, show_u64 (ud_id m)), (AttributeKeyUpdater, ud_creator m)]]))) w1 = (Inr r, w')"
    using assms unfolding update_domain_def bind_op_Inr then_op_Inr of_option_Inr fetch_domain_Inr require_Inr
    by blast
  obtain ow ns ch where x: "x = (ow, ns, ch)" by (cases x)
  have "w1 = w" "ow = (if ud_owner m = [] then dom_owner d else ud_owner m)"
    "ns = (if ud_ns_records m = [] then dom_ns_records d else ud_ns_records m)"
    using f by (auto simp: x updated_fields_def Let_def op_success split: if_splits)
  then show ?thesis
    using rest by (intro that [OF d]) (cases d, simp add: x then_op_Inr domain_set_def)
qed

section \<open>Refinement\<close>

lemma registry_create:
  assumes ok: "dns_ok E s" and ok': "dns_ok E s'"
    and s': "s' = s\<lparr>domain_seq := domain_seq s + 1, domains := kv_set (dom_id d) d (domains s),
       domain_names := kv_set (dom_name d) (dom_id d) (domain_names s)\<rparr>"
    and new: "dom_id d = domain_seq s"
  shows "registry_of s' = (registry_of s)(dom_name d \<mapsto> d)"
proof (rule ext)
  fix n
  have "kv_get (domain_names s) n \<noteq> Some (dom_id d)"
    using dns_okD(4) [OF ok, of "dom_id d"] dns_okD(5) [OF ok, of n "dom_id d"] new by auto
  then show "registry_of s' n = ((registry_of s)(dom_name d \<mapsto> d)) n"
    by (auto simp: registry_of_def s' split: option.splits)
qed

lemma registry_delete:
  assumes ok: "dns_ok E s" and d: "kv_get (domains s) i = Some d"
  shows "registry_of (s\<lparr>domain_names := kv_remove (dom_name d) (domain_names s),
      domains := kv_remove i (domains s)\<rparr>) = reg_change i (\<lambda>d. None) (registry_of s)" (is "registry_of ?s = _")
proof (rule registry_ext)
  fix n x
  have ok': "dns_ok E ?s" by (rule dns_ok_delete [OF ok d])
  show "registry_of ?s n = Some x \<longleftrightarrow> reg_change i (\<lambda>d. None) (registry_of s) n = Some x"
    unfolding reg_change_Some_iff registry_of_Some_iff [OF ok'] registry_of_Some_iff [OF ok]
    by (cases "dom_id x = i") auto
qed

lemma registry_refines:
  assumes inv: "dns_inv E w" and left: "ids_left w" and run: "dns_handle E c m w = (Inr r, w')"
  shows "registry_of (dns w') = registry_step E c (domain_seq (dns w)) m (registry_of (dns w))"
proof -
  have ok: "dns_ok E (dns w)" and E: "store_total E" using inv by (auto simp: dns_inv_def)
  have ok': "dns_ok E (dns w')" using dns_handle_inv [OF inv left run] by (simp add: dns_inv_def)
  note id = dns_okD(4) [OF ok]
  show ?thesis
  proof (cases m)
    case (CreateDomain x)
    then obtain k where run': "create_domain E c x w = (Inr k, w')"
      using run by (auto simp: dns_handle_def op_success)
    let ?d = "new_domain c x (normalize_name (unicode_lower E) (cd_name x)) k"
    have "registry_of (dns w') = (registry_of (dns w))(dom_name ?d \<mapsto> ?d)"
      using create_domain_success(5,6) [OF run'] by (intro registry_create [OF ok ok']) (simp_all add: new_domain_def)
    then show ?thesis
      using create_domain_success(5) [OF run'] by (simp add: CreateDomain registry_step_def new_domain_def Let_def)
  next
    case (UpdateDomain x)
    then have "update_domain E c x w = (Inr r, w')" using run by (simp add: dns_handle_def)
    then show ?thesis
    proof (rule update_domain_exact)
      fix d
      assume d: "kv_get (domains (dns w)) (ud_id x) = Some d"
        and w': "dns w' = (dns w)\<lparr>domains := kv_set (ud_id x) (d\<lparr>dom_id := ud_id x,
         dom_owner := (if ud_owner x = [] then dom_owner d else ud_owner x),
         dom_ns_records := (if ud_ns_records x = [] then dom_ns_records d else ud_ns_records x)\<rparr>) (domains (dns w))\<rparr>"
      have "d\<lparr>dom_id := ud_id x\<rparr> = d" using id [OF d] by (cases d) simp
      then show ?thesis
        unfolding w' UpdateDomain registry_step_def dns_msg.case using id [OF d] ok' [unfolded w']
        by (intro registry_overwrite [OF ok _ d]) (cases d, simp_all)
    qed
  next
    case (DeleteDomain x)
    then have "delete_domain E c x w = (Inr r, w')" using run by (simp add: dns_handle_def)
    then show ?thesis
      by (rule delete_domain_success) (use E registry_delete [OF ok] in \<open>simp add: DeleteDomain registry_step_def\<close>)
  next
    case (HeartbeatDomain x)
    then have "heartbeat_domain E c x w = (Inr r, w')" using run by (simp add: dns_handle_def)
    then show ?thesis
    proof (rule heartbeat_domain_success)
      fix d
      assume d: "kv_get (domains (dns w)) (hd_id x) = Some d"
        and w': "dns w' = (dns w)\<lparr>domains := kv_set (hd_id x) (d\<lparr>dom_expiration := one_year_later c\<rparr>) (domains (dns w))\<rparr>"
      show ?thesis
        unfolding w' HeartbeatDomain registry_step_def dns_msg.case using ok' [unfolded w']
        by (intro registry_overwrite [OF ok _ d]) simp_all
    qed
  next
    case (TransferDomain x)
    then have "transfer_domain E c x w = (Inr r, w')" using run by (simp add: dns_handle_def)
    then show ?thesis
    proof (rule transfer_domain_success)
      fix d
      assume d: "kv_get (domains (dns w)) (td_id x) = Some d"
        and w': "dns w' = (dns w)\<lparr>domains := kv_set (td_id x)
          (d\<lparr>dom_creator := td_new_owner x, dom_owner := td_new_owner x\<rparr>) (domains (dns w))\<rparr>"
      show ?thesis
        unfolding w' TransferDomain registry_step_def dns_msg.case using ok' [unfolded w']
        by (intro registry_overwrite [OF ok _ d]) simp_all
    qed
  next
    case (UpdateParams x)
    then show ?thesis
      using run by (auto simp: dns_handle_def update_params_Inr registry_step_def)
  qed
qed

section \<open>Names stay in normal form\<close>

lemma dns_ok_cong:
  "unicode_lower E = unicode_lower E' \<Longrightarrow> addr E = addr E' \<Longrightarrow> dns_ok E s = dns_ok E' s"
  by (simp only: dns_ok_def domain_ok_def name_ok_def)

lemma exported_valid:
  assumes ok: "dns_ok E s" and p: "validate_dns_params E p = None"
  shows "validate_dns_genesis E (exported s p) = None"
proof -
  have "dom_id d < domain_seq s" if "d \<in> set (map snd (kv_walk (domains s)))" for d
    using that dns_okD(4) [OF ok] unfolding exported_domains(1) [OF ok] by blast
  then show ?thesis
    using exported_domains(2) [OF ok] p kv.walk_distinct [OF dns_okD(3) [OF ok]]
    unfolding validate_dns_genesis_None exported_def dns_genesis.simps by blast
qed

text \<open>A dot-free TLD in the normal form of \<open>AddPermittedTLD\<close> is in the normal form of an import, too.\<close>

lemma normalize_tld_normal:
  assumes "lower_laws ul" and "\<not> contains_dot (normalize_tld ul t)"
  shows "normalize_name ul (normalize_tld ul t) = normalize_tld ul t"
proof -
  let ?t = "normalize_tld ul t"
  have "?t = [] \<or> hd ?t \<noteq> CHR ''.'' \<and> last ?t \<noteq> CHR ''.''"
    using assms(2) by (metis contains_dot_def hd_in_set last_in_set)
  then have "trim_dots ?t = ?t" by (rule trim_dots_id)
  moreover have "to_lower ul ?t = ?t" using assms(1) by (simp add: lower_laws_def normalize_tld_def)
  ultimately show ?thesis by (simp add: normalize_name_def)
qed

lemma names_normal_add_tld:
  assumes "names_normal E s" and "lower_laws (unicode_lower E)" and "\<not> contains_dot (normalize_tld (unicode_lower E) t)"
    and "normalize_tld (unicode_lower E) t \<noteq> []"
  shows "names_normal E (s\<lparr>permitted_tlds := kv_set (normalize_tld (unicode_lower E) t) () (permitted_tlds s)\<rparr>)"
  using assms normalize_tld_normal [OF assms(2,3)] by (auto simp: names_normal_def)

lemma names_normal_handle:
  assumes norm: "names_normal E (dns w)" and ul: "lower_laws (unicode_lower E)"
    and run: "dns_handle E c m w = (Inr r, w')"
  shows "names_normal E (dns w')"
proof (cases m)
  case (CreateDomain x)
  then obtain k where "create_domain E c x w = (Inr k, w')"
    using run by (auto simp: dns_handle_def op_success)
  from create_domain_success(6) [OF this] norm normalize_name_idem [OF ul] show ?thesis
    by (auto simp: names_normal_def new_domain_def)
next
  case (UpdateDomain x)
  then have "update_domain E c x w = (Inr r, w')" using run by (simp add: dns_handle_def)
  then show ?thesis by (rule update_domain_success) (use norm in \<open>auto simp: names_normal_def\<close>)
next
  case (DeleteDomain x)
  then have "delete_domain E c x w = (Inr r, w')" using run by (simp add: dns_handle_def)
  then show ?thesis by (rule delete_domain_success) (use norm in \<open>auto simp: names_normal_def\<close>)
next
  case (HeartbeatDomain x)
  then have "heartbeat_domain E c x w = (Inr r, w')" using run by (simp add: dns_handle_def)
  then show ?thesis by (rule heartbeat_domain_success) (use norm in \<open>auto simp: names_normal_def\<close>)
next
  case (TransferDomain x)
  then have "transfer_domain E c x w = (Inr r, w')" using run by (simp add: dns_handle_def)
  then show ?thesis by (rule transfer_domain_success) (use norm in \<open>auto simp: names_normal_def\<close>)
next
  case (UpdateParams x)
  then show ?thesis using run norm by (auto simp: dns_handle_def update_params_Inr names_normal_def)
qed

section \<open>When a registration succeeds\<close>

definition fee_payable :: "('b, 'd) env \<Rightarrow> bytes \<Rightarrow> coins \<Rightarrow> 'b \<Rightarrow> bool" where
  "fee_payable E a fee b \<longleftrightarrow> coins_is_zero (coin_lib E) fee
     \<or> (\<exists>b1 b2. send_account_to_module (bank E) a ModuleName fee b = (Inr (), b1)
            \<and> burn_coins (bank E) ModuleName fee b1 = (Inr (), b2))"

definition registrable :: "('b, 'd) env \<Rightarrow> dns_store \<Rightarrow> string \<Rightarrow> bool" where
  "registrable E s name \<longleftrightarrow> name_ok E (permitted_tlds s) (normalize_name (unicode_lower E) name)
     \<and> registry_of s (normalize_name (unicode_lower E) name) = None"

lemma charge_creation_fee_ok:
  "(\<exists>w'. charge_creation_fee E a creator fee w = (Inr (), w')) \<longleftrightarrow> fee_payable E a fee (ledger w)"
proof (cases "coins_is_zero (coin_lib E) fee")
  case True
  then show ?thesis by (simp add: charge_creation_fee_def fee_payable_def op_defs)
next
  case False
  then show ?thesis
    by (auto simp: charge_creation_fee_def fee_payable_def op_success run_bank_Inr)
qed

text \<open>
  Exactly the conditions under which \<^verbatim>\<open>CreateDomain\<close> succeeds. The fee is charged before the other
  checks, so the later steps run in the state that the charge leaves.
\<close>

lemma create_domain_ok_iff:
  assumes E: "store_total E" and inv: "dns_ok E (dns w)"
  shows "(\<exists>i w'. create_domain E c m w = (Inr i, w')) \<longleftrightarrow>
     string_to_bytes (addr E) (cd_owner m) \<noteq> None
   \<and> (\<exists>a params. string_to_bytes (addr E) (cd_creator m) = Some a \<and> dns_params_item (dns w) = Some params
        \<and> fee_payable E a (domain_creation_fee params) (ledger w))
   \<and> registrable E (dns w) (cd_name m)
   \<and> cd_ns_records m \<noteq> [] \<and> list_all ns_entry_ok (cd_ns_records m)" (is "?run \<longleftrightarrow> ?conds")
proof -
  define n where "n = normalize_name (unicode_lower E) (cd_name m)"
  have reg: "registry_of (dns w) n = None \<longleftrightarrow> kv_get (domain_names (dns w)) n = None"
  proof (cases "kv_get (domain_names (dns w)) n")
    case (Some i)
    then show ?thesis using dns_okD(5) [OF inv, of n i] by (auto simp: registry_of_def)
  qed (simp add: registry_of_def)
  have name: "name_ok E (permitted_tlds (dns w)) n \<longleftrightarrow> (\<exists>l t. split_dots n = [l, t] \<and> t \<noteq> [] \<and> normalize_tld (unicode_lower E) t \<noteq> []
       \<and> kv_get (permitted_tlds (dns w)) (normalize_tld (unicode_lower E) t) \<noteq> None)"
    by (auto simp: name_ok_def split: list.splits)
  show ?thesis
  proof
    assume ?run
    then obtain i w' where run: "create_domain E c m w = (Inr i, w')" by blast
    note s = create_domain_success [OF run, folded n_def]
    obtain a params where a: "string_to_bytes (addr E) (cd_creator m) = Some a" "dns_params_item (dns w) = Some params"
      and fee: "fee_payable E a (domain_creation_fee params) (ledger w)"
      using s(8) by (auto simp: fee_payable_def split: if_splits)
    with s(1-4) E name reg show ?conds by (auto simp: registrable_def n_def)
  next
    assume c: ?conds
    then obtain a params l t where a: "string_to_bytes (addr E) (cd_creator m) = Some a"
        "dns_params_item (dns w) = Some params" "fee_payable E a (domain_creation_fee params) (ledger w)"
      and lt: "split_dots n = [l, t]" "t \<noteq> []" "normalize_tld (unicode_lower E) t \<noteq> []"
        "kv_get (permitted_tlds (dns w)) (normalize_tld (unicode_lower E) t) \<noteq> None"
      using name by (auto simp: registrable_def n_def)
    obtain w1 where w1: "charge_creation_fee E a (cd_creator m) (domain_creation_fee params) w = (Inr (), w1)"
      using a(3) charge_creation_fee_ok [of E a "cd_creator m"] by blast
    have dns1: "dns w1 = dns w" using charge_creation_fee_InrE [OF w1] by simp
    have fresh: "kv_get (domain_names (dns w)) n = None" using c reg by (simp add: registrable_def n_def)
    have steps: "is_tld_permitted E t w1 = (Inr True, w1)" "check_duplicate_name E n w1 = (Inr (), w1)"
      "check_ns_records (cd_ns_records m) w1 = (Inr (), w1)"
      "domain_seq_next E w1 = (Inr (domain_seq (dns w)), upd_dns (\<lambda>s. s\<lparr>domain_seq := domain_seq (dns w) + 1\<rparr>) w1)"
      "\<And>d v. store_new_domain E d v = (Inr (), upd_dns (\<lambda>s. s\<lparr>domains := kv_set (dom_id d) d (domains s),
          domain_names := kv_set (dom_name d) (dom_id d) (domain_names s)\<rparr>) v)"
      using lt c fresh E dns1 by (simp_all add: is_tld_permitted_Inr Let_def check_duplicate_name_Inr)
    obtain o' where "string_to_bytes (addr E) (cd_owner m) = Some o'" using c by blast
    then have "create_domain E c m w = (Inr (domain_seq (dns w)), snd (create_domain E c m w))"
      using a lt(1,2) w1 steps E
      by (simp add: create_domain_def bind_op_def then_op_def of_option_def ret_def dns_params_get_def read_op_def
          n_def [symmetric] require_def map_err_def emit_op_def update_op_def
          del: check_ns_records_Inr domain_seq_next_Inr store_new_domain_Inr)
    then show ?run by blast
  qed
qed

end
