(* ===== verification/Dao_Types.thy ===== *)
theory Dao_Types
  imports Environment Go_Op
begin

text \<open>
  The \<^verbatim>\<open>types\<close> package of \<^verbatim>\<open>x/dao\<close>: proposal contents (\<^verbatim>\<open>proposal_content.go\<close>), parameters
  (\<^verbatim>\<open>params.go\<close>), the genesis state (\<^verbatim>\<open>genesis.go\<close>), events and the key spaces (\<^verbatim>\<open>keys.go\<close>).
\<close>

section \<open>Names (keys.go, events.go)\<close>

definition DaoModuleName :: string where "DaoModuleName = ''dao''"

definition dao_prefixes :: "string list" where
  "dao_prefixes = [''Params/'', ''ProposalSeq/'', ''Proposals/value/'', ''Votes/value/'',
     ''ActiveProposalQueue/'', ''VoterPowerLots/value/'']"

definition EventTypeSubmitProposal :: string where "EventTypeSubmitProposal = ''submit_proposal''"
definition EventTypeProposalVote :: string where "EventTypeProposalVote = ''proposal_vote''"
definition EventTypeProposalFinished :: string where "EventTypeProposalFinished = ''proposal_finished''"
definition AttributeKeyProposalID :: string where "AttributeKeyProposalID = ''proposal_id''"
definition AttributeKeyProposer :: string where "AttributeKeyProposer = ''proposer''"
definition AttributeKeyVoter :: string where "AttributeKeyVoter = ''voter''"
definition AttributeKeyVoteOption :: string where "AttributeKeyVoteOption = ''option''"
definition AttributeKeyProposalStatus :: string where "AttributeKeyProposalStatus = ''proposal_status''"
definition AttributeKeyVotingPower :: string where "AttributeKeyVotingPower = ''voting_power''"

text \<open>\<^verbatim>\<open>govtypes.AttributeKeyProposalType\<close> of the SDK.\<close>

definition AttributeKeyProposalType :: string where "AttributeKeyProposalType = ''proposal_type''"

section \<open>Proposal contents (proposal\_content.go)\<close>

definition proposal_route :: "proposal_content \<Rightarrow> string" where
  "proposal_route c = DaoModuleName"

definition proposal_type :: "proposal_content \<Rightarrow> string" where
  "proposal_type c = (case c of AddTld _ \<Rightarrow> ''AddTld'' | RequestTokens _ \<Rightarrow> ''RequestTokens'')"

definition alnum_char :: "char \<Rightarrow> bool" where
  "alnum_char c = (let n = (of_char c :: nat) in
     97 \<le> n \<and> n \<le> 122 \<or> 65 \<le> n \<and> n \<le> 90 \<or> 48 \<le> n \<and> n \<le> 57)"

text \<open>
  \<^verbatim>\<open>tldRegexp\<close>: one alphanumeric character, and optionally at most 61 alphanumerics or hyphens
  followed by an alphanumeric character, up to the end of the text.
\<close>

definition tld_regexp :: "string \<Rightarrow> bool" where
  "tld_regexp s = (case s of [] \<Rightarrow> False
     | c # r \<Rightarrow> alnum_char c \<and> (r = [] \<or>
         length (butlast r) \<le> 61 \<and> list_all (\<lambda>x. alnum_char x \<or> x = CHR ''-'') (butlast r) \<and> alnum_char (last r)))"

definition validate_add_tld :: "add_tld_content \<Rightarrow> gerr option" where
  "validate_add_tld m =
     (if at_tld m = [] then Some ErrInvalidRequest
      else if length (at_tld m) < 2 \<or> 63 < length (at_tld m) then Some ErrInvalidRequest
      else if \<not> tld_regexp (at_tld m) then Some ErrInvalidRequest
      else None)"

definition validate_request_tokens :: "('b, 'd) env \<Rightarrow> request_tokens_content \<Rightarrow> gerr option" where
  "validate_request_tokens E m =
     (if acc_from_bech32 (addr E) (rt_recipient m) = None then Some ErrInvalidAddress
      else if coins_validate (coin_lib E) (rt_amount m) \<noteq> None then Some ErrInvalidCoins
      else if \<not> coins_all_positive (coin_lib E) (rt_amount m) then Some ErrInvalidCoins
      else if rt_activity m = [] then Some ErrInvalidRequest
      else None)"

definition validate_content :: "('b, 'd) env \<Rightarrow> proposal_content \<Rightarrow> gerr option" where
  "validate_content E c = (case c of AddTld a \<Rightarrow> validate_add_tld a
     | RequestTokens r \<Rightarrow> validate_request_tokens E r)"

section \<open>Parameters (params.go)\<close>

definition new_dao_params ::
  "u64 \<Rightarrow> coins \<Rightarrow> 'd \<Rightarrow> string \<Rightarrow> u64 \<Rightarrow> coin \<Rightarrow> coins \<Rightarrow> 'd \<Rightarrow> 'd dao_params" where
  "new_dao_params period deposit minYes denom decay reward tldCost quorum =
     \<lparr>voting_period_blocks = period, proposal_submission_deposit = deposit, quorum_percent = quorum,
      min_yes_threshold_percent = minYes, voting_token_denom = denom, voting_power_decay_blocks = decay,
      validator_reward_amount = reward, add_tld_proposal_cost = tldCost\<rparr>"

definition default_dao_params :: "('b, 'd) env \<Rightarrow> 'd dao_params" where
  "default_dao_params E = (let denom = ''udns'' in
     new_dao_params 500 (new_coins (coin_lib E) [\<lparr>coin_denom = denom, coin_amount = 10000000\<rparr>])
       (dec_must_from_str (dec E) ''0.50'') denom 100 \<lparr>coin_denom = denom, coin_amount = 0\<rparr>
       (new_coins (coin_lib E) [\<lparr>coin_denom = denom, coin_amount = 5000000\<rparr>])
       (dec_must_from_str (dec E) ''0.334''))"

definition validate_dao_params :: "('b, 'd) env \<Rightarrow> 'd dao_params \<Rightarrow> gerr option" where
  "validate_dao_params E p =
     (if voting_period_blocks p = 0 then Some (ErrPlain ''voting period blocks cannot be zero'')
      else if coins_validate (coin_lib E) (proposal_submission_deposit p) \<noteq> None then Some ErrInvalidCoins
      else if \<not> coins_all_positive (coin_lib E) (proposal_submission_deposit p)
          \<and> \<not> coins_is_zero (coin_lib E) (proposal_submission_deposit p) then Some ErrInvalidCoins
      else if dec_is_nil (dec E) (min_yes_threshold_percent p) then
        Some (ErrPlain ''min yes threshold percent cannot be nil'')
      else if dec_is_negative (dec E) (min_yes_threshold_percent p) then
        Some (ErrPlain ''min yes threshold percent cannot be negative'')
      else if dec_gt (dec E) (min_yes_threshold_percent p) (dec_one (dec E)) then
        Some (ErrPlain ''min yes threshold percent cannot be greater than 1'')
      else if denom_validate (coin_lib E) (voting_token_denom p) \<noteq> None then Some ErrInvalidRequest
      else if coin_validate (coin_lib E) (validator_reward_amount p) \<noteq> None then Some ErrInvalidCoins
      else if \<not> coin_is_zero (coin_lib E) (validator_reward_amount p)
          \<and> coin_denom (validator_reward_amount p) \<noteq> voting_token_denom p then
        Some (ErrPlain ''validator reward token denom must match voting token denom'')
      else if coins_validate (coin_lib E) (add_tld_proposal_cost p) \<noteq> None then Some ErrInvalidCoins
      else if \<not> coins_all_positive (coin_lib E) (add_tld_proposal_cost p)
          \<and> \<not> coins_is_zero (coin_lib E) (add_tld_proposal_cost p) then Some ErrInvalidCoins
      else if dec_is_nil (dec E) (quorum_percent p) then Some (ErrPlain ''quorum percent cannot be nil'')
      else if dec_is_negative (dec E) (quorum_percent p) then
        Some (ErrPlain ''quorum percent cannot be negative'')
      else if dec_gt (dec E) (quorum_percent p) (dec_one (dec E)) then
        Some (ErrPlain ''quorum percent cannot be greater than 1'')
      else None)"

section \<open>Genesis state (genesis.go)\<close>

definition default_dao_genesis :: "('b, 'd) env \<Rightarrow> 'd dao_genesis" where
  "default_dao_genesis E = \<lparr>dg_params = default_dao_params E\<rparr>"

definition validate_dao_genesis :: "('b, 'd) env \<Rightarrow> 'd dao_genesis \<Rightarrow> gerr option" where
  "validate_dao_genesis E gs = validate_dao_params E (dg_params gs)"

section \<open>Facts\<close>

text \<open>The expression says: DNS label characters only, no hyphen at either end, at most 63 of them.\<close>

lemma tld_regexp_iff:
  "tld_regexp s \<longleftrightarrow> s \<noteq> [] \<and> length s \<le> 63 \<and> list_all (\<lambda>x. alnum_char x \<or> x = CHR ''-'') s
     \<and> alnum_char (hd s) \<and> alnum_char (last s)"
proof (cases s)
  case (Cons c r)
  show ?thesis
  proof (cases r rule: rev_cases)
    case (snoc b e)
    then show ?thesis using Cons by (auto simp: tld_regexp_def)
  qed (auto simp: Cons tld_regexp_def)
qed (simp add: tld_regexp_def)

lemma alnum_plain: "alnum_char c \<or> c = CHR ''-'' \<Longrightarrow> 32 < (of_char c :: nat) \<and> (of_char c :: nat) < 128 \<and> c \<noteq> CHR ''.''"
  by (auto simp: alnum_char_def Let_def)

lemma validate_add_tld_None:
  "validate_add_tld m = None \<longleftrightarrow> 2 \<le> length (at_tld m) \<and> tld_regexp (at_tld m)"
  by (auto simp: validate_add_tld_def tld_regexp_iff)

lemma validate_dao_params_bounds:
  assumes "validate_dao_params E p = None" and "dec_laws (dec E) R"
  shows "voting_period_blocks p \<noteq> 0"
    and "0 \<le> R (min_yes_threshold_percent p) \<and> R (min_yes_threshold_percent p) \<le> dec_unit"
    and "0 \<le> R (quorum_percent p) \<and> R (quorum_percent p) \<le> dec_unit"
  using assms by (auto simp: validate_dao_params_def dec_laws_def not_less split: if_splits)

end
