(* ===== verification/Dao_Keeper.thy ===== *)
theory Dao_Keeper
  imports Dao_Types Dns_Keeper
begin

text \<open>
  The keeper of \<^verbatim>\<open>x/dao\<close> (\<^verbatim>\<open>keeper.go\<close>): its collections, and the voting power of an account, which
  is its balance until the first lot is granted and the sum of its decayed lots from then on.
\<close>

section \<open>The keeper and its collections\<close>

definition empty_dao_store :: "'d dao_store" where
  "empty_dao_store = \<lparr>dao_params_item = None, proposal_seq = 0, proposals = [], votes = [],
     active_queue = [], power_lots = []\<rparr>"

definition new_dao_keeper :: "('b, 'd) env \<Rightarrow> bytes \<Rightarrow> 'd dao_store res" where
  "new_dao_keeper E authority =
     (case bytes_to_string (addr E) authority of None \<Rightarrow> Inl Panic
      | Some _ \<Rightarrow> (if prefix_free dao_prefixes \<and> distinct dao_prefixes then Inr empty_dao_store else Inl Panic))"

definition upd_dao :: "('d dao_store \<Rightarrow> 'd dao_store) \<Rightarrow> ('b, 'd) world \<Rightarrow> ('b, 'd) world" where
  "upd_dao f w = w\<lparr>dao := f (dao w)\<rparr>"

lemma upd_dao_simps [simp, frame_simps]:
  "dao (upd_dao f w) = f (dao w)" "dns (upd_dao f w) = dns w"
  "ledger (upd_dao f w) = ledger w" "events (upd_dao f w) = events w"
  by (simp_all add: upd_dao_def)

definition dao_params_get :: "('b, 'd) env \<Rightarrow> (('b, 'd) world, 'd dao_params) op" where
  "dao_params_get E = read_op (\<lambda>w. read_item (fault E DaoParamsGet) (dao_params_item (dao w)))"

definition dao_params_set :: "('b, 'd) env \<Rightarrow> 'd dao_params \<Rightarrow> (('b, 'd) world, unit) op" where
  "dao_params_set E p = write_op (fault E DaoParamsSet) (upd_dao (\<lambda>s. s\<lparr>dao_params_item := Some p\<rparr>))"

definition get_next_proposal_id :: "('b, 'd) env \<Rightarrow> (('b, 'd) world, u64) op" where
  "get_next_proposal_id E = bind_op (read_op (\<lambda>w. Inr (proposal_seq (dao w)))) (\<lambda>n.
     then_op (write_op (fault E ProposalSeqNext) (upd_dao (\<lambda>s. s\<lparr>proposal_seq := n + 1\<rparr>))) (ret n))"

definition set_proposal :: "('b, 'd) env \<Rightarrow> proposal \<Rightarrow> (('b, 'd) world, unit) op" where
  "set_proposal E p = write_op (fault E ProposalSet)
     (upd_dao (\<lambda>s. s\<lparr>proposals := kv_set (pr_id p) p (proposals s)\<rparr>))"

definition get_proposal :: "('b, 'd) env \<Rightarrow> u64 \<Rightarrow> (('b, 'd) world, proposal) op" where
  "get_proposal E i = read_op (\<lambda>w. read_kv (fault E ProposalGet) (proposals (dao w)) i)"

text \<open>The proposals that \<^verbatim>\<open>IterateProposals\<close> visits, in the order of their identifiers.\<close>

definition iterate_proposals :: "('b, 'd) env \<Rightarrow> (('b, 'd) world, proposal list) op" where
  "iterate_proposals E = bind_op (read_op (\<lambda>w. walk_kv (fault E ProposalWalk) (proposals (dao w)))) (\<lambda>ps.
     ret (map snd ps))"

definition set_vote :: "('b, 'd) env \<Rightarrow> vote \<Rightarrow> (('b, 'd) world, unit) op" where
  "set_vote E v = bind_op (of_option (ErrExternal 0) (string_to_bytes (addr E) (vt_voter v))) (\<lambda>voterAddr.
     write_op (fault E VoteSet) (upd_dao (\<lambda>s. s\<lparr>votes := kv_set (vt_proposal_id v, voterAddr) v (votes s)\<rparr>)))"

definition get_vote :: "('b, 'd) env \<Rightarrow> u64 \<Rightarrow> bytes \<Rightarrow> (('b, 'd) world, vote) op" where
  "get_vote E i voter = read_op (\<lambda>w. read_kv (fault E VoteGet) (votes (dao w)) (i, voter))"

text \<open>The votes below the prefix of one proposal.\<close>

definition votes_of :: "'d dao_store \<Rightarrow> u64 \<Rightarrow> vote list" where
  "votes_of s i = map snd (filter (\<lambda>x. fst (fst x) = i) (kv_walk (votes s)))"

lemma votes_of_cong: "votes s = votes t \<Longrightarrow> votes_of s i = votes_of t i"
  by (simp add: votes_of_def)

definition iterate_votes :: "('b, 'd) env \<Rightarrow> u64 \<Rightarrow> (('b, 'd) world, vote list) op" where
  "iterate_votes E i = read_op (\<lambda>w. case fault E VoteWalk of Some e \<Rightarrow> Inl e | None \<Rightarrow> Inr (votes_of (dao w) i))"

definition add_to_active_queue :: "('b, 'd) env \<Rightarrow> u64 \<Rightarrow> (('b, 'd) world, unit) op" where
  "add_to_active_queue E i = write_op (fault E QueueSet)
     (upd_dao (\<lambda>s. s\<lparr>active_queue := kv_set i () (active_queue s)\<rparr>))"

definition remove_from_active_queue :: "('b, 'd) env \<Rightarrow> u64 \<Rightarrow> (('b, 'd) world, unit) op" where
  "remove_from_active_queue E i = write_op (fault E QueueRemove)
     (upd_dao (\<lambda>s. s\<lparr>active_queue := kv_remove i (active_queue s)\<rparr>))"

definition get_active_proposals :: "('b, 'd) env \<Rightarrow> (('b, 'd) world, u64 list) op" where
  "get_active_proposals E = bind_op (read_op (\<lambda>w. walk_kv (fault E QueueWalk) (active_queue (dao w)))) (\<lambda>q.
     ret (map fst q))"

text \<open>The lots below the prefix of one voter, and the write of a lot.\<close>

definition lots_of :: "'d dao_store \<Rightarrow> bytes \<Rightarrow> power_lot list" where
  "lots_of s voter = map snd (filter (\<lambda>x. fst (fst x) = voter) (kv_walk (power_lots s)))"

definition set_lot :: "('b, 'd) env \<Rightarrow> bytes \<Rightarrow> u64 \<Rightarrow> power_lot \<Rightarrow> (('b, 'd) world, unit) op" where
  "set_lot E voter i lot = write_op (fault E LotSet)
     (upd_dao (\<lambda>s. s\<lparr>power_lots := kv_set (voter, i) lot (power_lots s)\<rparr>))"

lemmas dao_access_defs = dao_params_get_def dao_params_set_def set_proposal_def get_proposal_def
  iterate_proposals_def get_vote_def iterate_votes_def set_lot_def

lemma get_next_proposal_id_Inr [simp]:
  "get_next_proposal_id E w = (Inr n, w') \<longleftrightarrow>
     fault E ProposalSeqNext = None \<and> n = proposal_seq (dao w) \<and> w' = upd_dao (\<lambda>s. s\<lparr>proposal_seq := n + 1\<rparr>) w"
  by (auto simp: get_next_proposal_id_def op_success)

text \<open>The comparison \<^verbatim>\<open>err == collections.ErrNotFound\<close>, in contrast to \<^verbatim>\<open>errors.Is\<close>.\<close>

definition is_not_found_value :: "('b, 'd) env \<Rightarrow> gerr \<Rightarrow> bool" where
  "is_not_found_value E e = (e = ErrNotFound \<and> not_found_bare E)"

section \<open>Voting power\<close>

definition is_lot_based_voting_active :: "('b, 'd) env \<Rightarrow> (('b, 'd) world, bool) op" where
  "is_lot_based_voting_active E =
     bind_op (read_op (\<lambda>w. walk_kv (fault E LotWalk) (power_lots (dao w)))) (\<lambda>entries. ret (entries \<noteq> []))"

lemma is_lot_based_voting_active_Inr [simp]:
  "is_lot_based_voting_active E w = (Inr b, w') \<longleftrightarrow>
     w' = w \<and> fault E LotWalk = None \<and> b = (power_lots (dao w) \<noteq> [])"
  by (auto simp: is_lot_based_voting_active_def op_success kv_walk_def dest!: walk_kv_InrD)

text \<open>
  The body of the loop over the lots: what a lot adds to the total. \<^verbatim>\<open>int64(x)\<close> of an unsigned
  64-bit integer is \<open>sint\<close>.
\<close>

definition decayed_power :: "'d dec_ops \<Rightarrow> u64 \<Rightarrow> u64 \<Rightarrow> power_lot \<Rightarrow> int" where
  "decayed_power D decayDurationBlocks currentBlockHeight lot =
     (if lot_initial_amount lot = 0 then 0
      else if decayDurationBlocks = 0 then lot_initial_amount lot
      else (let blocksPassed = currentBlockHeight - lot_grant_height lot in
        if decayDurationBlocks \<le> blocksPassed then 0
        else (let remainingRatio = dec_sub D (dec_one D)
                (dec_quo_int64 D (dec_new D (sint blocksPassed)) (sint decayDurationBlocks));
              decayedPower = dec_truncate D (dec_mul D (dec_from_int D (lot_initial_amount lot)) remainingRatio) in
          if 0 < decayedPower then decayedPower else 0)))"

definition calculate_voter_power :: "('b, 'd) env \<Rightarrow> bytes \<Rightarrow> u64 \<Rightarrow> (('b, 'd) world, int) op" where
  "calculate_voter_power E voterAddr currentBlockHeight =
     bind_op (dao_params_get E) (\<lambda>params.
     bind_op (is_lot_based_voting_active E) (\<lambda>lotBasedVotingActive.
       if \<not> lotBasedVotingActive then
         read_op (\<lambda>w. Inr (get_balance (bank E) voterAddr (voting_token_denom params) (ledger w)))
       else
         bind_op (read_op (\<lambda>w. case fault E LotWalk of Some e \<Rightarrow> Inl e | None \<Rightarrow> Inr (lots_of (dao w) voterAddr))) (\<lambda>lots.
         ret (foldl (\<lambda>totalPower lot. totalPower +
           decayed_power (dec E) (voting_power_decay_blocks params) currentBlockHeight lot) 0 lots))))"

text \<open>The power as a function of the store.\<close>

definition voter_power :: "('b, 'd) env \<Rightarrow> 'd dao_params \<Rightarrow> ('b, 'd) world \<Rightarrow> bytes \<Rightarrow> u64 \<Rightarrow> int" where
  "voter_power E p w voter height =
     (if power_lots (dao w) = [] then get_balance (bank E) voter (voting_token_denom p) (ledger w)
      else sum_list (map (decayed_power (dec E) (voting_power_decay_blocks p) height) (lots_of (dao w) voter)))"

lemma foldl_plus_sum: "foldl (\<lambda>acc x. acc + f x) (a::int) xs = a + sum_list (map f xs)"
  by (induction xs arbitrary: a) auto

lemma calculate_voter_power_Inr:
  "calculate_voter_power E voter height w = (Inr n, w') \<longleftrightarrow>
     w' = w \<and> fault E DaoParamsGet = None \<and> fault E LotWalk = None
   \<and> (\<exists>p. dao_params_item (dao w) = Some p \<and> n = voter_power E p w voter height)"
  by (auto simp: calculate_voter_power_def dao_params_get_def op_success
      voter_power_def foldl_plus_sum split: option.splits if_splits dest!: read_item_InrD)

section \<open>Decay\<close>

text \<open>
  For a lot granted in the past and a decay duration that \<^verbatim>\<open>int64\<close> can hold, the power of a lot is
  between zero and its amount and does not grow from block to block.
\<close>

lemma sint_small: "a \<le> b \<Longrightarrow> b < 2 ^ 63 \<Longrightarrow> 0 \<le> sint a \<and> sint a \<le> sint b" for a b :: u64
proof -
  assume ab: "a \<le> b" "b < 2 ^ 63"
  have s: "sint x = uint x" if "x < 2 ^ 63" for x :: u64
  proof -
    have "uint x < 2 ^ 63" using that by (simp add: word_less_def)
    then show ?thesis
      using signed_take_bit_int_eq_self [of 63 "uint x"] uint_ge_0 [of x] by (simp add: sint_uint)
  qed
  from ab have "a < 2 ^ 63" by (rule le_less_trans)
  with ab show ?thesis by (simp add: s word_le_def)
qed

text \<open>A quotient that is off by less than one unit stays within the bounds of the exact one.\<close>

lemma close_quotient:
  fixes q k a u :: int
  assumes k: "0 < k" and close: "\<bar>q * k - a * u\<bar> < k" and u: "0 \<le> u"
  shows "0 \<le> a \<Longrightarrow> 0 \<le> q" and "a \<le> k \<Longrightarrow> q \<le> u"
proof -
  show "0 \<le> q" if "0 \<le> a"
  proof (rule ccontr)
    assume "\<not> 0 \<le> q"
    then have "q * k \<le> - 1 * k" using k by (intro mult_right_mono) auto
    moreover have "0 \<le> a * u" using that u by simp
    ultimately show False using close by linarith
  qed
  show "q \<le> u" if "a \<le> k"
  proof (rule ccontr)
    assume "\<not> q \<le> u"
    then have "(u + 1) * k \<le> q * k" using k by (intro mult_right_mono) auto
    then have "u * k + k \<le> q * k" by (simp only: distrib_right mult_1)
    moreover have "a * u \<le> u * k" using mult_right_mono [OF that u] by (simp only: mult.commute [of u])
    ultimately show False using close by linarith
  qed
qed

definition remaining_ratio :: "'d dec_ops \<Rightarrow> u64 \<Rightarrow> u64 \<Rightarrow> 'd" where
  "remaining_ratio D decay passed = dec_sub D (dec_one D) (dec_quo_int64 D (dec_new D (sint passed)) (sint decay))"

lemma remaining_ratio_bounds:
  assumes D: "dec_laws D R" and passed: "passed < decay" and small: "decay < 2 ^ 63"
  shows "R (remaining_ratio D decay passed) \<ge> 0" "R (remaining_ratio D decay passed) \<le> dec_unit"
    and "R (remaining_ratio D decay passed) = dec_unit - R (dec_quo_int64 D (dec_new D (sint passed)) (sint decay))"
proof -
  let ?q = "R (dec_quo_int64 D (dec_new D (sint passed)) (sint decay))"
  have le: "0 \<le> sint passed" "sint passed \<le> sint decay"
    using sint_small [of passed decay] passed small by auto
  have "decay \<noteq> 0" using passed by auto
  then have pos: "0 < sint decay"
    using sint_small [of 0 decay] small sint_0 by (metis antisym_conv2 signed_0 signed_word_eqI word_zero_le)
  have close: "\<bar>?q * sint decay - sint passed * dec_unit\<bar> < sint decay"
    using dec_lawsD(8) [OF D pos, of "dec_new D (sint passed)"] by (simp add: dec_lawsD(2) [OF D])
  have q0: "0 \<le> ?q" by (rule close_quotient(1) [OF pos close _ le(1)]) simp
  have q1: "?q \<le> dec_unit" by (rule close_quotient(2) [OF pos close _ le(2)]) simp
  have "\<bar>R (dec_one D)\<bar> + \<bar>?q\<bar> < dec_max"
    using q0 q1 by (simp add: dec_lawsD(1) [OF D] dec_unit_def dec_max_def)
  then show eq: "R (remaining_ratio D decay passed) = dec_unit - ?q"
    by (simp add: remaining_ratio_def dec_lawsD(5) [OF D] dec_lawsD(1) [OF D])
  show "R (remaining_ratio D decay passed) \<ge> 0" "R (remaining_ratio D decay passed) \<le> dec_unit"
    using q0 q1 eq by auto
qed

text \<open>The power that is left of a positive amount, up to rounding.\<close>

definition amount_ok :: "int \<Rightarrow> bool" where
  "amount_ok a \<longleftrightarrow> 0 \<le> a \<and> a < 2 ^ 200"

lemma decayed_power_bounds:
  assumes D: "dec_laws D R" and small: "decay < 2 ^ 63" and amt: "amount_ok (lot_initial_amount lot)"
  shows "0 \<le> decayed_power D decay height lot"
    and "decayed_power D decay height lot \<le> lot_initial_amount lot"
proof -
  let ?a = "lot_initial_amount lot" and ?passed = "height - lot_grant_height lot"
  have a0: "0 \<le> ?a" using amt by (simp add: amount_ok_def)
  show "0 \<le> decayed_power D decay height lot"
    using a0 by (simp add: decayed_power_def Let_def)
  show "decayed_power D decay height lot \<le> ?a"
  proof (cases "?a = 0 \<or> decay = 0 \<or> decay \<le> ?passed")
    case True
    then show ?thesis using a0 by (auto simp: decayed_power_def Let_def)
  next
    case False
    then have passed: "?passed < decay" by auto
    define q where "q = remaining_ratio D decay ?passed"
    define m where "m = dec_mul D (dec_from_int D ?a) q"
    have q: "0 \<le> R q" "R q \<le> dec_unit"
      using remaining_ratio_bounds [OF D passed small] by (auto simp: q_def)
    have ra: "R (dec_from_int D ?a) = ?a * dec_unit" by (rule dec_lawsD(3) [OF D])
    have prod: "?a * dec_unit * R q \<le> ?a * dec_unit * dec_unit"
      using a0 q by (intro mult_left_mono) auto
    have big: "?a * dec_unit * dec_unit < dec_max * dec_unit"
      using amt by (simp add: amount_ok_def dec_max_def dec_unit_def)
    have close: "\<bar>R m * dec_unit - ?a * dec_unit * R q\<bar> < dec_unit"
    proof -
      have "\<bar>R (dec_from_int D ?a)\<bar> * \<bar>R q\<bar> = ?a * dec_unit * R q" using a0 q by (simp add: ra abs_mult)
      then show ?thesis
        unfolding m_def using dec_lawsD(6) [OF D, of "dec_from_int D ?a" q] le_less_trans [OF prod big] by (simp only: ra)
    qed
    have up: "R m < ?a * dec_unit + 1"
    proof (rule ccontr)
      assume "\<not> R m < ?a * dec_unit + 1"
      then have "(?a * dec_unit + 1) * dec_unit \<le> R m * dec_unit" by (intro mult_right_mono) auto
      then have "?a * dec_unit * dec_unit + dec_unit \<le> R m * dec_unit" by (simp only: distrib_right mult_1)
      with close prod show False by linarith
    qed
    have "decayed_power D decay height lot = (if 0 < dec_truncate D m then dec_truncate D m else 0)"
      using False by (simp add: decayed_power_def Let_def m_def q_def remaining_ratio_def)
    moreover have "dec_truncate D m \<le> ?a"
    proof (cases "0 \<le> R m")
      case True
      have "R m < dec_max" using up amt by (simp add: amount_ok_def dec_max_def dec_unit_def)
      then have "dec_truncate D m = R m div dec_unit" using True by (rule dec_lawsD(10) [OF D, rotated])
      also have "\<dots> \<le> ?a * dec_unit div dec_unit" using up by (intro zdiv_mono1) auto
      also have "\<dots> = ?a" by (simp add: dec_unit_def)
      finally show ?thesis .
    next
      case False
      have "?a * dec_unit * R q \<ge> 0" using a0 q by simp
      moreover have "R m * dec_unit \<le> - 1 * dec_unit" using False by (intro mult_right_mono) auto
      ultimately show ?thesis using close by linarith
    qed
    ultimately show ?thesis using a0 by simp
  qed
qed

text \<open>The whole amount in the block of the grant, nothing once the duration has passed.\<close>

lemma decayed_power_ends:
  shows "decay \<noteq> 0 \<Longrightarrow> decay \<le> height - lot_grant_height lot \<Longrightarrow> decayed_power D decay height lot = 0"
    and "decay = 0 \<Longrightarrow> decayed_power D decay height lot = lot_initial_amount lot"
  by (simp_all add: decayed_power_def Let_def)

lemma sum_decayed_bounds:
  assumes D: "dec_laws D R" and small: "decay < 2 ^ 63"
    and amt: "\<And>l. l \<in> set lots \<Longrightarrow> amount_ok (lot_initial_amount l)"
  shows "0 \<le> sum_list (map (decayed_power D decay height) lots)"
    and "sum_list (map (decayed_power D decay height) lots) \<le> sum_list (map lot_initial_amount lots)"
proof -
  show "0 \<le> sum_list (map (decayed_power D decay height) lots)"
    using decayed_power_bounds(1) [OF D small amt] by (intro sum_list_nonneg) auto
  show "sum_list (map (decayed_power D decay height) lots) \<le> sum_list (map lot_initial_amount lots)"
    using decayed_power_bounds(2) [OF D small amt] by (rule sum_list_map_mono_int)
qed

end
