(* ===== verification/Dao_Msgs.thy ===== *)
theory Dao_Msgs
  imports Dao_Keeper Dns_Msgs
begin

text \<open>
  The message server of \<^verbatim>\<open>x/dao\<close> (\<^verbatim>\<open>msg_server.go\<close>): submitting a proposal and voting, over the
  keeper of the other module as the interface \<^verbatim>\<open>DnsblockchainKeeper\<close> gives it.
\<close>

section \<open>SubmitProposal\<close>

text \<open>
  The walk that looks for an active proposal with the same content. \<open>content\<close> is the unpacked
  content of the new proposal and \<open>url\<close> the type URL of its \<^verbatim>\<open>Any\<close>. Reading the type URL of a \<^verbatim>\<open>nil\<close>
  content of a stored proposal panics.
\<close>

fun find_active_duplicate ::
  "('b, 'd) env \<Rightarrow> string \<Rightarrow> proposal_content \<Rightarrow> proposal list \<Rightarrow> bool res" where
  "find_active_duplicate E url content [] = Inr False"
| "find_active_duplicate E url content (p # ps) =
     (if pr_status p = PROPOSAL_STATUS_VOTING_PERIOD then
        (case unpack_any (codec E) (pr_content p) of
           Inl _ \<Rightarrow> find_active_duplicate E url content ps
         | Inr existingContent \<Rightarrow>
             (case pr_content p of None \<Rightarrow> Inl Panic
              | Some a \<Rightarrow>
                  if url = type_url a
                     \<and> marshal_content (codec E) (Some content) = marshal_content (codec E) existingContent
                  then Inr True else find_active_duplicate E url content ps))
      else find_active_duplicate E url content ps)"

text \<open>The checks of an \<^verbatim>\<open>AddTld\<close> content against the TLDs of the other module.\<close>

definition check_proposed_tld ::
  "('b, 'd) env \<Rightarrow> ('b, 'd) dns_keeper \<Rightarrow> add_tld_content \<Rightarrow> (('b, 'd) world, unit) op" where
  "check_proposed_tld E dk a =
     (let normalizedProposedTLD = normalize_name (unicode_lower E) (at_tld a) in
      bind_op (dk_is_tld_globally_reserved dk normalizedProposedTLD) (\<lambda>isGloballyReserved.
      then_op (require (\<not> isGloballyReserved) ErrTLDReservedByICANN)
     (bind_op (dk_is_tld_permitted dk normalizedProposedTLD) (\<lambda>isPermitted.
      require (\<not> isPermitted) ErrInvalidProposalContent))))"

definition required_deposit :: "'d dao_params \<Rightarrow> proposal_content \<Rightarrow> coins" where
  "required_deposit params content = (case content of AddTld _ \<Rightarrow> add_tld_proposal_cost params
     | RequestTokens _ \<Rightarrow> proposal_submission_deposit params)"

definition pay_deposit ::
  "('b, 'd) env \<Rightarrow> bytes \<Rightarrow> coins \<Rightarrow> coins \<Rightarrow> (('b, 'd) world, unit) op" where
  "pay_deposit E proposer depositToPay initialDeposit =
     (if \<not> coins_is_zero (coin_lib E) depositToPay
      then run_bank (send_account_to_module (bank E) proposer DaoModuleName depositToPay)
      else require (coins_is_zero (coin_lib E) initialDeposit) ErrInvalidRequest)"

definition new_proposal ::
  "ctx \<Rightarrow> 'd dao_params \<Rightarrow> msg_submit_proposal \<Rightarrow> u64 \<Rightarrow> int \<Rightarrow> proposal" where
  "new_proposal c params m proposalID supply =
     (let submitBlock = block_height_u64 c; votingEndBlock = submitBlock + voting_period_blocks params in
      \<lparr>pr_id = proposalID, pr_proposer = sp_proposer m, pr_title = sp_title m,
       pr_description = sp_description m, pr_content = sp_content m,
       pr_status = PROPOSAL_STATUS_VOTING_PERIOD, pr_submit_block = submitBlock,
       pr_voting_start_block = submitBlock, pr_voting_end_block = votingEndBlock,
       pr_yes_votes = 0, pr_no_votes = 0, pr_abstain_votes = 0, pr_total_power_at_snapshot = supply\<rparr>)"

definition unpack_new_content :: "('b, 'd) env \<Rightarrow> any option \<Rightarrow> ('s, proposal_content) op" where
  "unpack_new_content E x =
     then_op (require (x \<noteq> None) ErrInvalidProposalContent)
    (bind_op (map_err (\<lambda>_. ErrInvalidProposalContent) (lift_res (unpack_any (codec E) x))) (\<lambda>content.
     of_option ErrInvalidProposalContent content))"

definition submit_proposal ::
  "('b, 'd) env \<Rightarrow> ('b, 'd) dns_keeper \<Rightarrow> ctx \<Rightarrow> msg_submit_proposal \<Rightarrow> (('b, 'd) world, u64) op" where
  "submit_proposal E dk c m =
     bind_op (of_option ErrInvalidAddress (string_to_bytes (addr E) (sp_proposer m))) (\<lambda>proposer.
     bind_op (unpack_new_content E (sp_content m)) (\<lambda>content.
     then_op (check (validate_content E content))
    (bind_op (iterate_proposals E) (\<lambda>existing.
     bind_op (lift_res (find_active_duplicate E (case sp_content m of None \<Rightarrow> [] | Some a \<Rightarrow> type_url a) content existing)) (\<lambda>found.
     then_op (require (\<not> found) ErrDuplicateActiveProposal)
    (bind_op (dao_params_get E) (\<lambda>params.
     then_op (case content of AddTld a \<Rightarrow> check_proposed_tld E dk a | RequestTokens _ \<Rightarrow> ret ())
    (then_op (pay_deposit E proposer (required_deposit params content) (sp_initial_deposit m))
    (bind_op (get_next_proposal_id E) (\<lambda>proposalID.
     bind_op (read_op (\<lambda>w. Inr (get_supply (bank E) (voting_token_denom params) (ledger w)))) (\<lambda>supply.
     then_op (set_proposal E (new_proposal c params m proposalID supply))
    (then_op (emit_op [new_event EventTypeSubmitProposal
        [(AttributeKeyProposalID, show_u64 proposalID), (AttributeKeyProposalType, proposal_type content),
         (AttributeKeyProposer, sp_proposer m)]])
    (ret proposalID)))))))))))))"

section \<open>Vote\<close>

text \<open>
  A vote that is found with a voter is an error, a vote without one is overwritten, and only a
  missing vote is not an error.
\<close>

definition check_not_voted :: "('b, 'd) env \<Rightarrow> u64 \<Rightarrow> bytes \<Rightarrow> (('b, 'd) world, unit) op" where
  "check_not_voted E i voter = bind_op (try_op (get_vote E i voter)) (\<lambda>r. case r of
      Inr existingVote \<Rightarrow> require (vt_voter existingVote = []) ErrAlreadyVoted
    | Inl e \<Rightarrow> require (e = ErrNotFound) e)"

definition vote_on_proposal ::
  "('b, 'd) env \<Rightarrow> ctx \<Rightarrow> msg_vote \<Rightarrow> (('b, 'd) world, unit) op" where
  "vote_on_proposal E c m =
     bind_op (of_option ErrInvalidAddress (string_to_bytes (addr E) (mv_voter m))) (\<lambda>voter.
     bind_op (map_err (\<lambda>_. ErrProposalNotFound) (get_proposal E (mv_proposal_id m))) (\<lambda>p.
     then_op (require (pr_status p = PROPOSAL_STATUS_VOTING_PERIOD) ErrInactiveProposal)
    (let currentBlock = block_height_u64 c in
     then_op (require (\<not> pr_voting_end_block p < currentBlock) ErrVotingPeriodEnded)
    (then_op (check_not_voted E (mv_proposal_id m) voter)
    (bind_op (calculate_voter_power E voter (block_height_u64 c)) (\<lambda>votingPower.
     then_op (require (votingPower \<noteq> 0) ErrNoVotingPower)
    (then_op (set_vote E \<lparr>vt_proposal_id = mv_proposal_id m, vt_voter = mv_voter m,
        vt_option = mv_option m, vt_voting_power = votingPower\<rparr>)
    (emit_op [new_event EventTypeProposalVote
        [(AttributeKeyProposalID, show_u64 (mv_proposal_id m)), (AttributeKeyVoter, mv_voter m),
         (AttributeKeyVoteOption, enum_name E vote_option_name (mv_option m)),
         (AttributeKeyVotingPower, int_string (dec E) votingPower)]]))))))))"

section \<open>What a successful run did\<close>

text \<open>
  The proofs about \<open>submit_proposal\<close> use the other keeper through its interface only: the rules of
  the locale say that the checks on a TLD leave the state alone.
\<close>

lemma pay_deposit_InrE:
  assumes "pay_deposit E a dep ini w = (Inr r, w')"
  shows "dns w' = dns w" "dao w' = dao w"
    and "if coins_is_zero (coin_lib E) dep then w' = w \<and> coins_is_zero (coin_lib E) ini
         else send_account_to_module (bank E) a DaoModuleName dep (ledger w) = (Inr (), ledger w')"
  using assms by (auto simp: pay_deposit_def run_bank_def split: prod.splits if_splits)

lemma unpack_new_content_Inr [simp]:
  "unpack_new_content E x w = (Inr ct, w') \<longleftrightarrow>
     w' = w \<and> (\<exists>a. x = Some a \<and> unpack_any (codec E) (Some a) = Inr (Some ct))"
  by (auto simp: unpack_new_content_def op_success)

lemma iterate_proposals_Inr [simp]:
  "iterate_proposals E w = (Inr ps, w') \<longleftrightarrow>
     w' = w \<and> fault E ProposalWalk = None \<and> ps = map snd (kv_walk (proposals (dao w)))"
  by (auto simp: iterate_proposals_def op_success dest!: walk_kv_InrD)

definition keeper_record ::
  "(string \<Rightarrow> (('b, 'd) world, unit) op) \<Rightarrow> (string \<Rightarrow> (('b, 'd) world, bool) op) \<Rightarrow>
    (string \<Rightarrow> (('b, 'd) world, bool) op) \<Rightarrow> ('b, 'd) dns_keeper" where
  "keeper_record add permitted reserved = \<lparr>dk_add_permitted_tld = add,
     dk_is_tld_permitted = permitted, dk_is_tld_globally_reserved = reserved\<rparr>"

lemma keeper_record_of: "dns_keeper_of E =
    keeper_record (add_permitted_tld E) (is_tld_permitted E) (is_tld_globally_reserved E)"
  by (simp add: dns_keeper_of_def keeper_record_def)

context dnsblockchain_keeper
begin

lemma check_proposed_tld_InrE:
  assumes "check_proposed_tld E (keeper_record add permitted reserved) a w = (Inr r, w')"
  defines "t \<equiv> normalize_name (unicode_lower E) (at_tld a)"
  shows "w' = w" "reserved t w = (Inr False, w)" "permitted t w = (Inr False, w)"
proof -
  obtain w1 w2 where "reserved t w = (Inr False, w1)" "permitted t w1 = (Inr False, w2)" "w' = w2"
    using assms(1) by (auto simp: check_proposed_tld_def op_success keeper_record_def t_def Let_def)
  then show "w' = w" "reserved t w = (Inr False, w)" "permitted t w = (Inr False, w)"
    using permitted_reads reserved_reads by metis+
qed

lemma submit_proposal_success:
  assumes "submit_proposal E (keeper_record add permitted reserved) c m w = (Inr i, w')"
  obtains proposer a ct params where
    "string_to_bytes (addr E) (sp_proposer m) = Some proposer"
    "sp_content m = Some a" "unpack_any (codec E) (Some a) = Inr (Some ct)" "validate_content E ct = None"
    "find_active_duplicate E (type_url a) ct (map snd (kv_walk (proposals (dao w)))) = Inr False"
    "dao_params_item (dao w) = Some params"
    "\<And>t. ct = AddTld t \<Longrightarrow> fst (reserved (normalize_name (unicode_lower E) (at_tld t)) w) = Inr False
       \<and> fst (permitted (normalize_name (unicode_lower E) (at_tld t)) w) = Inr False"
    "i = proposal_seq (dao w)"
    "dao w' = (dao w)\<lparr>proposal_seq := i + 1, proposals := kv_set i
       (new_proposal c params m i (get_supply (bank E) (voting_token_denom params) (ledger w'))) (proposals (dao w))\<rparr>"
    "dns w' = dns w"
    "if coins_is_zero (coin_lib E) (required_deposit params ct) then ledger w' = ledger w
     else send_account_to_module (bank E) proposer DaoModuleName (required_deposit params ct) (ledger w) = (Inr (), ledger w')"
proof -
  obtain proposer a ct params w1 w2 where
    f: "string_to_bytes (addr E) (sp_proposer m) = Some proposer"
    "sp_content m = Some a" "unpack_any (codec E) (Some a) = Inr (Some ct)" "validate_content E ct = None"
    "find_active_duplicate E (type_url a) ct (map snd (kv_walk (proposals (dao w)))) = Inr False"
    "dao_params_item (dao w) = Some params"
    and tld: "(case ct of AddTld a \<Rightarrow> check_proposed_tld E (keeper_record add permitted reserved) a | RequestTokens _ \<Rightarrow> ret ()) w = (Inr (), w1)"
    and pay: "pay_deposit E proposer (required_deposit params ct) (sp_initial_deposit m) w1 = (Inr (), w2)"
    and w': "i = proposal_seq (dao w2)" "dns w' = dns w2" "ledger w' = ledger w2"
      "dao w' = (dao w2)\<lparr>proposal_seq := i + 1, proposals := kv_set i
         (new_proposal c params m i (get_supply (bank E) (voting_token_denom params) (ledger w2))) (proposals (dao w2))\<rparr>"
    using assms
    by (auto simp: submit_proposal_def op_success dao_params_get_def set_proposal_def new_proposal_def Let_def
        dest!: read_item_InrD)
  have w1: "w1 = w" using tld check_proposed_tld_InrE(1) by (auto split: proposal_content.splits)
  show ?thesis
  proof (rule that [OF f])
    show "fst (reserved (normalize_name (unicode_lower E) (at_tld t)) w) = Inr False
       \<and> fst (permitted (normalize_name (unicode_lower E) (at_tld t)) w) = Inr False" if "ct = AddTld t" for t
      using tld that check_proposed_tld_InrE(2,3) [of E t w "()" w1] by simp
  qed (use w' w1 pay_deposit_InrE [OF pay] in \<open>auto split: if_splits\<close>)
qed

end

lemma check_not_voted_Inr:
  "check_not_voted E i voter w = (Inr r, w') \<longleftrightarrow> w' = w \<and>
     (case fault E VoteGet of Some e \<Rightarrow> e = ErrNotFound
      | None \<Rightarrow> (case kv_get (votes (dao w)) (i, voter) of None \<Rightarrow> True | Some v \<Rightarrow> vt_voter v = []))"
  by (auto simp: check_not_voted_def op_success try_op_Inr get_vote_def read_op_def read_kv_def
      split: option.splits sum.splits)

lemma vote_on_proposal_success:
  assumes "vote_on_proposal E c m w = (Inr r, w')"
  obtains voter p params n where
    "string_to_bytes (addr E) (mv_voter m) = Some voter"
    "kv_get (proposals (dao w)) (mv_proposal_id m) = Some p"
    "pr_status p = PROPOSAL_STATUS_VOTING_PERIOD" "block_height_u64 c \<le> pr_voting_end_block p"
    "fault E VoteGet = None \<Longrightarrow>
       (case kv_get (votes (dao w)) (mv_proposal_id m, voter) of None \<Rightarrow> True | Some v \<Rightarrow> vt_voter v = [])"
    "dao_params_item (dao w) = Some params" "n = voter_power E params w voter (block_height_u64 c)" "n \<noteq> 0"
    "dao w' = (dao w)\<lparr>votes := kv_set (mv_proposal_id m, voter)
       \<lparr>vt_proposal_id = mv_proposal_id m, vt_voter = mv_voter m, vt_option = mv_option m,
        vt_voting_power = n\<rparr> (votes (dao w))\<rparr>"
    "dns w' = dns w" "ledger w' = ledger w"
proof -
  obtain voter p params where
    "string_to_bytes (addr E) (mv_voter m) = Some voter"
    "kv_get (proposals (dao w)) (mv_proposal_id m) = Some p"
    "pr_status p = PROPOSAL_STATUS_VOTING_PERIOD" "block_height_u64 c \<le> pr_voting_end_block p"
    and fresh: "case fault E VoteGet of Some e \<Rightarrow> e = ErrNotFound
      | None \<Rightarrow> (case kv_get (votes (dao w)) (mv_proposal_id m, voter) of None \<Rightarrow> True | Some v \<Rightarrow> vt_voter v = [])"
    and "dao_params_item (dao w) = Some params" "voter_power E params w voter (block_height_u64 c) \<noteq> 0"
    and w': "dao w' = (dao w)\<lparr>votes := kv_set (mv_proposal_id m, voter)
       \<lparr>vt_proposal_id = mv_proposal_id m, vt_voter = mv_voter m, vt_option = mv_option m,
        vt_voting_power = voter_power E params w voter (block_height_u64 c)\<rparr> (votes (dao w))\<rparr>"
    "dns w' = dns w" "ledger w' = ledger w"
    using assms
    by (auto simp: vote_on_proposal_def op_success get_proposal_def set_vote_def calculate_voter_power_Inr
        check_not_voted_Inr Let_def not_less dest!: read_kv_InrD)
  then show ?thesis
    using fresh w' by (intro that [of voter p params "voter_power E params w voter (block_height_u64 c)"]) simp_all
qed

end
