(* ===== verification/Dao_EndBlocker.thy ===== *)
theory Dao_EndBlocker
  imports Dao_Msgs Dns_Queries
begin

text \<open>
  The end of a block in \<^verbatim>\<open>x/dao\<close> (\<^verbatim>\<open>end_blocker.go\<close>): the proposals whose voting period is over are
  tallied, decided, executed and closed, one after the other.
\<close>

section \<open>Tally and decision\<close>

record tally =
  tl_yes :: int
  tl_no :: int
  tl_abstain :: int
  tl_voted :: int

definition zero_tally :: tally where
  "zero_tally = \<lparr>tl_yes = 0, tl_no = 0, tl_abstain = 0, tl_voted = 0\<rparr>"

text \<open>The body of the loop over the votes: the switch on the option, and the total of all votes that have one.\<close>

definition tally_vote :: "tally \<Rightarrow> vote \<Rightarrow> tally" where
  "tally_vote t v =
     (let power = vt_voting_power v;
          t1 = (if vt_option v = VOTE_OPTION_YES then t\<lparr>tl_yes := tl_yes t + power\<rparr>
                else if vt_option v = VOTE_OPTION_NO then t\<lparr>tl_no := tl_no t + power\<rparr>
                else if vt_option v = VOTE_OPTION_ABSTAIN then t\<lparr>tl_abstain := tl_abstain t + power\<rparr>
                else t) in
      if vt_option v \<noteq> VOTE_OPTION_UNSPECIFIED then t1\<lparr>tl_voted := tl_voted t1 + power\<rparr> else t1)"

definition tally_votes :: "vote list \<Rightarrow> tally" where
  "tally_votes vs = foldl tally_vote zero_tally vs"

text \<open>
  The quorum; \<open>None\<close> stands for the branch in which a power cannot be converted to a decimal.
\<close>

definition quorum_reached :: "('b, 'd) env \<Rightarrow> 'd dao_params \<Rightarrow> int \<Rightarrow> int \<Rightarrow> bool option" where
  "quorum_reached E params snapshot voted =
     (if 0 < snapshot then
        (case (dec_from_str (dec E) (int_string (dec E) voted), dec_from_str (dec E) (int_string (dec E) snapshot)) of
           (Inr totalVotedDec, Inr totalSnapshotDec) \<Rightarrow>
             (if dec_is_zero (dec E) totalSnapshotDec \<and> dec_is_positive (dec E) (quorum_percent params) then Some False
              else if dec_is_zero (dec E) totalSnapshotDec \<and> dec_is_zero (dec E) (quorum_percent params) then Some True
              else Some (dec_gte (dec E) (dec_quo (dec E) totalVotedDec totalSnapshotDec) (quorum_percent params)))
         | _ \<Rightarrow> None)
      else Some (dec_is_zero (dec E) (quorum_percent params)))"

definition threshold_reached :: "('b, 'd) env \<Rightarrow> 'd dao_params \<Rightarrow> tally \<Rightarrow> bool option" where
  "threshold_reached E params t =
     (if tl_voted t = 0 then Some False
      else (let totalVotesNonAbstain = tl_yes t + tl_no t in
        if 0 < totalVotesNonAbstain then
          (case (dec_from_str (dec E) (int_string (dec E) (tl_yes t)),
                 dec_from_str (dec E) (int_string (dec E) totalVotesNonAbstain)) of
             (Inr yesDec, Inr denominatorDec) \<Rightarrow>
               (if \<not> dec_is_zero (dec E) denominatorDec
                then Some (dec_gte (dec E) (dec_quo (dec E) yesDec denominatorDec) (min_yes_threshold_percent params))
                else Some (dec_is_zero (dec E) (min_yes_threshold_percent params)))
           | _ \<Rightarrow> None)
        else Some (dec_is_zero (dec E) (min_yes_threshold_percent params))))"

text \<open>The status after the vote.\<close>

definition decide :: "('b, 'd) env \<Rightarrow> 'd dao_params \<Rightarrow> int \<Rightarrow> tally \<Rightarrow> proposal_status" where
  "decide E params snapshot t =
     (case quorum_reached E params snapshot (tl_voted t) of
        None \<Rightarrow> PROPOSAL_STATUS_FAILED
      | Some hasQuorum \<Rightarrow>
          (if \<not> hasQuorum then PROPOSAL_STATUS_REJECTED
           else (case threshold_reached E params t of
             None \<Rightarrow> PROPOSAL_STATUS_FAILED
           | Some passedVotingThreshold \<Rightarrow>
               (if passedVotingThreshold then PROPOSAL_STATUS_PASSED else PROPOSAL_STATUS_REJECTED))))"

definition tallied :: "('b, 'd) env \<Rightarrow> 'd dao_params \<Rightarrow> proposal \<Rightarrow> vote list res \<Rightarrow> proposal" where
  "tallied E params p r = (case r of
      Inl _ \<Rightarrow> p\<lparr>pr_status := PROPOSAL_STATUS_FAILED\<rparr>
    | Inr vs \<Rightarrow> (let t = tally_votes vs in
        p\<lparr>pr_status := decide E params (pr_total_power_at_snapshot p) t, pr_yes_votes := tl_yes t,
          pr_no_votes := tl_no t, pr_abstain_votes := tl_abstain t\<rparr>))"

section \<open>Execution\<close>

definition execute_add_tld :: "('b, 'd) dns_keeper \<Rightarrow> add_tld_content \<Rightarrow> (('b, 'd) world, unit) op" where
  "execute_add_tld dk content = dk_add_permitted_tld dk (at_tld content)"

text \<open>The loop over the granted coins; a lot that cannot be stored is only logged.\<close>

definition grant_lot ::
  "('b, 'd) env \<Rightarrow> ctx \<Rightarrow> 'd dao_params \<Rightarrow> request_tokens_content \<Rightarrow> bytes \<Rightarrow> u64 \<Rightarrow> coin \<Rightarrow> (('b, 'd) world, unit) op" where
  "grant_lot E c params content recipient proposalID x =
     when_op (coin_denom x = voting_token_denom params \<and> 0 < coin_amount x)
       (then_op (try_op (set_lot E recipient proposalID
          \<lparr>lot_voter = rt_recipient content, lot_proposal_id = proposalID,
           lot_initial_amount = coin_amount x, lot_grant_height = block_height_u64 c\<rparr>)) (ret ()))"

definition execute_request_tokens ::
  "('b, 'd) env \<Rightarrow> ctx \<Rightarrow> request_tokens_content \<Rightarrow> proposal \<Rightarrow> (('b, 'd) world, unit) op" where
  "execute_request_tokens E c content p =
     bind_op (dao_params_get E) (\<lambda>params.
     bind_op (of_option ErrInvalidAddress (string_to_bytes (addr E) (rt_recipient content))) (\<lambda>recipient.
     then_op (run_bank (mint_coins (bank E) DaoModuleName (rt_amount content)))
    (bind_op (try_op (run_bank (send_module_to_account (bank E) DaoModuleName recipient (rt_amount content)))) (\<lambda>sent.
       case sent of
         Inl e \<Rightarrow> then_op (try_op (run_bank (burn_coins (bank E) DaoModuleName (rt_amount content)))) (fail e)
       | Inr _ \<Rightarrow> for_op (rt_amount content) (grant_lot E c params content recipient (pr_id p))))))"

definition execute_proposal ::
  "('b, 'd) env \<Rightarrow> ('b, 'd) dns_keeper \<Rightarrow> ctx \<Rightarrow> proposal \<Rightarrow> (('b, 'd) world, unit) op" where
  "execute_proposal E dk c p =
     bind_op (map_err (\<lambda>_. ErrInvalidProposalContent) (lift_res (unpack_any (codec E) (pr_content p)))) (\<lambda>content.
       case content of
         Some (AddTld a) \<Rightarrow> execute_add_tld dk a
       | Some (RequestTokens r) \<Rightarrow> execute_request_tokens E c r p
       | None \<Rightarrow> fail ErrInvalidProposalContent)"

section \<open>Deposits and the status that is stored\<close>

definition deposit_to_handle :: "('b, 'd) env \<Rightarrow> 'd dao_params \<Rightarrow> proposal \<Rightarrow> coins" where
  "deposit_to_handle E params p =
     (case unpack_any (codec E) (pr_content p) of
        Inr (Some (AddTld _)) \<Rightarrow> add_tld_proposal_cost params
      | _ \<Rightarrow> proposal_submission_deposit params)"

text \<open>A content that does not unpack fails the proposal, unless it is rejected already.\<close>

definition check_content :: "('b, 'd) env \<Rightarrow> proposal \<Rightarrow> proposal" where
  "check_content E p =
     (case unpack_any (codec E) (pr_content p) of
        Inl _ \<Rightarrow> (if pr_status p \<noteq> PROPOSAL_STATUS_REJECTED then p\<lparr>pr_status := PROPOSAL_STATUS_FAILED\<rparr> else p)
      | Inr _ \<Rightarrow> p)"

text \<open>Errors of the bank while a deposit is burned or refunded are only logged.\<close>

definition burn_deposit :: "('b, 'd) env \<Rightarrow> coins \<Rightarrow> (('b, 'd) world, unit) op" where
  "burn_deposit E dep = when_op (\<not> coins_is_zero (coin_lib E) dep)
     (then_op (try_op (run_bank (burn_coins (bank E) DaoModuleName dep))) (ret ()))"

definition refund_deposit :: "('b, 'd) env \<Rightarrow> string \<Rightarrow> coins \<Rightarrow> (('b, 'd) world, unit) op" where
  "refund_deposit E proposer dep = when_op (\<not> coins_is_zero (coin_lib E) dep)
     (case string_to_bytes (addr E) proposer of
        None \<Rightarrow> ret ()
      | Some proposerAddr \<Rightarrow>
          then_op (try_op (run_bank (send_module_to_account (bank E) DaoModuleName proposerAddr dep))) (ret ()))"

definition settle ::
  "('b, 'd) env \<Rightarrow> ('b, 'd) dns_keeper \<Rightarrow> ctx \<Rightarrow> coins \<Rightarrow> proposal \<Rightarrow> (('b, 'd) world, proposal) op" where
  "settle E dk c dep p =
     (if pr_status p = PROPOSAL_STATUS_PASSED then
        bind_op (try_op (execute_proposal E dk c p)) (\<lambda>execErr. case execErr of
          Inl _ \<Rightarrow> then_op (burn_deposit E dep) (ret (p\<lparr>pr_status := PROPOSAL_STATUS_FAILED\<rparr>))
        | Inr _ \<Rightarrow> then_op (refund_deposit E (pr_proposer p) dep) (ret (p\<lparr>pr_status := PROPOSAL_STATUS_EXECUTED\<rparr>)))
      else if pr_status p = PROPOSAL_STATUS_REJECTED \<or> pr_status p = PROPOSAL_STATUS_FAILED then
        then_op (burn_deposit E dep) (ret p)
      else ret p)"

section \<open>EndBlocker\<close>

definition process_proposal ::
  "('b, 'd) env \<Rightarrow> ('b, 'd) dns_keeper \<Rightarrow> ctx \<Rightarrow> 'd dao_params \<Rightarrow> proposal \<Rightarrow> (('b, 'd) world, unit) op" where
  "process_proposal E dk c params p =
     bind_op (try_op (iterate_votes E (pr_id p))) (\<lambda>votes.
     bind_op (settle E dk c (deposit_to_handle E params p) (check_content E (tallied E params p votes))) (\<lambda>p'.
     then_op (set_proposal E p')
    (emit_op [new_event EventTypeProposalFinished
        [(AttributeKeyProposalID, show_u64 (pr_id p')),
         (AttributeKeyProposalStatus, enum_name E proposal_status_name (pr_status p'))]])))"

definition voting_over :: "u64 \<Rightarrow> proposal \<Rightarrow> bool" where
  "voting_over height p = (pr_status p = PROPOSAL_STATUS_VOTING_PERIOD \<and> pr_voting_end_block p < height)"

definition end_blocker :: "('b, 'd) env \<Rightarrow> ('b, 'd) dns_keeper \<Rightarrow> ctx \<Rightarrow> (('b, 'd) world, unit) op" where
  "end_blocker E dk c =
     bind_op (dao_params_get E) (\<lambda>params.
     bind_op (iterate_proposals E) (\<lambda>ps.
     for_op (filter (voting_over (block_height_u64 c)) ps) (process_proposal E dk c params)))"

section \<open>The tally\<close>

definition power_of :: "vote_option \<Rightarrow> vote list \<Rightarrow> int" where
  "power_of opt vs = sum_list (map vt_voting_power (filter (\<lambda>v. vt_option v = opt) vs))"

lemma tally_votes_foldl:
  "foldl tally_vote t vs = \<lparr>tl_yes = tl_yes t + power_of VOTE_OPTION_YES vs,
     tl_no = tl_no t + power_of VOTE_OPTION_NO vs, tl_abstain = tl_abstain t + power_of VOTE_OPTION_ABSTAIN vs,
     tl_voted = tl_voted t + sum_list (map vt_voting_power (filter (\<lambda>v. vt_option v \<noteq> VOTE_OPTION_UNSPECIFIED) vs))\<rparr>"
proof (induction vs arbitrary: t)
  case Nil
  then show ?case by (simp add: power_of_def)
next
  case (Cons v vs)
  show ?case
    by (simp add: Cons.IH) (auto simp: tally_vote_def power_of_def vote_option_defs Let_def)
qed

lemma tally_votes_eq:
  "tally_votes vs = \<lparr>tl_yes = power_of VOTE_OPTION_YES vs, tl_no = power_of VOTE_OPTION_NO vs,
     tl_abstain = power_of VOTE_OPTION_ABSTAIN vs,
     tl_voted = sum_list (map vt_voting_power (filter (\<lambda>v. vt_option v \<noteq> VOTE_OPTION_UNSPECIFIED) vs))\<rparr>"
  by (simp add: tally_votes_def tally_votes_foldl zero_tally_def)

lemma power_of_voted:
  assumes "\<And>v. v \<in> set vs \<Longrightarrow> vt_option v \<le> 3"
  shows "power_of VOTE_OPTION_YES vs + power_of VOTE_OPTION_NO vs + power_of VOTE_OPTION_ABSTAIN vs
    = tl_voted (tally_votes vs)"
  using assms
proof (induction vs)
  case Nil
  then show ?case by (simp add: power_of_def tally_votes_eq)
next
  case (Cons v vs)
  have "vt_option v = 0 \<or> vt_option v = 1 \<or> vt_option v = 2 \<or> vt_option v = 3"
    using Cons.prems [of v] by (auto simp: word_le_nat_alt word_unat_eq_iff)
  with Cons show ?case by (auto simp: tally_votes_eq power_of_def vote_option_defs)
qed

section \<open>What the execution of a proposal may change\<close>

text \<open>Of the store of the dao module only the lots.\<close>

definition only_lots :: "'d dao_store \<Rightarrow> ('b, 'd) world \<Rightarrow> bool" where
  "only_lots s w \<longleftrightarrow> dao w = s\<lparr>power_lots := power_lots (dao w)\<rparr>"

lemma only_lots_refl [simp]: "only_lots (dao w) w"
  by (simp add: only_lots_def)

lemma only_lotsD:
  assumes "only_lots s w"
  shows "proposals (dao w) = proposals s" "votes (dao w) = votes s" "dao_params_item (dao w) = dao_params_item s"
    "proposal_seq (dao w) = proposal_seq s" "active_queue (dao w) = active_queue s"
proof -
  note eq = assms [unfolded only_lots_def]
  show "proposals (dao w) = proposals s" using arg_cong [OF eq, of proposals] by simp
  show "votes (dao w) = votes s" using arg_cong [OF eq, of votes] by simp
  show "dao_params_item (dao w) = dao_params_item s" using arg_cong [OF eq, of dao_params_item] by simp
  show "proposal_seq (dao w) = proposal_seq s" using arg_cong [OF eq, of proposal_seq] by simp
  show "active_queue (dao w) = active_queue s" using arg_cong [OF eq, of active_queue] by simp
qed

text \<open>Of the store of the other module only the permitted TLDs.\<close>

definition only_tlds :: "dns_store \<Rightarrow> ('b, 'd) world \<Rightarrow> bool" where
  "only_tlds s w \<longleftrightarrow> domains (dns w) = domains s \<and> domain_names (dns w) = domain_names s
     \<and> domain_seq (dns w) = domain_seq s"

lemma keeps_run_bank:
  assumes "\<And>w b. I w \<Longrightarrow> I (w\<lparr>ledger := b\<rparr>)"
  shows "keeps I (run_bank f)"
  using assms by (auto simp: keeps_def run_bank_def split: prod.splits)

lemma keeps_case_content:
  assumes "\<And>e. keeps I (f e)" and "\<And>x. keeps I (g x)"
  shows "keeps I (case r of AddTld e \<Rightarrow> f e | RequestTokens x \<Rightarrow> g x)"
  using assms by (cases r) auto

lemmas keeps_rules = keeps_intros keeps_cases keeps_case_content

text \<open>An invariant that neither the ledger nor a new lot touches is kept by an execution.\<close>

lemma keeps_request_tokens:
  assumes bank: "\<And>w b. I w \<Longrightarrow> I (w\<lparr>ledger := b\<rparr>)"
    and lots: "\<And>w k lot. I w \<Longrightarrow> I (upd_dao (\<lambda>s. s\<lparr>power_lots := kv_set k lot (power_lots s)\<rparr>) w)"
  shows "keeps I (execute_request_tokens E c content p)"
  unfolding execute_request_tokens_def dao_params_get_def grant_lot_def set_lot_def
  by (intro keeps_rules keeps_run_bank keeps_write bank lots)

lemma keeps_settle:
  assumes bank: "\<And>w b. I w \<Longrightarrow> I (w\<lparr>ledger := b\<rparr>)"
    and lots: "\<And>w k lot. I w \<Longrightarrow> I (upd_dao (\<lambda>s. s\<lparr>power_lots := kv_set k lot (power_lots s)\<rparr>) w)"
    and tlds: "\<And>t. keeps I (dk_add_permitted_tld dk t)"
  shows "keeps I (execute_proposal E dk c p)" and "keeps I (settle E dk c dep p)"
proof -
  show exec: "keeps I (execute_proposal E dk c p)" for p
    unfolding execute_proposal_def execute_add_tld_def
    by (intro keeps_rules keeps_request_tokens bank lots tlds)
  have "keeps I (burn_deposit E dep)"
    unfolding burn_deposit_def by (intro keeps_rules keeps_run_bank bank)
  moreover have "keeps I (refund_deposit E a dep)" for a
    unfolding refund_deposit_def by (intro keeps_rules keeps_run_bank bank)
  ultimately show "keeps I (settle E dk c dep p)"
    unfolding settle_def by (auto intro!: keeps_rules exec)
qed

section \<open>Settling always succeeds\<close>

lemma burn_deposit_ok: "burn_deposit E dep w = (Inr (), snd (burn_deposit E dep w))"
  by (simp add: burn_deposit_def op_defs split: prod.splits)

lemma refund_deposit_ok: "refund_deposit E a dep w = (Inr (), snd (refund_deposit E a dep w))"
  by (simp add: refund_deposit_def op_defs split: prod.splits option.splits)

text \<open>The status that is stored, given the outcome of the vote and of the execution.\<close>

definition final_status :: "proposal_status \<Rightarrow> bool \<Rightarrow> proposal_status" where
  "final_status st executed = (if st = PROPOSAL_STATUS_PASSED
     then (if executed then PROPOSAL_STATUS_EXECUTED else PROPOSAL_STATUS_FAILED) else st)"

lemma settle_passed:
  assumes "pr_status p = PROPOSAL_STATUS_PASSED" and "execute_proposal E dk c p w = (r, w1)"
  shows "settle E dk c dep p w =
    (if is_ok r then (Inr (p\<lparr>pr_status := PROPOSAL_STATUS_EXECUTED\<rparr>), snd (refund_deposit E (pr_proposer p) dep w1))
     else (Inr (p\<lparr>pr_status := PROPOSAL_STATUS_FAILED\<rparr>), snd (burn_deposit E dep w1)))"
  using assms burn_deposit_ok [of E dep w1] refund_deposit_ok [of E "pr_proposer p" dep w1]
  by (cases r) (auto simp: settle_def bind_op_def try_op_def then_op_def ret_def split: prod.splits)

lemma settle_not_passed:
  assumes "pr_status p = PROPOSAL_STATUS_REJECTED \<or> pr_status p = PROPOSAL_STATUS_FAILED"
  shows "settle E dk c dep p w = (Inr p, snd (burn_deposit E dep w))"
  using assms burn_deposit_ok [of E dep w]
  by (auto simp: settle_def then_op_def bind_op_def ret_def split: prod.splits)

lemma settle_result:
  assumes "pr_status p \<in> {PROPOSAL_STATUS_PASSED, PROPOSAL_STATUS_REJECTED, PROPOSAL_STATUS_FAILED}"
  shows "\<exists>w' executed. settle E dk c dep p w = (Inr (p\<lparr>pr_status := final_status (pr_status p) executed\<rparr>), w')
    \<and> (pr_status p = PROPOSAL_STATUS_PASSED \<longrightarrow> executed = is_ok (fst (execute_proposal E dk c p w)))"
proof (cases "pr_status p = PROPOSAL_STATUS_PASSED")
  case True
  obtain r w1 where "execute_proposal E dk c p w = (r, w1)" by fastforce
  then show ?thesis
    using settle_passed [OF True, of E dk c w r w1 dep] True by (auto simp: final_status_def)
next
  case False
  then have "pr_status p = PROPOSAL_STATUS_REJECTED \<or> pr_status p = PROPOSAL_STATUS_FAILED" using assms by auto
  from settle_not_passed [OF this, of E dk c dep w] False show ?thesis
    by (auto simp: final_status_def)
qed

section \<open>Closing one proposal\<close>

text \<open>The outcome of the vote with the check of the content, and the proposal as it is stored in the end.\<close>

definition decision :: "('b, 'd) env \<Rightarrow> 'd dao_params \<Rightarrow> vote list \<Rightarrow> proposal \<Rightarrow> proposal_status" where
  "decision E params vs p =
     (let d = decide E params (pr_total_power_at_snapshot p) (tally_votes vs) in
      case unpack_any (codec E) (pr_content p) of
        Inl _ \<Rightarrow> (if d \<noteq> PROPOSAL_STATUS_REJECTED then PROPOSAL_STATUS_FAILED else d)
      | Inr _ \<Rightarrow> d)"

definition closed :: "('b, 'd) env \<Rightarrow> 'd dao_params \<Rightarrow> vote list \<Rightarrow> proposal \<Rightarrow> bool \<Rightarrow> proposal" where
  "closed E params vs p executed =
     (let t = tally_votes vs in
      p\<lparr>pr_status := final_status (decision E params vs p) executed, pr_yes_votes := tl_yes t,
        pr_no_votes := tl_no t, pr_abstain_votes := tl_abstain t\<rparr>)"

lemma decide_cases:
  "decide E params n t \<in> {PROPOSAL_STATUS_PASSED, PROPOSAL_STATUS_REJECTED, PROPOSAL_STATUS_FAILED}"
  by (auto simp: decide_def split: option.splits)

lemma decision_cases:
  "decision E params vs p \<in> {PROPOSAL_STATUS_PASSED, PROPOSAL_STATUS_REJECTED, PROPOSAL_STATUS_FAILED}"
  using decide_cases [of E params "pr_total_power_at_snapshot p" "tally_votes vs"]
  by (auto simp: decision_def Let_def split: sum.splits)

lemma final_status_cases:
  "final_status (decision E params vs p) ex \<in>
     {PROPOSAL_STATUS_EXECUTED, PROPOSAL_STATUS_REJECTED, PROPOSAL_STATUS_FAILED}"
  using decision_cases [of E params vs p] by (auto simp: final_status_def)

lemma closed_simps [simp]:
  "pr_id (closed E params vs p ex) = pr_id p" "pr_content (closed E params vs p ex) = pr_content p"
  "pr_proposer (closed E params vs p ex) = pr_proposer p"
  "pr_status (closed E params vs p ex) = final_status (decision E params vs p) ex"
  "pr_yes_votes (closed E params vs p ex) = tl_yes (tally_votes vs)"
  "pr_no_votes (closed E params vs p ex) = tl_no (tally_votes vs)"
  "pr_abstain_votes (closed E params vs p ex) = tl_abstain (tally_votes vs)"
  by (simp_all add: closed_def Let_def)

lemma check_content_tallied:
  "check_content E (tallied E params p (Inr vs)) =
     (let t = tally_votes vs in p\<lparr>pr_status := decision E params vs p, pr_yes_votes := tl_yes t,
        pr_no_votes := tl_no t, pr_abstain_votes := tl_abstain t\<rparr>)"
  by (simp add: check_content_def tallied_def decision_def Let_def split: sum.splits)

lemma execute_proposal_cong:
  assumes "pr_content p = pr_content q" and "pr_id p = pr_id q"
  shows "execute_proposal E dk c p w = execute_proposal E dk c q w"
proof -
  have "execute_request_tokens E c r p = execute_request_tokens E c r q" for r
    unfolding execute_request_tokens_def assms(2) by (rule refl)
  note eq = this
  show ?thesis unfolding execute_proposal_def assms(1) eq by (rule refl)
qed

lemma only_lots_lot:
  assumes "only_lots s w"
  shows "only_lots s (upd_dao (\<lambda>s. s\<lparr>power_lots := kv_set k lot (power_lots s)\<rparr>) w)"
  using arg_cong [OF assms [unfolded only_lots_def], of "\<lambda>x. x\<lparr>power_lots := kv_set k lot (power_lots (dao w))\<rparr>"]
  by (simp add: only_lots_def)

section \<open>Lots\<close>

text \<open>What execution adds to the lots belongs to the executed proposal and is well formed.\<close>

definition lot_ok :: "('b, 'd) env \<Rightarrow> u64 \<Rightarrow> bytes \<Rightarrow> power_lot \<Rightarrow> bool" where
  "lot_ok E i a l \<longleftrightarrow> lot_proposal_id l = i \<and> string_to_bytes (addr E) (lot_voter l) = Some a
     \<and> 0 < lot_initial_amount l"

definition lots_grow :: "('b, 'd) env \<Rightarrow> u64 \<Rightarrow> (bytes \<times> u64, power_lot) kv \<Rightarrow> ('b, 'd) world \<Rightarrow> bool" where
  "lots_grow E i L w \<longleftrightarrow> (kv_ok L \<longrightarrow> kv_ok (power_lots (dao w)))
     \<and> (\<forall>a j. kv_get (power_lots (dao w)) (a, j) = kv_get L (a, j)
          \<or> j = i \<and> (\<exists>l. kv_get (power_lots (dao w)) (a, j) = Some l \<and> lot_ok E i a l))"

lemma keeps_grant_lot:
  assumes "string_to_bytes (addr E) (rt_recipient content) = Some recipient"
  shows "keeps (lots_grow E i L) (grant_lot E c params content recipient i x)"
proof (cases "coin_denom x = voting_token_denom params \<and> 0 < coin_amount x")
  case True
  then show ?thesis
    using assms by (auto simp: grant_lot_def when_op_def keeps_def then_op_def bind_op_def try_op_def set_lot_def
        write_op_def update_op_def fail_def ret_def lots_grow_def lot_ok_def split: option.splits)
next
  case False
  show ?thesis unfolding grant_lot_def when_op_def by (simp only: False if_False keeps_pure)
qed

lemma grant_lots_ok: "\<exists>w'. for_op xs (grant_lot E c params content recipient i) w = (Inr (), w')"
proof -
  have "\<exists>w'. for_op xs (grant_lot E c params content recipient i) w = (Inr (), w') \<and> True"
  proof (rule for_op_steps)
    fix x :: coin and s :: "('a, 'b) world"
    show "\<exists>s'. grant_lot E c params content recipient i x s = (Inr (), s') \<and> True"
      by (auto simp: grant_lot_def when_op_def then_op_def bind_op_def try_op_def ret_def split: prod.splits)
  qed simp
  then show ?thesis by simp
qed

lemma keeps_execute_lots:
  assumes "\<And>t. keeps (lots_grow E (pr_id p) L) (dk_add_permitted_tld dk t)"
  shows "keeps (lots_grow E (pr_id p) L) (execute_proposal E dk c p)"
  unfolding execute_proposal_def execute_add_tld_def execute_request_tokens_def dao_params_get_def
  by (intro keeps_rules keeps_bind_of_option keeps_run_bank keeps_grant_lot assms) (simp_all add: lots_grow_def)

text \<open>
  The loop over the proposals whose voting is over, in the order of their identifiers: each is
  stored closed, every other proposal as it was, and the votes are those from before.
\<close>

definition closed_upto ::
  "('b, 'd) env \<Rightarrow> 'd dao_params \<Rightarrow> 'd dao_store \<Rightarrow> dns_store \<Rightarrow> proposal list \<Rightarrow> (u64 \<Rightarrow> bool) \<Rightarrow> ('b, 'd) world \<Rightarrow> bool" where
  "closed_upto E params s0 d0 ys ex w \<longleftrightarrow>
     votes (dao w) = votes s0 \<and> dao_params_item (dao w) = dao_params_item s0 \<and> proposal_seq (dao w) = proposal_seq s0
   \<and> only_tlds d0 w
   \<and> (kv_ok (proposals s0) \<longrightarrow> kv_ok (proposals (dao w))) \<and> (kv_ok (power_lots s0) \<longrightarrow> kv_ok (power_lots (dao w)))
   \<and> (\<forall>i. i \<notin> pr_id ` set ys \<longrightarrow> kv_get (proposals (dao w)) i = kv_get (proposals s0) i)
   \<and> (\<forall>p \<in> set ys. kv_get (proposals (dao w)) (pr_id p) = Some (closed E params (votes_of s0 (pr_id p)) p (ex (pr_id p))))
   \<and> (\<forall>a i. kv_get (power_lots (dao w)) (a, i) = kv_get (power_lots s0) (a, i)
        \<or> (\<exists>p \<in> set ys. pr_id p = i \<and> pr_status (closed E params (votes_of s0 i) p (ex i)) = PROPOSAL_STATUS_EXECUTED)
          \<and> (\<exists>l. kv_get (power_lots (dao w)) (a, i) = Some l \<and> lot_ok E i a l))"

context dnsblockchain_keeper
begin

lemma execute_failed_lots:
  assumes "execute_proposal E (keeper_record add permitted reserved) c p w = (Inl e, w')"
  shows "power_lots (dao w') = power_lots (dao w)"
proof -
  have tokens: "power_lots (dao w') = power_lots (dao w)"
    if "execute_request_tokens E c r p w = (Inl e, w')" for r
    using that grant_lots_ok [where xs = "rt_amount r" and E = E and c = c and content = r and i = "pr_id p"]
    by (auto simp: execute_request_tokens_def bind_op_def then_op_def try_op_def dao_params_get_def read_op_def
        of_option_def fail_def ret_def run_bank_def split: prod.splits sum.splits option.splits)
      (metis Inl_Inr_False prod.inject)+
  show ?thesis
    using assms tokens add_frame
    by (auto simp: execute_proposal_def execute_add_tld_def bind_op_def map_err_def lift_res_def fail_def
        keeper_record_def split: sum.splits option.splits proposal_content.splits)
qed

lemma settle_only_lots: "keeps (only_lots s) (settle E (keeper_record add permitted reserved) c dep p)"
proof (rule keeps_settle)
  show "keeps (only_lots s) (dk_add_permitted_tld (keeper_record add permitted reserved) t)" for t
    using add_frame [of t] by (auto simp: keeps_def keeper_record_def only_lots_def)
      (metis add_frame only_lots_def prod.collapse)
qed (simp add: only_lots_def, rule only_lots_lot)

lemma settle_only_tlds: "keeps (only_tlds s) (settle E (keeper_record add permitted reserved) c dep p)"
proof (rule keeps_settle)
  show "keeps (only_tlds s) (dk_add_permitted_tld (keeper_record add permitted reserved) t)" for t
    using add_domains [of t] by (auto simp: keeps_def keeper_record_def only_tlds_def) (metis prod.collapse)+
qed (auto simp: only_tlds_def)

lemma keeps_add_lots: "keeps (lots_grow E i L) (dk_add_permitted_tld (keeper_record add permitted reserved) t)"
proof -
  have "lots_grow E i L w'" if "lots_grow E i L w" "add t w = (r, w')" for w r w'
    using that add_frame [OF that(2)] by (simp add: lots_grow_def)
  then show ?thesis by (auto simp: keeps_def keeper_record_def) (metis prod.collapse)
qed

lemma settle_lots:
  assumes run: "settle E (keeper_record add permitted reserved) c dep q w = (Inr q', w')"
    and st: "pr_status q \<in> {PROPOSAL_STATUS_PASSED, PROPOSAL_STATUS_REJECTED, PROPOSAL_STATUS_FAILED}"
  shows "lots_grow E (pr_id q) (power_lots (dao w)) w'"
    and "pr_status q' \<noteq> PROPOSAL_STATUS_EXECUTED \<Longrightarrow> power_lots (dao w') = power_lots (dao w)"
proof -
  let ?K = "keeper_record add permitted reserved"
  have dao_burn: "dao (snd (burn_deposit E dep v)) = dao v" for v
    by (simp add: burn_deposit_def op_defs run_bank_def split: prod.splits)
  have dao_refund: "dao (snd (refund_deposit E a dep v)) = dao v" for a v
    by (simp add: refund_deposit_def op_defs run_bank_def split: prod.splits option.splits)
  have refl: "lots_grow E (pr_id q) (power_lots (dao w)) w" by (simp add: lots_grow_def)
  have both: "lots_grow E (pr_id q) (power_lots (dao w)) w'
     \<and> (pr_status q' \<noteq> PROPOSAL_STATUS_EXECUTED \<longrightarrow> power_lots (dao w') = power_lots (dao w))"
  proof (cases "pr_status q = PROPOSAL_STATUS_PASSED")
    case True
    obtain r w1 where ex: "execute_proposal E ?K c q w = (r, w1)" by fastforce
    have g: "lots_grow E (pr_id q) (power_lots (dao w)) w1"
      using keepsD [OF keeps_execute_lots ex refl] keeps_add_lots by blast
    have f: "\<not> is_ok r \<Longrightarrow> power_lots (dao w1) = power_lots (dao w)"
      using execute_failed_lots [of E c q w _ w1] ex by (cases r) auto
    show ?thesis
      using run settle_passed [OF True ex, of dep] g f dao_burn [of w1] dao_refund [of "pr_proposer q" w1]
      by (auto simp: lots_grow_def split: if_splits)
  next
    case False
    then have "pr_status q = PROPOSAL_STATUS_REJECTED \<or> pr_status q = PROPOSAL_STATUS_FAILED" using st by auto
    from settle_not_passed [OF this, of E ?K c dep w] run dao_burn [of w] refl show ?thesis
      by (auto simp: lots_grow_def)
  qed
  then show "lots_grow E (pr_id q) (power_lots (dao w)) w'"
    and "pr_status q' \<noteq> PROPOSAL_STATUS_EXECUTED \<Longrightarrow> power_lots (dao w') = power_lots (dao w)" by auto
qed

lemma process_proposal_run:
  assumes E: "store_total E"
  shows "\<exists>executed w'. process_proposal E (keeper_record add permitted reserved) c params p w = (Inr (), w')
    \<and> proposals (dao w') = kv_set (pr_id p) (closed E params (votes_of (dao w) (pr_id p)) p executed) (proposals (dao w))
    \<and> votes (dao w') = votes (dao w) \<and> dao_params_item (dao w') = dao_params_item (dao w)
    \<and> proposal_seq (dao w') = proposal_seq (dao w)
    \<and> only_tlds (dns w) w'
    \<and> lots_grow E (pr_id p) (power_lots (dao w)) w'
    \<and> (final_status (decision E params (votes_of (dao w) (pr_id p)) p) executed \<noteq> PROPOSAL_STATUS_EXECUTED \<longrightarrow>
         power_lots (dao w') = power_lots (dao w))
    \<and> (decision E params (votes_of (dao w) (pr_id p)) p = PROPOSAL_STATUS_PASSED \<longrightarrow>
         executed = is_ok (fst (execute_proposal E (keeper_record add permitted reserved) c p w)))"
proof -
  define vs where "vs = votes_of (dao w) (pr_id p)"
  define q where "q = check_content E (tallied E params p (Inr vs))"
  let ?K = "keeper_record add permitted reserved" and ?dep = "deposit_to_handle E params p"
  have q: "q = (let t = tally_votes vs in p\<lparr>pr_status := decision E params vs p, pr_yes_votes := tl_yes t,
        pr_no_votes := tl_no t, pr_abstain_votes := tl_abstain t\<rparr>)"
    unfolding q_def by (rule check_content_tallied)
  have st: "pr_status q = decision E params vs p" by (simp add: q Let_def)
  obtain w1 ex where settle: "settle E ?K c ?dep q w = (Inr (q\<lparr>pr_status := final_status (pr_status q) ex\<rparr>), w1)"
    and ex: "pr_status q = PROPOSAL_STATUS_PASSED \<longrightarrow> ex = is_ok (fst (execute_proposal E ?K c q w))"
    using settle_result [of q E ?K c ?dep w] decision_cases [of E params vs p] st by auto
  have closed: "q\<lparr>pr_status := final_status (pr_status q) ex\<rparr> = closed E params vs p ex"
    by (simp add: q closed_def Let_def)
  have lots: "only_lots (dao w) w1" and tlds: "only_tlds (dns w) w1"
    using keepsD [OF settle_only_lots settle] keepsD [OF settle_only_tlds settle]
    by (auto simp: only_tlds_def)
  have "pr_status q \<in> {PROPOSAL_STATUS_PASSED, PROPOSAL_STATUS_REJECTED, PROPOSAL_STATUS_FAILED}"
    using decision_cases [of E params vs p] st by simp
  note grow = settle_lots [OF settle this]
  have pid: "pr_id q = pr_id p" by (simp add: q Let_def)
  have votes: "try_op (iterate_votes E (pr_id p)) w = (Inr (Inr vs), w)"
    using E by (simp add: iterate_votes_def try_read_op vs_def)
  define w' where "w' = snd (process_proposal E ?K c params p w)"
  have run: "process_proposal E ?K c params p w = (Inr (), w')"
    "proposals (dao w') = kv_set (pr_id p) (closed E params vs p ex) (proposals (dao w1))"
    "votes (dao w') = votes (dao w1)" "dao_params_item (dao w') = dao_params_item (dao w1)"
    "proposal_seq (dao w') = proposal_seq (dao w1)" "dns w' = dns w1" "power_lots (dao w') = power_lots (dao w1)"
    using E by (simp_all add: w'_def process_proposal_def bind_op_def then_op_def votes settle [unfolded closed]
        q_def [symmetric] set_proposal_def write_op_def update_op_def emit_op_def)
  have exec: "execute_proposal E ?K c q w = execute_proposal E ?K c p w"
    by (rule execute_proposal_cong) (simp_all add: q Let_def)
  show ?thesis
    using run only_lotsD [OF lots] tlds ex exec st grow pid
    by (intro exI [of _ ex] exI [of _ w']) (simp add: vs_def only_tlds_def lots_grow_def)
qed

lemma closed_upto_step:
  assumes E: "store_total E" and upto: "closed_upto E params s0 d0 ys ex w" and fresh: "pr_id p \<notin> pr_id ` set ys"
  shows "\<exists>w' ex'. process_proposal E (keeper_record add permitted reserved) c params p w = (Inr (), w')
    \<and> closed_upto E params s0 d0 (ys @ [p]) ex' w'"
proof -
  let ?vs = "votes_of s0 (pr_id p)" and ?i = "pr_id p"
  have vs: "votes_of (dao w) ?i = ?vs" using upto by (intro votes_of_cong) (simp add: closed_upto_def)
  obtain executed w' where run: "process_proposal E (keeper_record add permitted reserved) c params p w = (Inr (), w')"
    and props: "proposals (dao w') = kv_set ?i (closed E params ?vs p executed) (proposals (dao w))"
    and rest: "votes (dao w') = votes (dao w)" "dao_params_item (dao w') = dao_params_item (dao w)"
      "proposal_seq (dao w') = proposal_seq (dao w)" "only_tlds (dns w) w'"
    and grow: "lots_grow E ?i (power_lots (dao w)) w'"
    and same: "final_status (decision E params ?vs p) executed \<noteq> PROPOSAL_STATUS_EXECUTED \<Longrightarrow>
         power_lots (dao w') = power_lots (dao w)"
    using process_proposal_run [OF E, of c params p w] unfolding vs by blast
  define ex' where "ex' = ex(?i := executed)"
  have ex': "ex' ?i = executed" "j \<noteq> ?i \<Longrightarrow> ex' j = ex j" for j by (simp_all add: ex'_def)
  have others: "pr_id q \<noteq> ?i" if "q \<in> set ys" for q using that fresh by (metis image_eqI)
  have lots: "kv_get (power_lots (dao w')) (a, i) = kv_get (power_lots s0) (a, i)
        \<or> (\<exists>q \<in> set (ys @ [p]). pr_id q = i \<and> pr_status (closed E params (votes_of s0 i) q (ex' i)) = PROPOSAL_STATUS_EXECUTED)
          \<and> (\<exists>l. kv_get (power_lots (dao w')) (a, i) = Some l \<and> lot_ok E i a l)" for a i
  proof (cases "kv_get (power_lots (dao w')) (a, i) = kv_get (power_lots (dao w)) (a, i)")
    case True
    have old: "kv_get (power_lots (dao w)) (a, i) = kv_get (power_lots s0) (a, i)
        \<or> (\<exists>q \<in> set ys. pr_id q = i \<and> pr_status (closed E params (votes_of s0 i) q (ex i)) = PROPOSAL_STATUS_EXECUTED)
          \<and> (\<exists>l. kv_get (power_lots (dao w)) (a, i) = Some l \<and> lot_ok E i a l)"
      using upto by (simp only: closed_upto_def)
    then show ?thesis
    proof
      assume "(\<exists>q \<in> set ys. pr_id q = i \<and> pr_status (closed E params (votes_of s0 i) q (ex i)) = PROPOSAL_STATUS_EXECUTED)
          \<and> (\<exists>l. kv_get (power_lots (dao w)) (a, i) = Some l \<and> lot_ok E i a l)"
      then obtain q where q: "q \<in> set ys" "pr_id q = i"
          "pr_status (closed E params (votes_of s0 i) q (ex i)) = PROPOSAL_STATUS_EXECUTED"
          "\<exists>l. kv_get (power_lots (dao w)) (a, i) = Some l \<and> lot_ok E i a l" by blast
      then have "ex' i = ex i" using others ex'(2) by metis
      with q True show ?thesis by (intro disjI2 conjI bexI [of _ q]) auto
    qed (simp add: True)
  next
    case False
    with grow have i: "i = ?i" and l: "\<exists>l. kv_get (power_lots (dao w')) (a, i) = Some l \<and> lot_ok E i a l"
      by (auto simp: lots_grow_def)
    have "final_status (decision E params ?vs p) executed = PROPOSAL_STATUS_EXECUTED"
      using same False by metis
    then show ?thesis using i l ex'(1) by (intro disjI2 conjI bexI [of _ p]) auto
  qed
  have "closed_upto E params s0 d0 (ys @ [p]) ex' w'"
    unfolding closed_upto_def
  proof (intro conjI allI ballI impI)
    show "kv_get (proposals (dao w')) (pr_id q) = Some (closed E params (votes_of s0 (pr_id q)) q (ex' (pr_id q)))"
      if "q \<in> set (ys @ [p])" for q
      using that upto others [of q] ex' by (cases "q \<in> set ys") (auto simp: props closed_upto_def)
  qed (use upto rest grow lots in \<open>auto simp: closed_upto_def only_tlds_def props lots_grow_def\<close>)
  with run show ?thesis by blast
qed

lemma end_blocker_run:
  fixes c :: ctx
  assumes E: "store_total E" and params: "dao_params_item (dao w) = Some params"
    and ok: "kv_ok (proposals (dao w))" and ids: "\<And>i p. kv_get (proposals (dao w)) i = Some p \<Longrightarrow> pr_id p = i"
  defines "ps \<equiv> filter (voting_over (block_height_u64 c)) (map snd (kv_walk (proposals (dao w))))"
  shows "\<exists>w' ex. end_blocker E (keeper_record add permitted reserved) c w = (Inr (), w')
    \<and> closed_upto E params (dao w) (dns w) ps ex w'"
proof -
  have "map pr_id (map snd (kv_walk (proposals (dao w)))) = map fst (kv_walk (proposals (dao w)))"
    using ids ok by (auto simp: kv_walk_get)
  then have "distinct (map pr_id (map snd (kv_walk (proposals (dao w)))))"
    using kv.walk_distinct [OF ok] by (simp only:)
  then have distinct: "distinct (map pr_id ps)"
    unfolding ps_def by (rule distinct_map_filter)
  have eq: "end_blocker E (keeper_record add permitted reserved) c w =
      for_op ps (process_proposal E (keeper_record add permitted reserved) c params) w"
    using E params by (simp add: end_blocker_def bind_op_def dao_params_get_def read_op_def iterate_proposals_def
        ret_def ps_def)
  have "\<exists>w'. for_op ps (process_proposal E (keeper_record add permitted reserved) c params) w = (Inr (), w')
      \<and> (\<exists>ex. closed_upto E params (dao w) (dns w) ps ex w')"
  proof (rule for_op_steps [where P = "\<lambda>ys v. \<exists>ex. closed_upto E params (dao w) (dns w) ys ex v"])
    fix ys p zs v
    assume split: "ps = ys @ p # zs" and "\<exists>ex. closed_upto E params (dao w) (dns w) ys ex v"
    then obtain ex where upto: "closed_upto E params (dao w) (dns w) ys ex v" by blast
    have "pr_id p \<notin> pr_id ` set ys" using distinct by (simp add: split)
    from closed_upto_step [OF E upto this, of c]
    show "\<exists>w'. process_proposal E (keeper_record add permitted reserved) c params p v = (Inr (), w')
        \<and> (\<exists>ex. closed_upto E params (dao w) (dns w) (ys @ [p]) ex w')" by blast
  qed (simp add: closed_upto_def only_tlds_def)
  with eq show ?thesis by auto
qed

end

end
