(* ===== verification/Dao_Module.thy ===== *)
theory Dao_Module
  imports Dao_EndBlocker Example_Env
begin

text \<open>
  The messages of \<^verbatim>\<open>x/dao\<close> behind the router and the invariant of its store: stored proposals are
  well formed, no two active ones have the same content, a closed one carries the tally of its
  votes, and every lot stems from an executed proposal.
\<close>

section \<open>Messages\<close>

datatype dao_msg = SubmitProposal msg_submit_proposal | Vote msg_vote

definition dao_handle :: "('b, 'd) env \<Rightarrow> ('b, 'd) dns_keeper \<Rightarrow> ctx \<Rightarrow> dao_msg \<Rightarrow> (('b, 'd) world, unit) op" where
  "dao_handle E dk c m = (case m of
     SubmitProposal x \<Rightarrow> then_op (submit_proposal E dk c x) (ret ())
   | Vote x \<Rightarrow> vote_on_proposal E c x)"

section \<open>The invariant\<close>

definition active :: "proposal \<Rightarrow> bool" where
  "active p \<longleftrightarrow> pr_status p = PROPOSAL_STATUS_VOTING_PERIOD"

text \<open>The comparison that the duplicate check makes.\<close>

definition same_content :: "('b, 'd) env \<Rightarrow> any \<Rightarrow> any \<Rightarrow> bool" where
  "same_content E a b \<longleftrightarrow> type_url a = type_url b
     \<and> (\<exists>x y. unpack_any (codec E) (Some a) = Inr x \<and> unpack_any (codec E) (Some b) = Inr y
          \<and> marshal_content (codec E) x = marshal_content (codec E) y)"

definition proposal_ok :: "('b, 'd) env \<Rightarrow> 'd dao_store \<Rightarrow> proposal \<Rightarrow> bool" where
  "proposal_ok E s p \<longleftrightarrow>
     (\<exists>a ct. pr_content p = Some a \<and> unpack_any (codec E) (Some a) = Inr (Some ct) \<and> validate_content E ct = None)
   \<and> string_to_bytes (addr E) (pr_proposer p) \<noteq> None
   \<and> (active p \<or> pr_status p \<in> {PROPOSAL_STATUS_EXECUTED, PROPOSAL_STATUS_REJECTED, PROPOSAL_STATUS_FAILED}
        \<and> (let t = tally_votes (votes_of s (pr_id p)) in
             pr_yes_votes p = tl_yes t \<and> pr_no_votes p = tl_no t \<and> pr_abstain_votes p = tl_abstain t))"

definition vote_ok :: "('b, 'd) env \<Rightarrow> 'd dao_store \<Rightarrow> u64 \<Rightarrow> bytes \<Rightarrow> vote \<Rightarrow> bool" where
  "vote_ok E s i a v \<longleftrightarrow> vt_proposal_id v = i \<and> string_to_bytes (addr E) (vt_voter v) = Some a
     \<and> vt_voting_power v \<noteq> 0 \<and> kv_get (proposals s) i \<noteq> None"

definition dao_ok :: "('b, 'd) env \<Rightarrow> 'd dao_store \<Rightarrow> bool" where
  "dao_ok E s \<longleftrightarrow> kv_ok (proposals s) \<and> kv_ok (votes s) \<and> kv_ok (power_lots s)
   \<and> (\<forall>i p. kv_get (proposals s) i = Some p \<longrightarrow> pr_id p = i \<and> i < proposal_seq s \<and> proposal_ok E s p)
   \<and> (\<forall>i a v. kv_get (votes s) (i, a) = Some v \<longrightarrow> vote_ok E s i a v)
   \<and> (\<forall>a i l. kv_get (power_lots s) (a, i) = Some l \<longrightarrow> lot_ok E i a l
        \<and> (\<exists>p. kv_get (proposals s) i = Some p \<and> pr_status p = PROPOSAL_STATUS_EXECUTED))
   \<and> (\<forall>i j p q a b. kv_get (proposals s) i = Some p \<and> kv_get (proposals s) j = Some q \<and> active p \<and> active q
        \<and> pr_content p = Some a \<and> pr_content q = Some b \<and> same_content E a b \<longrightarrow> i = j)"

lemma dao_okD:
  assumes "dao_ok E s"
  shows "kv_ok (proposals s)" "kv_ok (votes s)" "kv_ok (power_lots s)"
    and "kv_get (proposals s) i = Some p \<Longrightarrow> pr_id p = i \<and> i < proposal_seq s \<and> proposal_ok E s p"
    and "kv_get (votes s) (i, a) = Some v \<Longrightarrow> vote_ok E s i a v"
    and "kv_get (power_lots s) (a, i) = Some l \<Longrightarrow> lot_ok E i a l
        \<and> (\<exists>p. kv_get (proposals s) i = Some p \<and> pr_status p = PROPOSAL_STATUS_EXECUTED)"
    and "kv_get (proposals s) i = Some p \<Longrightarrow> kv_get (proposals s) j = Some q \<Longrightarrow> active p \<Longrightarrow> active q
        \<Longrightarrow> pr_content p = Some x \<Longrightarrow> pr_content q = Some y \<Longrightarrow> same_content E x y \<Longrightarrow> i = j"
  using assms by (simp_all only: dao_ok_def)

lemma dao_ok_empty: "dao_ok E empty_dao_store"
  by (simp add: dao_ok_def empty_dao_store_def)

text \<open>The documented behaviour of the address codec that the one-vote rule needs: the empty string is no address.\<close>

definition dao_inv :: "('b, 'd) env \<Rightarrow> ('b, 'd) world \<Rightarrow> bool" where
  "dao_inv E w \<longleftrightarrow> store_total E \<and> dao_ok E (dao w)"

definition proposal_ids_left :: "('b, 'd) world \<Rightarrow> bool" where
  "proposal_ids_left w \<longleftrightarrow> proposal_seq (dao w) \<noteq> - 1"

lemma active_not_closed [simp]:
  "pr_status p = PROPOSAL_STATUS_EXECUTED \<Longrightarrow> \<not> active p" "pr_status p = PROPOSAL_STATUS_REJECTED \<Longrightarrow> \<not> active p"
  "pr_status p = PROPOSAL_STATUS_FAILED \<Longrightarrow> \<not> active p"
  by (simp_all add: active_def)

lemma same_content_sym: "same_content E a b \<Longrightarrow> same_content E b a"
  by (auto simp: same_content_def)

section \<open>SubmitProposal\<close>

lemma no_active_duplicate:
  assumes "find_active_duplicate E (type_url a) ct ps = Inr False" and "p \<in> set ps" and "active p"
    and "pr_content p = Some b" and "unpack_any (codec E) (Some a) = Inr (Some ct)"
  shows "\<not> same_content E a b"
  using assms(1,2)
proof (induction ps)
  case (Cons q ps)
  show ?case
  proof (cases "p = q")
    case True
    show ?thesis
    proof
      assume "same_content E a b"
      then obtain y where "type_url a = type_url b" "unpack_any (codec E) (Some b) = Inr y"
        "marshal_content (codec E) (Some ct) = marshal_content (codec E) y"
        using assms(5) by (auto simp: same_content_def)
      with Cons.prems(1) True assms(3,4) show False by (simp add: active_def)
    qed
  next
    case False
    have "find_active_duplicate E (type_url a) ct ps = Inr False"
      using Cons.prems(1) by (simp split: if_splits sum.splits option.splits)
    then show ?thesis using Cons False by simp
  qed
qed simp

lemma new_proposal_simps [simp]:
  "pr_id (new_proposal c params m i n) = i" "pr_content (new_proposal c params m i n) = sp_content m"
  "active (new_proposal c params m i n)" "pr_proposer (new_proposal c params m i n) = sp_proposer m"
  "pr_status (new_proposal c params m i n) = PROPOSAL_STATUS_VOTING_PERIOD"
  "pr_voting_end_block (new_proposal c params m i n) = block_height_u64 c + voting_period_blocks params"
  "pr_voting_start_block (new_proposal c params m i n) = block_height_u64 c"
  "pr_total_power_at_snapshot (new_proposal c params m i n) = n"
  by (simp_all add: new_proposal_def Let_def active_def)

lemma proposal_ok_cong:
  "votes_of s (pr_id p) = votes_of t (pr_id p) \<Longrightarrow> proposal_ok E s p = proposal_ok E t p"
  by (simp only: proposal_ok_def)

lemma dao_ok_new_proposal:
  assumes ok: "dao_ok E s" and left: "proposal_seq s \<noteq> - 1" and i: "pr_id p = proposal_seq s"
    and p: "proposal_ok E s p" "active p" "pr_content p = Some a"
    and distinct: "\<And>j q b. kv_get (proposals s) j = Some q \<Longrightarrow> active q \<Longrightarrow> pr_content q = Some b \<Longrightarrow> \<not> same_content E a b"
  shows "dao_ok E (s\<lparr>proposal_seq := proposal_seq s + 1, proposals := kv_set (pr_id p) p (proposals s)\<rparr>)"
proof -
  let ?s = "s\<lparr>proposal_seq := proposal_seq s + 1, proposals := kv_set (pr_id p) p (proposals s)\<rparr>"
  note okD = dao_okD [OF ok]
  have new: "kv_get (proposals s) (pr_id p) = None"
    using okD(4) [of "pr_id p"] i by (cases "kv_get (proposals s) (pr_id p)") auto
  have cong: "proposal_ok E ?s q = proposal_ok E s q" for q by (rule proposal_ok_cong, rule votes_of_cong) simp
  show ?thesis
    unfolding dao_ok_def
  proof (intro conjI allI impI)
    fix j q
    assume "kv_get (proposals ?s) j = Some q"
    then have "j = pr_id p \<and> q = p \<or> j \<noteq> pr_id p \<and> kv_get (proposals s) j = Some q" by (auto split: if_splits)
    then have "pr_id q = j \<and> j < proposal_seq ?s \<and> proposal_ok E s q"
      using okD(4) [of j q] p(1) i word_less_succ_self [OF left] word_less_succ_trans [OF _ left] by auto
    then show "pr_id q = j" "j < proposal_seq ?s" "proposal_ok E ?s q"
      unfolding cong by blast+
  next
    fix j b v
    assume "kv_get (votes ?s) (j, b) = Some v"
    then show "vote_ok E ?s j b v" using okD(5) [of j b v] by (auto simp: vote_ok_def)
  next
    fix b j l
    assume "kv_get (power_lots ?s) (b, j) = Some l"
    then have "lot_ok E j b l \<and> (\<exists>q. kv_get (proposals s) j = Some q \<and> pr_status q = PROPOSAL_STATUS_EXECUTED)"
      using okD(6) [of b j l] by simp
    then show "lot_ok E j b l" "\<exists>q. kv_get (proposals ?s) j = Some q \<and> pr_status q = PROPOSAL_STATUS_EXECUTED"
      using new by (auto split: if_splits)
  next
    fix j k q r x y
    assume "kv_get (proposals ?s) j = Some q \<and> kv_get (proposals ?s) k = Some r \<and> active q \<and> active r
        \<and> pr_content q = Some x \<and> pr_content r = Some y \<and> same_content E x y"
    then show "j = k"
      using okD(7) [of j q k r x y] distinct [of j q x] distinct [of k r y] p(3) same_content_sym [of E x y]
      by (auto split: if_splits)
  qed (use okD(1-3) in auto)
qed

context dnsblockchain_keeper
begin

lemma submit_proposal_inv:
  assumes inv: "dao_inv E w" and left: "proposal_ids_left w"
    and run: "submit_proposal E (keeper_record add permitted reserved) c m w = (Inr i, w')"
  shows "dao_inv E w'"
  using run
proof (rule submit_proposal_success)
  fix proposer a ct params
  assume addr: "string_to_bytes (addr E) (sp_proposer m) = Some proposer"
    and content: "sp_content m = Some a" "unpack_any (codec E) (Some a) = Inr (Some ct)" "validate_content E ct = None"
    and dup: "find_active_duplicate E (type_url a) ct (map snd (kv_walk (proposals (dao w)))) = Inr False"
    and i: "i = proposal_seq (dao w)"
    and w': "dao w' = (dao w)\<lparr>proposal_seq := i + 1, proposals := kv_set i
       (new_proposal c params m i (get_supply (bank E) (voting_token_denom params) (ledger w'))) (proposals (dao w))\<rparr>"
  have E: "store_total E" and ok: "dao_ok E (dao w)" using inv by (auto simp: dao_inv_def)
  define p where "p = new_proposal c params m i (get_supply (bank E) (voting_token_denom params) (ledger w'))"
  have p: "pr_id p = i" "pr_content p = Some a" "active p" "pr_proposer p = sp_proposer m"
    using content by (simp_all add: p_def)
  have "\<not> same_content E a b" if q: "kv_get (proposals (dao w)) j = Some q" "active q" "pr_content q = Some b" for j q b
  proof -
    have "(j, q) \<in> set (kv_walk (proposals (dao w)))" using q(1) dao_okD(1) [OF ok] by (simp add: kv_walk_get)
    then have "q \<in> set (map snd (kv_walk (proposals (dao w))))" by force
    from no_active_duplicate [OF dup this q(2,3) content(2)] show ?thesis .
  qed
  moreover have "proposal_ok E (dao w) p"
    using p addr content by (auto simp: proposal_ok_def)
  ultimately have "dao_ok E (dao w')"
    unfolding w' p_def [symmetric] using dao_ok_new_proposal [OF ok, of p a] left i p
    by (auto simp: proposal_ids_left_def)
  with E show ?thesis by (simp add: dao_inv_def)
qed

end

section \<open>Vote\<close>

lemma votes_of_set_other:
  assumes "i \<noteq> j"
  shows "votes_of (s\<lparr>votes := kv_set (i, a) v (votes s)\<rparr>) j = votes_of s j"
proof -
  have "filter (\<lambda>x. fst (fst x) = j) (kv_set (i, a) v m) = filter (\<lambda>x. fst (fst x) = j) m" for m
    using assms by (induction "(i, a)" v m rule: kv_set.induct) auto
  then show ?thesis by (simp add: votes_of_def kv_walk_def)
qed

lemma vote_inv:
  assumes inv: "dao_inv E w" and run: "vote_on_proposal E c m w = (Inr r, w')"
  shows "dao_inv E w'"
  using run
proof (rule vote_on_proposal_success)
  fix voter p params n
  assume voter: "string_to_bytes (addr E) (mv_voter m) = Some voter"
    and p: "kv_get (proposals (dao w)) (mv_proposal_id m) = Some p" "pr_status p = PROPOSAL_STATUS_VOTING_PERIOD"
    and n: "n \<noteq> 0"
    and w': "dao w' = (dao w)\<lparr>votes := kv_set (mv_proposal_id m, voter)
       \<lparr>vt_proposal_id = mv_proposal_id m, vt_voter = mv_voter m, vt_option = mv_option m,
        vt_voting_power = n\<rparr> (votes (dao w))\<rparr>"
  have E: "store_total E" and ok: "dao_ok E (dao w)" using inv by (auto simp: dao_inv_def)
  note okD = dao_okD [OF ok]
  have props: "proposal_ok E (dao w') q" if q: "kv_get (proposals (dao w)) j = Some q" for j q
  proof (cases "j = mv_proposal_id m")
    case True
    then have "q = p" "active q" using q p by (auto simp: active_def)
    then show ?thesis using okD(4) [OF q] by (auto simp: proposal_ok_def)
  next
    case False
    then have "votes_of (dao w') (pr_id q) = votes_of (dao w) (pr_id q)"
      unfolding w' using okD(4) [OF q] by (intro votes_of_set_other) simp
    then show ?thesis using okD(4) [OF q] proposal_ok_cong by blast
  qed
  have vt: "vote_ok E (dao w') j b v" if "kv_get (votes (dao w')) (j, b) = Some v" for j b v
    using that okD(5) [of j b v] voter n p(1) by (auto simp: w' vote_ok_def split: if_splits)
  have kv: "kv_ok (votes (dao w'))" using okD(2) by (simp add: w')
  have same: "proposals (dao w') = proposals (dao w)" "power_lots (dao w') = power_lots (dao w)"
    "proposal_seq (dao w') = proposal_seq (dao w)" by (simp_all add: w')
  have "dao_ok E (dao w')"
    unfolding dao_ok_def same
  proof (intro conjI allI impI)
    show "pr_id q = j" "j < proposal_seq (dao w)" "proposal_ok E (dao w') q"
      if "kv_get (proposals (dao w)) j = Some q" for j q
      using okD(4) [OF that] props [OF that] by blast+
    show "lot_ok E j b l" "\<exists>q. kv_get (proposals (dao w)) j = Some q \<and> pr_status q = PROPOSAL_STATUS_EXECUTED"
      if "kv_get (power_lots (dao w)) (b, j) = Some l" for b j l
      using okD(6) [OF that] by blast+
    show "j = k" if "kv_get (proposals (dao w)) j = Some q \<and> kv_get (proposals (dao w)) k = Some q' \<and> active q \<and> active q'
        \<and> pr_content q = Some x \<and> pr_content q' = Some y \<and> same_content E x y" for j k q q' x y
      using that okD(7) by blast
  qed (use okD(1,3) kv vt in auto)
  with E show ?thesis by (simp add: dao_inv_def)
qed

section \<open>The end of a block\<close>

context dnsblockchain_keeper
begin

lemma end_blocker_closed:
  assumes inv: "dao_inv E w" and run: "end_blocker E (keeper_record add permitted reserved) c w = (Inr r, w')"
  obtains params ex where "dao_params_item (dao w) = Some params"
    and "closed_upto E params (dao w) (dns w)
      (filter (voting_over (block_height_u64 c)) (map snd (kv_walk (proposals (dao w))))) ex w'"
proof -
  have E: "store_total E" and ok: "dao_ok E (dao w)" using inv by (auto simp: dao_inv_def)
  obtain params where params: "dao_params_item (dao w) = Some params"
    using run by (auto simp: end_blocker_def bind_op_Inr dao_params_get_def dest!: read_item_InrD)
  from end_blocker_run [OF E params dao_okD(1) [OF ok], of c] dao_okD(4) [OF ok] obtain ex where
    "closed_upto E params (dao w) (dns w)
      (filter (voting_over (block_height_u64 c)) (map snd (kv_walk (proposals (dao w))))) ex w'"
    using run by auto
  with params show ?thesis by (rule that)
qed

text \<open>One look-up in the store after the end of a block.\<close>

lemma closed_proposals:
  assumes ok: "dao_ok E s"
    and upto: "closed_upto E params s d (filter (voting_over h) (map snd (kv_walk (proposals s)))) ex w'"
  shows "kv_get (proposals (dao w')) i = (case kv_get (proposals s) i of None \<Rightarrow> None
     | Some p \<Rightarrow> Some (if voting_over h p then closed E params (votes_of s i) p (ex i) else p))"
proof -
  let ?ps = "filter (voting_over h) (map snd (kv_walk (proposals s)))"
  have mem: "p \<in> set ?ps \<longleftrightarrow> voting_over h p \<and> kv_get (proposals s) (pr_id p) = Some p" for p
  proof -
    have "p \<in> set (map snd (kv_walk (proposals s))) \<longleftrightarrow> kv_get (proposals s) (pr_id p) = Some p"
    proof
      assume "p \<in> set (map snd (kv_walk (proposals s)))"
      then obtain j where "(j, p) \<in> set (kv_walk (proposals s))" by auto
      then have "kv_get (proposals s) j = Some p" by (simp add: kv_walk_get dao_okD(1) [OF ok])
      then show "kv_get (proposals s) (pr_id p) = Some p" using dao_okD(4) [OF ok] by simp
    next
      assume "kv_get (proposals s) (pr_id p) = Some p"
      then have "(pr_id p, p) \<in> set (kv_walk (proposals s))" by (simp add: kv_walk_get dao_okD(1) [OF ok])
      then show "p \<in> set (map snd (kv_walk (proposals s)))" by force
    qed
    then show ?thesis by auto
  qed
  show ?thesis
  proof (cases "\<exists>p. kv_get (proposals s) i = Some p \<and> voting_over h p")
    case True
    then obtain p where p: "kv_get (proposals s) i = Some p" "voting_over h p" by blast
    then have "pr_id p = i" using dao_okD(4) [OF ok] by blast
    with p mem have "p \<in> set ?ps" by blast
    then show ?thesis using upto p \<open>pr_id p = i\<close> by (auto simp: closed_upto_def)
  next
    case False
    then have "i \<notin> pr_id ` set ?ps" using mem by auto
    then have "kv_get (proposals (dao w')) i = kv_get (proposals s) i"
      using upto unfolding closed_upto_def by blast
    with False show ?thesis by (auto split: option.splits)
  qed
qed

lemma end_blocker_inv:
  assumes inv: "dao_inv E w" and run: "end_blocker E (keeper_record add permitted reserved) c w = (Inr r, w')"
  shows "dao_inv E w'"
  using inv run
proof (rule end_blocker_closed)
  fix params ex
  let ?h = "block_height_u64 c"
  assume upto: "closed_upto E params (dao w) (dns w)
      (filter (voting_over ?h) (map snd (kv_walk (proposals (dao w))))) ex w'"
  have E: "store_total E" and ok: "dao_ok E (dao w)" using inv by (auto simp: dao_inv_def)
  note okD = dao_okD [OF ok] and get = closed_proposals [OF ok upto]
  have votes: "votes (dao w') = votes (dao w)" and seq: "proposal_seq (dao w') = proposal_seq (dao w)"
    using upto by (simp_all only: closed_upto_def)
  have vs: "votes_of (dao w') i = votes_of (dao w) i" for i by (rule votes_of_cong [OF votes])
  have not_active: "\<not> active (closed E params vs p b)" for vs p b
    using final_status_cases [of E params vs p b] by (auto simp: active_def)
  have old: "\<exists>p. kv_get (proposals (dao w)) i = Some p \<and>
      (q = p \<or> voting_over ?h p \<and> q = closed E params (votes_of (dao w) i) p (ex i))"
    if "kv_get (proposals (dao w')) i = Some q" for i q
    using that by (auto simp: get split: option.splits if_splits)
  have "dao_ok E (dao w')"
    unfolding dao_ok_def
  proof (intro conjI allI impI)
    fix i q
    assume "kv_get (proposals (dao w')) i = Some q"
    then obtain p where p: "kv_get (proposals (dao w)) i = Some p"
      "q = p \<or> voting_over ?h p \<and> q = closed E params (votes_of (dao w) i) p (ex i)" using old by blast
    note wf = okD(4) [OF p(1)]
    have "proposal_ok E (dao w') p" using wf proposal_ok_cong [OF vs, of E p] by blast
    moreover have "proposal_ok E (dao w') (closed E params (votes_of (dao w) i) p (ex i))"
      using wf final_status_cases [of E params "votes_of (dao w) i" p "ex i"]
      by (auto simp: proposal_ok_def vs Let_def)
    ultimately show "pr_id q = i" "i < proposal_seq (dao w')" "proposal_ok E (dao w') q"
      using p(2) wf by (auto simp: seq)
  next
    fix i a v
    assume "kv_get (votes (dao w')) (i, a) = Some v"
    then show "vote_ok E (dao w') i a v"
      using okD(5) [of i a v] by (auto simp: votes vote_ok_def get split: option.splits)
  next
    fix a i l
    assume l: "kv_get (power_lots (dao w')) (a, i) = Some l"
    show "lot_ok E i a l" "\<exists>p. kv_get (proposals (dao w')) i = Some p \<and> pr_status p = PROPOSAL_STATUS_EXECUTED"
    proof -
      have "lot_ok E i a l \<and> (\<exists>p. kv_get (proposals (dao w')) i = Some p \<and> pr_status p = PROPOSAL_STATUS_EXECUTED)"
      proof (cases "kv_get (power_lots (dao w')) (a, i) = kv_get (power_lots (dao w)) (a, i)")
        case True
        then have "kv_get (power_lots (dao w)) (a, i) = Some l" using l by simp
        from okD(6) [OF this] show ?thesis
          by (auto simp: get voting_over_def)
      next
        case False
        with upto l have "(\<exists>p \<in> set (filter (voting_over ?h) (map snd (kv_walk (proposals (dao w))))). pr_id p = i
            \<and> pr_status (closed E params (votes_of (dao w) i) p (ex i)) = PROPOSAL_STATUS_EXECUTED) \<and> lot_ok E i a l"
          unfolding closed_upto_def by (metis option.inject)
        then show ?thesis using upto unfolding closed_upto_def by metis
      qed
      then show "lot_ok E i a l" "\<exists>p. kv_get (proposals (dao w')) i = Some p \<and> pr_status p = PROPOSAL_STATUS_EXECUTED"
        by auto
    qed
  next
    fix i j p q a b
    assume "kv_get (proposals (dao w')) i = Some p \<and> kv_get (proposals (dao w')) j = Some q \<and> active p \<and> active q
        \<and> pr_content p = Some a \<and> pr_content q = Some b \<and> same_content E a b"
    then show "i = j" using old [of i p] old [of j q] not_active okD(7) [of i p j q a b] by blast
  qed (use upto okD(1,2,3) votes in \<open>auto simp: closed_upto_def\<close>)
  with E show ?thesis by (simp add: dao_inv_def)
qed

end

end
