(* ===== verification/Dao_Execution.thy ===== *)
theory Dao_Execution
  imports Dao_Module
begin

text \<open>
  What the execution of proposals does beyond the store of \<^verbatim>\<open>x/dao\<close>: which TLDs it permits in the
  other module, and what happens to the deposits.
\<close>

section \<open>The content of a proposal\<close>

definition adds_tld :: "('b, 'd) env \<Rightarrow> proposal \<Rightarrow> string \<Rightarrow> bool" where
  "adds_tld E p t \<longleftrightarrow> (\<exists>a. unpack_any (codec E) (pr_content p) = Inr (Some (AddTld a)) \<and> at_tld a = t)"

lemma request_tokens_dns: "keeps (\<lambda>v. dns v = d) (execute_request_tokens E c r p)"
  by (rule keeps_request_tokens) simp_all

lemma burn_deposit_frame: "dns (snd (burn_deposit E dep w)) = dns w" "dao (snd (burn_deposit E dep w)) = dao w"
  by (simp_all add: burn_deposit_def op_defs run_bank_def split: prod.splits)

lemma refund_deposit_frame:
  "dns (snd (refund_deposit E a dep w)) = dns w" "dao (snd (refund_deposit E a dep w)) = dao w"
  by (simp_all add: refund_deposit_def op_defs run_bank_def split: prod.splits option.splits)

section \<open>Permitted TLDs\<close>

context dnsblockchain_keeper
begin

lemma execute_tlds:
  assumes run: "execute_proposal E (keeper_record add permitted reserved) c p w = (r, w')"
  shows "fst (permitted s w') = fst (permitted s w) \<or> (\<exists>t. adds_tld E p t \<and> norm s = norm t \<and> r = Inr ())"
    and "r = Inr () \<Longrightarrow> adds_tld E p t \<Longrightarrow> norm s = norm t \<Longrightarrow> fst (permitted s w') = Inr True"
proof -
  let ?K = "keeper_record add permitted reserved"
  consider (add) a where "unpack_any (codec E) (pr_content p) = Inr (Some (AddTld a))"
    | (tokens) x where "unpack_any (codec E) (pr_content p) = Inr (Some (RequestTokens x))"
    | (none) "unpack_any (codec E) (pr_content p) = Inr None \<or> (\<exists>e. unpack_any (codec E) (pr_content p) = Inl e)"
    by (metis option.exhaust proposal_content.exhaust sum.exhaust)
  then have "(fst (permitted s w') = fst (permitted s w) \<or> (\<exists>t. adds_tld E p t \<and> norm s = norm t \<and> r = Inr ()))
    \<and> (r = Inr () \<longrightarrow> adds_tld E p t \<longrightarrow> norm s = norm t \<longrightarrow> fst (permitted s w') = Inr True)"
  proof cases
    case add
    then have ex: "add (at_tld a) w = (r, w')"
      using run by (simp add: execute_proposal_def execute_add_tld_def keeper_record_def bind_op_def map_err_def lift_res_def)
    have "fst (permitted s w') = fst (permitted s w) \<or> norm s = norm (at_tld a) \<and> r = Inr ()"
      using add_permits_only [OF ex, of s] add_failed [of "at_tld a" w _ w'] ex by (cases r) auto
    moreover have "adds_tld E p t \<longleftrightarrow> t = at_tld a" for t using add by (auto simp: adds_tld_def)
    moreover have "norm s = norm (at_tld a) \<Longrightarrow> fst (permitted s w') = Inr True" if "r = Inr ()"
      using add_permits [of "at_tld a" w w' s] ex that by simp
    ultimately show ?thesis by auto
  next
    case tokens
    then have "execute_request_tokens E c x p w = (r, w')"
      using run by (simp add: execute_proposal_def bind_op_def map_err_def lift_res_def)
    from keepsD [OF request_tokens_dns this refl] have "dns w' = dns w" .
    from permitted_dns [OF this] tokens show ?thesis by (simp add: adds_tld_def)
  next
    case none
    then have "w' = w"
      using run by (auto simp: execute_proposal_def bind_op_def map_err_def lift_res_def fail_def)
    with none show ?thesis by (auto simp: adds_tld_def)
  qed
  then show "fst (permitted s w') = fst (permitted s w) \<or> (\<exists>t. adds_tld E p t \<and> norm s = norm t \<and> r = Inr ())"
    and "r = Inr () \<Longrightarrow> adds_tld E p t \<Longrightarrow> norm s = norm t \<Longrightarrow> fst (permitted s w') = Inr True" by auto
qed

text \<open>Settling: the status that is returned says whether the content took effect.\<close>

lemma settle_tlds:
  assumes run: "settle E (keeper_record add permitted reserved) c dep q w = (Inr q', w')"
    and st: "pr_status q \<in> {PROPOSAL_STATUS_PASSED, PROPOSAL_STATUS_REJECTED, PROPOSAL_STATUS_FAILED}"
  shows "fst (permitted s w') = fst (permitted s w)
      \<or> (\<exists>t. adds_tld E q t \<and> norm s = norm t \<and> pr_status q' = PROPOSAL_STATUS_EXECUTED)"
    and "pr_status q' = PROPOSAL_STATUS_EXECUTED \<Longrightarrow> adds_tld E q t \<Longrightarrow> norm s = norm t \<Longrightarrow> fst (permitted s w') = Inr True"
proof -
  let ?K = "keeper_record add permitted reserved"
  have "(fst (permitted s w') = fst (permitted s w)
      \<or> (\<exists>t. adds_tld E q t \<and> norm s = norm t \<and> pr_status q' = PROPOSAL_STATUS_EXECUTED))
    \<and> (pr_status q' = PROPOSAL_STATUS_EXECUTED \<longrightarrow> adds_tld E q t \<longrightarrow> norm s = norm t \<longrightarrow> fst (permitted s w') = Inr True)"
  proof (cases "pr_status q = PROPOSAL_STATUS_PASSED")
    case True
    obtain r w1 where ex: "execute_proposal E ?K c q w = (r, w1)" by fastforce
    have q': "q' = q\<lparr>pr_status := (if is_ok r then PROPOSAL_STATUS_EXECUTED else PROPOSAL_STATUS_FAILED)\<rparr>" "dns w' = dns w1"
      using run settle_passed [OF True ex, of dep] refund_deposit_frame(1) [of E "pr_proposer q" dep w1]
        burn_deposit_frame(1) [of E dep w1]
      by (auto split: if_splits)
    have "r = Inr () \<longleftrightarrow> is_ok r" by (cases r) auto
    then show ?thesis
      using execute_tlds(1) [OF ex, of s] execute_tlds(2) [OF ex, of t s] q'(1) permitted_dns [OF q'(2)] by auto
  next
    case False
    then have "pr_status q = PROPOSAL_STATUS_REJECTED \<or> pr_status q = PROPOSAL_STATUS_FAILED" using st by auto
    from settle_not_passed [OF this, of E ?K c dep w] run have "q' = q" "dns w' = dns w"
      using burn_deposit_frame(1) [of E dep w] by auto
    then show ?thesis using st permitted_dns [of w' w] False by auto
  qed
  then show "fst (permitted s w') = fst (permitted s w)
      \<or> (\<exists>t. adds_tld E q t \<and> norm s = norm t \<and> pr_status q' = PROPOSAL_STATUS_EXECUTED)"
    and "pr_status q' = PROPOSAL_STATUS_EXECUTED \<Longrightarrow> adds_tld E q t \<Longrightarrow> norm s = norm t \<Longrightarrow> fst (permitted s w') = Inr True" by auto
qed

text \<open>Processing one proposal, in terms of what is stored for it in the end.\<close>

lemma process_proposal_tlds:
  assumes E: "store_total E"
    and run: "process_proposal E (keeper_record add permitted reserved) c params p w = (Inr (), w')"
  obtains q where "kv_get (proposals (dao w')) (pr_id p) = Some q"
    and "\<And>s. fst (permitted s w') = fst (permitted s w)
      \<or> (\<exists>t. adds_tld E p t \<and> norm s = norm t \<and> pr_status q = PROPOSAL_STATUS_EXECUTED)"
    and "\<And>s t. pr_status q = PROPOSAL_STATUS_EXECUTED \<Longrightarrow> adds_tld E p t \<Longrightarrow> norm s = norm t \<Longrightarrow> fst (permitted s w') = Inr True"
proof -
  define vs where "vs = votes_of (dao w) (pr_id p)"
  define q0 where "q0 = check_content E (tallied E params p (Inr vs))"
  have votes: "try_op (iterate_votes E (pr_id p)) w = (Inr (Inr vs), w)"
    using E by (simp add: iterate_votes_def try_read_op vs_def)
  have q0: "pr_status q0 \<in> {PROPOSAL_STATUS_PASSED, PROPOSAL_STATUS_REJECTED, PROPOSAL_STATUS_FAILED}"
      "pr_id q0 = pr_id p" "pr_content q0 = pr_content p"
    using decision_cases [of E params vs p] unfolding q0_def check_content_tallied by (simp_all add: Let_def)
  obtain ex w1 where settle: "settle E (keeper_record add permitted reserved) c (deposit_to_handle E params p) q0 w
      = (Inr (q0\<lparr>pr_status := final_status (pr_status q0) ex\<rparr>), w1)"
    using settle_result [OF q0(1)] by blast
  let ?q = "q0\<lparr>pr_status := final_status (pr_status q0) ex\<rparr>"
  have w': "proposals (dao w') = kv_set (pr_id p) ?q (proposals (dao w1))" "dns w' = dns w1"
    using run E q0(2)
    by (auto simp: process_proposal_def bind_op_def then_op_def votes q0_def [symmetric] settle set_proposal_def
        write_op_def update_op_def emit_op_def)
  have adds: "adds_tld E q0 t \<longleftrightarrow> adds_tld E p t" for t by (simp add: adds_tld_def q0(3))
  show ?thesis
    by (rule that [of ?q])
      (use w' settle_tlds [OF settle q0(1)] permitted_dns [OF w'(2)] adds in auto)
qed

end

text \<open>All proposals of a block: a TLD that became permitted stems from a proposal that is stored as executed.\<close>

definition tlds_upto ::
  "('b, 'd) env \<Rightarrow> (string \<Rightarrow> string) \<Rightarrow> (string \<Rightarrow> (('b, 'd) world, bool) op) \<Rightarrow> ('b, 'd) world \<Rightarrow> proposal list \<Rightarrow> ('b, 'd) world \<Rightarrow> bool" where
  "tlds_upto E norm permitted w0 ys w \<longleftrightarrow>
     (\<forall>s. fst (permitted s w) = fst (permitted s w0)
        \<or> fst (permitted s w) = Inr True \<and> (\<exists>p \<in> set ys. \<exists>q t. kv_get (proposals (dao w)) (pr_id p) = Some q
              \<and> pr_status q = PROPOSAL_STATUS_EXECUTED \<and> adds_tld E p t \<and> norm s = norm t))
   \<and> (\<forall>p \<in> set ys. \<forall>q s t. kv_get (proposals (dao w)) (pr_id p) = Some q \<longrightarrow> pr_status q = PROPOSAL_STATUS_EXECUTED
        \<longrightarrow> adds_tld E p t \<longrightarrow> norm s = norm t \<longrightarrow> fst (permitted s w) = Inr True)"

context dnsblockchain_keeper
begin

lemma tlds_upto_step:
  assumes E: "store_total E" and upto: "tlds_upto E norm permitted w0 ys w" and fresh: "pr_id p \<notin> pr_id ` set ys"
    and run: "process_proposal E (keeper_record add permitted reserved) c params p w = (Inr (), w')"
  shows "tlds_upto E norm permitted w0 (ys @ [p]) w'"
proof -
  obtain q where q: "kv_get (proposals (dao w')) (pr_id p) = Some q"
    and tl: "\<And>s. fst (permitted s w') = fst (permitted s w)
      \<or> (\<exists>t. adds_tld E p t \<and> norm s = norm t \<and> pr_status q = PROPOSAL_STATUS_EXECUTED)"
    and ex: "\<And>s t. pr_status q = PROPOSAL_STATUS_EXECUTED \<Longrightarrow> adds_tld E p t \<Longrightarrow> norm s = norm t \<Longrightarrow> fst (permitted s w') = Inr True"
    using process_proposal_tlds [OF E run] by blast
  obtain e where props: "proposals (dao w') = kv_set (pr_id p) (closed E params (votes_of (dao w) (pr_id p)) p e) (proposals (dao w))"
    using process_proposal_run [OF E, of c params p w] run by auto
  have other: "kv_get (proposals (dao w')) (pr_id x) = kv_get (proposals (dao w)) (pr_id x)" if "x \<in> set ys" for x
    using that fresh by (auto simp: props image_iff)
  have mono: "fst (permitted s w) = Inr True \<Longrightarrow> fst (permitted s w') = Inr True" for s
    using tl [of s] ex by fastforce
  show ?thesis
    unfolding tlds_upto_def
  proof (intro conjI allI ballI impI)
    fix s
    consider "fst (permitted s w') = fst (permitted s w)"
      | t where "adds_tld E p t" "norm s = norm t" "pr_status q = PROPOSAL_STATUS_EXECUTED" using tl by blast
    then show "fst (permitted s w') = fst (permitted s w0)
        \<or> fst (permitted s w') = Inr True \<and> (\<exists>x \<in> set (ys @ [p]). \<exists>q t. kv_get (proposals (dao w')) (pr_id x) = Some q
              \<and> pr_status q = PROPOSAL_STATUS_EXECUTED \<and> adds_tld E x t \<and> norm s = norm t)"
    proof cases
      case 1
      then show ?thesis using upto other unfolding tlds_upto_def by (metis Un_iff set_append)
    next
      case 2
      then show ?thesis using ex q by (intro disjI2 conjI bexI [of _ p]) auto
    qed
  next
    fix x y s t
    assume "x \<in> set (ys @ [p])" "kv_get (proposals (dao w')) (pr_id x) = Some y" "pr_status y = PROPOSAL_STATUS_EXECUTED"
      "adds_tld E x t" "norm s = norm t"
    then show "fst (permitted s w') = Inr True"
      using upto other [of x] ex [of t s] q mono [of s] unfolding tlds_upto_def
      by (cases "x \<in> set ys") auto
  qed
qed

lemma end_blocker_tlds:
  assumes inv: "dao_inv E w" and run: "end_blocker E (keeper_record add permitted reserved) c w = (Inr r, w')"
  shows "tlds_upto E norm permitted w (filter (voting_over (block_height_u64 c)) (map snd (kv_walk (proposals (dao w))))) w'"
proof -
  have E: "store_total E" and ok: "dao_ok E (dao w)" using inv by (auto simp: dao_inv_def)
  let ?ps = "filter (voting_over (block_height_u64 c)) (map snd (kv_walk (proposals (dao w))))"
  obtain params where loop: "for_op ?ps (process_proposal E (keeper_record add permitted reserved) c params) w = (Inr r, w')"
    using run by (auto simp: end_blocker_def op_success dao_params_get_def)
  have "map pr_id (map snd (kv_walk (proposals (dao w)))) = map fst (kv_walk (proposals (dao w)))"
    using dao_okD(1,4) [OF ok] by (auto simp: kv_walk_get)
  then have "distinct (map pr_id (map snd (kv_walk (proposals (dao w)))))"
    using kv.walk_distinct [OF dao_okD(1) [OF ok]] by (simp only:)
  then have distinct: "distinct (map pr_id ?ps)" by (rule distinct_map_filter)
  have "\<exists>v. for_op ?ps (process_proposal E (keeper_record add permitted reserved) c params) w = (Inr (), v)
      \<and> tlds_upto E norm permitted w ?ps v"
  proof (rule for_op_steps)
    fix ys p zs v
    assume split: "?ps = ys @ p # zs" and upto: "tlds_upto E norm permitted w ys v"
    have fresh: "pr_id p \<notin> pr_id ` set ys" using distinct unfolding split by simp
    obtain v' where "process_proposal E (keeper_record add permitted reserved) c params p v = (Inr (), v')"
      using process_proposal_run [OF E, of c params p v] by blast
    then show "\<exists>v'. process_proposal E (keeper_record add permitted reserved) c params p v = (Inr (), v')
        \<and> tlds_upto E norm permitted w (ys @ [p]) v'"
      using tlds_upto_step [OF E upto fresh] by blast
  qed (simp add: tlds_upto_def)
  with loop show ?thesis by simp
qed

end

end
