(* ===== verification/Dao_Genesis.thy ===== *)
theory Dao_Genesis
  imports Dao_Keeper
begin

text \<open>
  Genesis import and export of \<^verbatim>\<open>x/dao\<close> (\<^verbatim>\<open>keeper/genesis.go\<close>). Only the parameters are part of
  the genesis state; proposals, votes and lots are not exported.
\<close>

definition init_dao_genesis :: "('b, 'd) env \<Rightarrow> 'd dao_genesis \<Rightarrow> (('b, 'd) world, unit) op" where
  "init_dao_genesis E genState =
     (let paramsToSet = (if validate_dao_params E (dg_params genState) \<noteq> None
        then default_dao_params E else dg_params genState) in
      dao_params_set E paramsToSet)"

definition export_dao_genesis :: "('b, 'd) env \<Rightarrow> (('b, 'd) world, 'd dao_genesis) op" where
  "export_dao_genesis E = bind_op (try_op (dao_params_get E)) (\<lambda>r. case r of
       Inl e \<Rightarrow> if \<not> is_not_found_value E e then fail e else ret (default_dao_genesis E)
     | Inr params \<Rightarrow> ret ((default_dao_genesis E)\<lparr>dg_params := params\<rparr>))"

lemma export_dao_genesis_keeps: "keeps I (export_dao_genesis E)"
  unfolding export_dao_genesis_def dao_params_get_def by (rule keeps_intros keeps_cases)+

lemma export_dao_genesis_total:
  assumes "store_total E"
  shows "export_dao_genesis E w = ((case dao_params_item (dao w) of
      None \<Rightarrow> if not_found_bare E then Inr (default_dao_genesis E) else Inl ErrNotFound
    | Some p \<Rightarrow> Inr \<lparr>dg_params = p\<rparr>), w)"
  using assms
  by (cases "dao_params_item (dao w)")
    (simp_all add: export_dao_genesis_def dao_params_get_def op_defs is_not_found_value_def default_dao_genesis_def)

lemma init_dao_genesis_total:
  assumes "store_total E"
  shows "init_dao_genesis E gs w = (Inr (), upd_dao (\<lambda>s. s\<lparr>dao_params_item :=
      Some (if validate_dao_genesis E gs = None then dg_params gs else default_dao_params E)\<rparr>) w)"
  using assms by (simp add: init_dao_genesis_def dao_params_set_def op_defs validate_dao_genesis_def)

lemma init_export_dao_genesis:
  assumes "store_total E" and "init_dao_genesis E gs w = (Inr (), w')"
  shows "export_dao_genesis E w' =
    (Inr (if validate_dao_genesis E gs = None then gs else default_dao_genesis E), w')"
  using assms(2) unfolding init_dao_genesis_total [OF assms(1)]
  by (auto simp: export_dao_genesis_total [OF assms(1)] default_dao_genesis_def)

end
