(* ===== verification/Chain.thy ===== *)
theory Chain
  imports Dao_Execution Dns_Registry Dao_Genesis
begin

text \<open>
  The two modules in one application (\<^verbatim>\<open>app/app_config.go\<close>): transactions are delivered one after
  the other, at the end of a block the end blocker of \<^verbatim>\<open>x/dao\<close> runs, and it changes the TLDs of
  the other module through its keeper. A step relation with its reachable states, the invariant of
  all reachable states, and what no step can undo.
\<close>

section \<open>Steps\<close>

datatype tx = DnsTx dns_msg | DaoTx dao_msg

definition run_tx :: "('b, 'd) env \<Rightarrow> ctx \<Rightarrow> tx \<Rightarrow> (('b, 'd) world, unit) op" where
  "run_tx E c t = (case t of DnsTx m \<Rightarrow> run_dns_msg E c m | DaoTx m \<Rightarrow> dao_handle E (dns_keeper_of E) c m)"

text \<open>
  The end of a block: \<^verbatim>\<open>EndBlock\<close> of \<^verbatim>\<open>x/dnsblockchain\<close> does nothing, the one of \<^verbatim>\<open>x/dao\<close> runs its
  end blocker. The modules of the SDK move coins between the transactions; an error of the end
  blocker halts the chain, so there is no step for it.
\<close>

definition end_block :: "('b, 'd) env \<Rightarrow> ctx \<Rightarrow> (('b, 'd) world, unit) op" where
  "end_block E c = end_blocker E (dns_keeper_of E) c"

type_synonym ('b, 'd) chain = "ctx \<times> ('b, 'd) world"

inductive chain_step :: "('b, 'd) env \<Rightarrow> ('b, 'd) chain \<Rightarrow> ('b, 'd) chain \<Rightarrow> bool" for E where
  Deliver: "chain_step E (c, w) (c, deliver (run_tx E c t) w)"
| Others: "chain_step E (c, w) (c, w\<lparr>ledger := b\<rparr>)"
| EndBlock: "end_block E c w = (Inr (), w') \<Longrightarrow> block_height c' = block_height c + 1 \<Longrightarrow> block_time c \<le> block_time c'
    \<Longrightarrow> chain_step E (c, w) (c', w')"

inductive_cases chain_stepE: "chain_step E (c, w) (c', w')"

text \<open>Runs with the number of their steps.\<close>

inductive chain_run :: "('b, 'd) env \<Rightarrow> nat \<Rightarrow> ('b, 'd) chain \<Rightarrow> ('b, 'd) chain \<Rightarrow> bool" for E where
  run_refl: "chain_run E 0 s s"
| run_step: "chain_run E n s t \<Longrightarrow> chain_step E t u \<Longrightarrow> chain_run E (Suc n) s u"

text \<open>The first state, by the \<^verbatim>\<open>InitGenesis\<close> order of the application: \<^verbatim>\<open>x/dnsblockchain\<close>, then \<^verbatim>\<open>x/dao\<close>.\<close>

definition chain_init :: "('b, 'd) env \<Rightarrow> dns_genesis \<Rightarrow> 'd dao_genesis \<Rightarrow> (('b, 'd) world, unit) op" where
  "chain_init E g h = then_op (init_dns_genesis E g) (init_dao_genesis E h)"

section \<open>The end blocker and the other module\<close>

lemma keeps_end_blocker:
  assumes bank: "\<And>w b. I w \<Longrightarrow> I (w\<lparr>ledger := b\<rparr>)"
    and dao: "\<And>w f. I w \<Longrightarrow> I (upd_dao f w)"
    and emit: "\<And>w evs. I w \<Longrightarrow> I (emit evs w)"
    and tlds: "\<And>t. keeps I (dk_add_permitted_tld dk t)"
  shows "keeps I (end_blocker E dk c)"
proof -
  have settle: "keeps I (settle E dk c dep p)" for dep p
    by (rule keeps_settle(2) [OF bank dao tlds])
  have "keeps I (process_proposal E dk c params p)" for params p
    unfolding process_proposal_def iterate_votes_def set_proposal_def emit_op_def
    by (intro keeps_intros settle keeps_write keeps_update dao emit)
  then show ?thesis
    unfolding end_blocker_def dao_params_get_def iterate_proposals_def by (intro keeps_intros)
qed

text \<open>The invariant of the store of \<^verbatim>\<open>x/dnsblockchain\<close> with the TLD list and the normal forms.\<close>

definition dns_all :: "('b, 'd) env \<Rightarrow> ('b, 'd) world \<Rightarrow> bool" where
  "dns_all E w \<longleftrightarrow> dns_inv E w \<and> tlds_ok E (dns w) \<and> names_normal E (dns w)"

lemma dns_all_cong: "dns w = dns v \<Longrightarrow> dns_all E w = dns_all E v"
  by (simp add: dns_all_def dns_inv_def)

lemma add_permitted_tld_dns_all:
  assumes ul: "lower_laws (unicode_lower E)"
  shows "keeps (dns_all E) (add_permitted_tld E t)"
proof -
  have "dns_all E (snd (add_permitted_tld E t w))" if inv: "dns_all E w" for w
  proof (cases "add_permitted_tld E t w")
    case (Pair r w')
    show ?thesis
    proof (cases r)
      case (Inl e)
      then show ?thesis using Pair inv add_permitted_tld_Inl [of E t w e w'] by simp
    next
      case (Inr u)
      let ?t = "normalize_tld (unicode_lower E) t"
      have w': "w' = upd_dns (\<lambda>s. s\<lparr>permitted_tlds := kv_set ?t () (permitted_tlds s)\<rparr>) w"
        and tld: "\<not> is_reserved_tld (unicode_lower E) ?t" "\<not> contains_dot ?t" "2 \<le> length ?t" "length ?t \<le> 63"
        using Pair Inr add_permitted_tld_Inr [of E t w u w'] by (simp_all add: Let_def)
      have "?t \<noteq> []" using tld(3) by auto
      then have "names_normal E (dns w')"
        unfolding w' upd_dns_simps using inv by (intro names_normal_add_tld ul tld(2)) (simp_all add: dns_all_def)
      moreover have "tlds_ok E (dns w')"
        unfolding w' upd_dns_simps using inv by (intro tlds_ok_add_tld tld) (simp add: dns_all_def)
      moreover have "dns_inv E w'" using add_permitted_tld_inv inv Pair Inr by (auto simp: dns_all_def)
      ultimately show ?thesis by (simp add: Pair dns_all_def)
    qed
  qed
  then show ?thesis by (simp add: keeps_def)
qed

lemma end_block_dns_all:
  assumes "lower_laws (unicode_lower E)"
  shows "keeps (dns_all E) (end_block E c)"
  unfolding end_block_def
proof (rule keeps_end_blocker)
  show "keeps (dns_all E) (dk_add_permitted_tld (dns_keeper_of E) t)" for t
    using add_permitted_tld_dns_all [OF assms] by simp
qed (simp_all add: dns_all_def dns_inv_def)

lemma end_block_domains: "keeps (only_tlds d) (end_block E c)"
  unfolding end_block_def
proof (rule keeps_end_blocker)
  show "keeps (only_tlds d) (dk_add_permitted_tld (dns_keeper_of E) t)" for t
    using dk.add_domains [of E t] by (auto simp: keeps_def only_tlds_def) (metis prod.collapse)+
qed (simp_all add: only_tlds_def)

section \<open>Messages of x/dao\<close>

lemma dao_handle_cases:
  assumes run: "dao_handle E (dns_keeper_of E) c m w = (Inr r, w')"
  obtains (submitted) p where "dns w' = dns w" "votes (dao w') = votes (dao w)" "power_lots (dao w') = power_lots (dao w)"
      "dao_params_item (dao w') = dao_params_item (dao w)" "proposal_seq (dao w') = proposal_seq (dao w) + 1"
      "proposals (dao w') = kv_set (proposal_seq (dao w)) p (proposals (dao w))" "active p"
      "pr_submit_block p = block_height_u64 c"
  | (voted) i a v where "dns w' = dns w" "proposals (dao w') = proposals (dao w)" "power_lots (dao w') = power_lots (dao w)"
      "dao_params_item (dao w') = dao_params_item (dao w)" "proposal_seq (dao w') = proposal_seq (dao w)"
      "votes (dao w') = kv_set (i, a) v (votes (dao w))"
      "fault E VoteGet = None \<Longrightarrow> (case kv_get (votes (dao w)) (i, a) of None \<Rightarrow> True | Some v \<Rightarrow> vt_voter v = [])"
proof (cases m)
  case (SubmitProposal x)
  then obtain i where "submit_proposal E (keeper_record (add_permitted_tld E) (is_tld_permitted E) (is_tld_globally_reserved E)) c x w = (Inr i, w')"
    using run by (auto simp: dao_handle_def op_success keeper_record_of)
  then show ?thesis
  proof (rule dk.submit_proposal_success)
    fix params
    assume i: "i = proposal_seq (dao w)" and dns: "dns w' = dns w"
      and w': "dao w' = (dao w)\<lparr>proposal_seq := i + 1, proposals := kv_set i
       (new_proposal c params x i (get_supply (bank E) (voting_token_denom params) (ledger w'))) (proposals (dao w))\<rparr>"
    define p where "p = new_proposal c params x i (get_supply (bank E) (voting_token_denom params) (ledger w'))"
    have "active p" "pr_submit_block p = block_height_u64 c"
      by (simp_all add: p_def) (simp add: new_proposal_def Let_def)
    moreover have "dao w' = (dao w)\<lparr>proposal_seq := i + 1, proposals := kv_set i p (proposals (dao w))\<rparr>"
      using w' by (simp only: p_def)
    ultimately show ?thesis using submitted dns i by simp
  qed
next
  case (Vote x)
  then have "vote_on_proposal E c x w = (Inr r, w')" using run by (simp add: dao_handle_def)
  then show ?thesis
    by (rule vote_on_proposal_success) (use voted in simp)
qed

lemma dao_handle_inv:
  assumes "dao_inv E w" and "proposal_ids_left w" and "dao_handle E (dns_keeper_of E) c m w = (Inr r, w')"
  shows "dao_inv E w'"
proof (cases m)
  case (SubmitProposal x)
  then obtain i where "submit_proposal E (keeper_record (add_permitted_tld E) (is_tld_permitted E) (is_tld_globally_reserved E)) c x w = (Inr i, w')"
    using assms(3) by (auto simp: dao_handle_def op_success keeper_record_of)
  then show ?thesis by (rule dk.submit_proposal_inv [OF assms(1,2)])
next
  case (Vote x)
  then show ?thesis using assms vote_inv by (auto simp: dao_handle_def)
qed

interpretation dao_router: message_handler "dao_inv E" proposal_ids_left "dao_handle E (dns_keeper_of E) c" for E c
  by unfold_locales (rule dao_handle_inv)

section \<open>The invariant of the chain\<close>

text \<open>Every TLD that a proposal was executed for is permitted.\<close>

definition executed_permitted :: "('b, 'd) env \<Rightarrow> ('b, 'd) world \<Rightarrow> bool" where
  "executed_permitted E w \<longleftrightarrow> (\<forall>i p t. kv_get (proposals (dao w)) i = Some p \<longrightarrow> pr_status p = PROPOSAL_STATUS_EXECUTED
     \<longrightarrow> adds_tld E p t \<longrightarrow> fst (is_tld_permitted E t w) = Inr True)"

definition chain_inv :: "('b, 'd) env \<Rightarrow> ('b, 'd) world \<Rightarrow> bool" where
  "chain_inv E w \<longleftrightarrow> dns_all E w \<and> dao_inv E w \<and> executed_permitted E w"

text \<open>Both sequences can count \<open>n\<close> more steps.\<close>

definition room :: "nat \<Rightarrow> ('b, 'd) world \<Rightarrow> bool" where
  "room n w \<longleftrightarrow> unat (domain_seq (dns w)) + n < 2 ^ 64 \<and> unat (proposal_seq (dao w)) + n < 2 ^ 64"

lemma unat_max_u64: "unat (- 1 :: u64) = 2 ^ 64 - 1"
  unfolding unsigned_minus_1_eq_mask mask_eq_exp_minus_1 by simp

lemma room_ids_left:
  assumes "room (Suc n) w"
  shows "ids_left w" "proposal_ids_left w" "room n w"
  using assms by (auto simp: room_def ids_left_def proposal_ids_left_def unat_max_u64)

lemma unat_succ_le: "unat (x + 1 :: u64) \<le> unat x + 1"
  by (simp add: unat_word_ariths)

lemma room_step:
  assumes "room (Suc n) w" and "domain_seq (dns w') = domain_seq (dns w) \<or> domain_seq (dns w') = domain_seq (dns w) + 1"
    and "proposal_seq (dao w') = proposal_seq (dao w) \<or> proposal_seq (dao w') = proposal_seq (dao w) + 1"
  shows "room n w'"
  using assms unat_succ_le [of "domain_seq (dns w)"] unat_succ_le [of "proposal_seq (dao w)"]
  by (auto simp: room_def)

lemma is_tld_permitted_cong:
  "permitted_tlds (dns w') = permitted_tlds (dns w) \<Longrightarrow> fst (is_tld_permitted E t w') = fst (is_tld_permitted E t w)"
  by (simp add: is_tld_permitted_def tld_has_def op_defs Let_def)

lemma executed_permitted_frame:
  assumes "executed_permitted E w" and "permitted_tlds (dns w') = permitted_tlds (dns w)"
    and "\<And>i p. kv_get (proposals (dao w')) i = Some p \<Longrightarrow> pr_status p = PROPOSAL_STATUS_EXECUTED
      \<Longrightarrow> kv_get (proposals (dao w)) i = Some p"
  shows "executed_permitted E w'"
  using assms(1,3) is_tld_permitted_cong [OF assms(2), of E] unfolding executed_permitted_def by metis

section \<open>Every reachable state satisfies the invariant\<close>

lemma run_tx_inv:
  assumes ul: "lower_laws (unicode_lower E)" and inv: "chain_inv E w" and room: "room (Suc n) w"
    and run: "run_tx E c t w = (Inr r, w')"
  shows "chain_inv E w'" and "room n w'"
proof -
  have "chain_inv E w' \<and> room n w'"
  proof (cases t)
    case (DnsTx m)
    then have h: "dns_handle E c m w = (Inr r, w')" using run by (simp add: run_tx_def run_dns_msg_Inr)
    note frame = dns_handle_frame [OF h]
    have "dns_inv E w'" using dns_handle_inv [OF _ room_ids_left(1) [OF room] h] inv by (simp add: chain_inv_def dns_all_def)
    moreover have "names_normal E (dns w')"
      using names_normal_handle [OF _ ul h] inv by (simp add: chain_inv_def dns_all_def)
    moreover have "tlds_ok E (dns w')" using inv frame(2) by (simp add: chain_inv_def dns_all_def tlds_ok_def)
    moreover have "dao_inv E w'" using inv frame(1) by (simp add: chain_inv_def dao_inv_def)
    moreover have "executed_permitted E w'"
      by (rule executed_permitted_frame [of E w]) (use inv frame(1,2) in \<open>simp_all add: chain_inv_def\<close>)
    moreover have "room n w'" using room_step [OF room frame(3)] frame(1) by simp
    ultimately show ?thesis by (simp add: chain_inv_def dns_all_def)
  next
    case (DaoTx m)
    then have h: "dao_handle E (dns_keeper_of E) c m w = (Inr r, w')" using run by (simp add: run_tx_def)
    have dao: "dao_inv E w'" using dao_handle_inv [OF _ room_ids_left(2) [OF room] h] inv by (simp add: chain_inv_def)
    from h have rest: "dns w' = dns w \<and> executed_permitted E w' \<and> room n w'"
    proof (cases rule: dao_handle_cases)
      case (submitted p)
      note f = this
      have "executed_permitted E w'"
        by (rule executed_permitted_frame [of E w]) (use inv f in \<open>auto simp: chain_inv_def split: if_splits\<close>)
      with f room_step [OF room, of w'] show ?thesis by simp
    next
      case (voted i a v)
      note f = this
      have "executed_permitted E w'"
        by (rule executed_permitted_frame [of E w]) (use inv f in \<open>simp_all add: chain_inv_def\<close>)
      with f room_step [OF room, of w'] show ?thesis by simp
    qed
    with dao inv show ?thesis by (simp add: chain_inv_def dns_all_def dns_inv_def)
  qed
  then show "chain_inv E w'" and "room n w'" by auto
qed

text \<open>What an end block does, in terms of the stores before and after it.\<close>

lemma end_block_effect:
  assumes inv: "dao_inv E w" and run: "end_block E c w = (Inr r, w')"
  obtains params ex where "dao_params_item (dao w) = Some params"
    and "dao_params_item (dao w') = Some params" "votes (dao w') = votes (dao w)"
      "proposal_seq (dao w') = proposal_seq (dao w)" "only_tlds (dns w) w'"
    and "\<And>i. kv_get (proposals (dao w')) i = (case kv_get (proposals (dao w)) i of None \<Rightarrow> None
       | Some p \<Rightarrow> Some (if voting_over (block_height_u64 c) p then closed E params (votes_of (dao w) i) p (ex i) else p))"
    and "tlds_upto E (normalize_tld (unicode_lower E)) (is_tld_permitted E) w
       (filter (voting_over (block_height_u64 c)) (map snd (kv_walk (proposals (dao w))))) w'"
proof -
  let ?K = "keeper_record (add_permitted_tld E) (is_tld_permitted E) (is_tld_globally_reserved E)"
  have run': "end_blocker E ?K c w = (Inr r, w')" using run by (simp add: end_block_def keeper_record_of)
  have ok: "dao_ok E (dao w)" using inv by (simp add: dao_inv_def)
  from inv run' show ?thesis
  proof (rule dk.end_blocker_closed)
    fix params ex
    assume params: "dao_params_item (dao w) = Some params"
      and upto: "closed_upto E params (dao w) (dns w)
        (filter (voting_over (block_height_u64 c)) (map snd (kv_walk (proposals (dao w))))) ex w'"
    show ?thesis
    proof (rule that [OF params])
      show "kv_get (proposals (dao w')) i = (case kv_get (proposals (dao w)) i of None \<Rightarrow> None
         | Some p \<Rightarrow> Some (if voting_over (block_height_u64 c) p then closed E params (votes_of (dao w) i) p (ex i) else p))" for i
        by (rule dk.closed_proposals [OF ok upto])
      show "tlds_upto E (normalize_tld (unicode_lower E)) (is_tld_permitted E) w
         (filter (voting_over (block_height_u64 c)) (map snd (kv_walk (proposals (dao w))))) w'"
        by (rule dk.end_blocker_tlds [OF inv run'])
    qed (use upto params in \<open>simp_all add: closed_upto_def\<close>)
  qed
qed

lemma voting_over_listed:
  assumes "dao_ok E s" and "kv_get (proposals s) i = Some p" and "voting_over h p"
  shows "p \<in> set (filter (voting_over h) (map snd (kv_walk (proposals s))))" and "pr_id p = i"
proof -
  have "(i, p) \<in> set (kv_walk (proposals s))" using kv_walk_get [OF dao_okD(1) [OF assms(1)]] assms(2) by simp
  then have "snd (i, p) \<in> snd ` set (kv_walk (proposals s))" by (rule imageI)
  then have "p \<in> set (map snd (kv_walk (proposals s)))" by simp
  then show "p \<in> set (filter (voting_over h) (map snd (kv_walk (proposals s))))" using assms(3) by simp
  show "pr_id p = i" using dao_okD(4) [OF assms(1,2)] by simp
qed

lemma adds_tld_closed [simp]: "adds_tld E (closed E params vs p ex) t = adds_tld E p t"
  by (simp add: adds_tld_def)

lemma tlds_upto_mono:
  assumes "tlds_upto E norm permitted w0 ys w" and "fst (permitted s w0) = Inr True"
  shows "fst (permitted s w) = Inr True"
proof -
  have "fst (permitted s w) = fst (permitted s w0) \<or> fst (permitted s w) = Inr True"
    using assms(1) unfolding tlds_upto_def by blast
  with assms(2) show ?thesis by auto
qed

lemma end_block_inv:
  assumes ul: "lower_laws (unicode_lower E)" and inv: "chain_inv E w" and run: "end_block E c w = (Inr r, w')"
  shows "chain_inv E w'" and "room (Suc n) w \<Longrightarrow> room n w'"
proof -
  have dao: "dao_inv E w" and ok: "dao_ok E (dao w)" using inv by (simp_all add: chain_inv_def dao_inv_def)
  have run': "end_blocker E (keeper_record (add_permitted_tld E) (is_tld_permitted E) (is_tld_globally_reserved E)) c w = (Inr r, w')"
    using run by (simp add: end_block_def keeper_record_of)
  have "dns_all E w'" using keepsD [OF end_block_dns_all [OF ul] run] inv by (simp add: chain_inv_def)
  moreover have "dao_inv E w'" by (rule dk.end_blocker_inv [OF dao run'])
  moreover from dao run have "executed_permitted E w' \<and> (room (Suc n) w \<longrightarrow> room n w')"
  proof (rule end_block_effect)
    fix params ex
    let ?h = "block_height_u64 c"
    assume seq: "proposal_seq (dao w') = proposal_seq (dao w)" "only_tlds (dns w) w'"
      and get: "\<And>i. kv_get (proposals (dao w')) i = (case kv_get (proposals (dao w)) i of None \<Rightarrow> None
         | Some p \<Rightarrow> Some (if voting_over ?h p then closed E params (votes_of (dao w) i) p (ex i) else p))"
      and tlds: "tlds_upto E (normalize_tld (unicode_lower E)) (is_tld_permitted E) w
         (filter (voting_over ?h) (map snd (kv_walk (proposals (dao w))))) w'"
    have "fst (is_tld_permitted E t w') = Inr True"
      if q: "kv_get (proposals (dao w')) i = Some q" "pr_status q = PROPOSAL_STATUS_EXECUTED" "adds_tld E q t" for i q t
    proof -
      obtain p where p: "kv_get (proposals (dao w)) i = Some p"
        and qp: "q = (if voting_over ?h p then closed E params (votes_of (dao w) i) p (ex i) else p)"
        using q(1) get [of i] by (auto split: option.splits)
      show ?thesis
      proof (cases "voting_over ?h p")
        case True
        have "adds_tld E p t" using q(3) qp True by simp
        then show ?thesis
          using tlds voting_over_listed [OF ok p True] q(1,2) unfolding tlds_upto_def by blast
      next
        case False
        then have "fst (is_tld_permitted E t w) = Inr True"
          using inv p q(2,3) qp by (simp add: chain_inv_def executed_permitted_def)
        then show ?thesis by (rule tlds_upto_mono [OF tlds])
      qed
    qed
    then have "executed_permitted E w'" by (simp add: executed_permitted_def)
    moreover have "room (Suc n) w \<Longrightarrow> room n w'" using room_step [of n w w'] seq by (simp add: only_tlds_def)
    ultimately show ?thesis by blast
  qed
  ultimately show "chain_inv E w'" and "room (Suc n) w \<Longrightarrow> room n w'" by (simp_all add: chain_inv_def)
qed

lemma chain_inv_ledger [simp]: "chain_inv E (w\<lparr>ledger := b\<rparr>) = chain_inv E w" "room n (w\<lparr>ledger := b\<rparr>) = room n w"
proof -
  have "executed_permitted E (w\<lparr>ledger := b\<rparr>) = executed_permitted E w"
    using is_tld_permitted_cong [of "w\<lparr>ledger := b\<rparr>" w E] by (simp add: executed_permitted_def)
  then show "chain_inv E (w\<lparr>ledger := b\<rparr>) = chain_inv E w" "room n (w\<lparr>ledger := b\<rparr>) = room n w"
    by (simp_all add: chain_inv_def dns_all_def dns_inv_def dao_inv_def room_def)
qed

lemma chain_step_inv:
  assumes ul: "lower_laws (unicode_lower E)" and step: "chain_step E (c, w) (c', w')"
    and inv: "chain_inv E w" and room: "room (Suc n) w"
  shows "chain_inv E w' \<and> room n w'"
  using step
proof (rule chain_stepE)
  fix t
  assume "c = c'" and "w' = deliver (run_tx E c' t) w"
  then have w': "w' = deliver (run_tx E c t) w" by simp
  have "chain_inv E (deliver (run_tx E c t) w) \<and> room n (deliver (run_tx E c t) w)"
    by (rule deliver_cases) (use run_tx_inv [OF ul inv room] inv room_ids_left(3) [OF room] in blast)+
  with w' show ?thesis by simp
next
  fix b
  assume "w' = w\<lparr>ledger := b\<rparr>"
  with inv room_ids_left(3) [OF room] show ?thesis by simp
next
  assume "end_block E c w = (Inr (), w')"
  with end_block_inv [OF ul inv] room show ?thesis by blast
qed

lemma chain_run_inv:
  assumes ul: "lower_laws (unicode_lower E)" and run: "chain_run E n s t"
    and inv: "chain_inv E (snd s)" and room: "room (n + k) (snd s)"
  shows "chain_inv E (snd t) \<and> room k (snd t)"
  using run inv room
proof (induction arbitrary: k)
  case (run_step n s t u)
  have "chain_inv E (snd t) \<and> room (Suc k) (snd t)" using run_step.IH [of "Suc k"] run_step.prems by simp
  with chain_step_inv [OF ul] run_step.hyps(2) show ?case by (cases t; cases u) auto
qed simp

end
