(* ===== verification/Chain_History.thy ===== *)
theory Chain_History
  imports Chain
begin

text \<open>
  What the steps of the chain cannot undo: a stored proposal keeps its content and dates, a closed
  one keeps everything, a vote stands, a permitted TLD stays permitted, and each new one has an
  executed proposal behind it. Then the deadline by which a proposal is closed, and the first state.
\<close>

section \<open>History\<close>

definition evolves :: "proposal \<Rightarrow> proposal \<Rightarrow> bool" where
  "evolves p q \<longleftrightarrow> q = p\<lparr>pr_status := pr_status q, pr_yes_votes := pr_yes_votes q, pr_no_votes := pr_no_votes q,
      pr_abstain_votes := pr_abstain_votes q\<rparr> \<and> (\<not> active p \<longrightarrow> q = p)"

lemma evolves_refl [simp]: "evolves p p"
  by (simp add: evolves_def)

lemma evolvesD:
  assumes "evolves p q"
  shows "pr_id q = pr_id p" "pr_content q = pr_content p" "pr_submit_block q = pr_submit_block p"
    "pr_voting_end_block q = pr_voting_end_block p" "pr_proposer q = pr_proposer p" "\<not> active p \<Longrightarrow> q = p"
proof -
  obtain st y n a where q: "q = p\<lparr>pr_status := st, pr_yes_votes := y, pr_no_votes := n, pr_abstain_votes := a\<rparr>"
    using assms unfolding evolves_def by blast
  show "pr_id q = pr_id p" "pr_content q = pr_content p" "pr_submit_block q = pr_submit_block p"
    "pr_voting_end_block q = pr_voting_end_block p" "pr_proposer q = pr_proposer p"
    by (simp_all add: q)
  show "q = p" if "\<not> active p" using assms that unfolding evolves_def by blast
qed

lemma evolves_trans:
  assumes "evolves p q" and "evolves q r"
  shows "evolves p r"
proof (cases "active p")
  case False
  then have "q = p" using assms(1) unfolding evolves_def by blast
  with assms show ?thesis by simp
next
  case True
  obtain s1 y1 n1 a1 where q: "q = p\<lparr>pr_status := s1, pr_yes_votes := y1, pr_no_votes := n1, pr_abstain_votes := a1\<rparr>"
    using assms(1) unfolding evolves_def by blast
  obtain s2 y2 n2 a2 where r: "r = q\<lparr>pr_status := s2, pr_yes_votes := y2, pr_no_votes := n2, pr_abstain_votes := a2\<rparr>"
    using assms(2) unfolding evolves_def by blast
  show ?thesis using True by (simp add: evolves_def q r)
qed

lemma evolves_closed: "active p \<Longrightarrow> evolves p (closed E params vs p ex)"
  by (simp add: evolves_def closed_def Let_def)

definition history :: "('b, 'd) env \<Rightarrow> ('b, 'd) world \<Rightarrow> ('b, 'd) world \<Rightarrow> bool" where
  "history E w w' \<longleftrightarrow>
     (\<forall>i p. kv_get (proposals (dao w)) i = Some p \<longrightarrow> (\<exists>q. kv_get (proposals (dao w')) i = Some q \<and> evolves p q))
   \<and> (\<forall>k v. kv_get (votes (dao w)) k = Some v \<longrightarrow> kv_get (votes (dao w')) k = Some v)
   \<and> dao_params_item (dao w') = dao_params_item (dao w)
   \<and> (\<forall>s. fst (is_tld_permitted E s w) = Inr True \<longrightarrow> fst (is_tld_permitted E s w') = Inr True)"

lemma historyD:
  assumes "history E w w'"
  shows "kv_get (proposals (dao w)) i = Some p \<Longrightarrow> \<exists>q. kv_get (proposals (dao w')) i = Some q \<and> evolves p q"
    and "kv_get (votes (dao w)) k = Some v \<Longrightarrow> kv_get (votes (dao w')) k = Some v"
    and "dao_params_item (dao w') = dao_params_item (dao w)"
    and "fst (is_tld_permitted E s w) = Inr True \<Longrightarrow> fst (is_tld_permitted E s w') = Inr True"
  using assms unfolding history_def by blast+

lemma history_refl [simp]: "history E w w"
  by (auto simp: history_def)

lemma history_trans:
  assumes "history E u v" and "history E v w"
  shows "history E u w"
  unfolding history_def
proof (intro conjI allI impI)
  fix i p
  assume "kv_get (proposals (dao u)) i = Some p"
  then obtain q where q: "kv_get (proposals (dao v)) i = Some q" "evolves p q" using historyD(1) [OF assms(1)] by blast
  then obtain r where "kv_get (proposals (dao w)) i = Some r" "evolves q r" using historyD(1) [OF assms(2)] by blast
  with q(2) show "\<exists>q. kv_get (proposals (dao w)) i = Some q \<and> evolves p q" using evolves_trans by blast
qed (use historyD(2-4) [OF assms(1)] historyD(2-4) [OF assms(2)] in simp_all)

text \<open>The law of the address codec that the one-vote rule needs: the empty string is no address.\<close>

definition no_empty_address :: "('b, 'd) env \<Rightarrow> bool" where
  "no_empty_address E \<longleftrightarrow> string_to_bytes (addr E) [] = None"

lemma run_tx_history:
  assumes a: "no_empty_address E" and inv: "chain_inv E w" and run: "run_tx E c t w = (Inr r, w')"
  shows "history E w w'" and "fst (is_tld_permitted E s w') = fst (is_tld_permitted E s w)"
proof -
  have dao: "dao_ok E (dao w)" and E: "store_total E" using inv by (auto simp: chain_inv_def dao_inv_def)
  have "history E w w' \<and> permitted_tlds (dns w') = permitted_tlds (dns w)"
  proof (cases t)
    case (DnsTx m)
    then have h: "dns_handle E c m w = (Inr r, w')" using run by (simp add: run_tx_def run_dns_msg_Inr)
    from dns_handle_frame(1,2) [OF h] is_tld_permitted_cong [of w' w E] show ?thesis
      by (auto simp: history_def)
  next
    case (DaoTx m)
    then have h: "dao_handle E (dns_keeper_of E) c m w = (Inr r, w')" using run by (simp add: run_tx_def)
    then show ?thesis
    proof (cases rule: dao_handle_cases)
      case (submitted p)
      have fresh: "kv_get (proposals (dao w)) (proposal_seq (dao w)) = None"
        using dao_okD(4) [OF dao, of "proposal_seq (dao w)"]
        by (cases "kv_get (proposals (dao w)) (proposal_seq (dao w))") auto
      have "\<exists>q. kv_get (proposals (dao w')) i = Some q \<and> evolves x q" if "kv_get (proposals (dao w)) i = Some x" for i x
        using that fresh submitted(6) by (cases "i = proposal_seq (dao w)") auto
      then show ?thesis
        using submitted is_tld_permitted_cong [of w' w E] by (simp add: history_def)
    next
      case (voted i b v)
      have "kv_get (votes (dao w)) (i, b) = None"
      proof (cases "kv_get (votes (dao w)) (i, b)")
        case (Some x)
        then have "string_to_bytes (addr E) (vt_voter x) = Some b" using dao_okD(5) [OF dao] by (simp add: vote_ok_def)
        then have "vt_voter x \<noteq> []" using a by (auto simp: no_empty_address_def)
        then show ?thesis using voted(7) Some E by simp
      qed
      then have "kv_get (votes (dao w')) k = Some x" if "kv_get (votes (dao w)) k = Some x" for k x
        using that voted(6) by auto
      then show ?thesis
        using voted is_tld_permitted_cong [of w' w E] by (simp add: history_def)
    qed
  qed
  then show "history E w w'" and "fst (is_tld_permitted E s w') = fst (is_tld_permitted E s w)"
    using is_tld_permitted_cong [of w' w E] by auto
qed

text \<open>The origin of a permitted TLD.\<close>

definition tld_origin :: "('b, 'd) env \<Rightarrow> ('b, 'd) world \<Rightarrow> ('b, 'd) world \<Rightarrow> bool" where
  "tld_origin E w w' \<longleftrightarrow> (\<forall>s. fst (is_tld_permitted E s w') = Inr True \<longrightarrow> fst (is_tld_permitted E s w) = Inr True
     \<or> (\<exists>i p t. kv_get (proposals (dao w')) i = Some p \<and> pr_status p = PROPOSAL_STATUS_EXECUTED \<and> adds_tld E p t
          \<and> normalize_tld (unicode_lower E) s = normalize_tld (unicode_lower E) t))"

lemma tld_origin_same:
  "(\<And>s. fst (is_tld_permitted E s w') = fst (is_tld_permitted E s w)) \<Longrightarrow> tld_origin E w w'"
  by (simp add: tld_origin_def)

lemma tld_origin_trans:
  assumes "tld_origin E u v" and "tld_origin E v w" and "history E v w"
  shows "tld_origin E u w"
  unfolding tld_origin_def
proof (intro allI impI)
  fix s
  assume s: "fst (is_tld_permitted E s w) = Inr True"
  have keep: "kv_get (proposals (dao w)) i = Some p"
    if "kv_get (proposals (dao v)) i = Some p" "pr_status p = PROPOSAL_STATUS_EXECUTED" for i p
    using historyD(1) [OF assms(3) that(1)] evolvesD(6) active_not_closed(1) [OF that(2)] by blast
  show "fst (is_tld_permitted E s u) = Inr True
     \<or> (\<exists>i p t. kv_get (proposals (dao w)) i = Some p \<and> pr_status p = PROPOSAL_STATUS_EXECUTED \<and> adds_tld E p t
          \<and> normalize_tld (unicode_lower E) s = normalize_tld (unicode_lower E) t)"
  proof (cases "fst (is_tld_permitted E s v) = Inr True")
    case True
    then show ?thesis using assms(1) keep unfolding tld_origin_def by blast
  next
    case False
    then show ?thesis using assms(2) s unfolding tld_origin_def by blast
  qed
qed

lemma end_block_history:
  assumes inv: "chain_inv E w" and run: "end_block E c w = (Inr r, w')"
  shows "history E w w' \<and> tld_origin E w w'"
proof -
  have dao: "dao_inv E w" and ok: "dao_ok E (dao w)" using inv by (simp_all add: chain_inv_def dao_inv_def)
  let ?h = "block_height_u64 c"
  from dao run show ?thesis
  proof (rule end_block_effect)
    fix params ex
    assume p: "dao_params_item (dao w) = Some params" "dao_params_item (dao w') = Some params"
      and votes: "votes (dao w') = votes (dao w)"
      and get: "\<And>i. kv_get (proposals (dao w')) i = (case kv_get (proposals (dao w)) i of None \<Rightarrow> None
         | Some p \<Rightarrow> Some (if voting_over ?h p then closed E params (votes_of (dao w) i) p (ex i) else p))"
      and tlds: "tlds_upto E (normalize_tld (unicode_lower E)) (is_tld_permitted E) w
         (filter (voting_over ?h) (map snd (kv_walk (proposals (dao w))))) w'"
    have "\<exists>q. kv_get (proposals (dao w')) i = Some q \<and> evolves x q" if "kv_get (proposals (dao w)) i = Some x" for i x
      using get [of i] that evolves_closed [of x] by (auto simp: voting_over_def active_def)
    then have hist: "history E w w'"
      using p votes tlds_upto_mono [OF tlds] by (simp add: history_def)
    have "tld_origin E w w'"
      unfolding tld_origin_def
    proof (intro allI impI)
      fix s
      assume s: "fst (is_tld_permitted E s w') = Inr True"
      have "fst (is_tld_permitted E s w') = fst (is_tld_permitted E s w)
        \<or> (\<exists>x \<in> set (filter (voting_over ?h) (map snd (kv_walk (proposals (dao w))))).
             \<exists>q t. kv_get (proposals (dao w')) (pr_id x) = Some q
              \<and> pr_status q = PROPOSAL_STATUS_EXECUTED \<and> adds_tld E x t
              \<and> normalize_tld (unicode_lower E) s = normalize_tld (unicode_lower E) t)"
        using tlds unfolding tlds_upto_def by blast
      then consider "fst (is_tld_permitted E s w) = Inr True"
        | x q t where "kv_get (proposals (dao w')) (pr_id x) = Some q" "pr_status q = PROPOSAL_STATUS_EXECUTED"
          "adds_tld E x t" "normalize_tld (unicode_lower E) s = normalize_tld (unicode_lower E) t"
          "x \<in> set (map snd (kv_walk (proposals (dao w))))"
        using s filter_is_subset [of "voting_over ?h" "map snd (kv_walk (proposals (dao w)))"] by auto
      then show "fst (is_tld_permitted E s w) = Inr True
         \<or> (\<exists>i p t. kv_get (proposals (dao w')) i = Some p \<and> pr_status p = PROPOSAL_STATUS_EXECUTED \<and> adds_tld E p t
              \<and> normalize_tld (unicode_lower E) s = normalize_tld (unicode_lower E) t)"
      proof cases
        case (2 x q t)
        then obtain j where "(j, x) \<in> set (kv_walk (proposals (dao w)))" by auto
        then have "kv_get (proposals (dao w)) (pr_id x) = Some x"
          using kv_walk_get [OF dao_okD(1) [OF ok], of j x] dao_okD(4) [OF ok, of j x] by simp
        then have "evolves x q" using historyD(1) [OF hist] 2(1) by fastforce
        then have "adds_tld E q t" using evolvesD(2) 2(3) by (simp add: adds_tld_def)
        with 2 show ?thesis by blast
      qed simp
    qed
    with hist show ?thesis by blast
  qed
qed

lemma history_ledger [simp]: "history E w (w\<lparr>ledger := b\<rparr>)" "tld_origin E w (w\<lparr>ledger := b\<rparr>)"
  using is_tld_permitted_cong [of "w\<lparr>ledger := b\<rparr>" w E] by (auto simp: history_def tld_origin_def)

lemma chain_step_history:
  assumes a: "no_empty_address E" and step: "chain_step E (c, w) (c', w')" and inv: "chain_inv E w"
  shows "history E w w' \<and> tld_origin E w w'"
  using step
proof (rule chain_stepE)
  fix t
  assume "c = c'" and w': "w' = deliver (run_tx E c' t) w"
  have "history E w (deliver (run_tx E c' t) w) \<and> tld_origin E w (deliver (run_tx E c' t) w)"
  proof (rule deliver_cases)
    fix x v
    assume run: "run_tx E c' t w = (Inr x, v)"
    show "history E w v \<and> tld_origin E w v"
      using run_tx_history [OF a inv run] tld_origin_same by blast
  qed (simp add: tld_origin_def)
  with w' show ?thesis by simp
next
  assume "end_block E c w = (Inr (), w')"
  with end_block_history [OF inv] show ?thesis by blast
qed simp

lemma chain_run_history:
  assumes ul: "lower_laws (unicode_lower E)" and a: "no_empty_address E" and run: "chain_run E n s t"
    and inv: "chain_inv E (snd s)" and room: "room (n + k) (snd s)"
  shows "history E (snd s) (snd t) \<and> tld_origin E (snd s) (snd t)"
  using run inv room
proof (induction arbitrary: k)
  case (run_refl s)
  then show ?case by (simp add: tld_origin_def)
next
  case (run_step n s t u)
  have "chain_inv E (snd t)" using chain_run_inv [OF ul run_step.hyps(1), of "Suc k"] run_step.prems by simp
  then have "history E (snd t) (snd u) \<and> tld_origin E (snd t) (snd u)"
    using chain_step_history [OF a] run_step.hyps(2) by (cases t; cases u) auto
  moreover have "history E (snd s) (snd t) \<and> tld_origin E (snd s) (snd t)"
    using run_step.IH [of "Suc k"] run_step.prems by simp
  ultimately show ?case using history_trans tld_origin_trans by blast
qed

section \<open>Deadlines\<close>

text \<open>
  In the block of a height, every active proposal was either submitted in this very block or its
  last voting block is not before the previous height. (With a period that wraps around at 64 bits the
  last block can lie in the past; such a proposal is closed at the end of the block.)
\<close>

definition no_overdue :: "('b, 'd) chain \<Rightarrow> bool" where
  "no_overdue s \<longleftrightarrow> (case s of (c, w) \<Rightarrow> \<forall>i p. kv_get (proposals (dao w)) i = Some p \<longrightarrow> active p \<longrightarrow>
     pr_submit_block p = block_height_u64 c \<or> block_height_u64 c - 1 \<le> pr_voting_end_block p)"

lemma no_overdueD:
  "no_overdue (c, w) \<Longrightarrow> kv_get (proposals (dao w)) i = Some p \<Longrightarrow> active p \<Longrightarrow>
     pr_submit_block p = block_height_u64 c \<or> block_height_u64 c - 1 \<le> pr_voting_end_block p"
  by (auto simp: no_overdue_def)

lemma run_tx_overdue:
  assumes od: "no_overdue (c, w)" and run: "run_tx E c t w = (Inr r, w')"
  shows "no_overdue (c, w')"
proof (cases t)
  case (DnsTx m)
  then have h: "dns_handle E c m w = (Inr r, w')" using run by (simp add: run_tx_def run_dns_msg_Inr)
  from dns_handle_frame(1) [OF h] od show ?thesis by (simp add: no_overdue_def)
next
  case (DaoTx m)
  then have "dao_handle E (dns_keeper_of E) c m w = (Inr r, w')" using run by (simp add: run_tx_def)
  then show ?thesis
  proof (cases rule: dao_handle_cases)
    case (submitted p)
    then show ?thesis using od by (auto simp: no_overdue_def split: if_splits)
  next
    case (voted i a v)
    then show ?thesis using od by (simp add: no_overdue_def)
  qed
qed

lemma end_block_overdue:
  assumes inv: "dao_inv E w" and run: "end_block E c w = (Inr r, w')" and next_block: "block_height c' = block_height c + 1"
  shows "no_overdue (c', w')"
  using inv run
proof (rule end_block_effect)
  fix params ex
  let ?h = "block_height_u64 c"
  assume get: "\<And>i. kv_get (proposals (dao w')) i = (case kv_get (proposals (dao w)) i of None \<Rightarrow> None
     | Some p \<Rightarrow> Some (if voting_over ?h p then closed E params (votes_of (dao w) i) p (ex i) else p))"
  have height: "block_height_u64 c' - 1 = ?h" by (simp add: block_height_u64_def next_block)
  have "?h \<le> pr_voting_end_block q" if q: "kv_get (proposals (dao w')) i = Some q" "active q" for i q
  proof -
    obtain p where p: "kv_get (proposals (dao w)) i = Some p"
      and qp: "q = (if voting_over ?h p then closed E params (votes_of (dao w) i) p (ex i) else p)"
      using q(1) get [of i] by (auto split: option.splits)
    have "\<not> active (closed E params (votes_of (dao w) i) p (ex i))"
      using final_status_cases [of E params "votes_of (dao w) i" p "ex i"] by (auto simp: active_def)
    then have "\<not> voting_over ?h p" "q = p" using qp q(2) by (auto split: if_splits)
    with q(2) show ?thesis by (auto simp: voting_over_def active_def not_less)
  qed
  then show ?thesis by (simp add: no_overdue_def height)
qed

lemma chain_run_overdue:
  assumes ul: "lower_laws (unicode_lower E)" and run: "chain_run E n s t"
    and inv: "chain_inv E (snd s)" and room: "room (n + k) (snd s)" and od: "no_overdue s"
  shows "no_overdue t"
  using run inv room od
proof (induction arbitrary: k)
  case (run_step n s t u)
  obtain c w c' w' where t: "t = (c, w)" and u: "u = (c', w')" by (cases t; cases u) auto
  have od: "no_overdue (c, w)" using run_step.IH [of "Suc k"] run_step.prems t by simp
  have "chain_inv E w" using chain_run_inv [OF ul run_step.hyps(1), of "Suc k"] run_step.prems t by simp
  then have inv: "dao_inv E w" by (simp add: chain_inv_def)
  have "chain_step E (c, w) (c', w')" using run_step.hyps(2) t u by simp
  then have "no_overdue (c', w')"
  proof (rule chain_stepE)
    fix x
    assume c: "c = c'" and w': "w' = deliver (run_tx E c' x) w"
    have "no_overdue (c', deliver (run_tx E c' x) w)"
      by (rule deliver_cases) (use run_tx_overdue [of c' w E x] od c in auto)
    with w' show ?thesis by simp
  next
    fix b
    assume "c = c'" and "w' = w\<lparr>ledger := b\<rparr>"
    with od show ?thesis by (simp add: no_overdue_def)
  next
    assume "end_block E c w = (Inr (), w')" and "block_height c' = block_height c + 1"
    with inv show ?thesis by (rule end_block_overdue)
  qed
  with u show ?case by simp
qed simp

text \<open>The end of a block never fails in a state with parameters, so the chain does not halt there.\<close>

lemma end_block_total:
  assumes inv: "dao_inv E w" and params: "dao_params_item (dao w) \<noteq> None"
  shows "\<exists>w'. end_block E c w = (Inr (), w')"
proof -
  obtain p where p: "dao_params_item (dao w) = Some p" using params by blast
  have E: "store_total E" and ok: "dao_ok E (dao w)" using inv by (auto simp: dao_inv_def)
  have "\<And>i p. kv_get (proposals (dao w)) i = Some p \<Longrightarrow> pr_id p = i" using dao_okD(4) [OF ok] by blast
  from dk.end_blocker_run [OF E p dao_okD(1) [OF ok] this, of E c] show ?thesis
    unfolding end_block_def keeper_record_of by blast
qed

section \<open>The first state\<close>

definition empty_world :: "('b, 'd) world \<Rightarrow> bool" where
  "empty_world w \<longleftrightarrow> dns w = empty_dns_store \<and> dao w = empty_dao_store"

text \<open>A genesis state without domains whose TLDs are ones that \<open>AddPermittedTLD\<close> accepts.\<close>

definition genesis_tlds_ok :: "('b, 'd) env \<Rightarrow> dns_genesis \<Rightarrow> bool" where
  "genesis_tlds_ok E g \<longleftrightarrow> gs_domain_list g = [] \<and> (\<forall>t \<in> set (gs_permitted_tlds g).
     let n = normalize_name (unicode_lower E) t in
       \<not> is_reserved_tld (unicode_lower E) n \<and> \<not> contains_dot n \<and> 2 \<le> length n \<and> length n \<le> 63)"

lemma chain_init_inv:
  assumes E: "store_total E" and ul: "lower_laws (unicode_lower E)" and g: "genesis_tlds_ok E g" and w: "empty_world w"
  shows "\<exists>w'. chain_init E g h w = (Inr (), w') \<and> chain_inv E w' \<and> no_overdue (c, w')
    \<and> dao_params_item (dao w') \<noteq> None \<and> domain_seq (dns w') = gs_domain_count g \<and> proposal_seq (dao w') = 0"
proof -
  define p where "p = (if validate_dao_genesis E h = None then dg_params h else default_dao_params E)"
  define w1 where "w1 = upd_dns (import_genesis E g) w"
  define w' where "w' = upd_dao (\<lambda>s. s\<lparr>dao_params_item := Some p\<rparr>) w1"
  have run: "chain_init E g h w = (Inr (), w')"
    by (simp add: chain_init_def then_op_def bind_op_def init_dns_genesis_eq [OF E] init_dao_genesis_total [OF E]
        w'_def w1_def p_def)
  have dns: "dns w' = import_genesis E g empty_dns_store" and dao: "dao w' = empty_dao_store\<lparr>dao_params_item := Some p\<rparr>"
    using w by (simp_all add: w'_def w1_def empty_world_def)
  have nodom: "gs_domain_list g = []" using g by (simp add: genesis_tlds_ok_def)
  have doms: "domains (dns w') = []" "domain_names (dns w') = []" "domain_seq (dns w') = gs_domain_count g"
    by (simp_all add: dns import_genesis_def nodom empty_dns_store_def)
  have tlds: "permitted_tlds (dns w') = permitted_tlds (foldl (import_tld E)
       (empty_dns_store\<lparr>domain_seq := gs_domain_count g\<rparr>) (gs_permitted_tlds g))"
    by (simp add: dns import_genesis_def nodom)
  have tld: "\<not> is_reserved_tld (unicode_lower E) t \<and> \<not> contains_dot t \<and> 2 \<le> length t \<and> length t \<le> 63
      \<and> t \<noteq> [] \<and> normalize_name (unicode_lower E) t = t"
    if "kv_get (permitted_tlds (dns w')) t \<noteq> None" for t
  proof -
    have "t \<noteq> [] \<and> t \<in> normalize_name (unicode_lower E) ` set (gs_permitted_tlds g)"
      using that unfolding tlds import_tlds_get by (simp add: empty_dns_store_def split: if_splits)
    then obtain u where u: "t \<noteq> []" "u \<in> set (gs_permitted_tlds g)" "t = normalize_name (unicode_lower E) u"
      by blast
    then show ?thesis using g normalize_name_idem [OF ul] by (auto simp: genesis_tlds_ok_def Let_def)
  qed
  have "kv_ok (permitted_tlds (dns w'))"
    unfolding tlds by (rule import_tlds_ok) (simp add: empty_dns_store_def)
  then have "dns_all E w'"
    using E tld doms by (simp add: dns_all_def dns_inv_def dns_ok_def tlds_ok_def names_normal_def)
  moreover have "dao_inv E w'"
    using E by (simp add: dao_inv_def dao dao_ok_def empty_dao_store_def)
  moreover have "executed_permitted E w'" "no_overdue (c, w')"
    by (simp_all add: executed_permitted_def no_overdue_def dao empty_dao_store_def)
  ultimately show ?thesis
    using run doms by (intro exI [of _ w']) (simp add: chain_inv_def dao empty_dao_store_def)
qed

end
