(* ===== verification/Example_Run.thy ===== *)
theory Example_Run
  imports Chain_History
begin

text \<open>
  A run of the model on the example instance: a proposal for a TLD is submitted, voted on and, at
  the end of a block after its voting period, executed.
\<close>

definition ex_any :: any where
  "ex_any = \<lparr>type_url = ''/dnsblockchain.dao.v1.AddTldProposalContent'', any_value = ex_bytes ''app2''\<rparr>"

definition ex_content :: add_tld_content where
  "ex_content = \<lparr>at_tld = ''app2'', at_description = []\<rparr>"

definition ex_submit :: msg_submit_proposal where
  "ex_submit = \<lparr>sp_proposer = ''alice'', sp_title = ''T'', sp_description = ''D'', sp_initial_deposit = [],
     sp_content = Some ex_any\<rparr>"

definition ex_vote :: msg_vote where
  "ex_vote = \<lparr>mv_proposal_id = 0, mv_voter = ''alice'', mv_option = VOTE_OPTION_YES\<rparr>"

definition ex_ctx16 :: ctx where "ex_ctx16 = \<lparr>block_height = 16, block_time = 1700000100\<rparr>"
definition ex_ctx17 :: ctx where "ex_ctx17 = \<lparr>block_height = 17, block_time = 1700000200\<rparr>"

abbreviation ex_dk :: "(ex_ledger, int) dns_keeper" where "ex_dk \<equiv> dns_keeper_of ex_env"

definition ex_p1 :: "(ex_ledger, int) world" where "ex_p1 = snd (submit_proposal ex_env ex_dk ex_ctx ex_submit ex_world)"
definition ex_p2 :: "(ex_ledger, int) world" where "ex_p2 = snd (vote_on_proposal ex_env ex_ctx ex_vote ex_p1)"
definition ex_p3 :: "(ex_ledger, int) world" where "ex_p3 = snd (end_block ex_env ex_ctx16 ex_p2)"

lemma ex_unpack [simp]: "unpack_any (codec ex_env) (Some ex_any) = Inr (Some (AddTld ex_content))"
  by (simp add: ex_env_def ex_unpack_def ex_any_def ex_content_def)

lemma ex_valid: "validate_content ex_env (AddTld ex_content) = None"
  by (simp add: validate_content_def validate_add_tld_def ex_content_def tld_regexp_def alnum_char_def)

lemma ex_tld_facts:
  "normalize_name ul ''app2'' = ''app2''" "normalize_tld ul ''app2'' = ''app2''" "\<not> is_reserved_tld ul ''app2''"
  by code_simp+

lemmas ex_addr_eval = ex_env_def ex_addr_def

lemma ex_string_to_bytes: "s \<noteq> [] \<Longrightarrow> string_to_bytes (addr ex_env) s = Some (ex_bytes s)"
  by (simp add: ex_env_def ex_addr_def)

lemma ex_fault [simp]: "fault ex_env op = None"
  by (simp add: ex_env_def)

definition ex_ledger1 :: ex_ledger where
  "ex_ledger1 = [((''account/alice'', ''udns''), 995), ((''account/bob'', ''udns''), 500), ((''module/dao'', ''udns''), 5)]"

lemma ex_pay: "pay_deposit ex_env (ex_bytes ''alice'') (ex_coins 5) [] ex_world = (Inr (), ex_world\<lparr>ledger := ex_ledger1\<rparr>)"
  by (simp add: pay_deposit_def run_bank_def ex_env_defs ex_coins_def ex_move_def ex_account_def ex_module_def DaoModuleName_def
      ex_balance_def kv_get_def ex_world_def ex_ledger1_def)

definition ex_proposal :: proposal where
  "ex_proposal = \<lparr>pr_id = 0, pr_proposer = ''alice'', pr_title = ''T'', pr_description = ''D'', pr_content = Some ex_any,
     pr_status = PROPOSAL_STATUS_VOTING_PERIOD, pr_submit_block = 5, pr_voting_start_block = 5, pr_voting_end_block = 15,
     pr_yes_votes = 0, pr_no_votes = 0, pr_abstain_votes = 0, pr_total_power_at_snapshot = 1500\<rparr>"

lemma bind_op_run: "m s = (Inr x, s1) \<Longrightarrow> k x s1 = r \<Longrightarrow> bind_op m k s = r"
  by (simp add: bind_op_def)

lemma then_op_run: "m s = (Inr x, s1) \<Longrightarrow> k s1 = r \<Longrightarrow> then_op m k s = r"
  by (simp add: then_op_def bind_op_def)

lemma ex_submit_checks:
  "string_to_bytes (addr ex_env) (sp_proposer ex_submit) = Some (ex_bytes ''alice'')"
  "unpack_new_content ex_env (sp_content ex_submit) ex_world = (Inr (AddTld ex_content), ex_world)"
  "iterate_proposals ex_env ex_world = (Inr [], ex_world)"
  "dao_params_get ex_env ex_world = (Inr ex_dao_params, ex_world)"
  "check_proposed_tld ex_env ex_dk ex_content ex_world = (Inr (), ex_world)"
proof -
  have tlds: "kv_get (permitted_tlds (dns ex_world)) ''app2'' = None"
    by (simp add: ex_world_def ex_dns_def kv_get_def)
  show "check_proposed_tld ex_env ex_dk ex_content ex_world = (Inr (), ex_world)"
    by (simp add: check_proposed_tld_def ex_content_def ex_tld_facts is_tld_globally_reserved_def op_defs Let_def
        is_tld_permitted_def tld_has_def tlds)
qed (simp_all add: ex_string_to_bytes ex_submit_def kv_walk_def ex_world_def ex_dao_def dao_params_get_def read_op_def)

definition ex_ledger_world :: "(ex_ledger, int) world" where
  "ex_ledger_world = ex_world\<lparr>ledger := ex_ledger1\<rparr>"

lemma ex_submit_writes:
  "pay_deposit ex_env (ex_bytes ''alice'') (required_deposit ex_dao_params (AddTld ex_content)) (sp_initial_deposit ex_submit) ex_world
     = (Inr (), ex_ledger_world)"
  "get_next_proposal_id ex_env ex_ledger_world = (Inr 0, upd_dao (\<lambda>s. s\<lparr>proposal_seq := 1\<rparr>) ex_ledger_world)"
  "get_supply (bank ex_env) (voting_token_denom ex_dao_params) ex_ledger1 = 1500"
  "new_proposal ex_ctx ex_dao_params ex_submit 0 1500 = ex_proposal"
  using ex_pay
  by (simp_all add: required_deposit_def ex_dao_params_def ex_submit_def ex_ledger_world_def ex_world_def ex_dao_def
      ex_env_def ex_bank_def ex_ledger1_def kv_walk_def new_proposal_def ex_ctx_def ex_proposal_def block_height_u64_def Let_def)

lemma ex_submit_ok: "\<exists>evs. submit_proposal ex_env ex_dk ex_ctx ex_submit ex_world = (Inr 0, emit evs
    (upd_dao (\<lambda>s. s\<lparr>proposals := kv_set 0 ex_proposal (proposals s)\<rparr>) (upd_dao (\<lambda>s. s\<lparr>proposal_seq := 1\<rparr>) ex_ledger_world)))"
proof -
  have m: "sp_content ex_submit = Some ex_any" by (simp add: ex_submit_def)
  have led: "ledger ex_ledger_world = ex_ledger1" by (simp add: ex_ledger_world_def)
  note c = ex_submit_checks [unfolded m]
  show ?thesis
    unfolding submit_proposal_def m set_proposal_def
    by (simp add: op_defs c ex_submit_writes ex_valid led del: unpack_new_content_Inr iterate_proposals_Inr)
      (auto simp: ex_proposal_def)
qed

lemma ex_p1:
  "submit_proposal ex_env ex_dk ex_ctx ex_submit ex_world = (Inr 0, ex_p1)"
  "dns ex_p1 = ex_dns" "ledger ex_p1 = ex_ledger1"
  "dao ex_p1 = ex_dao\<lparr>proposal_seq := 1, proposals := [(0, ex_proposal)]\<rparr>"
proof -
  obtain evs where run: "submit_proposal ex_env ex_dk ex_ctx ex_submit ex_world = (Inr 0, emit evs
    (upd_dao (\<lambda>s. s\<lparr>proposals := kv_set 0 ex_proposal (proposals s)\<rparr>) (upd_dao (\<lambda>s. s\<lparr>proposal_seq := 1\<rparr>) ex_ledger_world)))"
    using ex_submit_ok by blast
  then have p1: "ex_p1 = emit evs (upd_dao (\<lambda>s. s\<lparr>proposals := kv_set 0 ex_proposal (proposals s)\<rparr>)
      (upd_dao (\<lambda>s. s\<lparr>proposal_seq := 1\<rparr>) ex_ledger_world))"
    by (simp add: ex_p1_def)
  show "submit_proposal ex_env ex_dk ex_ctx ex_submit ex_world = (Inr 0, ex_p1)" using run p1 by simp
  show "dns ex_p1 = ex_dns" "ledger ex_p1 = ex_ledger1"
    "dao ex_p1 = ex_dao\<lparr>proposal_seq := 1, proposals := [(0, ex_proposal)]\<rparr>"
    by (simp_all add: p1 ex_ledger_world_def ex_world_def ex_dao_def)
qed

section \<open>The vote\<close>

definition ex_ballot :: vote where
  "ex_ballot = \<lparr>vt_proposal_id = 0, vt_voter = ''alice'', vt_option = VOTE_OPTION_YES, vt_voting_power = 995\<rparr>"

lemma ex_vote_steps:
  "get_proposal ex_env 0 ex_p1 = (Inr ex_proposal, ex_p1)"
  "check_not_voted ex_env 0 (ex_bytes ''alice'') ex_p1 = (Inr (), ex_p1)"
  "calculate_voter_power ex_env (ex_bytes ''alice'') (block_height_u64 ex_ctx) ex_p1 = (Inr 995, ex_p1)"
proof -
  show "get_proposal ex_env 0 ex_p1 = (Inr ex_proposal, ex_p1)"
    by (simp add: get_proposal_def read_op_def read_kv_def kv_get_def ex_p1)
  show "check_not_voted ex_env 0 (ex_bytes ''alice'') ex_p1 = (Inr (), ex_p1)"
    by (simp add: check_not_voted_Inr ex_p1 ex_dao_def)
  have "dao_params_item (dao ex_p1) = Some ex_dao_params" by (simp add: ex_p1 ex_dao_def)
  moreover have "voter_power ex_env ex_dao_params ex_p1 (ex_bytes ''alice'') (block_height_u64 ex_ctx) = 995"
    by (simp add: voter_power_def ex_p1 ex_dao_def ex_dao_params_def ex_env_def ex_bank_def ex_account_def ex_balance_def
        ex_ledger1_def kv_get_def)
  ultimately show "calculate_voter_power ex_env (ex_bytes ''alice'') (block_height_u64 ex_ctx) ex_p1 = (Inr 995, ex_p1)"
    by (simp add: calculate_voter_power_Inr)
qed

lemma ex_p2:
  "vote_on_proposal ex_env ex_ctx ex_vote ex_p1 = (Inr (), ex_p2)"
  "dns ex_p2 = ex_dns" "ledger ex_p2 = ex_ledger1"
  "dao ex_p2 = ex_dao\<lparr>proposal_seq := 1, proposals := [(0, ex_proposal)], votes := [((0, ex_bytes ''alice''), ex_ballot)]\<rparr>"
proof -
  have st: "pr_status ex_proposal = PROPOSAL_STATUS_VOTING_PERIOD" "\<not> pr_voting_end_block ex_proposal < block_height_u64 ex_ctx"
    by (simp_all add: ex_proposal_def block_height_u64_def ex_ctx_def)
  have m: "mv_proposal_id ex_vote = 0" "mv_voter ex_vote = ''alice''" "mv_option ex_vote = VOTE_OPTION_YES"
    by (simp_all add: ex_vote_def)
  obtain evs where run: "vote_on_proposal ex_env ex_ctx ex_vote ex_p1 = (Inr (), emit evs
      (upd_dao (\<lambda>s. s\<lparr>votes := kv_set (0, ex_bytes ''alice'') ex_ballot (votes s)\<rparr>) ex_p1))"
    unfolding vote_on_proposal_def m set_vote_def
    by (simp add: op_defs ex_string_to_bytes ex_vote_steps st Let_def ex_ballot_def)
  then have p2: "ex_p2 = emit evs (upd_dao (\<lambda>s. s\<lparr>votes := kv_set (0, ex_bytes ''alice'') ex_ballot (votes s)\<rparr>) ex_p1)"
    by (simp add: ex_p2_def)
  show "vote_on_proposal ex_env ex_ctx ex_vote ex_p1 = (Inr (), ex_p2)" using run p2 by simp
  show "dns ex_p2 = ex_dns" "ledger ex_p2 = ex_ledger1"
    "dao ex_p2 = ex_dao\<lparr>proposal_seq := 1, proposals := [(0, ex_proposal)], votes := [((0, ex_bytes ''alice''), ex_ballot)]\<rparr>"
    by (simp_all add: p2 ex_p1 ex_dao_def)
qed

section \<open>The end of the block\<close>

definition ex_closed :: proposal where
  "ex_closed = ex_proposal\<lparr>pr_status := PROPOSAL_STATUS_EXECUTED, pr_yes_votes := 995\<rparr>"

definition ex_dns2 :: dns_store where
  "ex_dns2 = ex_dns\<lparr>permitted_tlds := [(''app2'', ()), (''web3'', ())]\<rparr>"

definition ex_ledger2 :: ex_ledger where
  "ex_ledger2 = [((''account/alice'', ''udns''), 1000), ((''account/bob'', ''udns''), 500), ((''module/dao'', ''udns''), 0)]"

lemma ex_tally: "tally_votes [ex_ballot] = \<lparr>tl_yes = 995, tl_no = 0, tl_abstain = 0, tl_voted = 995\<rparr>"
  by (simp add: tally_votes_eq power_of_def ex_ballot_def vote_option_defs)

lemma ex_decide: "decide ex_env ex_dao_params 1500 \<lparr>tl_yes = 995, tl_no = 0, tl_abstain = 0, tl_voted = 995\<rparr> = PROPOSAL_STATUS_PASSED"
  by (simp add: decide_def quorum_reached_def threshold_reached_def ex_env_def ex_dec_def ex_dec_read_int_string
      ex_dao_params_def dec_unit_def)

lemma ex_closed_eq: "closed ex_env ex_dao_params [ex_ballot] ex_proposal True = ex_closed"
  by (simp add: closed_def decision_def ex_tally Let_def ex_decide final_status_def ex_closed_def ex_proposal_def)

lemma ex_add_tld:
  assumes "permitted_tlds (dns w) = [(''web3'', ())]"
  shows "add_permitted_tld ex_env ''app2'' w = (Inr (), upd_dns (\<lambda>s. s\<lparr>permitted_tlds := kv_set ''app2'' () (permitted_tlds s)\<rparr>) w)"
  by (simp add: add_permitted_tld_Inr Let_def ex_tld_facts assms kv_get_def contains_dot_def)

lemma ex_refund:
  assumes "ledger w = ex_ledger1"
  shows "\<exists>w'. refund_deposit ex_env ''alice'' (ex_coins 5) w = (Inr (), w') \<and> dns w' = dns w \<and> dao w' = dao w
    \<and> ledger w' = ex_ledger2"
  using assms
  by (simp add: refund_deposit_def ex_string_to_bytes op_defs run_bank_def ex_env_defs ex_coins_def ex_move_def
      ex_account_def ex_module_def DaoModuleName_def ex_balance_def kv_get_def ex_ledger1_def ex_ledger2_def)

lemma ex_p3:
  "end_block ex_env ex_ctx16 ex_p2 = (Inr (), ex_p3)"
  "dns ex_p3 = ex_dns2" "ledger ex_p3 = ex_ledger2"
  "dao ex_p3 = (dao ex_p2)\<lparr>proposals := [(0, ex_closed)]\<rparr>"
proof -
  have walk: "iterate_proposals ex_env ex_p2 = (Inr [ex_proposal], ex_p2)"
    by (simp add: ex_p2 kv_walk_def)
  have params: "dao_params_get ex_env ex_p2 = (Inr ex_dao_params, ex_p2)"
    by (simp add: dao_params_get_def read_op_def ex_p2 ex_dao_def)
  have over: "voting_over (block_height_u64 ex_ctx16) ex_proposal"
    by (simp add: voting_over_def ex_proposal_def block_height_u64_def ex_ctx16_def)
  have vs: "iterate_votes ex_env (pr_id ex_proposal) ex_p2 = (Inr [ex_ballot], ex_p2)"
    by (simp add: iterate_votes_def read_op_def votes_of_def kv_walk_def ex_p2 ex_proposal_def)
  have dep: "deposit_to_handle ex_env ex_dao_params ex_proposal = ex_coins 5"
    by (simp add: deposit_to_handle_def ex_proposal_def ex_dao_params_def)
  define q where "q = check_content ex_env (tallied ex_env ex_dao_params ex_proposal (Inr [ex_ballot]))"
  have q: "q = ex_proposal\<lparr>pr_status := PROPOSAL_STATUS_PASSED, pr_yes_votes := 995\<rparr>"
    unfolding q_def check_content_tallied
    by (simp add: decision_def ex_tally Let_def ex_decide ex_proposal_def)
  define w1 where "w1 = upd_dns (\<lambda>s. s\<lparr>permitted_tlds := kv_set ''app2'' () (permitted_tlds s)\<rparr>) ex_p2"
  have exec: "execute_proposal ex_env ex_dk ex_ctx16 q ex_p2 = (Inr (), w1)"
    using ex_add_tld [of ex_p2]
    by (simp add: execute_proposal_def q ex_proposal_def op_defs execute_add_tld_def ex_content_def w1_def ex_p2 ex_dns_def)
  obtain w2 where refund: "refund_deposit ex_env (pr_proposer q) (ex_coins 5) w1 = (Inr (), w2)"
    and w2: "dns w2 = dns w1" "dao w2 = dao w1" "ledger w2 = ex_ledger2"
    using ex_refund [of w1] by (auto simp: w1_def ex_p2 q ex_proposal_def)
  have settle: "settle ex_env ex_dk ex_ctx16 (ex_coins 5) q ex_p2 = (Inr ex_closed, w2)"
    using settle_passed [OF _ exec, of "ex_coins 5"] refund by (simp add: q ex_closed_def)
  obtain evs where run: "end_block ex_env ex_ctx16 ex_p2 = (Inr (), emit evs
      (upd_dao (\<lambda>s. s\<lparr>proposals := kv_set (pr_id ex_closed) ex_closed (proposals s)\<rparr>) w2))"
    unfolding end_block_def end_blocker_def process_proposal_def set_proposal_def
    by (simp add: op_defs params walk over vs dep q_def [symmetric] settle del: iterate_proposals_Inr)
  then have p3: "ex_p3 = emit evs (upd_dao (\<lambda>s. s\<lparr>proposals := kv_set (pr_id ex_closed) ex_closed (proposals s)\<rparr>) w2)"
    by (simp add: ex_p3_def)
  show "end_block ex_env ex_ctx16 ex_p2 = (Inr (), ex_p3)" using run p3 by simp
  show "dns ex_p3 = ex_dns2" "ledger ex_p3 = ex_ledger2" "dao ex_p3 = (dao ex_p2)\<lparr>proposals := [(0, ex_closed)]\<rparr>"
    by (simp_all add: p3 w2 w1_def ex_p2 ex_dns2_def ex_dns_def ex_closed_def ex_proposal_def)
qed

lemma ex_process: "process_proposal ex_env ex_dk ex_ctx16 ex_dao_params ex_proposal ex_p2 = (Inr (), ex_p3)"
proof -
  have walk: "iterate_proposals ex_env ex_p2 = (Inr [ex_proposal], ex_p2)"
    by (simp add: ex_p2 kv_walk_def)
  have params: "dao_params_get ex_env ex_p2 = (Inr ex_dao_params, ex_p2)"
    by (simp add: dao_params_get_def read_op_def ex_p2 ex_dao_def)
  have over: "voting_over (block_height_u64 ex_ctx16) ex_proposal"
    by (simp add: voting_over_def ex_proposal_def block_height_u64_def ex_ctx16_def)
  have "end_block ex_env ex_ctx16 ex_p2 =
      then_op (process_proposal ex_env ex_dk ex_ctx16 ex_dao_params ex_proposal) (ret ()) ex_p2"
    by (simp add: end_block_def end_blocker_def bind_op_def walk params over del: iterate_proposals_Inr)
  with ex_p3(1) show ?thesis by (simp add: then_op_Inr)
qed

section \<open>The hypotheses of the theorems hold of the run\<close>

lemma ex_lower_laws: "lower_laws (unicode_lower ex_env)"
  using lower_laws_id by (simp add: ex_env_def)

lemma ex_no_empty: "no_empty_address ex_env"
  by (simp add: no_empty_address_def ex_env_def ex_addr_def)

lemma ex_chain_inv: "chain_inv ex_env ex_world"
proof -
  have "\<not> is_reserved_tld (unicode_lower ex_env) ''web3''" "normalize_name (unicode_lower ex_env) ''web3'' = ''web3''"
    by (simp_all add: ex_env_def) code_simp+
  then show ?thesis
    by (simp add: chain_inv_def dns_all_def dns_inv_def dns_ok_def tlds_ok_def names_normal_def dao_inv_def dao_ok_def
        executed_permitted_def ex_world_def ex_dns_def ex_dao_def kv_get_def contains_dot_def kv_ok_def)
qed

lemma ex_world_room: "n < 2 ^ 32 \<Longrightarrow> room n ex_world"
  by (simp add: room_def ex_world_def ex_dns_def ex_dao_def)

lemma ex_world_overdue: "no_overdue (c, ex_world)"
  by (simp add: no_overdue_def ex_world_def ex_dao_def)

end
