(* ===== verification/Dao_Queries.thy ===== *)
theory Dao_Queries
  imports Dao_Keeper Dns_Queries
begin

text \<open>
  The query server of \<^verbatim>\<open>x/dao\<close> (\<^verbatim>\<open>query_params.go\<close>, \<^verbatim>\<open>query_proposal.go\<close>, \<^verbatim>\<open>query_proposals.go\<close>,
  \<^verbatim>\<open>query_tally.go\<close>, \<^verbatim>\<open>query_vote.go\<close>), which pages through its results in memory with 64-bit
  arithmetic.
\<close>

section \<open>Pagination\<close>

definition DefaultLimit :: u64 where "DefaultLimit = 100"

text \<open>The page request that the handlers work on: a missing one or a zero limit means the default limit.\<close>

definition effective_page :: "page_request option \<Rightarrow> page_request" where
  "effective_page req =
     (let page = (case req of None \<Rightarrow> \<lparr>page_offset = 0, page_limit = DefaultLimit\<rparr> | Some p \<Rightarrow> p) in
      if page_limit page = 0 then page\<lparr>page_limit := DefaultLimit\<rparr> else page)"

text \<open>
  The slice of the results and their number. \<^verbatim>\<open>int(x)\<close> of an unsigned 64-bit value is its signed
  reading, and \<^verbatim>\<open>start + int(page.Limit)\<close> wraps around at 64 bits.
\<close>

definition paginate_list :: "page_request option \<Rightarrow> 'a list \<Rightarrow> 'a list \<times> u64" where
  "paginate_list req xs =
     (let page = effective_page req;
          len = int (length xs);
          start0 = sint (page_offset page);
          end0 = sint (page_offset page + page_limit page);
          start1 = (if start0 < 0 then 0 else start0);
          start = (if len < start1 then len else start1);
          end1 = (if end0 < 0 then 0 else end0);
          end = (if len < end1 then len else end1) in
      (if end \<le> start then [] else take (nat end - nat start) (drop (nat start) xs), of_nat (length xs)))"

section \<open>Handlers\<close>

text \<open>A missing parameter item gives the zero value of \<^verbatim>\<open>types.DaoParams\<close>, which is an argument here.\<close>

definition query_dao_params :: "('b, 'd) env \<Rightarrow> 'd dao_params \<Rightarrow> unit option \<Rightarrow> (('b, 'd) world, 'd dao_params) op" where
  "query_dao_params E zero_params req = (case req of None \<Rightarrow> fail StatusInvalidArgument
     | Some _ \<Rightarrow> bind_op (try_op (dao_params_get E)) (\<lambda>r. case r of
          Inl e \<Rightarrow> if e = ErrNotFound then ret zero_params else fail StatusInternal
        | Inr p \<Rightarrow> ret p))"

definition query_proposal :: "('b, 'd) env \<Rightarrow> u64 option \<Rightarrow> (('b, 'd) world, proposal) op" where
  "query_proposal E req = (case req of None \<Rightarrow> fail StatusInvalidArgument
     | Some i \<Rightarrow> map_err (\<lambda>e. if is_not_found_value E e then ErrProposalNotFound else StatusInternal)
         (get_proposal E i))"

record proposals_request =
  pq_status :: proposal_status
  pq_voter :: string
  pq_proposer :: string
  pq_page :: "page_request option"

definition proposal_matches :: "('b, 'd) env \<Rightarrow> proposals_request \<Rightarrow> proposal \<Rightarrow> bool" where
  "proposal_matches E req p =
     ((if pq_proposer req \<noteq> [] then
         (if string_to_bytes (addr E) (pq_proposer req) = None then False
          else pr_proposer p = pq_proposer req)
       else True)
      \<and> (if pq_status req \<noteq> PROPOSAL_STATUS_UNSPECIFIED then pr_status p = pq_status req else True))"

definition query_proposals ::
  "('b, 'd) env \<Rightarrow> proposals_request option \<Rightarrow> (('b, 'd) world, proposal list \<times> u64) op" where
  "query_proposals E request = (case request of None \<Rightarrow> fail StatusInvalidArgument
     | Some req \<Rightarrow> bind_op (map_err (\<lambda>_. StatusInternal) (iterate_proposals E)) (\<lambda>ps.
         ret (paginate_list (pq_page req) (filter (proposal_matches E req) ps))))"

record tally_result =
  tr_yes :: int
  tr_abstain :: int
  tr_no :: int

definition query_tally :: "('b, 'd) env \<Rightarrow> u64 option \<Rightarrow> (('b, 'd) world, tally_result) op" where
  "query_tally E req = (case req of None \<Rightarrow> fail StatusInvalidArgument
     | Some i \<Rightarrow> bind_op (map_err (\<lambda>e. if e = ErrNotFound then StatusNotFound else StatusInternal) (get_proposal E i)) (\<lambda>p.
         ret \<lparr>tr_yes = pr_yes_votes p, tr_abstain = pr_abstain_votes p, tr_no = pr_no_votes p\<rparr>))"

definition query_vote :: "('b, 'd) env \<Rightarrow> (u64 \<times> string) option \<Rightarrow> (('b, 'd) world, vote) op" where
  "query_vote E req = (case req of None \<Rightarrow> fail StatusInvalidArgument
     | Some (i, voter) \<Rightarrow>
         then_op (require (voter \<noteq> []) StatusInvalidArgument)
        (bind_op (of_option StatusInvalidArgument (string_to_bytes (addr E) voter)) (\<lambda>voterAddr.
         map_err (\<lambda>e. if e = ErrNotFound then StatusNotFound else StatusInternal) (get_vote E i voterAddr))))"

definition query_votes ::
  "('b, 'd) env \<Rightarrow> (u64 \<times> page_request option) option \<Rightarrow> (('b, 'd) world, vote list \<times> u64) op" where
  "query_votes E req = (case req of None \<Rightarrow> fail StatusInvalidArgument
     | Some (i, page) \<Rightarrow> bind_op (map_err (\<lambda>_. StatusInternal) (iterate_votes E i)) (\<lambda>vs.
         ret (paginate_list page vs)))"

lemmas dao_query_defs = query_dao_params_def query_proposal_def query_proposals_def query_tally_def
  query_vote_def query_votes_def

section \<open>Queries read only\<close>

lemma dao_queries_keep:
  "keeps I (query_dao_params E z u)" "keeps I (query_proposal E i)" "keeps I (query_proposals E r)"
  "keeps I (query_tally E i)" "keeps I (query_vote E v)" "keeps I (query_votes E vs)"
  unfolding dao_query_defs dao_access_defs
  by (rule keeps_intros keeps_cases)+

lemma dao_queries_read_only:
  "snd (query_dao_params E z u w) = w" "snd (query_proposal E i w) = w" "snd (query_proposals E r w) = w"
  "snd (query_tally E i w) = w" "snd (query_vote E v w) = w" "snd (query_votes E vs w) = w"
  by (rule keeps_all_read_only, rule dao_queries_keep)+

section \<open>What a page holds\<close>

lemma sint_of_small:
  fixes x :: u64
  assumes "unat x < 2 ^ 63"
  shows "sint x = int (unat x)"
proof -
  have "uint x < 2 ^ 63" using assms by (metis of_nat_less_iff of_nat_numeral of_nat_power uint_nat)
  then show ?thesis
    using signed_take_bit_int_eq_self [of 63 "uint x"] uint_ge_0 [of x] by (simp add: sint_uint)
qed

lemma unat_plus_small:
  fixes x y :: u64
  assumes "unat x + unat y < 2 ^ 63"
  shows "unat (x + y) = unat x + unat y"
  by (subst unat_plus_if_size) (use assms in \<open>simp add: word_size\<close>)

lemma clamped_slice:
  fixes a l :: nat and xs :: "'a list"
  defines "start \<equiv> if length xs < a then length xs else a"
    and "end \<equiv> if length xs < a + l then length xs else a + l"
  shows "(if end \<le> start then [] else take (end - start) (drop start xs)) = take l (drop a xs)"
  by (auto simp: start_def end_def)

lemma paginate_list_small:
  assumes "unat (page_offset (effective_page req)) + unat (page_limit (effective_page req)) < 2 ^ 63"
  shows "paginate_list req xs =
    (take (unat (page_limit (effective_page req))) (drop (unat (page_offset (effective_page req))) xs),
     of_nat (length xs))"
proof -
  obtain a l where a: "unat (page_offset (effective_page req)) = a" and l: "unat (page_limit (effective_page req)) = l"
    by blast
  have s: "sint (page_offset (effective_page req)) = int a"
    "sint (page_offset (effective_page req) + page_limit (effective_page req)) = int (a + l)"
    using assms by (simp_all add: sint_of_small unat_plus_small a l del: of_nat_add)
  have clamp: "(if int (length xs) < (if int n < 0 then 0 else int n) then int (length xs)
      else (if int n < 0 then 0 else int n)) = int (if length xs < n then length xs else n)" for n
    by simp
  show ?thesis
    unfolding paginate_list_def Let_def s a l clamp nat_int of_nat_le_iff clamped_slice by (rule refl)
qed

text \<open>Pages that follow one another.\<close>

lemma concat_pages: "concat (map (\<lambda>i. take l (drop (i * l) xs)) [0..<k]) = take (k * l) xs"
proof (induction k)
  case (Suc k)
  have "take (k * l) xs @ take l (drop (k * l) xs) = take (k * l + l) xs"
    by (simp only: take_add)
  with Suc show ?case by (simp add: add.commute)
qed simp

lemma unat_of_nat_small: "n < 2 ^ 63 \<Longrightarrow> unat (of_nat n :: u64) = n"
  by (simp add: unat_of_nat take_bit_nat_eq_self)

lemma paginate_list_page:
  assumes "0 < l" and "i < k" and "k * l < 2 ^ 63"
  shows "paginate_list (Some \<lparr>page_offset = of_nat (i * l), page_limit = of_nat l\<rparr>) xs =
    (take l (drop (i * l) xs), of_nat (length xs))"
proof -
  have "Suc i * l \<le> k * l" using assms(2) by (intro mult_le_mono1) simp
  then have small: "i * l + l < 2 ^ 63" using assms(3) by simp
  have u: "unat (of_nat (i * l) :: u64) = i * l" "unat (of_nat l :: u64) = l"
    using small by (simp_all only: unat_of_nat_small)
  then have "(of_nat l :: u64) \<noteq> 0" using assms(1) by (metis less_numeral_extra(3) unat_0)
  then have eff: "effective_page (Some \<lparr>page_offset = of_nat (i * l), page_limit = of_nat l\<rparr>) =
      \<lparr>page_offset = of_nat (i * l) :: u64, page_limit = of_nat l\<rparr>"
    by (simp add: effective_page_def Let_def)
  show ?thesis
    using paginate_list_small [of "Some \<lparr>page_offset = of_nat (i * l), page_limit = of_nat l\<rparr>" xs] small
    unfolding eff by (simp only: u page_request.simps)
qed

section \<open>What the queries return\<close>

lemma query_proposals_total:
  assumes "store_total E"
  shows "query_proposals E (Some req) w =
    (Inr (paginate_list (pq_page req) (filter (proposal_matches E req) (map snd (kv_walk (proposals (dao w)))))), w)"
  using assms by (simp add: query_proposals_def iterate_proposals_def op_defs)

text \<open>The voter of the request is not looked at.\<close>

lemma voter_filter_ignored: "query_proposals E (Some (req\<lparr>pq_voter := a\<rparr>)) = query_proposals E (Some req)"
proof -
  have "proposal_matches E (req\<lparr>pq_voter := a\<rparr>) = proposal_matches E req" by (rule ext) (simp add: proposal_matches_def)
  then show ?thesis by (simp add: query_proposals_def)
qed

lemma query_votes_total:
  assumes "store_total E"
  shows "query_votes E (Some (i, page)) w = (Inr (paginate_list page (votes_of (dao w) i)), w)"
  using assms by (simp add: query_votes_def iterate_votes_def op_defs)

lemma query_proposal_total:
  assumes "store_total E"
  shows "query_proposal E (Some i) w = ((case kv_get (proposals (dao w)) i of
     None \<Rightarrow> Inl (if not_found_bare E then ErrProposalNotFound else StatusInternal) | Some p \<Rightarrow> Inr p), w)"
  using assms by (simp add: query_proposal_def get_proposal_def op_defs is_not_found_value_def split: option.splits)

end
