(* ===== verification/Dao_Properties.thy ===== *)
theory Dao_Properties
  imports Example_Run Dao_Queries
begin

text \<open>
  The properties of the messages of \<^verbatim>\<open>x/dao\<close>: when a proposal is accepted and what is stored, the
  refusal of duplicates and of TLDs that cannot be added, votes and the power behind them.
\<close>

section \<open>Submission\<close>



text \<open>A TLD that a proposal may ask for.\<close>

definition proposable_tld :: "('b, 'd) env \<Rightarrow> ('b, 'd) world \<Rightarrow> proposal_content \<Rightarrow> bool" where
  "proposable_tld E w ct = (case ct of RequestTokens _ \<Rightarrow> True
     | AddTld t \<Rightarrow> (let n = normalize_name (unicode_lower E) (at_tld t) in
         \<not> is_reserved_tld (unicode_lower E) n \<and> fst (is_tld_permitted E n w) = Inr False))"

lemma submit_proposal_success_dns:
  assumes "submit_proposal E (dns_keeper_of E) c m w = (Inr i, w')"
  obtains proposer a ct params where
    "string_to_bytes (addr E) (sp_proposer m) = Some proposer"
    "sp_content m = Some a" "unpack_any (codec E) (Some a) = Inr (Some ct)" "validate_content E ct = None"
    "find_active_duplicate E (type_url a) ct (map snd (kv_walk (proposals (dao w)))) = Inr False"
    "dao_params_item (dao w) = Some params" "proposable_tld E w ct" "i = proposal_seq (dao w)"
    "dao w' = (dao w)\<lparr>proposal_seq := i + 1, proposals := kv_set i
       (new_proposal c params m i (get_supply (bank E) (voting_token_denom params) (ledger w'))) (proposals (dao w))\<rparr>"
    "dns w' = dns w"
    "if coins_is_zero (coin_lib E) (required_deposit params ct) then ledger w' = ledger w
     else send_account_to_module (bank E) proposer DaoModuleName (required_deposit params ct) (ledger w) = (Inr (), ledger w')"
  using assms unfolding keeper_record_of
proof (rule dk.submit_proposal_success)
qed (rule that; (assumption | (simp add: proposable_tld_def Let_def is_tld_globally_reserved_def op_defs split: proposal_content.splits)))




text \<open>C27: An accepted proposal is stored under the next identifier with the content of the message, open for
  votes from its block until the voting period is over (counted with 64-bit wrap-around), with no votes
  and the total supply of the voting token as the power at its snapshot. The deposit that its kind
  requires goes to the module account; other proposals, votes, lots and the other module stay as they were.\<close>

theorem submit_proposal_effect:
  assumes run: "submit_proposal E (dns_keeper_of E) c m w = (Inr i, w')"
  shows "\<exists>params ct proposer. dao_params_item (dao w) = Some params
    \<and> unpack_any (codec E) (sp_content m) = Inr (Some ct) \<and> string_to_bytes (addr E) (sp_proposer m) = Some proposer
    \<and> i = proposal_seq (dao w) \<and> proposal_seq (dao w') = i + 1
    \<and> kv_get (proposals (dao w')) i = Some \<lparr>pr_id = i, pr_proposer = sp_proposer m, pr_title = sp_title m,
        pr_description = sp_description m, pr_content = sp_content m, pr_status = PROPOSAL_STATUS_VOTING_PERIOD,
        pr_submit_block = of_int (block_height c), pr_voting_start_block = of_int (block_height c),
        pr_voting_end_block = of_int (block_height c) + voting_period_blocks params,
        pr_yes_votes = 0, pr_no_votes = 0, pr_abstain_votes = 0,
        pr_total_power_at_snapshot = get_supply (bank E) (voting_token_denom params) (ledger w')\<rparr>
    \<and> (\<forall>j. j \<noteq> i \<longrightarrow> kv_get (proposals (dao w')) j = kv_get (proposals (dao w)) j)
    \<and> votes (dao w') = votes (dao w) \<and> power_lots (dao w') = power_lots (dao w) \<and> dns w' = dns w
    \<and> (let dep = (case ct of AddTld _ \<Rightarrow> add_tld_proposal_cost params | RequestTokens _ \<Rightarrow> proposal_submission_deposit params) in
        if coins_is_zero (coin_lib E) dep then ledger w' = ledger w
        else send_account_to_module (bank E) proposer ''dao'' dep (ledger w) = (Inr (), ledger w'))"
  using run
proof (rule submit_proposal_success_dns)
  fix proposer a ct params
  assume f: "string_to_bytes (addr E) (sp_proposer m) = Some proposer" "sp_content m = Some a"
    "unpack_any (codec E) (Some a) = Inr (Some ct)" "dao_params_item (dao w) = Some params" "i = proposal_seq (dao w)"
    and w': "dao w' = (dao w)\<lparr>proposal_seq := i + 1, proposals := kv_set i
       (new_proposal c params m i (get_supply (bank E) (voting_token_denom params) (ledger w'))) (proposals (dao w))\<rparr>"
      "dns w' = dns w"
      "if coins_is_zero (coin_lib E) (required_deposit params ct) then ledger w' = ledger w
       else send_account_to_module (bank E) proposer DaoModuleName (required_deposit params ct) (ledger w) = (Inr (), ledger w')"
  then show ?thesis
    by (intro exI [of _ params] exI [of _ ct] exI [of _ proposer])
      (simp add: new_proposal_def Let_def block_height_u64_def required_deposit_def DaoModuleName_def split: if_splits)
qed

theorem submit_proposal_effect_witness:
  "\<exists>p. kv_get (proposals (dao ex_p1)) 0 = Some p \<and> pr_content p = Some ex_any \<and> pr_voting_end_block p = 15
     \<and> pr_total_power_at_snapshot p = 1500"
proof -
  have f: "voting_period_blocks ex_dao_params = 10" "sp_content ex_submit = Some ex_any" "block_height ex_ctx = 5"
    by (simp_all add: ex_dao_params_def ex_submit_def ex_ctx_def)
  show ?thesis
    using submit_proposal_effect [OF ex_p1(1)]
    by (auto simp: ex_p1 ex_proposal_def ex_world_def ex_dao_def ex_submit_writes(3) f)
qed

text \<open>C28: As long as a stored proposal is in its voting period, a submission with the same type URL and the
  same content fails, whoever sends it, and leaves the state as it was.\<close>

theorem duplicate_content_refused:
  assumes ok: "kv_ok (proposals (dao w))" and p: "kv_get (proposals (dao w)) i = Some p"
    and active: "pr_status p = PROPOSAL_STATUS_VOTING_PERIOD" and b: "pr_content p = Some b"
    and a: "sp_content m = Some a" and same: "same_content E a b"
  shows "(\<forall>j w'. submit_proposal E (dns_keeper_of E) c m w \<noteq> (Inr j, w'))
    \<and> deliver (submit_proposal E (dns_keeper_of E) c m) w = w"
proof -
  have listed: "p \<in> set (map snd (kv_walk (proposals (dao w))))"
  proof -
    have "snd (i, p) \<in> snd ` set (kv_walk (proposals (dao w)))" using kv_walk_get [OF ok] p by (intro imageI) simp
    then show ?thesis by simp
  qed
  have "submit_proposal E (dns_keeper_of E) c m w \<noteq> (Inr j, w')" for j w'
  proof
    assume "submit_proposal E (dns_keeper_of E) c m w = (Inr j, w')"
    then show False
    proof (rule submit_proposal_success_dns)
      fix a' ct
      assume "sp_content m = Some a'" "unpack_any (codec E) (Some a') = Inr (Some ct)"
        "find_active_duplicate E (type_url a') ct (map snd (kv_walk (proposals (dao w)))) = Inr False"
      then show False using no_active_duplicate [OF _ listed _ b] active a same by (auto simp: active_def)
    qed
  qed
  then show ?thesis by (auto simp: deliver_def split: prod.splits sum.splits)
qed

lemma ex_same_content: "same_content ex_env ex_any ex_any"
  by (simp add: same_content_def)

theorem duplicate_content_refused_witness:
  "deliver (submit_proposal ex_env ex_dk ex_ctx16 (ex_submit\<lparr>sp_proposer := ''bob''\<rparr>)) ex_p1 = ex_p1"
  using duplicate_content_refused [of ex_p1 0 ex_proposal ex_any "ex_submit\<lparr>sp_proposer := ''bob''\<rparr>" ex_any ex_env ex_ctx16]
  by (simp add: ex_p1 kv_ok_def kv_get_def ex_proposal_def ex_submit_def ex_same_content)

text \<open>A proposal for a TLD that would be accepted otherwise is refused with the error for reserved names
  when its normal form is reserved, and with the error for invalid contents when it is permitted already.\<close>

theorem unaddable_tld_refused:
  assumes E: "store_total E"
    and proposer: "string_to_bytes (addr E) (sp_proposer m) = Some proposer"
    and a: "sp_content m = Some a" "unpack_any (codec E) (Some a) = Inr (Some (AddTld t))" "validate_add_tld t = None"
    and dup: "find_active_duplicate E (type_url a) (AddTld t) (map snd (kv_walk (proposals (dao w)))) = Inr False"
    and params: "dao_params_item (dao w) = Some params"
  defines "n \<equiv> normalize_name (unicode_lower E) (at_tld t)"
  shows "(is_reserved_tld (unicode_lower E) n \<longrightarrow>
      submit_proposal E (dns_keeper_of E) c m w = (Inl ErrTLDReservedByICANN, w))
    \<and> (\<not> is_reserved_tld (unicode_lower E) n \<longrightarrow> fst (is_tld_permitted E n w) = Inr True \<longrightarrow>
      submit_proposal E (dns_keeper_of E) c m w = (Inl ErrInvalidProposalContent, w))"
proof -
  have walk: "iterate_proposals E w = (Inr (map snd (kv_walk (proposals (dao w)))), w)" using E by simp
  have par: "dao_params_get E w = (Inr params, w)" using E params by (simp add: dao_params_get_def read_op_def)
  have content: "unpack_new_content E (Some a) w = (Inr (AddTld t), w)" using a by simp
  have valid: "validate_content E (AddTld t) = None" using a(3) by (simp add: validate_content_def)
  have check: "submit_proposal E (dns_keeper_of E) c m w = (Inl e, w)"
    if "check_proposed_tld E (dns_keeper_of E) t w = (Inl e, w)" for e
    unfolding submit_proposal_def a(1)
    using E by (simp add: bind_op_def then_op_def of_option_def check_def require_def lift_res_def ret_def
        proposer content valid dup walk par that del: unpack_new_content_Inr iterate_proposals_Inr)
  have "check_proposed_tld E (dns_keeper_of E) t w = (Inl ErrTLDReservedByICANN, w)" if "is_reserved_tld (unicode_lower E) n"
    using that by (simp add: check_proposed_tld_def n_def is_tld_globally_reserved_def op_defs Let_def)
  moreover have "check_proposed_tld E (dns_keeper_of E) t w = (Inl ErrInvalidProposalContent, w)"
    if "\<not> is_reserved_tld (unicode_lower E) n" "fst (is_tld_permitted E n w) = Inr True"
  proof -
    have "is_tld_permitted E n w = (Inr True, w)" by (metis that(2) dk.permitted_reads prod.collapse)
    with that(1) show ?thesis
      by (simp add: check_proposed_tld_def n_def is_tld_globally_reserved_def op_defs Let_def)
  qed
  ultimately show ?thesis using check by blast
qed

definition ex_submit_com :: msg_submit_proposal where
  "ex_submit_com = ex_submit\<lparr>sp_content := Some (ex_any\<lparr>any_value := ex_bytes ''com''\<rparr>)\<rparr>"

theorem unaddable_tld_refused_witness:
  "submit_proposal ex_env ex_dk ex_ctx ex_submit_com ex_world = (Inl ErrTLDReservedByICANN, ex_world)"
proof -
  have res: "is_reserved_tld (unicode_lower ex_env) (normalize_name (unicode_lower ex_env) ''com'')"
    unfolding ex_lower by code_simp
  have s: "string_to_bytes (addr ex_env) (sp_proposer ex_submit_com) = Some (ex_bytes ''alice'')"
    by (simp add: ex_submit_com_def ex_submit_def ex_string_to_bytes)
  have a: "sp_content ex_submit_com = Some (ex_any\<lparr>any_value := ex_bytes ''com''\<rparr>)" by (simp add: ex_submit_com_def)
  have u: "unpack_any (codec ex_env) (Some (ex_any\<lparr>any_value := ex_bytes ''com''\<rparr>)) =
      Inr (Some (AddTld \<lparr>at_tld = ''com'', at_description = []\<rparr>))"
    by (simp add: ex_env_def ex_unpack_def ex_any_def)
  have v: "validate_add_tld \<lparr>at_tld = ''com'', at_description = []\<rparr> = None"
    by (simp add: validate_add_tld_def tld_regexp_def alnum_char_def)
  have d: "find_active_duplicate ex_env (type_url (ex_any\<lparr>any_value := ex_bytes ''com''\<rparr>))
      (AddTld \<lparr>at_tld = ''com'', at_description = []\<rparr>) (map snd (kv_walk (proposals (dao ex_world)))) = Inr False"
    by (simp add: ex_world_def ex_dao_def kv_walk_def)
  have p: "dao_params_item (dao ex_world) = Some ex_dao_params" by (simp add: ex_world_def ex_dao_def)
  from unaddable_tld_refused [OF ex_env_total s a u v d p, of ex_ctx] res show ?thesis by simp
qed

end
