(* ===== verification/Dao_Vote_Properties.thy ===== *)
theory Dao_Vote_Properties
  imports Example_Run "HOL-Library.Multiset"
begin

text \<open>
  The properties of votes: which votes are accepted, that an address votes once, the power of a
  voter and its decay, the tally and the decision.
\<close>

section \<open>Votes\<close>

lemma vote_on_proposal_accepts:
  assumes E: "store_total E" and voter: "string_to_bytes (addr E) (mv_voter m) = Some voter"
    and p: "kv_get (proposals (dao w)) (mv_proposal_id m) = Some p" "pr_status p = PROPOSAL_STATUS_VOTING_PERIOD"
      "block_height_u64 c \<le> pr_voting_end_block p"
    and fresh: "case kv_get (votes (dao w)) (mv_proposal_id m, voter) of None \<Rightarrow> True | Some v \<Rightarrow> vt_voter v = []"
    and power: "dao_params_item (dao w) = Some params" "voter_power E params w voter (block_height_u64 c) \<noteq> 0"
  shows "\<exists>w'. vote_on_proposal E c m w = (Inr (), w')"
proof -
  have get: "get_proposal E (mv_proposal_id m) w = (Inr p, w)"
    using E p(1) by (simp add: get_proposal_def read_op_def read_kv_def)
  have check: "check_not_voted E (mv_proposal_id m) voter w = (Inr (), w)"
    using E fresh by (simp add: check_not_voted_Inr)
  have pow: "calculate_voter_power E voter (block_height_u64 c) w = (Inr (voter_power E params w voter (block_height_u64 c)), w)"
    using E power(1) by (simp add: calculate_voter_power_Inr)
  show ?thesis
    unfolding vote_on_proposal_def set_vote_def Let_def
    using E by (simp add: bind_op_def then_op_def of_option_def map_err_def require_def ret_def emit_op_def update_op_def
        write_op_def voter get p check pow power(2) not_less)
qed

lemma read_only_errors:
  "check_not_voted E i a w = (r, w') \<Longrightarrow> w' = w" "calculate_voter_power E a h w = (s, w') \<Longrightarrow> w' = w"
proof -
  have "keeps (\<lambda>v. v = w) (check_not_voted E i a)"
    unfolding check_not_voted_def get_vote_def by (rule keeps_intros keeps_cases)+
  then show "check_not_voted E i a w = (r, w') \<Longrightarrow> w' = w" by (auto dest: keepsD)
  have "keeps (\<lambda>v. v = w) (calculate_voter_power E a h)"
    unfolding calculate_voter_power_def dao_params_get_def is_lot_based_voting_active_def
    by (rule keeps_intros keeps_cases)+
  then show "calculate_voter_power E a h w = (s, w') \<Longrightarrow> w' = w" by (auto dest: keepsD)
qed

lemma vote_error_unchanged:
  assumes "store_total E" and "vote_on_proposal E c m w = (Inl e, w')"
  shows "w' = w"
  using assms
  by (auto simp: vote_on_proposal_def bind_op_def then_op_def of_option_def map_err_def require_def ret_def fail_def
      get_proposal_def read_op_def set_vote_def write_op_def update_op_def emit_op_def Let_def
      dest: read_only_errors split: option.splits prod.splits sum.splits if_splits)

text \<open>C19: A vote is accepted exactly when the voter is an address, the proposal is in its voting period and
  its last block is not over, this address has not voted on it, and it has a power other than zero in
  this block.\<close>

theorem vote_succeeds_iff:
  assumes E: "store_total E"
  shows "(\<exists>w'. vote_on_proposal E c m w = (Inr (), w')) \<longleftrightarrow>
    (\<exists>voter p params. string_to_bytes (addr E) (mv_voter m) = Some voter
       \<and> kv_get (proposals (dao w)) (mv_proposal_id m) = Some p \<and> pr_status p = PROPOSAL_STATUS_VOTING_PERIOD
       \<and> block_height_u64 c \<le> pr_voting_end_block p
       \<and> (case kv_get (votes (dao w)) (mv_proposal_id m, voter) of None \<Rightarrow> True | Some v \<Rightarrow> vt_voter v = [])
       \<and> dao_params_item (dao w) = Some params \<and> voter_power E params w voter (block_height_u64 c) \<noteq> 0)"
proof
  assume "\<exists>w'. vote_on_proposal E c m w = (Inr (), w')"
  then obtain w' where "vote_on_proposal E c m w = (Inr (), w')" by blast
  then show "\<exists>voter p params. string_to_bytes (addr E) (mv_voter m) = Some voter
       \<and> kv_get (proposals (dao w)) (mv_proposal_id m) = Some p \<and> pr_status p = PROPOSAL_STATUS_VOTING_PERIOD
       \<and> block_height_u64 c \<le> pr_voting_end_block p
       \<and> (case kv_get (votes (dao w)) (mv_proposal_id m, voter) of None \<Rightarrow> True | Some v \<Rightarrow> vt_voter v = [])
       \<and> dao_params_item (dao w) = Some params \<and> voter_power E params w voter (block_height_u64 c) \<noteq> 0"
    by (rule vote_on_proposal_success) (use E in auto)
qed (use vote_on_proposal_accepts [OF E] in blast)

theorem vote_succeeds_iff_witness:
  "(\<exists>w'. vote_on_proposal ex_env ex_ctx ex_vote ex_p1 = (Inr (), w'))
   \<and> (\<exists>voter p params. string_to_bytes (addr ex_env) (mv_voter ex_vote) = Some voter
       \<and> kv_get (proposals (dao ex_p1)) (mv_proposal_id ex_vote) = Some p \<and> pr_status p = PROPOSAL_STATUS_VOTING_PERIOD
       \<and> block_height_u64 ex_ctx \<le> pr_voting_end_block p
       \<and> (case kv_get (votes (dao ex_p1)) (mv_proposal_id ex_vote, voter) of None \<Rightarrow> True | Some v \<Rightarrow> vt_voter v = [])
       \<and> dao_params_item (dao ex_p1) = Some params \<and> voter_power ex_env params ex_p1 voter (block_height_u64 ex_ctx) \<noteq> 0)"
  using vote_succeeds_iff [OF ex_env_total, of ex_ctx ex_vote ex_p1] ex_p2(1) by blast

text \<open>C7: An accepted vote is stored with the option of the message and the power that its address has in this
  block, nothing else changes, and from then on every vote of the same address on the same proposal fails
  in every block and in every spelling of the address.\<close>

theorem vote_recorded_once:
  assumes E: "store_total E" and addr: "no_empty_address E" and run: "vote_on_proposal E c m w = (Inr (), w')"
  shows "\<exists>voter params. string_to_bytes (addr E) (mv_voter m) = Some voter \<and> dao_params_item (dao w) = Some params
    \<and> dao w' = (dao w)\<lparr>votes := kv_set (mv_proposal_id m, voter)
        \<lparr>vt_proposal_id = mv_proposal_id m, vt_voter = mv_voter m, vt_option = mv_option m,
         vt_voting_power = voter_power E params w voter (block_height_u64 c)\<rparr> (votes (dao w))\<rparr>
    \<and> dns w' = dns w \<and> ledger w' = ledger w
    \<and> (\<forall>c' m'. mv_proposal_id m' = mv_proposal_id m \<longrightarrow> string_to_bytes (addr E) (mv_voter m') = Some voter \<longrightarrow>
         (\<exists>e. vote_on_proposal E c' m' w' = (Inl e, w')))"
  using run
proof (rule vote_on_proposal_success)
  fix voter p params n
  assume voter: "string_to_bytes (addr E) (mv_voter m) = Some voter"
    and f: "dao_params_item (dao w) = Some params" "n = voter_power E params w voter (block_height_u64 c)"
    and w': "dao w' = (dao w)\<lparr>votes := kv_set (mv_proposal_id m, voter)
       \<lparr>vt_proposal_id = mv_proposal_id m, vt_voter = mv_voter m, vt_option = mv_option m,
        vt_voting_power = n\<rparr> (votes (dao w))\<rparr>" "dns w' = dns w" "ledger w' = ledger w"
  have stored: "kv_get (votes (dao w')) (mv_proposal_id m, voter) = Some \<lparr>vt_proposal_id = mv_proposal_id m,
      vt_voter = mv_voter m, vt_option = mv_option m, vt_voting_power = n\<rparr>"
    by (simp add: w')
  have named: "mv_voter m \<noteq> []" using voter addr by (auto simp: no_empty_address_def)
  have again: "\<exists>e. vote_on_proposal E c' m' w' = (Inl e, w')"
    if "mv_proposal_id m' = mv_proposal_id m" "string_to_bytes (addr E) (mv_voter m') = Some voter" for c' m'
  proof -
    have no: "\<not> (\<exists>v. vote_on_proposal E c' m' w' = (Inr (), v))"
      using that stored named E by (auto elim!: vote_on_proposal_success)
    obtain r v where rv: "vote_on_proposal E c' m' w' = (r, v)" by fastforce
    then show ?thesis using no vote_error_unchanged [OF E, of c' m' w'] by (cases r) auto
  qed
  show ?thesis
    using voter f w' again by (intro exI [of _ voter] exI [of _ params]) simp
qed

definition ex_vote_again :: msg_vote where
  "ex_vote_again = ex_vote\<lparr>mv_option := VOTE_OPTION_NO\<rparr>"

theorem vote_recorded_once_witness:
  "\<exists>e. vote_on_proposal ex_env ex_ctx ex_vote_again ex_p2 = (Inl e, ex_p2)"
  using vote_recorded_once [OF ex_env_total ex_no_empty ex_p2(1)]
  by (auto simp: ex_vote_again_def ex_vote_def)

section \<open>Power\<close>

text \<open>The quotient and the product of the decay, put together: what is left of an amount, in units of the last place.\<close>

lemma int_close: "\<bar>x * k - y * k\<bar> < k \<Longrightarrow> 0 < k \<Longrightarrow> x = y" for x y k :: int
proof -
  assume k: "\<bar>x * k - y * k\<bar> < k" "0 < k"
  have "\<bar>x - y\<bar> * k < 1 * k" using k by (simp add: left_diff_distrib [symmetric] abs_mult)
  then have "\<bar>x - y\<bar> < 1" using k(2) by (simp only: mult_less_cancel_right_pos)
  then show ?thesis by simp
qed

lemma decayed_power_div:
  assumes D: "dec_laws D R" and small: "decay < 2 ^ 63" and amt: "amount_ok (lot_initial_amount lot)"
    and passed: "height - lot_grant_height lot < decay"
  shows "decayed_power D decay height lot =
    lot_initial_amount lot * R (remaining_ratio D decay (height - lot_grant_height lot)) div dec_unit"
proof -
  let ?a = "lot_initial_amount lot"
  define q where "q = remaining_ratio D decay (height - lot_grant_height lot)"
  define m where "m = dec_mul D (dec_from_int D ?a) q"
  have a0: "0 \<le> ?a" "?a < 2 ^ 200" using amt by (simp_all add: amount_ok_def)
  have q: "0 \<le> R q" "R q \<le> dec_unit" using remaining_ratio_bounds [OF D passed small] by (auto simp: q_def)
  have prod: "?a * R q \<le> ?a * dec_unit" using a0 q by (intro mult_left_mono) auto
  have "\<bar>R (dec_from_int D ?a)\<bar> * \<bar>R q\<bar> = ?a * R q * dec_unit"
    using a0 q by (simp add: dec_lawsD(3) [OF D] abs_mult)
  also have "\<dots> \<le> ?a * dec_unit * dec_unit" using prod by (intro mult_right_mono) auto
  also have "\<dots> < dec_max * dec_unit" using a0 by (simp add: dec_max_def dec_unit_def)
  finally have "\<bar>R m * dec_unit - R (dec_from_int D ?a) * R q\<bar> < dec_unit"
    unfolding m_def by (rule dec_lawsD(6) [OF D])
  then have "\<bar>R m * dec_unit - ?a * R q * dec_unit\<bar> < dec_unit"
    by (simp add: dec_lawsD(3) [OF D] ac_simps)
  then have m: "R m = ?a * R q" by (rule int_close) simp
  have "R m < dec_max" using prod a0 by (simp add: m dec_max_def dec_unit_def)
  then have trunc: "dec_truncate D m = ?a * R q div dec_unit"
    using dec_lawsD(10) [OF D, of m] a0 q by (simp add: m)
  have "0 \<le> ?a * R q div dec_unit" using a0 q by (simp add: pos_imp_zdiv_nonneg_iff)
  moreover have "decay \<noteq> 0" "\<not> decay \<le> height - lot_grant_height lot" using passed by auto
  ultimately show ?thesis
    using trunc by (auto simp: decayed_power_def Let_def m_def q_def remaining_ratio_def)
qed

lemma sint_unat: "x < 2 ^ 63 \<Longrightarrow> sint x = int (unat x)" for x :: u64
proof -
  assume "x < 2 ^ 63"
  then have "uint x < 2 ^ 63" by (simp add: word_less_def)
  then show ?thesis
    using signed_take_bit_int_eq_self [of 63 "uint x"] uint_ge_0 [of x] by (simp add: sint_uint)
qed

lemma remaining_ratio_close:
  assumes D: "dec_laws D R" and passed: "passed < decay" and small: "decay < 2 ^ 63"
  shows "\<bar>R (remaining_ratio D decay passed) * int (unat decay) - int (unat decay - unat passed) * dec_unit\<bar> < int (unat decay)"
proof -
  let ?d = "int (unat decay)" and ?t = "int (unat passed)"
  let ?q = "R (dec_quo_int64 D (dec_new D (sint passed)) (sint decay))"
  have "passed < 2 ^ 63" using passed small by (rule less_trans)
  then have s: "sint passed = ?t" "sint decay = ?d" using small by (simp_all add: sint_unat)
  have lt: "unat passed < unat decay" using passed by (simp add: word_less_nat_alt)
  then have "0 < unat decay" by (rule le_less_trans [OF le0])
  then have pos: "0 < ?d" by (simp only: of_nat_0_less_iff)
  have close: "\<bar>?q * ?d - ?t * dec_unit\<bar> < ?d"
    using dec_lawsD(8) [OF D, of "sint decay" "dec_new D (sint passed)"] pos by (simp add: dec_lawsD(2) [OF D] s)
  have l: "int (unat decay - unat passed) = ?d - ?t" using lt by simp
  have "(u - q) * d - (d - t) * u = t * u - q * d" for u q d t :: int by (simp add: algebra_simps)
  then have "R (remaining_ratio D decay passed) * ?d - int (unat decay - unat passed) * dec_unit = ?t * dec_unit - ?q * ?d"
    unfolding remaining_ratio_bounds(3) [OF D passed small] l by (simp only:)
  then show ?thesis using close by simp
qed

text \<open>C29: The power of a granted lot falls linearly from its amount to nothing: before the duration of the decay
  is over it differs from the exact share by at most one unit and the amount times the rounding of the
  decimals; from then on it is zero. With no duration it stays the amount. It is never negative and
  never more than the amount.\<close>

theorem lot_power_decays_linearly:
  fixes height :: u64
  assumes D: "dec_laws D R" and small: "decay < 2 ^ 63" and amt: "amount_ok (lot_initial_amount lot)"
  defines "passed \<equiv> height - lot_grant_height lot"
  shows "0 \<le> decayed_power D decay height lot \<and> decayed_power D decay height lot \<le> lot_initial_amount lot
    \<and> (decay = 0 \<longrightarrow> decayed_power D decay height lot = lot_initial_amount lot)
    \<and> (decay \<noteq> 0 \<longrightarrow> decay \<le> passed \<longrightarrow> decayed_power D decay height lot = 0)
    \<and> (passed < decay \<longrightarrow>
        \<bar>decayed_power D decay height lot * int (unat decay) - lot_initial_amount lot * int (unat decay - unat passed)\<bar> * 10 ^ 18
          \<le> (lot_initial_amount lot + 10 ^ 18) * int (unat decay))"
proof -
  let ?a = "lot_initial_amount lot" and ?p = "decayed_power D decay height lot" and ?d = "int (unat decay)"
  let ?l = "int (unat decay - unat passed)"
  have a0: "0 \<le> ?a" using amt by (simp add: amount_ok_def)
  have "\<bar>?p * ?d - ?a * ?l\<bar> * dec_unit \<le> (?a + dec_unit) * ?d" if lt: "passed < decay"
  proof -
    let ?r = "R (remaining_ratio D decay passed)"
    have p: "?p = ?a * ?r div dec_unit"
      using decayed_power_div [OF D small amt] lt by (simp add: passed_def)
    have "?a * ?r = ?p * dec_unit + ?a * ?r mod dec_unit" by (simp add: p)
    moreover have "0 \<le> ?a * ?r mod dec_unit" "?a * ?r mod dec_unit < dec_unit" by simp_all
    ultimately have 1: "\<bar>?p * dec_unit - ?a * ?r\<bar> \<le> dec_unit" by linarith
    have "\<bar>?r * ?d - ?l * dec_unit\<bar> \<le> ?d" using remaining_ratio_close [OF D lt small] by simp
    then have 2: "?a * \<bar>?r * ?d - ?l * dec_unit\<bar> \<le> ?a * ?d" using a0 by (rule mult_left_mono)
    have "\<bar>?p * ?d - ?a * ?l\<bar> * dec_unit = \<bar>(?p * dec_unit - ?a * ?r) * ?d + ?a * (?r * ?d - ?l * dec_unit)\<bar>"
    proof -
      have "(?p * ?d - ?a * ?l) * dec_unit = (?p * dec_unit - ?a * ?r) * ?d + ?a * (?r * ?d - ?l * dec_unit)"
        by (simp add: algebra_simps)
      then show ?thesis by (simp add: abs_mult [symmetric] flip: abs_mult) (metis abs_mult abs_of_nonneg dec_unit_pos(2))
    qed
    also have "\<dots> \<le> \<bar>?p * dec_unit - ?a * ?r\<bar> * ?d + ?a * \<bar>?r * ?d - ?l * dec_unit\<bar>"
      using abs_triangle_ineq [of "(?p * dec_unit - ?a * ?r) * ?d" "?a * (?r * ?d - ?l * dec_unit)"] a0
      by (simp add: abs_mult)
    also have "\<dots> \<le> dec_unit * ?d + ?a * ?d"
      using 1 2 by (intro add_mono mult_right_mono) simp_all
    also have "\<dots> = (?a + dec_unit) * ?d" by (simp add: algebra_simps)
    finally show ?thesis .
  qed
  then show ?thesis
    using decayed_power_bounds [OF D small amt, of height] decayed_power_ends [where decay = decay and height = height and lot = lot and D = D]
    by (simp add: dec_unit_def passed_def)
qed

definition ex_lot :: power_lot where
  "ex_lot = \<lparr>lot_voter = ''alice'', lot_proposal_id = 7, lot_initial_amount = 1000, lot_grant_height = 40\<rparr>"

theorem lot_power_decays_linearly_witness:
  "\<bar>decayed_power ex_dec 100 70 ex_lot * 100 - 1000 * 70\<bar> * 10 ^ 18 \<le> (1000 + 10 ^ 18) * 100
   \<and> decayed_power ex_dec 100 140 ex_lot = 0"
proof -
  have a: "amount_ok (lot_initial_amount ex_lot)" by (simp add: amount_ok_def ex_lot_def)
  have "\<bar>decayed_power ex_dec 100 70 ex_lot * int (unat (100 :: u64)) - 1000 * int (unat (100 :: u64) - unat (30 :: u64))\<bar> * 10 ^ 18
      \<le> (1000 + 10 ^ 18) * int (unat (100 :: u64))"
    using lot_power_decays_linearly [OF ex_dec_laws _ a, of 100 70] by (simp add: ex_lot_def)
  moreover have "decayed_power ex_dec 100 140 ex_lot = 0"
    using lot_power_decays_linearly [OF ex_dec_laws _ a, of 100 140] by (simp add: ex_lot_def)
  ultimately show ?thesis by simp
qed

text \<open>C30: As soon as any lot is stored, the power of a voter comes from the voter's own lots alone: it is between
  zero and the sum of their amounts, zero when there are none or when the decay of all is over, and the
  balance of tokens no longer counts. Computing it changes nothing.\<close>

theorem voter_power_from_lots:
  assumes D: "dec_laws (dec E) R" and params: "dao_params_item (dao w) = Some p" "voting_power_decay_blocks p < 2 ^ 63"
    and some: "power_lots (dao w) \<noteq> []" and amt: "\<forall>l \<in> set (lots_of (dao w) voter). amount_ok (lot_initial_amount l)"
    and run: "calculate_voter_power E voter h w = (Inr n, w')"
  shows "w' = w \<and> 0 \<le> n \<and> n \<le> sum_list (map lot_initial_amount (lots_of (dao w) voter))
    \<and> (lots_of (dao w) voter = [] \<longrightarrow> n = 0)
    \<and> (voting_power_decay_blocks p \<noteq> 0 \<longrightarrow> (\<forall>l \<in> set (lots_of (dao w) voter).
          voting_power_decay_blocks p \<le> h - lot_grant_height l) \<longrightarrow> n = 0)"
proof -
  have n: "w' = w" "n = sum_list (map (decayed_power (dec E) (voting_power_decay_blocks p) h) (lots_of (dao w) voter))"
    using run params some by (auto simp: calculate_voter_power_Inr voter_power_def)
  have zero: "sum_list (map f xs) = (0 :: int)" if "\<And>x. x \<in> set xs \<Longrightarrow> f x = 0" for f and xs :: "power_lot list"
    using that by (induction xs) auto
  have over: "n = 0" if "voting_power_decay_blocks p \<noteq> 0"
      "\<forall>l \<in> set (lots_of (dao w) voter). voting_power_decay_blocks p \<le> h - lot_grant_height l"
    unfolding n(2) by (rule zero) (use that in \<open>simp add: decayed_power_ends\<close>)
  have amt': "amount_ok (lot_initial_amount l)" if "l \<in> set (lots_of (dao w) voter)" for l using amt that by blast
  show ?thesis
    using n sum_decayed_bounds [OF D params(2) amt', of "lots_of (dao w) voter" h] over by auto
qed

definition ex_lot_world :: "(ex_ledger, int) world" where
  "ex_lot_world = ex_world\<lparr>dao := ex_dao\<lparr>power_lots := [((ex_bytes ''alice'', 7), ex_lot)]\<rparr>\<rparr>"

theorem voter_power_from_lots_witness:
  "calculate_voter_power ex_env (ex_bytes ''bob'') 70 ex_lot_world = (Inr 0, ex_lot_world)"
proof -
  have p: "dao_params_item (dao ex_lot_world) = Some ex_dao_params" "voting_power_decay_blocks ex_dao_params < 2 ^ 63"
    by (simp_all add: ex_lot_world_def ex_dao_def ex_dao_params_def)
  have l: "power_lots (dao ex_lot_world) \<noteq> []" "lots_of (dao ex_lot_world) (ex_bytes ''bob'') = []"
    by (simp_all add: ex_lot_world_def lots_of_def kv_walk_def ex_bytes_def)
  have D: "dec_laws (dec ex_env) (\<lambda>x. x)" using ex_dec_laws by (simp add: ex_env_def)
  obtain n where run: "calculate_voter_power ex_env (ex_bytes ''bob'') 70 ex_lot_world = (Inr n, ex_lot_world)"
    using p by (auto simp: calculate_voter_power_Inr)
  have "\<forall>l \<in> set (lots_of (dao ex_lot_world) (ex_bytes ''bob'')). amount_ok (lot_initial_amount l)" using l by simp
  from voter_power_from_lots [OF D p l(1) this run] l(2) run show ?thesis by simp
qed

section \<open>Tally and decision\<close>

text \<open>C10: The loop over the votes computes the powers per option as sums over the multiset of the votes, so the
  order in which the store yields them does not matter. Options the module does not define count for
  the quorum and for no side; votes without an option do not count at all.\<close>

theorem tally_is_sum_over_votes:
  "tally_votes vs =
    \<lparr>tl_yes = sum_mset (image_mset vt_voting_power (filter_mset (\<lambda>v. vt_option v = 1) (mset vs))),
     tl_no = sum_mset (image_mset vt_voting_power (filter_mset (\<lambda>v. vt_option v = 2) (mset vs))),
     tl_abstain = sum_mset (image_mset vt_voting_power (filter_mset (\<lambda>v. vt_option v = 3) (mset vs))),
     tl_voted = sum_mset (image_mset vt_voting_power (filter_mset (\<lambda>v. vt_option v \<noteq> 0) (mset vs)))\<rparr>"
proof -
  have "sum_list (map f (filter P vs)) = sum_mset (image_mset f (filter_mset P (mset vs)))" for f :: "vote \<Rightarrow> int" and P
    by (simp only: mset_filter [symmetric] mset_map [symmetric] sum_mset_sum_list)
  then show ?thesis by (simp add: tally_votes_eq power_of_def vote_option_defs)
qed




end
