(* ===== verification/Dao_Close_Properties.thy ===== *)
theory Dao_Close_Properties
  imports Example_Run
begin

text \<open>
  The properties of closing a proposal: what happens to the deposit, and what the execution of a
  request for tokens does to the ledger and to the lots.
\<close>

section \<open>Deposits\<close>

lemma add_permitted_tld_ledger: "ledger (snd (add_permitted_tld E t w)) = ledger w"
proof (cases "add_permitted_tld E t w")
  case (Pair r w')
  have "ledger w' = ledger w"
    using Pair by (cases r) (auto simp: add_permitted_tld_Inr Let_def dest: add_permitted_tld_Inl)
  with Pair show ?thesis by simp
qed

lemma burn_deposit_ledger:
  "ledger (snd (burn_deposit E dep w)) = (if coins_is_zero (coin_lib E) dep then ledger w
     else snd (burn_coins (bank E) DaoModuleName dep (ledger w)))"
  by (simp add: burn_deposit_def op_defs run_bank_def split: prod.splits)

lemma refund_deposit_ledger:
  "ledger (snd (refund_deposit E a dep w)) = (if coins_is_zero (coin_lib E) dep then ledger w
     else case string_to_bytes (addr E) a of None \<Rightarrow> ledger w
       | Some b \<Rightarrow> snd (send_module_to_account (bank E) DaoModuleName b dep (ledger w)))"
  by (simp add: refund_deposit_def op_defs run_bank_def split: prod.splits option.splits)

lemma process_proposal_settled:
  assumes E: "store_total E"
  obtains p' w1 where "settle E dk c (deposit_to_handle E params p)
      (check_content E (tallied E params p (Inr (votes_of (dao w) (pr_id p))))) w = (Inr p', w1)"
    and "fst (process_proposal E dk c params p w) = Inr ()"
    and "ledger (snd (process_proposal E dk c params p w)) = ledger w1"
    and "kv_get (proposals (dao (snd (process_proposal E dk c params p w)))) (pr_id p') = Some p'"
proof -
  define q where "q = check_content E (tallied E params p (Inr (votes_of (dao w) (pr_id p))))"
  have votes: "try_op (iterate_votes E (pr_id p)) w = (Inr (Inr (votes_of (dao w) (pr_id p))), w)"
    using E by (simp add: iterate_votes_def try_read_op)
  have "pr_status q = decision E params (votes_of (dao w) (pr_id p)) p"
    unfolding q_def check_content_tallied by (simp add: Let_def)
  then have "pr_status q \<in> {PROPOSAL_STATUS_PASSED, PROPOSAL_STATUS_REJECTED, PROPOSAL_STATUS_FAILED}"
    using decision_cases by metis
  then obtain p' w1 where s: "settle E dk c (deposit_to_handle E params p) q w = (Inr p', w1)"
    using settle_result by blast
  show ?thesis
    using E by (intro that [OF s [unfolded q_def]])
      (simp_all add: process_proposal_def bind_op_def then_op_def votes s [unfolded q_def] set_proposal_def write_op_def
        update_op_def emit_op_def)
qed

text \<open>C9: When the voting on a TLD proposal is over, its deposit is sent back to the proposer if the proposal is
  stored as executed, and burned in every other case; the ledger changes in no other way.\<close>

theorem deposit_refunded_or_burned:
  assumes E: "store_total E" and content: "unpack_any (codec E) (pr_content p) = Inr (Some (AddTld t))"
    and run: "process_proposal E (dns_keeper_of E) c params p w = (r, w')"
    and q: "kv_get (proposals (dao w')) (pr_id p) = Some q"
  shows "let dep = add_tld_proposal_cost params in ledger w' =
    (if coins_is_zero (coin_lib E) dep then ledger w
     else if pr_status q = PROPOSAL_STATUS_EXECUTED then
       (case string_to_bytes (addr E) (pr_proposer p) of None \<Rightarrow> ledger w
        | Some a \<Rightarrow> snd (send_module_to_account (bank E) ''dao'' a dep (ledger w)))
     else snd (burn_coins (bank E) ''dao'' dep (ledger w)))"
proof -
  define x where "x = check_content E (tallied E params p (Inr (votes_of (dao w) (pr_id p))))"
  have x: "pr_status x = decision E params (votes_of (dao w) (pr_id p)) p" "pr_id x = pr_id p" "pr_proposer x = pr_proposer p"
    "pr_content x = pr_content p"
    unfolding x_def check_content_tallied by (simp_all add: Let_def)
  have dep: "deposit_to_handle E params p = add_tld_proposal_cost params" by (simp add: deposit_to_handle_def content)
  obtain p' w1 where s: "settle E (dns_keeper_of E) c (add_tld_proposal_cost params) x w = (Inr p', w1)"
    and led: "ledger w' = ledger w1" and stored: "kv_get (proposals (dao w')) (pr_id p') = Some p'"
    by (rule process_proposal_settled [OF E, of "dns_keeper_of E" c params p w]) (simp add: run dep x_def)
  show ?thesis
  proof (cases "pr_status x = PROPOSAL_STATUS_PASSED")
    case True
    obtain e v where ex: "execute_proposal E (dns_keeper_of E) c x w = (e, v)" by fastforce
    then have v: "ledger v = ledger w"
      using add_permitted_tld_ledger [of E "at_tld t" w]
      by (simp add: execute_proposal_def x content op_defs execute_add_tld_def)
    have "p' = q" using stored q s settle_passed [OF True ex, of "add_tld_proposal_cost params"] x(2) by (auto split: if_splits)
    then show ?thesis
      using s settle_passed [OF True ex, of "add_tld_proposal_cost params"] v
      by (auto simp: led burn_deposit_ledger refund_deposit_ledger DaoModuleName_def x(3) Let_def status_defs split: if_splits option.splits)
  next
    case False
    then have st: "pr_status x = PROPOSAL_STATUS_REJECTED \<or> pr_status x = PROPOSAL_STATUS_FAILED"
      using decision_cases [of E params "votes_of (dao w) (pr_id p)" p] x(1) by auto
    note n = settle_not_passed [OF st, of E "dns_keeper_of E" c "add_tld_proposal_cost params" w]
    have "p' = x" using s n by simp
    then have "q = x" using stored q x(2) by simp
    then show ?thesis
      using s n st by (auto simp: led burn_deposit_ledger DaoModuleName_def Let_def status_defs)
  qed
qed

theorem deposit_refunded_or_burned_witness:
  "\<exists>w'. process_proposal ex_env ex_dk ex_ctx16 ex_dao_params ex_proposal ex_p2 = (Inr (), w') \<and>
     ledger w' = snd (send_module_to_account (bank ex_env) ''dao'' (ex_bytes ''alice'') (ex_coins 5) (ledger ex_p2))"
proof -
  have u: "unpack_any (codec ex_env) (pr_content ex_proposal) = Inr (Some (AddTld ex_content))"
    by (simp add: ex_proposal_def)
  have get: "kv_get (proposals (dao ex_p3)) (pr_id ex_proposal) = Some ex_closed"
    by (simp add: ex_p3 ex_proposal_def kv_get_def)
  have "pr_status ex_closed = PROPOSAL_STATUS_EXECUTED" "add_tld_proposal_cost ex_dao_params = ex_coins 5"
    "\<not> coins_is_zero (coin_lib ex_env) (ex_coins 5)" "pr_proposer ex_proposal = ''alice''"
    by (simp_all add: ex_closed_def ex_dao_params_def ex_env_def ex_coin_lib_def ex_coins_def ex_proposal_def)
  then show ?thesis
    using deposit_refunded_or_burned [OF ex_env_total u ex_process get] ex_process by (simp add: ex_string_to_bytes Let_def)
qed

section \<open>Requests for tokens\<close>

definition granted :: "'d dao_params \<Rightarrow> coins \<Rightarrow> coins" where
  "granted params xs = filter (\<lambda>x. coin_denom x = voting_token_denom params \<and> 0 < coin_amount x) xs"

text \<open>The loop over the granted coins: the last one in the voting token decides what the lot holds.\<close>

lemma grant_lots_run:
  assumes E: "store_total E"
  shows "\<exists>w'. for_op xs (grant_lot E c params r a i) w = (Inr (), w') \<and> dns w' = dns w \<and> ledger w' = ledger w
    \<and> only_lots (dao w) w'
    \<and> kv_get (power_lots (dao w')) = (if granted params xs = [] then kv_get (power_lots (dao w))
        else (kv_get (power_lots (dao w)))((a, i) \<mapsto> \<lparr>lot_voter = rt_recipient r, lot_proposal_id = i,
          lot_initial_amount = coin_amount (last (granted params xs)), lot_grant_height = block_height_u64 c\<rparr>))"
proof (induction xs arbitrary: w)
  case Nil
  then show ?case by (simp add: granted_def ret_def)
next
  case (Cons x xs)
  show ?case
  proof (cases "coin_denom x = voting_token_denom params \<and> 0 < coin_amount x")
    case True
    define l where "l = \<lparr>lot_voter = rt_recipient r, lot_proposal_id = i, lot_initial_amount = coin_amount x,
        lot_grant_height = block_height_u64 c\<rparr>"
    define v where "v = upd_dao (\<lambda>s. s\<lparr>power_lots := kv_set (a, i) l (power_lots s)\<rparr>) w"
    have step: "grant_lot E c params r a i x w = (Inr (), v)"
      using True E by (simp add: grant_lot_def when_op_def then_op_def bind_op_def try_op_def set_lot_def write_op_def
          update_op_def ret_def v_def l_def)
    obtain w' where w': "for_op xs (grant_lot E c params r a i) v = (Inr (), w')" "dns w' = dns v" "ledger w' = ledger v"
      "only_lots (dao v) w'"
      "kv_get (power_lots (dao w')) = (if granted params xs = [] then kv_get (power_lots (dao v))
        else (kv_get (power_lots (dao v)))((a, i) \<mapsto> \<lparr>lot_voter = rt_recipient r, lot_proposal_id = i,
          lot_initial_amount = coin_amount (last (granted params xs)), lot_grant_height = block_height_u64 c\<rparr>))"
      using Cons.IH [of v] by blast
    have "kv_get (power_lots (dao v)) = (kv_get (power_lots (dao w)))((a, i) \<mapsto> l)"
      by (simp add: v_def fun_eq_iff)
    moreover have "granted params (x # xs) = x # granted params xs" using True by (simp add: granted_def)
    moreover have "only_lots (dao w) w'" using w'(4) by (simp add: only_lots_def v_def)
    ultimately show ?thesis
      using w' step by (auto simp: then_op_def bind_op_def v_def l_def)
  next
    case False
    then have "grant_lot E c params r a i x w = (Inr (), w)" by (auto simp: grant_lot_def when_op_def ret_def)
    then have step: "for_op (x # xs) (grant_lot E c params r a i) w = for_op xs (grant_lot E c params r a i) w"
      by (simp add: then_op_def bind_op_def)
    have same: "granted params (x # xs) = granted params xs" using False by (auto simp: granted_def)
    show ?thesis unfolding step same by (rule Cons.IH)
  qed
qed

text \<open>C31: Executing a request for tokens mints the amount for the module and sends it to the recipient. If that
  succeeds, the recipient gets a lot for the proposal with the amount of the voting token, granted at
  this height, and no other lot, proposal or vote changes. If the minting fails nothing but the ledger
  changes; if the sending fails the minted coins are burned again and the error is returned.\<close>

theorem token_request_execution:
  assumes E: "store_total E" and params: "dao_params_item (dao w) = Some params"
    and a: "string_to_bytes (addr E) (rt_recipient r) = Some a"
    and mint: "mint_coins (bank E) ''dao'' (rt_amount r) (ledger w) = (minted, b)"
    and send: "send_module_to_account (bank E) ''dao'' a (rt_amount r) b = (sent, b')"
  shows "case minted of Inl e \<Rightarrow> execute_request_tokens E c r p w = (Inl e, w\<lparr>ledger := b\<rparr>)
    | Inr _ \<Rightarrow> (case sent of
        Inl e \<Rightarrow> execute_request_tokens E c r p w = (Inl e, w\<lparr>ledger := snd (burn_coins (bank E) ''dao'' (rt_amount r) b')\<rparr>)
      | Inr _ \<Rightarrow> (\<exists>w'. execute_request_tokens E c r p w = (Inr (), w') \<and> ledger w' = b' \<and> dns w' = dns w
          \<and> dao w' = (dao w)\<lparr>power_lots := power_lots (dao w')\<rparr>
          \<and> (let coins = filter (\<lambda>x. coin_denom x = voting_token_denom params \<and> 0 < coin_amount x) (rt_amount r) in
              kv_get (power_lots (dao w')) = (if coins = [] then kv_get (power_lots (dao w))
                else (kv_get (power_lots (dao w)))((a, pr_id p) \<mapsto> \<lparr>lot_voter = rt_recipient r, lot_proposal_id = pr_id p,
                  lot_initial_amount = coin_amount (last coins), lot_grant_height = of_int (block_height c)\<rparr>)))))"
proof -
  have par: "dao_params_get E w = (Inr params, w)" using E params by (simp add: dao_params_get_def read_op_def)
  let ?v = "w\<lparr>ledger := b'\<rparr>"
  obtain w' where w': "for_op (rt_amount r) (grant_lot E c params r a (pr_id p)) ?v = (Inr (), w')"
    "dns w' = dns w" "ledger w' = b'" "dao w' = (dao w)\<lparr>power_lots := power_lots (dao w')\<rparr>"
    "kv_get (power_lots (dao w')) = (if granted params (rt_amount r) = [] then kv_get (power_lots (dao w))
        else (kv_get (power_lots (dao w)))((a, pr_id p) \<mapsto> \<lparr>lot_voter = rt_recipient r, lot_proposal_id = pr_id p,
          lot_initial_amount = coin_amount (last (granted params (rt_amount r))), lot_grant_height = block_height_u64 c\<rparr>))"
    using grant_lots_run [OF E, of "rt_amount r" c params r a "pr_id p" ?v] by (auto simp: only_lots_def)
  note eval = execute_request_tokens_def bind_op_def then_op_def of_option_def ret_def try_op_def fail_def run_bank_def
  show ?thesis
  proof (cases minted)
    case (Inl e)
    then show ?thesis using par a mint by (simp add: eval DaoModuleName_def)
  next
    case (Inr u)
    show ?thesis
    proof (cases sent)
      case err: (Inl e)
      show ?thesis using par a mint send Inr err by (simp add: eval DaoModuleName_def split: prod.splits)
    next
      case ok: (Inr v)
      have "execute_request_tokens E c r p w = (Inr (), w')"
        using par a mint send Inr ok w'(1) by (simp add: eval DaoModuleName_def)
      then show ?thesis using Inr ok w'(2-5) by (simp add: granted_def Let_def block_height_u64_def)
    qed
  qed
qed

definition ex_request :: request_tokens_content where
  "ex_request = \<lparr>rt_recipient = ''bob'', rt_amount = [\<lparr>coin_denom = ''udns'', coin_amount = 1000\<rparr>], rt_activity = ''work''\<rparr>"

theorem token_request_execution_witness:
  "\<exists>w'. execute_request_tokens ex_env ex_ctx ex_request ex_proposal ex_world = (Inr (), w')
    \<and> kv_get (power_lots (dao w')) (ex_bytes ''bob'', 0) = Some \<lparr>lot_voter = ''bob'', lot_proposal_id = 0,
        lot_initial_amount = 1000, lot_grant_height = 5\<rparr>"
proof -
  have p: "dao_params_item (dao ex_world) = Some ex_dao_params" by (simp add: ex_world_def ex_dao_def)
  have a: "string_to_bytes (addr ex_env) (rt_recipient ex_request) = Some (ex_bytes ''bob'')"
    by (simp add: ex_request_def ex_string_to_bytes)
  obtain b where m: "mint_coins (bank ex_env) ''dao'' (rt_amount ex_request) (ledger ex_world) = (Inr (), b)"
    and bal: "ex_balance (ex_module ''dao'') ''udns'' b = 1000"
    by (simp add: ex_env_def ex_bank_def ex_request_def ex_world_def ex_balance_def ex_module_def kv_get_def)
  obtain b' where s: "send_module_to_account (bank ex_env) ''dao'' (ex_bytes ''bob'') (rt_amount ex_request) b = (Inr (), b')"
    using bal by (simp add: ex_env_def ex_bank_def ex_request_def ex_move_def)
  have id: "pr_id ex_proposal = 0" "block_height ex_ctx = 5" "voting_token_denom ex_dao_params = ''udns''"
    by (simp_all add: ex_proposal_def ex_ctx_def ex_dao_params_def)
  from token_request_execution [OF ex_env_total p a m s, of ex_ctx ex_proposal] show ?thesis
    by (auto simp: ex_request_def id)
qed

end
