(* ===== verification/Query_Properties.thy ===== *)
theory Query_Properties
  imports Example_Run Dao_Queries
begin

text \<open>
  The properties of the queries of both modules and of the genesis state of \<^verbatim>\<open>x/dao\<close>: nothing is
  written, pages put together give the whole result, and the answers at the boundaries.
\<close>

section \<open>Queries\<close>

text \<open>No query of either module changes the state, whatever its request and whichever of its reads of the
  store fail.\<close>

theorem queries_read_only:
  "snd (query_get_domain E i w) = w \<and> snd (query_list_domain E paginate p w) = w
   \<and> snd (query_domain_by_name E c n w) = w \<and> snd (query_dns_params E u w) = w
   \<and> snd (query_list_permitted_tlds E u w) = w \<and> snd (query_dao_params E z u w) = w
   \<and> snd (query_proposal E i w) = w \<and> snd (query_proposals E r w) = w \<and> snd (query_tally E i w) = w
   \<and> snd (query_vote E v w) = w \<and> snd (query_votes E vs w) = w"
  by (simp only: dns_queries_read_only dao_queries_read_only simp_thms)

lemma proposal_matches_page: "proposal_matches E (req\<lparr>pq_page := x\<rparr>) = proposal_matches E req"
  by (rule ext) (unfold proposal_matches_def, cases req, simp only: proposals_request.simps)

lemma pq_page_update: "pq_page (req\<lparr>pq_page := x\<rparr>) = x"
  by simp

text \<open>C32: The pages of the proposals query, requested one after the other with the same limit, put together give
  every proposal that matches the filter exactly once and in the order of the identifiers, and each
  page reports the number of all of them.\<close>

theorem proposal_pages_partition:
  fixes E :: "('b, 'd) env" and w :: "('b, 'd) world" and req :: proposals_request
  assumes E: "store_total E" and l: "0 < l" and k: "k * l < 2 ^ 63"
  defines "page i \<equiv> query_proposals E (Some (req\<lparr>pq_page := Some \<lparr>page_offset = of_nat (i * l), page_limit = of_nat l\<rparr>\<rparr>)) w"
    and "matching \<equiv> filter (proposal_matches E req) (map snd (kv_walk (proposals (dao w))))"
  assumes all: "length matching \<le> k * l"
  shows "(\<forall>i < k. \<exists>ps. fst (page i) = Inr (ps, of_nat (length matching)))
    \<and> concat (map (\<lambda>i. case fst (page i) of Inl _ \<Rightarrow> [] | Inr r \<Rightarrow> fst r) [0..<k]) = matching"
proof -
  have page: "page i = (Inr (take l (drop (i * l) matching), of_nat (length matching)), w)" if "i < k" for i
    unfolding page_def query_proposals_total [OF E] proposal_matches_page pq_page_update matching_def
      paginate_list_page [OF l that k] by (rule refl)
  have "concat (map (\<lambda>i. case fst (page i) of Inl _ \<Rightarrow> [] | Inr r \<Rightarrow> fst r) [0..<k])
      = concat (map (\<lambda>i. take l (drop (i * l) matching)) [0..<k])"
    by (intro arg_cong [where f = concat] map_cong) (simp_all add: page)
  also have "\<dots> = matching" using all by (simp add: concat_pages)
  finally show ?thesis by (simp add: page)
qed

definition ex_all_proposals :: proposals_request where
  "ex_all_proposals = \<lparr>pq_status = 0, pq_voter = [], pq_proposer = ''alice'', pq_page = None\<rparr>"

theorem proposal_pages_partition_witness:
  "concat (map (\<lambda>i. case fst (query_proposals ex_env (Some (ex_all_proposals\<lparr>pq_page :=
      Some \<lparr>page_offset = of_nat (i * 1), page_limit = of_nat 1\<rparr>\<rparr>)) ex_p1) of Inl _ \<Rightarrow> [] | Inr r \<Rightarrow> fst r) [0..<2]) = [ex_proposal]"
proof -
  have "filter (proposal_matches ex_env ex_all_proposals) (map snd (kv_walk (proposals (dao ex_p1)))) = [ex_proposal]"
    by (simp add: ex_p1 kv_walk_def proposal_matches_def ex_all_proposals_def ex_proposal_def ex_string_to_bytes
        PROPOSAL_STATUS_UNSPECIFIED_def)
  with proposal_pages_partition [OF ex_env_total, of 1 2 ex_all_proposals ex_p1] show ?thesis by simp
qed



text \<open>C34: The errors of the single-item queries: with errors of the store that wrap the value for a missing key, a
  proposal that does not exist is reported as an internal error by the proposal query and as not found
  by the tally query, and a vote that does not exist as not found.\<close>

theorem missing_item_errors:
  assumes E: "store_total E" and wrapped: "\<not> not_found_bare E" and none: "kv_get (proposals (dao w)) i = None"
    and addr: "voter \<noteq> []" "string_to_bytes (addr E) voter = Some a" "kv_get (votes (dao w)) (i, a) = None"
  shows "query_proposal E (Some i) w = (Inl StatusInternal, w) \<and> query_tally E (Some i) w = (Inl StatusNotFound, w)
    \<and> query_vote E (Some (i, voter)) w = (Inl StatusNotFound, w)"
  using assms
  by (simp add: query_proposal_total query_tally_def query_vote_def get_proposal_def get_vote_def op_defs read_kv_def)

theorem missing_item_errors_witness:
  "query_proposal ex_env (Some 3) ex_p1 = (Inl StatusInternal, ex_p1)"
proof -
  have n: "kv_get (proposals (dao ex_p1)) 3 = None" "kv_get (votes (dao ex_p1)) (3, ex_bytes ''alice'') = None"
    "\<not> not_found_bare ex_env" "''alice'' \<noteq> []" "string_to_bytes (addr ex_env) ''alice'' = Some (ex_bytes ''alice'')"
    by (simp_all add: ex_p1 ex_dao_def kv_get_def ex_env_def ex_addr_def)
  show ?thesis using missing_item_errors [OF ex_env_total n(3,1,4,5,2)] by simp
qed

section \<open>The genesis state of x/dao\<close>

text \<open>Importing a genesis state of \<^verbatim>\<open>x/dao\<close> always succeeds and stores its parameters, or the default ones when
  they are not valid. The export after it gives the state that was imported if it was valid, and the
  default one otherwise.\<close>

theorem dao_genesis_round_trip:
  assumes E: "store_total E"
  shows "\<exists>w'. init_dao_genesis E gs w = (Inr (), w') \<and> dns w' = dns w \<and> ledger w' = ledger w
    \<and> dao w' = (dao w)\<lparr>dao_params_item := Some (if validate_dao_params E (dg_params gs) = None then dg_params gs else default_dao_params E)\<rparr>
    \<and> export_dao_genesis E w' = (Inr (if validate_dao_genesis E gs = None then gs else default_dao_genesis E), w')"
  using init_export_dao_genesis [OF E init_dao_genesis_total [OF E]]
  by (simp add: init_dao_genesis_total [OF E] validate_dao_genesis_def)

theorem dao_genesis_round_trip_witness:
  "\<exists>w'. init_dao_genesis ex_env \<lparr>dg_params = ex_dao_params\<rparr> ex_world = (Inr (), w')
     \<and> export_dao_genesis ex_env w' = (Inr \<lparr>dg_params = ex_dao_params\<rparr>, w')"
proof -
  have "validate_dao_genesis ex_env \<lparr>dg_params = ex_dao_params\<rparr> = None"
    by (simp add: validate_dao_genesis_def validate_dao_params_def ex_dao_params_def ex_env_defs ex_coins_def dec_unit_def)
  with dao_genesis_round_trip [OF ex_env_total, of "\<lparr>dg_params = ex_dao_params\<rparr>" ex_world] show ?thesis by auto
qed

end
