(* ===== verification/Chain_Properties.thy ===== *)
theory Chain_Properties
  imports Example_Run
begin

text \<open>
  The properties of the application as a whole, over every sequence of transactions and blocks: the
  invariant of the reachable states, what cannot be undone, deadlines, the way of a TLD from a
  proposal to a registered name, and the separation of the two modules.
\<close>

section \<open>Reachable states\<close>

text \<open>C1: Every state that the application reaches from a genesis state without domains satisfies the invariant
  of both modules, as long as the 64-bit counters are not used up: names and identifiers of domains
  correspond one to one, every domain lies below a permitted TLD, no permitted TLD is reserved, two
  open proposals never have the same content, tallies are the sums of the votes, lots stem from executed
  proposals; and no proposal is overdue.\<close>

theorem reachable_states_invariant:
  assumes E: "store_total E" and ul: "lower_laws (unicode_lower E)"
    and g: "genesis_tlds_ok E g" "empty_world w0" "chain_init E g h w0 = (Inr (), w)"
    and run: "chain_run E n (c, w) (c', w')" and room: "unat (gs_domain_count g) + n < 2 ^ 64"
  shows "chain_inv E w' \<and> no_overdue (c', w')
    \<and> (\<forall>i j d e. kv_get (domains (dns w')) i = Some d \<longrightarrow> kv_get (domains (dns w')) j = Some e \<longrightarrow>
         dom_name d = dom_name e \<longrightarrow> i = j)"
proof -
  have w: "chain_inv E w" "no_overdue (c, w)" "domain_seq (dns w) = gs_domain_count g" "proposal_seq (dao w) = 0"
    using chain_init_inv [OF E ul g(1,2), of h c] g(3) by auto
  have "room (n + 0) (snd (c, w))" using room w(3,4) by (simp add: room_def)
  then have inv: "chain_inv E w'" "no_overdue (c', w')"
    using chain_run_inv [OF ul run, of 0] chain_run_overdue [OF ul run, of 0] w by auto
  have ok: "dns_ok E (dns w')" using inv(1) by (simp add: chain_inv_def dns_all_def dns_inv_def)
  have unique: "i = j" if "kv_get (domains (dns w')) i = Some d" "kv_get (domains (dns w')) j = Some e" "dom_name d = dom_name e"
    for i j d e
  proof -
    have "kv_get (domain_names (dns w')) (dom_name d) = Some i" "kv_get (domain_names (dns w')) (dom_name d) = Some j"
      unfolding dns_okD(5) [OF ok] using that by auto
    then show ?thesis by simp
  qed
  with inv show ?thesis by blast
qed

definition ex_genesis :: dns_genesis where
  "ex_genesis = \<lparr>gs_params = \<lparr>domain_creation_fee = ex_coins 20\<rparr>, gs_domain_list = [], gs_domain_count = 0,
     gs_permitted_tlds = [''web3'']\<rparr>"

definition ex_start :: "(ex_ledger, int) world" where
  "ex_start = \<lparr>dns = empty_dns_store, dao = empty_dao_store, ledger = ledger ex_world, events = []\<rparr>"

lemma ex_genesis_ok: "genesis_tlds_ok ex_env ex_genesis" "empty_world ex_start"
proof -
  have "\<not> is_reserved_tld (\<lambda>s. s) (normalize_name (\<lambda>s. s) ''web3'')" "\<not> contains_dot (normalize_name (\<lambda>s. s) ''web3'')"
    "length (normalize_name (\<lambda>s. s) ''web3'') = 4"
    by code_simp+
  then show "genesis_tlds_ok ex_env ex_genesis" by (simp add: genesis_tlds_ok_def ex_genesis_def Let_def)
  show "empty_world ex_start" by (simp add: empty_world_def ex_start_def)
qed

lemma ex_run_steps:
  "chain_run ex_env 2 (ex_ctx, ex_world) (ex_ctx, ex_p2)"
proof -
  have "deliver (run_tx ex_env ex_ctx (DaoTx (SubmitProposal ex_submit))) ex_world = ex_p1"
    using ex_p1(1) by (simp add: deliver_def run_tx_def dao_handle_def then_op_def bind_op_def ret_def)
  moreover have "deliver (run_tx ex_env ex_ctx (DaoTx (Vote ex_vote))) ex_p1 = ex_p2"
    using ex_p2(1) by (simp add: deliver_def run_tx_def dao_handle_def)
  ultimately have "chain_step ex_env (ex_ctx, ex_world) (ex_ctx, ex_p1)" "chain_step ex_env (ex_ctx, ex_p1) (ex_ctx, ex_p2)"
    using chain_step.Deliver [of ex_env ex_ctx ex_world "DaoTx (SubmitProposal ex_submit)"]
      chain_step.Deliver [of ex_env ex_ctx ex_p1 "DaoTx (Vote ex_vote)"] by simp_all
  then have "chain_run ex_env (Suc (Suc 0)) (ex_ctx, ex_world) (ex_ctx, ex_p2)"
    by (blast intro: run_refl run_step)
  then show ?thesis by (simp add: numeral_2_eq_2)
qed

theorem reachable_states_invariant_witness:
  "\<exists>w. chain_init ex_env ex_genesis \<lparr>dg_params = ex_dao_params\<rparr> ex_start = (Inr (), w)
     \<and> chain_inv ex_env (deliver (run_tx ex_env ex_ctx (DnsTx (CreateDomain ex_create))) w)"
proof -
  obtain w where w: "chain_init ex_env ex_genesis \<lparr>dg_params = ex_dao_params\<rparr> ex_start = (Inr (), w)"
    using chain_init_inv [OF ex_env_total ex_lower_laws ex_genesis_ok] by blast
  have "chain_run ex_env (Suc 0) (ex_ctx, w) (ex_ctx, deliver (run_tx ex_env ex_ctx (DnsTx (CreateDomain ex_create))) w)"
    by (rule run_step [OF run_refl chain_step.Deliver])
  from reachable_states_invariant [OF ex_env_total ex_lower_laws ex_genesis_ok w this] w show ?thesis
    by (simp add: ex_genesis_def)
qed

lemma ex_p2_inv: "chain_inv ex_env ex_p2" "room 100 ex_p2"
  using chain_run_inv [OF ex_lower_laws ex_run_steps, of 100] ex_chain_inv ex_world_room [of 102] by simp_all

lemma ex_end_step: "chain_run ex_env 1 (ex_ctx16, ex_p2) (ex_ctx17, ex_p3)"
proof -
  have "chain_step ex_env (ex_ctx16, ex_p2) (ex_ctx17, ex_p3)"
    by (rule chain_step.EndBlock [OF ex_p3(1)]) (simp_all add: ex_ctx16_def ex_ctx17_def)
  then have "chain_run ex_env (Suc 0) (ex_ctx16, ex_p2) (ex_ctx17, ex_p3)" by (blast intro: run_refl run_step)
  then show ?thesis by simp
qed

lemma ex_p3_inv: "chain_inv ex_env ex_p3"
  using chain_run_inv [OF ex_lower_laws ex_end_step, of 99] ex_p2_inv by simp

section \<open>What no step undoes\<close>



text \<open>C13: A TLD that becomes permitted along a run has an executed proposal of \<^verbatim>\<open>x/dao\<close> for a TLD with the same
  normal form: no transaction of any user adds one directly.\<close>

theorem new_tld_has_executed_proposal:
  assumes ul: "lower_laws (unicode_lower E)" and a: "no_empty_address E" and run: "chain_run E n (c, w) (c', w')"
    and inv: "chain_inv E w" and room: "room n w"
    and new: "fst (is_tld_permitted E s w') = Inr True" "fst (is_tld_permitted E s w) \<noteq> Inr True"
  shows "\<exists>i p t. kv_get (proposals (dao w')) i = Some p \<and> pr_status p = PROPOSAL_STATUS_EXECUTED
    \<and> unpack_any (codec E) (pr_content p) = Inr (Some (AddTld t))
    \<and> normalize_tld (unicode_lower E) (at_tld t) = normalize_tld (unicode_lower E) s"
proof -
  have "tld_origin E w w'" using chain_run_history [OF ul a run, of 0] inv room by simp
  then obtain i p t where "kv_get (proposals (dao w')) i = Some p" "pr_status p = PROPOSAL_STATUS_EXECUTED"
    "adds_tld E p t" "normalize_tld (unicode_lower E) s = normalize_tld (unicode_lower E) t"
    using new unfolding tld_origin_def by blast
  then show ?thesis unfolding adds_tld_def by metis
qed

lemma ex_app2_permitted:
  "fst (is_tld_permitted ex_env ''app2'' ex_p3) = Inr True" "fst (is_tld_permitted ex_env ''app2'' ex_p2) = Inr False"
  by (simp_all add: is_tld_permitted_def tld_has_def op_defs Let_def ex_tld_facts ex_p2 ex_p3 ex_dns_def ex_dns2_def kv_get_def
      has_kv_def)

theorem new_tld_has_executed_proposal_witness:
  "\<exists>i p t. kv_get (proposals (dao ex_p3)) i = Some p \<and> pr_status p = PROPOSAL_STATUS_EXECUTED
    \<and> unpack_any (codec ex_env) (pr_content p) = Inr (Some (AddTld t))
    \<and> normalize_tld (unicode_lower ex_env) (at_tld t) = normalize_tld (unicode_lower ex_env) ''app2''"
proof -
  have "room 1 ex_p2" using ex_p2_inv(2) by (simp add: room_def)
  then show ?thesis
    by (rule new_tld_has_executed_proposal [OF ex_lower_laws ex_no_empty ex_end_step ex_p2_inv(1)])
      (simp_all add: ex_app2_permitted)
qed

section \<open>Deadlines\<close>



text \<open>C20: No proposal is forgotten: along every run that starts without an overdue proposal, a proposal that is
  still in its voting period was submitted in the current block or its last block is at most one block
  ago, so that it is closed at the end of the block after its last one.\<close>

theorem proposals_meet_deadlines:
  assumes ul: "lower_laws (unicode_lower E)" and run: "chain_run E n (c, w) (c', w')"
    and inv: "chain_inv E w" and room: "room n w"
    and start: "\<forall>i p. kv_get (proposals (dao w)) i = Some p \<longrightarrow> pr_status p = PROPOSAL_STATUS_VOTING_PERIOD \<longrightarrow>
      pr_submit_block p = block_height_u64 c \<or> block_height_u64 c - 1 \<le> pr_voting_end_block p"
    and p: "kv_get (proposals (dao w')) i = Some p" "pr_status p = PROPOSAL_STATUS_VOTING_PERIOD"
  shows "pr_submit_block p = block_height_u64 c' \<or> block_height_u64 c' - 1 \<le> pr_voting_end_block p"
proof -
  have "no_overdue (c, w)" using start by (simp add: no_overdue_def active_def)
  then have "no_overdue (c', w')" using chain_run_overdue [OF ul run, of 0] inv room by simp
  then show ?thesis using no_overdueD p by (simp add: active_def)
qed

theorem proposals_meet_deadlines_witness:
  "pr_submit_block ex_proposal = block_height_u64 ex_ctx \<or> block_height_u64 ex_ctx - 1 \<le> pr_voting_end_block ex_proposal"
proof -
  have "kv_get (proposals (dao ex_world)) j = None" for j by (simp add: ex_world_def ex_dao_def)
  then show ?thesis
    by (intro proposals_meet_deadlines [OF ex_lower_laws ex_run_steps ex_chain_inv ex_world_room, of 0])
      (simp_all add: ex_p2 kv_get_def ex_proposal_def)
qed

section \<open>From a proposal to a name\<close>

text \<open>C35: When a proposal for a TLD has been executed, every free name of two labels below that TLD can be
  registered, by anyone who can pay the fee, with valid addresses and records; and the TLD is not on the
  list of reserved ones.\<close>

theorem executed_tld_opens_names:
  assumes inv: "chain_inv E w" and p: "kv_get (proposals (dao w)) i = Some p" "pr_status p = PROPOSAL_STATUS_EXECUTED"
      "unpack_any (codec E) (pr_content p) = Inr (Some (AddTld a))"
    and name: "split_dots (normalize_name (unicode_lower E) (cd_name m)) = [l, t]" "t \<noteq> []"
      "normalize_tld (unicode_lower E) t = normalize_tld (unicode_lower E) (at_tld a)"
    and free: "resolve E w (cd_name m) = None"
    and addrs: "string_to_bytes (addr E) (cd_owner m) \<noteq> None" "string_to_bytes (addr E) (cd_creator m) = Some b"
    and fee: "dns_params_item (dns w) = Some params" "fee_payable E b (domain_creation_fee params) (ledger w)"
    and records: "cd_ns_records m \<noteq> []" "list_all ns_entry_ok (cd_ns_records m)"
  shows "(\<exists>k w'. create_domain E c m w = (Inr k, w')) \<and> \<not> is_reserved_tld (unicode_lower E) (normalize_tld (unicode_lower E) (at_tld a))"
proof -
  have E: "store_total E" and ok: "dns_ok E (dns w)" and tlds: "tlds_ok E (dns w)"
    using inv by (auto simp: chain_inv_def dns_all_def dns_inv_def)
  have "adds_tld E p (at_tld a)" using p(3) by (auto simp: adds_tld_def)
  then have perm: "fst (is_tld_permitted E (at_tld a) w) = Inr True"
    using inv p(1,2) by (auto simp: chain_inv_def executed_permitted_def)
  have tld: "normalize_tld (unicode_lower E) (at_tld a) \<noteq> []"
    "kv_get (permitted_tlds (dns w)) (normalize_tld (unicode_lower E) (at_tld a)) \<noteq> None"
    using perm E by (auto simp: is_tld_permitted_def tld_has_def op_defs Let_def has_kv_def split: if_splits)
  have "registrable E (dns w) (cd_name m)"
    using name tld free by (simp add: registrable_def name_ok_def resolve_registry)
  moreover have "\<not> is_reserved_tld (unicode_lower E) (normalize_tld (unicode_lower E) (at_tld a))"
    using tlds tld(2) by (auto simp: tlds_ok_def)
  ultimately show ?thesis
    using create_domain_ok_iff [OF E ok, of c m] addrs fee records by blast
qed

definition ex_create_app2 :: msg_create_domain where
  "ex_create_app2 = \<lparr>cd_creator = ''bob'', cd_name = ''shop.app2'', cd_owner = ''bob'', cd_ns_records = ex_ns\<rparr>"

theorem executed_tld_opens_names_witness:
  "\<exists>k w'. create_domain ex_env ex_ctx17 ex_create_app2 ex_p3 = (Inr k, w')"
proof -
  have norm: "normalize_name (\<lambda>s. s) ''shop.app2'' = ''shop.app2''" "split_dots ''shop.app2'' = [''shop'', ''app2'']"
    by code_simp+
  have p: "kv_get (proposals (dao ex_p3)) 0 = Some ex_closed" "pr_status ex_closed = PROPOSAL_STATUS_EXECUTED"
    "unpack_any (codec ex_env) (pr_content ex_closed) = Inr (Some (AddTld ex_content))"
    by (simp_all add: ex_p3 kv_get_def ex_closed_def ex_proposal_def)
  have n: "split_dots (normalize_name (unicode_lower ex_env) (cd_name ex_create_app2)) = [''shop'', ''app2'']"
    by (simp add: ex_create_app2_def norm)
  have f: "resolve ex_env ex_p3 (cd_name ex_create_app2) = None"
    by (simp add: resolve_def ex_p3 ex_dns2_def ex_dns_def)
  have a: "string_to_bytes (addr ex_env) (cd_owner ex_create_app2) \<noteq> None"
    "string_to_bytes (addr ex_env) (cd_creator ex_create_app2) = Some (ex_bytes ''bob'')"
    by (simp_all add: ex_create_app2_def ex_string_to_bytes)
  have d: "dns_params_item (dns ex_p3) = Some \<lparr>domain_creation_fee = ex_coins 20\<rparr>"
    by (simp add: ex_p3 ex_dns2_def ex_dns_def)
  have pay: "fee_payable ex_env (ex_bytes ''bob'') (domain_creation_fee \<lparr>domain_creation_fee = ex_coins 20\<rparr>) (ledger ex_p3)"
    by (simp add: fee_payable_def ex_p3 ex_ledger2_def ex_env_def ex_bank_def ex_coins_def ledger_eval ModuleName_def)
  have t: "normalize_tld (unicode_lower ex_env) ''app2'' = normalize_tld (unicode_lower ex_env) (at_tld ex_content)"
    by (simp add: ex_content_def)
  have r: "cd_ns_records ex_create_app2 \<noteq> []" "list_all ns_entry_ok (cd_ns_records ex_create_app2)"
    using ex_ns_ok by (simp_all add: ex_create_app2_def)
  show ?thesis
    using executed_tld_opens_names [OF ex_p3_inv p n _ t f a d pay r] by simp
qed

section \<open>The two modules\<close>





end
