(* ===== verification/Dao_Custody.thy ===== *)
theory Dao_Custody
  imports Dao_Properties Dao_Close_Properties Chain_History
begin

text \<open>
  The coins that \<^verbatim>\<open>x/dao\<close> keeps: the deposits of the open proposals lie in the account of the module
  until the proposals are closed. What the bank promises about that account, what every operation
  does to the balance, and the surplus of the balance over the deposits.
\<close>

section \<open>Amounts\<close>

definition amount_of :: "string \<Rightarrow> coins \<Rightarrow> int" where
  "amount_of d cs = sum_list (map coin_amount (filter (\<lambda>x. coin_denom x = d) cs))"

text \<open>What is owed for a proposal: its deposit, or nothing where the code skips a deposit that is zero.\<close>

definition owed :: "('b, 'd) env \<Rightarrow> 'd dao_params \<Rightarrow> proposal \<Rightarrow> coins" where
  "owed E params p = (let dep = deposit_to_handle E params p in if coins_is_zero (coin_lib E) dep then [] else dep)"

definition deposits :: "('b, 'd) env \<Rightarrow> 'd dao_params \<Rightarrow> 'd dao_store \<Rightarrow> string \<Rightarrow> int" where
  "deposits E params s d =
     (\<Sum>x\<leftarrow>kv_walk (proposals s). if active (snd x) then amount_of d (owed E params (snd x)) else 0)"

lemma amount_of_Nil [simp]: "amount_of d [] = 0"
  by (simp add: amount_of_def)

section \<open>The bank\<close>

text \<open>
  The documented behaviour of the bank keeper: \<open>held d b\<close> is the balance of the account of \<^verbatim>\<open>x/dao\<close> in the
  denomination \<open>d\<close>, \<open>dao_addr\<close> is its address and \<open>blocked\<close> are the addresses that may not receive coins.
  Valid coins have positive amounts. A payment out of the account or a burn is only described where
  the balance is sufficient; then it goes through, unless the recipient is blocked. A payment to the
  account itself takes away no more than the payment.
\<close>

definition bank_laws :: "('b, 'd) env \<Rightarrow> bytes \<Rightarrow> (bytes \<Rightarrow> bool) \<Rightarrow> (string \<Rightarrow> 'b \<Rightarrow> int) \<Rightarrow> bool" where
  "bank_laws E dao_addr blocked held \<longleftrightarrow>
     (\<forall>cs d. coins_validate (coin_lib E) cs = None \<longrightarrow> 0 \<le> amount_of d cs)
   \<and> (\<forall>a cs b b' d. a \<noteq> dao_addr \<longrightarrow> coins_validate (coin_lib E) cs = None \<longrightarrow>
        send_account_to_module (bank E) a DaoModuleName cs b = (Inr (), b') \<longrightarrow> held d b' = held d b + amount_of d cs)
   \<and> (\<forall>a m cs b b' d. a \<noteq> dao_addr \<longrightarrow> m \<noteq> DaoModuleName \<longrightarrow>
        send_account_to_module (bank E) a m cs b = (Inr (), b') \<longrightarrow> held d b' = held d b)
   \<and> (\<forall>m cs b b' d. m \<noteq> DaoModuleName \<longrightarrow> burn_coins (bank E) m cs b = (Inr (), b') \<longrightarrow> held d b' = held d b)
   \<and> (\<forall>cs b r b' d. coins_validate (coin_lib E) cs = None \<longrightarrow> mint_coins (bank E) DaoModuleName cs b = (r, b') \<longrightarrow>
        held d b' = (if is_ok r then held d b + amount_of d cs else held d b))
   \<and> (\<forall>a cs b r b'. coins_validate (coin_lib E) cs = None \<longrightarrow> (\<forall>d. amount_of d cs \<le> held d b) \<longrightarrow>
        send_module_to_account (bank E) DaoModuleName a cs b = (r, b') \<longrightarrow>
        (if blocked a then \<not> is_ok r \<and> (\<forall>d. held d b' = held d b)
         else is_ok r \<and> (\<forall>d. held d b - amount_of d cs \<le> held d b') \<and> (a \<noteq> dao_addr \<longrightarrow> (\<forall>d. held d b' = held d b - amount_of d cs))))
   \<and> (\<forall>cs b r b'. coins_validate (coin_lib E) cs = None \<longrightarrow> (\<forall>d. amount_of d cs \<le> held d b) \<longrightarrow>
        burn_coins (bank E) DaoModuleName cs b = (r, b') \<longrightarrow> is_ok r \<and> (\<forall>d. held d b' = held d b - amount_of d cs))"

lemma bank_lawsD:
  assumes "bank_laws E dao_addr blocked held"
  shows "coins_validate (coin_lib E) cs = None \<Longrightarrow> 0 \<le> amount_of d cs"
    and "a \<noteq> dao_addr \<Longrightarrow> coins_validate (coin_lib E) cs = None \<Longrightarrow>
      send_account_to_module (bank E) a DaoModuleName cs b = (Inr (), b') \<Longrightarrow> held d b' = held d b + amount_of d cs"
    and "a \<noteq> dao_addr \<Longrightarrow> m \<noteq> DaoModuleName \<Longrightarrow>
      send_account_to_module (bank E) a m cs b = (Inr (), b') \<Longrightarrow> held d b' = held d b"
    and "m \<noteq> DaoModuleName \<Longrightarrow> burn_coins (bank E) m cs b = (Inr (), b') \<Longrightarrow> held d b' = held d b"
    and "coins_validate (coin_lib E) cs = None \<Longrightarrow> mint_coins (bank E) DaoModuleName cs b = (r, b') \<Longrightarrow>
      held d b' = (if is_ok r then held d b + amount_of d cs else held d b)"
    and "coins_validate (coin_lib E) cs = None \<Longrightarrow> (\<And>d. amount_of d cs \<le> held d b) \<Longrightarrow>
      send_module_to_account (bank E) DaoModuleName a cs b = (r, b') \<Longrightarrow>
      (if blocked a then \<not> is_ok r \<and> (\<forall>d. held d b' = held d b)
         else is_ok r \<and> (\<forall>d. held d b - amount_of d cs \<le> held d b') \<and> (a \<noteq> dao_addr \<longrightarrow> (\<forall>d. held d b' = held d b - amount_of d cs)))"
    and "coins_validate (coin_lib E) cs = None \<Longrightarrow> (\<And>d. amount_of d cs \<le> held d b) \<Longrightarrow>
      burn_coins (bank E) DaoModuleName cs b = (r, b') \<Longrightarrow> is_ok r \<and> (\<forall>d. held d b' = held d b - amount_of d cs)"
  using assms unfolding bank_laws_def by meson+

text \<open>Accounts outside the module that may receive coins, and proposals that only pay such accounts.\<close>

definition outside :: "bytes \<Rightarrow> (bytes \<Rightarrow> bool) \<Rightarrow> bytes \<Rightarrow> bool" where
  "outside dao_addr blocked a \<longleftrightarrow> a \<noteq> dao_addr \<and> \<not> blocked a"

definition pays_outside :: "('b, 'd) env \<Rightarrow> bytes \<Rightarrow> (bytes \<Rightarrow> bool) \<Rightarrow> proposal \<Rightarrow> bool" where
  "pays_outside E dao_addr blocked p \<longleftrightarrow>
     (case string_to_bytes (addr E) (pr_proposer p) of None \<Rightarrow> False | Some a \<Rightarrow> outside dao_addr blocked a)
   \<and> (case unpack_any (codec E) (pr_content p) of
        Inr (Some (RequestTokens r)) \<Rightarrow> string_to_bytes (addr E) (rt_recipient r) \<noteq> Some dao_addr
      | _ \<Rightarrow> True)"

section \<open>Execution\<close>

text \<open>
  Executing a proposal does not take from what the module held before: the coins that it pays out
  are the ones it has minted.
\<close>

lemma execute_request_tokens_held:
  assumes E: "store_total E" and laws: "bank_laws E dao_addr blocked held" and params: "dao_params_item (dao w) = Some params"
    and valid: "validate_request_tokens E r = None" and nonneg: "\<And>d. 0 \<le> held d (ledger w)"
    and run: "execute_request_tokens E c r p w = (res, w')"
  shows "held d (ledger w) \<le> held d (ledger w')"
    and "string_to_bytes (addr E) (rt_recipient r) \<noteq> Some dao_addr \<Longrightarrow> held d (ledger w') = held d (ledger w)"
proof -
  let ?cs = "rt_amount r"
  have cs: "coins_validate (coin_lib E) ?cs = None" using valid by (auto simp: validate_request_tokens_def split: if_splits)
  note L = bank_lawsD [OF laws]
  have par: "dao_params_get E w = (Inr params, w)" using E params by (simp add: dao_params_get_def read_op_def)
  note eval = execute_request_tokens_def bind_op_def then_op_def of_option_def ret_def try_op_def fail_def run_bank_def
  have "held d (ledger w) \<le> held d (ledger w')
    \<and> (string_to_bytes (addr E) (rt_recipient r) \<noteq> Some dao_addr \<longrightarrow> held d (ledger w') = held d (ledger w))"
  proof (cases "string_to_bytes (addr E) (rt_recipient r)")
    case None
    then show ?thesis using run par by (auto simp: eval)
  next
    case (Some a)
    obtain minted b where mint: "mint_coins (bank E) DaoModuleName ?cs (ledger w) = (minted, b)" by fastforce
    obtain sent b1 where send: "send_module_to_account (bank E) DaoModuleName a ?cs b = (sent, b1)" by fastforce
    obtain burned b2 where burn: "burn_coins (bank E) DaoModuleName ?cs b1 = (burned, b2)" by fastforce
    show ?thesis
    proof (cases minted)
      case (Inl e)
      then have "ledger w' = b" using run par Some mint by (auto simp: eval)
      then show ?thesis using L(5) [OF cs mint] Inl by simp
    next
      case (Inr u)
      have hb: "held x b = held x (ledger w) + amount_of x ?cs" for x using L(5) [OF cs mint] Inr by simp
      then have enough: "amount_of x ?cs \<le> held x b" for x using nonneg [of x] by simp
      note s = L(6) [OF cs enough send]
      show ?thesis
      proof (cases sent)
        case err: (Inl e)
        then have same: "held x b1 = held x b" for x using s by (simp split: if_splits)
        have "ledger w' = b2" using run par Some mint send burn Inr err by (auto simp: eval)
        moreover have "held d b2 = held d b1 - amount_of d ?cs"
          using L(7) [OF cs _ burn] enough same by simp
        ultimately show ?thesis using same hb by simp
      next
        case ok: (Inr v)
        obtain v' where "for_op ?cs (grant_lot E c params r a (pr_id p)) (w\<lparr>ledger := b1\<rparr>) = (Inr (), v')" "ledger v' = b1"
          using grant_lots_run [OF E, of ?cs c params r a "pr_id p" "w\<lparr>ledger := b1\<rparr>"] by auto
        then have "ledger w' = b1" using run par Some mint send Inr ok by (auto simp: eval)
        moreover have "held d b - amount_of d ?cs \<le> held d b1" "a \<noteq> dao_addr \<Longrightarrow> held d b1 = held d b - amount_of d ?cs"
            using s ok by (simp_all split: if_splits)
          ultimately show ?thesis using hb [of d] Some by simp
      qed
    qed
  qed
  then show "held d (ledger w) \<le> held d (ledger w')"
    and "string_to_bytes (addr E) (rt_recipient r) \<noteq> Some dao_addr \<Longrightarrow> held d (ledger w') = held d (ledger w)" by auto
qed

lemma execute_proposal_held:
  assumes E: "store_total E" and laws: "bank_laws E dao_addr blocked held" and params: "dao_params_item (dao w) = Some params"
    and content: "unpack_any (codec E) (pr_content p) = Inr (Some ct)" "validate_content E ct = None"
    and nonneg: "\<And>d. 0 \<le> held d (ledger w)" and run: "execute_proposal E (dns_keeper_of E) c p w = (res, w')"
  shows "held d (ledger w) \<le> held d (ledger w')"
    and "pays_outside E dao_addr blocked p \<Longrightarrow> held d (ledger w') = held d (ledger w)"
proof -
  have "held d (ledger w) \<le> held d (ledger w') \<and> (pays_outside E dao_addr blocked p \<longrightarrow> held d (ledger w') = held d (ledger w))"
  proof (cases ct)
    case (AddTld t)
    then have "ledger w' = ledger w"
      using run content(1) add_permitted_tld_ledger [of E "at_tld t" w]
      by (simp add: execute_proposal_def op_defs execute_add_tld_def)
    then show ?thesis by simp
  next
    case (RequestTokens r)
    then have "execute_request_tokens E c r p w = (res, w')" "validate_request_tokens E r = None"
      using run content by (simp_all add: execute_proposal_def op_defs validate_content_def split: prod.splits)
    from execute_request_tokens_held [OF E laws params this(2) nonneg this(1)] content(1) RequestTokens show ?thesis
      by (simp add: pays_outside_def)
  qed
  then show "held d (ledger w) \<le> held d (ledger w')"
    and "pays_outside E dao_addr blocked p \<Longrightarrow> held d (ledger w') = held d (ledger w)" by auto
qed


section \<open>Settling one proposal\<close>

text \<open>A payment of what is owed that the balance covers.\<close>

lemma burn_deposit_held:
  assumes laws: "bank_laws E dao_addr blocked held" and dep: "coins_validate (coin_lib E) dep = None"
    and enough: "\<And>d. amount_of d (if coins_is_zero (coin_lib E) dep then [] else dep) \<le> held d (ledger w)"
  shows "held d (ledger (snd (burn_deposit E dep w)))
    = held d (ledger w) - amount_of d (if coins_is_zero (coin_lib E) dep then [] else dep)"
proof (cases "coins_is_zero (coin_lib E) dep")
  case True
  then show ?thesis by (simp add: burn_deposit_ledger)
next
  case False
  obtain r b where burn: "burn_coins (bank E) DaoModuleName dep (ledger w) = (r, b)" by fastforce
  from bank_lawsD(7) [OF laws dep _ burn] enough False burn show ?thesis by (simp add: burn_deposit_ledger)
qed

lemma refund_deposit_held:
  assumes laws: "bank_laws E dao_addr blocked held" and dep: "coins_validate (coin_lib E) dep = None"
    and enough: "\<And>d. amount_of d (if coins_is_zero (coin_lib E) dep then [] else dep) \<le> held d (ledger w)"
  shows "held d (ledger w) - amount_of d (if coins_is_zero (coin_lib E) dep then [] else dep)
      \<le> held d (ledger (snd (refund_deposit E s dep w)))"
    and "string_to_bytes (addr E) s = Some a \<Longrightarrow> outside dao_addr blocked a \<Longrightarrow> held d (ledger (snd (refund_deposit E s dep w)))
      = held d (ledger w) - amount_of d (if coins_is_zero (coin_lib E) dep then [] else dep)"
proof -
  have pos: "0 \<le> amount_of x dep" for x by (rule bank_lawsD(1) [OF laws dep])
  have send: "held x (ledger w) - amount_of x dep \<le> held x (snd (send_module_to_account (bank E) DaoModuleName a' dep (ledger w)))"
    "outside dao_addr blocked a' \<Longrightarrow>
      held x (snd (send_module_to_account (bank E) DaoModuleName a' dep (ledger w))) = held x (ledger w) - amount_of x dep"
    if "\<not> coins_is_zero (coin_lib E) dep" for a' x
  proof -
    obtain r b where "send_module_to_account (bank E) DaoModuleName a' dep (ledger w) = (r, b)" by fastforce
    with bank_lawsD(6) [OF laws dep _ this] enough that pos show
      "held x (ledger w) - amount_of x dep \<le> held x (snd (send_module_to_account (bank E) DaoModuleName a' dep (ledger w)))"
      "outside dao_addr blocked a' \<Longrightarrow>
        held x (snd (send_module_to_account (bank E) DaoModuleName a' dep (ledger w))) = held x (ledger w) - amount_of x dep"
      by (auto simp: outside_def split: if_splits)
  qed
  show "held d (ledger w) - amount_of d (if coins_is_zero (coin_lib E) dep then [] else dep)
      \<le> held d (ledger (snd (refund_deposit E s dep w)))"
    using send(1) pos [of d] by (auto simp: refund_deposit_ledger split: option.splits)
  show "held d (ledger (snd (refund_deposit E s dep w)))
      = held d (ledger w) - amount_of d (if coins_is_zero (coin_lib E) dep then [] else dep)"
    if "string_to_bytes (addr E) s = Some a" "outside dao_addr blocked a"
    using send(2) [OF _ that(2)] that(1) by (simp add: refund_deposit_ledger)
qed

text \<open>
  Closing a proposal takes at most what is owed for it out of the account, and exactly that if it pays
  accounts outside the module only.
\<close>

lemma process_proposal_held:
  assumes E: "store_total E" and laws: "bank_laws E dao_addr blocked held" and params: "dao_params_item (dao w) = Some params"
    and dep: "coins_validate (coin_lib E) (deposit_to_handle E params p) = None" and ok: "proposal_ok E s p"
    and enough: "\<And>d. amount_of d (owed E params p) \<le> held d (ledger w)"
    and run: "process_proposal E (dns_keeper_of E) c params p w = (r, w')"
  shows "held d (ledger w) - amount_of d (owed E params p) \<le> held d (ledger w')"
    and "pays_outside E dao_addr blocked p \<Longrightarrow> held d (ledger w') = held d (ledger w) - amount_of d (owed E params p)"
proof -
  define x where "x = check_content E (tallied E params p (Inr (votes_of (dao w) (pr_id p))))"
  let ?dep = "deposit_to_handle E params p"
  obtain a ct where content: "pr_content p = Some a" "unpack_any (codec E) (Some a) = Inr (Some ct)" "validate_content E ct = None"
    using ok by (auto simp: proposal_ok_def)
  have x: "pr_status x = decision E params (votes_of (dao w) (pr_id p)) p" "pr_proposer x = pr_proposer p" "pr_content x = pr_content p"
    unfolding x_def check_content_tallied by (simp_all add: Let_def)
  have ow: "(if coins_is_zero (coin_lib E) ?dep then [] else ?dep) = owed E params p" by (simp add: owed_def Let_def)
  have nonneg: "0 \<le> held y (ledger w)" for y
  proof -
    have "0 \<le> amount_of y (owed E params p)" using bank_lawsD(1) [OF laws dep] by (simp add: owed_def Let_def)
    with enough show ?thesis by (rule order_trans [rotated])
  qed
  obtain p' w1 where s: "settle E (dns_keeper_of E) c ?dep x w = (Inr p', w1)" and led: "ledger w' = ledger w1"
    by (rule process_proposal_settled [OF E, of "dns_keeper_of E" c params p w]) (simp add: run x_def)
  have "held d (ledger w) - amount_of d (owed E params p) \<le> held d (ledger w1)
    \<and> (pays_outside E dao_addr blocked p \<longrightarrow> held d (ledger w1) = held d (ledger w) - amount_of d (owed E params p))"
  proof (cases "pr_status x = PROPOSAL_STATUS_PASSED")
    case False
    then have st: "pr_status x = PROPOSAL_STATUS_REJECTED \<or> pr_status x = PROPOSAL_STATUS_FAILED"
      using decision_cases [of E params "votes_of (dao w) (pr_id p)" p] x(1) by auto
    have "w1 = snd (burn_deposit E ?dep w)"
      using s settle_not_passed [OF st, of E "dns_keeper_of E" c ?dep w] by simp
    with burn_deposit_held [OF laws dep, of w d] enough show ?thesis by (simp add: ow)
  next
    case True
    obtain e v where ex: "execute_proposal E (dns_keeper_of E) c x w = (e, v)" by fastforce
    have pays: "pays_outside E dao_addr blocked x = pays_outside E dao_addr blocked p" by (simp add: pays_outside_def x)
    have v: "held y (ledger w) \<le> held y (ledger v)" "pays_outside E dao_addr blocked p \<Longrightarrow> held y (ledger v) = held y (ledger w)" for y
      using execute_proposal_held [OF E laws params _ content(3) nonneg ex] content x(3) by (simp_all add: pays)
    have enough': "amount_of y (owed E params p) \<le> held y (ledger v)" for y
      using enough [of y] v(1) [of y] by simp
    have w1: "w1 = (if is_ok e then snd (refund_deposit E (pr_proposer p) ?dep v) else snd (burn_deposit E ?dep v))"
      using s settle_passed [OF True ex, of ?dep] x(2) by (auto split: if_splits)
    show ?thesis
    proof (cases "is_ok e")
      case False
      then show ?thesis
        using w1 burn_deposit_held [OF laws dep, of v d] enough' v(1) [of d] v(2) [of d] by (simp add: ow)
    next
      case True
      have "held d (ledger v) - amount_of d (owed E params p) \<le> held d (ledger w1)"
        using w1 True refund_deposit_held(1) [OF laws dep, of v d "pr_proposer p"] enough' by (simp add: ow)
      moreover have "held d (ledger w1) = held d (ledger v) - amount_of d (owed E params p)" if out: "pays_outside E dao_addr blocked p"
      proof -
        obtain b where "string_to_bytes (addr E) (pr_proposer p) = Some b" "outside dao_addr blocked b"
          using out by (auto simp: pays_outside_def split: option.splits)
        then show ?thesis
          using w1 True refund_deposit_held(2) [OF laws dep, of v "pr_proposer p" b d] enough' by (simp add: ow)
      qed
      ultimately show ?thesis using v [of d] by auto
    qed
  qed
  then show "held d (ledger w) - amount_of d (owed E params p) \<le> held d (ledger w')"
    and "pays_outside E dao_addr blocked p \<Longrightarrow> held d (ledger w') = held d (ledger w) - amount_of d (owed E params p)"
    by (auto simp: led)
qed

section \<open>The surplus\<close>

text \<open>What the module holds beyond the deposits of the open proposals.\<close>

definition surplus :: "('b, 'd) env \<Rightarrow> (string \<Rightarrow> 'b \<Rightarrow> int) \<Rightarrow> 'd dao_params \<Rightarrow> string \<Rightarrow> ('b, 'd) world \<Rightarrow> int" where
  "surplus E held params d w = held d (ledger w) - deposits E params (dao w) d"

definition valid_deposits :: "('b, 'd) env \<Rightarrow> 'd dao_params \<Rightarrow> bool" where
  "valid_deposits E params \<longleftrightarrow> coins_validate (coin_lib E) (add_tld_proposal_cost params) = None
     \<and> coins_validate (coin_lib E) (proposal_submission_deposit params) = None"

lemma valid_deposits_params: "validate_dao_params E params = None \<Longrightarrow> valid_deposits E params"
  by (auto simp: validate_dao_params_def valid_deposits_def split: if_splits)

lemma valid_deposit_to_handle:
  "valid_deposits E params \<Longrightarrow> coins_validate (coin_lib E) (deposit_to_handle E params p) = None"
  by (simp add: valid_deposits_def deposit_to_handle_def split: sum.splits option.splits proposal_content.splits)

lemma owed_nonneg:
  assumes "bank_laws E dao_addr blocked held" "valid_deposits E params"
  shows "0 \<le> amount_of d (owed E params p)"
  using bank_lawsD(1) [OF assms(1) valid_deposit_to_handle [OF assms(2)]] by (simp add: owed_def Let_def)

lemma deposits_cong: "proposals s = proposals t \<Longrightarrow> deposits E params s d = deposits E params t d"
  by (simp add: deposits_def)

lemma deposits_insert:
  assumes "kv_ok (proposals s)" "kv_get (proposals s) i = None" "proposals t = kv_set i p (proposals s)" "active p"
  shows "deposits E params t d = deposits E params s d + amount_of d (owed E params p)"
  unfolding deposits_def assms(3) by (subst kv.sum_put_new [OF assms(1,2)]) (simp add: assms(4))

lemma deposits_close:
  assumes "kv_ok (proposals s)" "kv_get (proposals s) i = Some p" "active p" "proposals t = kv_set i q (proposals s)" "\<not> active q"
  shows "deposits E params t d = deposits E params s d - amount_of d (owed E params p)"
  using kv.sum_put_over [OF assms(1,2), of "\<lambda>x. if active (snd x) then amount_of d (owed E params (snd x)) else 0" q] assms(3,5)
  by (simp add: deposits_def assms(4))

text \<open>The deposit of one open proposal is part of the sum.\<close>

lemma owed_le_deposits:
  assumes laws: "bank_laws E dao_addr blocked held" and valid: "valid_deposits E params"
    and ok: "kv_ok (proposals s)" and p: "kv_get (proposals s) i = Some p" "active p"
  shows "amount_of d (owed E params p) \<le> deposits E params s d"
proof -
  let ?f = "\<lambda>x. if active (snd x) then amount_of d (owed E params (snd x)) else 0 :: int"
  have "(i, p) \<in> set (kv_walk (proposals s))" using p(1) ok by (simp add: kv_walk_get)
  then have "?f (i, p) \<in> set (map ?f (kv_walk (proposals s)))" unfolding set_map by (rule imageI)
  moreover have "\<And>y. y \<in> set (map ?f (kv_walk (proposals s))) \<Longrightarrow> 0 \<le> y" using owed_nonneg [OF laws valid] by auto
  ultimately have "?f (i, p) \<le> sum_list (map ?f (kv_walk (proposals s)))"
    by (rule member_le_sum_list)
  then show ?thesis using p(2) by (simp add: deposits_def)
qed

section \<open>The end of a block\<close>

text \<open>
  One round of the loop: the proposal leaves the sum, and the balance falls by no more than what was
  owed for it.
\<close>

lemma process_proposal_surplus:
  assumes E: "store_total E" and laws: "bank_laws E dao_addr blocked held" and valid: "valid_deposits E params"
    and params: "dao_params_item (dao v) = Some params" and kv: "kv_ok (proposals (dao v))"
    and p: "kv_get (proposals (dao v)) (pr_id p) = Some p" "active p" "proposal_ok E s p"
    and covered: "\<And>d. 0 \<le> surplus E held params d v"
    and run: "process_proposal E (dns_keeper_of E) c params p v = (Inr (), v')"
  shows "surplus E held params d v \<le> surplus E held params d v'"
    and "pays_outside E dao_addr blocked p \<Longrightarrow> surplus E held params d v' = surplus E held params d v"
    and "deposits E params (dao v') d = deposits E params (dao v) d - amount_of d (owed E params p)"
proof -
  have enough: "amount_of y (owed E params p) \<le> held y (ledger v)" for y
    using owed_le_deposits [OF laws valid kv p(1,2), of y] covered [of y] by (simp add: surplus_def)
  obtain ex where props: "proposals (dao v') = kv_set (pr_id p) (closed E params (votes_of (dao v) (pr_id p)) p ex) (proposals (dao v))"
    using dk.process_proposal_run [OF E, of E c params p v] run by (auto simp: keeper_record_of)
  have "\<not> active (closed E params (votes_of (dao v) (pr_id p)) p ex)"
    using final_status_cases [of E params "votes_of (dao v) (pr_id p)" p ex] by (auto simp: active_def)
  note dep = deposits_close [OF kv p(1,2) props this]
  show "deposits E params (dao v') d = deposits E params (dao v) d - amount_of d (owed E params p)" by (rule dep)
  note h = process_proposal_held [OF E laws params valid_deposit_to_handle [OF valid] p(3) enough run]
  show "surplus E held params d v \<le> surplus E held params d v'"
    using h(1) [of d] by (simp add: surplus_def dep)
  show "surplus E held params d v' = surplus E held params d v" if "pays_outside E dao_addr blocked p"
    using h(2) [OF that, of d] by (simp add: surplus_def dep)
qed

text \<open>The whole loop.\<close>

lemma end_block_surplus:
  assumes inv: "dao_inv E w" and laws: "bank_laws E dao_addr blocked held" and valid: "valid_deposits E params"
    and params: "dao_params_item (dao w) = Some params" and covered: "\<And>d. 0 \<le> surplus E held params d w"
    and run: "end_block E c w = (Inr r, w')"
  defines "ps \<equiv> filter (voting_over (block_height_u64 c)) (map snd (kv_walk (proposals (dao w))))"
  shows "surplus E held params d w \<le> surplus E held params d w'"
    and "\<forall>p \<in> set ps. pays_outside E dao_addr blocked p \<Longrightarrow> surplus E held params d w' = surplus E held params d w"
    and "deposits E params (dao w') d = deposits E params (dao w) d - (\<Sum>p\<leftarrow>ps. amount_of d (owed E params p))"
proof -
  have E: "store_total E" and ok: "dao_ok E (dao w)" using inv by (auto simp: dao_inv_def)
  note kv = dao_okD(1) [OF ok]
  have mem: "kv_get (proposals (dao w)) (pr_id p) = Some p \<and> active p \<and> proposal_ok E (dao w) p" if "p \<in> set ps" for p
  proof -
    have "p \<in> snd ` set (kv_walk (proposals (dao w)))" using that by (simp add: ps_def)
    then obtain i where "(i, p) \<in> set (kv_walk (proposals (dao w)))" by fastforce
    then have i: "kv_get (proposals (dao w)) i = Some p" by (simp add: kv_walk_get [OF kv])
    with dao_okD(4) [OF ok i] that show ?thesis by (auto simp: ps_def voting_over_def active_def)
  qed
  have "map pr_id (map snd (kv_walk (proposals (dao w)))) = map fst (kv_walk (proposals (dao w)))"
    using dao_okD(4) [OF ok] kv by (auto simp: kv_walk_get)
  then have distinct: "distinct (map pr_id ps)"
    unfolding ps_def using kv.walk_distinct [OF kv] by (intro distinct_map_filter) (simp only:)
  let ?P = "\<lambda>ys v. (\<exists>ex. closed_upto E params (dao w) (dns w) ys ex v)
    \<and> (\<forall>d. surplus E held params d w \<le> surplus E held params d v)
    \<and> ((\<forall>p \<in> set ys. pays_outside E dao_addr blocked p) \<longrightarrow> (\<forall>d. surplus E held params d v = surplus E held params d w))
    \<and> (\<forall>d. deposits E params (dao v) d = deposits E params (dao w) d - (\<Sum>p\<leftarrow>ys. amount_of d (owed E params p)))"
  have "\<exists>v. for_op ps (process_proposal E (dns_keeper_of E) c params) w = (Inr (), v) \<and> ?P ps v"
  proof (rule for_op_steps)
    fix ys p zs v
    assume split: "ps = ys @ p # zs" and P: "?P ys v"
    then obtain ex where upto: "closed_upto E params (dao w) (dns w) ys ex v" by blast
    have fresh: "pr_id p \<notin> pr_id ` set ys" using distinct by (simp add: split)
    have p: "kv_get (proposals (dao w)) (pr_id p) = Some p" "active p" "proposal_ok E (dao w) p"
      using mem [of p] by (simp_all add: split)
    have v: "dao_params_item (dao v) = Some params" "kv_ok (proposals (dao v))" "kv_get (proposals (dao v)) (pr_id p) = Some p"
      using upto fresh p(1) params kv by (simp_all add: closed_upto_def)
    have cov: "0 \<le> surplus E held params d v" for d
      using P covered [of d] by (meson order_trans)
    obtain w1 ex' where run1: "process_proposal E (dns_keeper_of E) c params p v = (Inr (), w1)"
      and upto1: "closed_upto E params (dao w) (dns w) (ys @ [p]) ex' w1"
      using dk.closed_upto_step [OF E upto fresh, of E c] unfolding keeper_record_of by blast
    note s = process_proposal_surplus [OF E laws valid v(1,2,3) p(2,3) cov run1]
    have "?P (ys @ [p]) w1"
    proof (intro conjI allI impI exI)
      show "closed_upto E params (dao w) (dns w) (ys @ [p]) ex' w1" by (rule upto1)
    next
      fix d
      show "surplus E held params d w \<le> surplus E held params d w1" using P s(1) [of d] by (meson order_trans)
      show "deposits E params (dao w1) d = deposits E params (dao w) d - (\<Sum>p\<leftarrow>ys @ [p]. amount_of d (owed E params p))"
        using P s(3) [of d] by simp
      show "surplus E held params d w1 = surplus E held params d w" if "\<forall>p \<in> set (ys @ [p]). pays_outside E dao_addr blocked p"
        using P s(2) [of d] that by simp
    qed
    with run1 show "\<exists>v'. process_proposal E (dns_keeper_of E) c params p v = (Inr (), v') \<and> ?P (ys @ [p]) v'" by blast
  qed (simp add: closed_upto_def only_tlds_def)
  moreover have "end_block E c w = for_op ps (process_proposal E (dns_keeper_of E) c params) w"
    using E params by (simp add: end_block_def end_blocker_def bind_op_def dao_params_get_def read_op_def
        iterate_proposals_def ret_def ps_def)
  ultimately have "?P ps w'" using run by auto
  then show "surplus E held params d w \<le> surplus E held params d w'"
    and "\<forall>p \<in> set ps. pays_outside E dao_addr blocked p \<Longrightarrow> surplus E held params d w' = surplus E held params d w"
    and "deposits E params (dao w') d = deposits E params (dao w) d - (\<Sum>p\<leftarrow>ps. amount_of d (owed E params p))"
    by auto
qed

end
