(* ===== verification/Custody_Properties.thy ===== *)
theory Custody_Properties
  imports Dao_Custody Chain_Properties
begin

text \<open>
  The custody of the deposits over every run of the application: the steps that the surplus of the
  module account survives, and the properties that follow, with the hypotheses about the bank.
\<close>

section \<open>Transactions\<close>

text \<open>
  The account that a transaction takes coins from. The bank refuses no account here, so the
  hypothesis of the runs is that nobody signs for the account of the module: it has no key.
\<close>

definition tx_payer :: "('b, 'd) env \<Rightarrow> tx \<Rightarrow> bytes option" where
  "tx_payer E t = (case t of
     DnsTx (CreateDomain m) \<Rightarrow> string_to_bytes (addr E) (cd_creator m)
   | DaoTx (SubmitProposal m) \<Rightarrow> string_to_bytes (addr E) (sp_proposer m)
   | _ \<Rightarrow> None)"

lemma surplus_frame:
  assumes "proposals (dao w') = proposals (dao w)" "held d (ledger w') = held d (ledger w)"
  shows "surplus E held params d w' = surplus E held params d w"
  using assms(2) deposits_cong [OF assms(1), of E params d] by (simp add: surplus_def)

lemma create_domain_held:
  assumes laws: "bank_laws E dao_addr blocked held" and payer: "string_to_bytes (addr E) (cd_creator m) \<noteq> Some dao_addr"
    and run: "create_domain E c m w = (Inr i, w')"
  shows "held d (ledger w') = held d (ledger w)"
proof -
  have other: "ModuleName \<noteq> DaoModuleName" by (simp add: ModuleName_def DaoModuleName_def)
  obtain ca and ps :: dns_params where ca: "string_to_bytes (addr E) (cd_creator m) = Some ca"
    and fee: "if coins_is_zero (coin_lib E) (domain_creation_fee ps) then ledger w' = ledger w
            else \<exists>b. send_account_to_module (bank E) ca ModuleName (domain_creation_fee ps) (ledger w) = (Inr (), b)
              \<and> burn_coins (bank E) ModuleName (domain_creation_fee ps) b = (Inr (), ledger w')"
    using create_domain_success(8) [OF run] by blast
  show ?thesis
  proof (cases "coins_is_zero (coin_lib E) (domain_creation_fee ps)")
    case True
    with fee show ?thesis by simp
  next
    case False
    then obtain b where send: "send_account_to_module (bank E) ca ModuleName (domain_creation_fee ps) (ledger w) = (Inr (), b)"
      and burn: "burn_coins (bank E) ModuleName (domain_creation_fee ps) b = (Inr (), ledger w')"
      using fee by auto
    have "ca \<noteq> dao_addr" using ca payer by simp
    from bank_lawsD(3) [OF laws this other send] bank_lawsD(4) [OF laws other burn] show ?thesis by simp
  qed
qed

lemma dns_handle_surplus:
  assumes laws: "bank_laws E dao_addr blocked held" and payer: "tx_payer E (DnsTx m) \<noteq> Some dao_addr"
    and run: "dns_handle E c m w = (Inr r, w')"
  shows "surplus E held params d w' = surplus E held params d w"
proof (rule surplus_frame)
  show "proposals (dao w') = proposals (dao w)" using dns_handle_frame(1) [OF run] by simp
  show "held d (ledger w') = held d (ledger w)"
  proof (cases m)
    case (CreateDomain x)
    then obtain i where "create_domain E c x w = (Inr i, w')" using run by (auto simp: dns_handle_def op_success)
    with create_domain_held [OF laws] payer CreateDomain show ?thesis by (simp add: tx_payer_def)
  qed (use run in \<open>auto simp: dns_handle_def update_params_Inr elim!: update_domain_success
      delete_domain_success heartbeat_domain_success transfer_domain_success\<close>)
qed

lemma submit_proposal_surplus:
  assumes laws: "bank_laws E dao_addr blocked held" and valid: "valid_deposits E params" and ok: "dao_ok E (dao w)"
    and payer: "string_to_bytes (addr E) (sp_proposer m) \<noteq> Some dao_addr"
    and params: "dao_params_item (dao w) = Some params"
    and run: "submit_proposal E (dns_keeper_of E) c m w = (Inr i, w')"
  shows "surplus E held params d w' = surplus E held params d w"
  using run
proof (rule submit_proposal_success_dns)
  fix proposer a ct ps
  assume f: "string_to_bytes (addr E) (sp_proposer m) = Some proposer" "sp_content m = Some a"
      "unpack_any (codec E) (Some a) = Inr (Some ct)"
    and ps: "dao_params_item (dao w) = Some ps" and i: "i = proposal_seq (dao w)"
    and dao: "dao w' = (dao w)\<lparr>proposal_seq := i + 1, proposals := kv_set i
       (new_proposal c ps m i (get_supply (bank E) (voting_token_denom ps) (ledger w'))) (proposals (dao w))\<rparr>"
    and pay: "if coins_is_zero (coin_lib E) (required_deposit ps ct) then ledger w' = ledger w
     else send_account_to_module (bank E) proposer DaoModuleName (required_deposit ps ct) (ledger w) = (Inr (), ledger w')"
  define p where "p = new_proposal c ps m i (get_supply (bank E) (voting_token_denom ps) (ledger w'))"
  have same: "ps = params" using ps params by simp
  have p: "pr_content p = Some a" "active p" using f(2) by (simp_all add: p_def)
  have dep: "deposit_to_handle E params p = required_deposit params ct"
    using f(3) p(1) by (cases ct) (simp_all add: deposit_to_handle_def required_deposit_def)
  note good = valid_deposit_to_handle [OF valid, of p, unfolded dep]
  have fresh: "kv_get (proposals (dao w)) i = None"
    using dao_okD(4) [OF ok, of i] i by (cases "kv_get (proposals (dao w)) i") auto
  have "deposits E params (dao w') d = deposits E params (dao w) d + amount_of d (owed E params p)"
    using dao by (intro deposits_insert [OF dao_okD(1) [OF ok] fresh _ p(2)]) (simp add: p_def)
  moreover have "held d (ledger w') = held d (ledger w) + amount_of d (owed E params p)"
    using pay bank_lawsD(2) [OF laws _ good] payer f(1) by (auto simp: owed_def dep same split: if_splits)
  ultimately show ?thesis by (simp add: surplus_def)
qed

lemma run_tx_surplus:
  assumes laws: "bank_laws E dao_addr blocked held" and valid: "valid_deposits E params" and inv: "chain_inv E w"
    and payer: "tx_payer E t \<noteq> Some dao_addr" and params: "dao_params_item (dao w) = Some params"
    and run: "run_tx E c t w = (Inr r, w')"
  shows "surplus E held params d w' = surplus E held params d w" and "dao_params_item (dao w') = Some params"
proof -
  have ok: "dao_ok E (dao w)" using inv by (simp add: chain_inv_def dao_inv_def)
  have "surplus E held params d w' = surplus E held params d w \<and> dao_params_item (dao w') = Some params"
  proof (cases t)
    case (DnsTx m)
    then have h: "dns_handle E c m w = (Inr r, w')" using run by (simp add: run_tx_def run_dns_msg_Inr)
    from dns_handle_surplus [OF laws _ h] dns_handle_frame(1) [OF h] payer params DnsTx show ?thesis by simp
  next
    case (DaoTx m)
    then have h: "dao_handle E (dns_keeper_of E) c m w = (Inr r, w')" using run by (simp add: run_tx_def)
    have par: "dao_params_item (dao w') = Some params" using h params by (cases rule: dao_handle_cases) simp_all
    show ?thesis
    proof (cases m)
      case (SubmitProposal x)
      then obtain i where "submit_proposal E (dns_keeper_of E) c x w = (Inr i, w')"
        using h by (auto simp: dao_handle_def op_success)
      moreover have "string_to_bytes (addr E) (sp_proposer x) \<noteq> Some dao_addr"
        using payer DaoTx SubmitProposal by (simp add: tx_payer_def)
      ultimately show ?thesis using submit_proposal_surplus [OF laws valid ok _ params] par by blast
    next
      case (Vote x)
      then have "vote_on_proposal E c x w = (Inr r, w')" using h by (simp add: dao_handle_def)
      then have "proposals (dao w') = proposals (dao w) \<and> ledger w' = ledger w"
        by (rule vote_on_proposal_success) simp
      then have "surplus E held params d w' = surplus E held params d w" by (intro surplus_frame) simp_all
      with par show ?thesis by simp
    qed
  qed
  then show "surplus E held params d w' = surplus E held params d w" and "dao_params_item (dao w') = Some params" by auto
qed

section \<open>Runs\<close>

text \<open>
  The steps of the chain in which nobody else spends from the account of the module: no transaction is
  signed for it, and the rest of the application takes nothing out of it.
\<close>

inductive fair_step :: "('b, 'd) env \<Rightarrow> bytes \<Rightarrow> (string \<Rightarrow> 'b \<Rightarrow> int) \<Rightarrow> ('b, 'd) chain \<Rightarrow> ('b, 'd) chain \<Rightarrow> bool"
  for E dao_addr held where
  Deliver: "tx_payer E t \<noteq> Some dao_addr \<Longrightarrow> fair_step E dao_addr held (c, w) (c, deliver (run_tx E c t) w)"
| Others: "(\<And>d. held d (ledger w) \<le> held d b) \<Longrightarrow> fair_step E dao_addr held (c, w) (c, w\<lparr>ledger := b\<rparr>)"
| EndBlock: "end_block E c w = (Inr (), w') \<Longrightarrow> block_height c' = block_height c + 1 \<Longrightarrow> block_time c \<le> block_time c'
    \<Longrightarrow> fair_step E dao_addr held (c, w) (c', w')"

inductive_cases fair_stepE: "fair_step E dao_addr held (c, w) (c', w')"

inductive fair_run :: "('b, 'd) env \<Rightarrow> bytes \<Rightarrow> (string \<Rightarrow> 'b \<Rightarrow> int) \<Rightarrow> nat \<Rightarrow> ('b, 'd) chain \<Rightarrow> ('b, 'd) chain \<Rightarrow> bool"
  for E dao_addr held where
  fair_refl: "fair_run E dao_addr held 0 s s"
| fair_more: "fair_run E dao_addr held n s t \<Longrightarrow> fair_step E dao_addr held t u \<Longrightarrow> fair_run E dao_addr held (Suc n) s u"

lemma fair_step_chain_step: "fair_step E dao_addr held s t \<Longrightarrow> chain_step E s t"
  by (induction rule: fair_step.induct) (auto intro: chain_step.intros)

text \<open>Each of these steps keeps the surplus.\<close>

lemma fair_step_surplus:
  assumes laws: "bank_laws E dao_addr blocked held" and valid: "valid_deposits E params" and inv: "chain_inv E w"
    and params: "dao_params_item (dao w) = Some params" and covered: "\<And>d. 0 \<le> surplus E held params d w"
    and step: "fair_step E dao_addr held (c, w) (c', w')"
  shows "surplus E held params d w \<le> surplus E held params d w' \<and> dao_params_item (dao w') = Some params"
  using step
proof (rule fair_stepE)
  fix t
  assume "c' = c" "w' = deliver (run_tx E c t) w" "tx_payer E t \<noteq> Some dao_addr"
  with run_tx_surplus [OF laws valid inv _ params] params show ?thesis
    by (auto intro: deliver_cases)
next
  fix b
  assume "w' = w\<lparr>ledger := b\<rparr>" "\<And>d. held d (ledger w) \<le> held d b"
  with params show ?thesis by (simp add: surplus_def)
next
  assume run: "end_block E c w = (Inr (), w')"
  have dao: "dao_inv E w" using inv by (simp add: chain_inv_def)
  have "dao_params_item (dao w') = Some params"
    using dao run by (rule end_block_effect) (use params in simp)
  with end_block_surplus(1) [OF dao laws valid params covered run] show ?thesis by simp
qed

lemma fair_run_surplus:
  assumes laws: "bank_laws E dao_addr blocked held" and valid: "valid_deposits E params" and ul: "lower_laws (unicode_lower E)"
    and run: "fair_run E dao_addr held n s t"
    and inv: "chain_inv E (snd s)" "room (n + k) (snd s)" "dao_params_item (dao (snd s)) = Some params"
    and covered: "\<And>d. 0 \<le> surplus E held params d (snd s)"
  shows "chain_inv E (snd t) \<and> room k (snd t) \<and> dao_params_item (dao (snd t)) = Some params
    \<and> (\<forall>d. 0 \<le> surplus E held params d (snd t))"
  using run inv covered
proof (induction arbitrary: k)
  case (fair_more n s t u)
  obtain c w c' w' where tu: "t = (c, w)" "u = (c', w')" by (cases t, cases u)
  have t: "chain_inv E w" "room (Suc k) w" "dao_params_item (dao w) = Some params" "\<And>d. 0 \<le> surplus E held params d w"
    using fair_more.IH [of "Suc k"] fair_more.prems by (simp_all add: tu)
  have step: "fair_step E dao_addr held (c, w) (c', w')" using fair_more.hyps(2) tu by simp
  have "chain_inv E w' \<and> room k w'" by (rule chain_step_inv [OF ul fair_step_chain_step [OF step] t(1,2)])
  moreover have "0 \<le> surplus E held params d w' \<and> dao_params_item (dao w') = Some params" for d
    using fair_step_surplus [OF laws valid t(1,3,4) step, of d] t(4) [of d] by simp
  ultimately show ?case by (simp add: tu)
qed simp

section \<open>The example bank\<close>

definition ex_held :: "string \<Rightarrow> ex_ledger \<Rightarrow> int" where
  "ex_held d b = ex_balance (ex_module DaoModuleName) d b"

lemma ex_balance_set [simp]:
  "ex_balance a d (kv_set (a', d') n b) = (if a = a' \<and> d = d' then n else ex_balance a d b)"
  by (simp add: ex_balance_def)

lemma amount_of_Cons [simp]: "amount_of d (x # cs) = (if coin_denom x = d then coin_amount x else 0) + amount_of d cs"
  by (simp add: amount_of_def)

lemma ex_credit_balance [simp]:
  "ex_balance a d (ex_credit a' cs b) = (if a = a' then ex_balance a d b + amount_of d cs else ex_balance a d b)"
  by (induction a' cs b rule: ex_credit.induct) auto

lemma ex_debit_balance:
  "ex_debit a' cs b = Some b' \<Longrightarrow> ex_balance a d b' = (if a = a' then ex_balance a d b - amount_of d cs else ex_balance a d b)"
  by (induction a' cs b rule: ex_debit.induct) (auto split: if_splits)

lemma ex_positive:
  assumes "coins_validate (coin_lib ex_env) cs = None"
  shows "list_all (\<lambda>x. 0 < coin_amount x) cs"
  using assms by (auto simp: ex_env_def ex_coin_lib_def list_all_iff split: if_splits)

lemma amount_of_nonneg: "list_all (\<lambda>x. 0 < coin_amount x) cs \<Longrightarrow> 0 \<le> amount_of d cs"
  by (induction cs) auto

lemma ex_debit_enough:
  "list_all (\<lambda>x. 0 < coin_amount x) cs \<Longrightarrow> (\<And>d. amount_of d cs \<le> ex_balance a d b) \<Longrightarrow> \<exists>b'. ex_debit a cs b = Some b'"
proof (induction a cs b rule: ex_debit.induct)
  case (2 a x cs b)
  have pos: "0 \<le> amount_of d cs" for d using 2(2) amount_of_nonneg by simp
  have "coin_amount x \<le> ex_balance a (coin_denom x) b" using 2(3) [of "coin_denom x"] pos [of "coin_denom x"] by simp
  moreover have "amount_of d cs \<le> ex_balance a d (kv_set (a, coin_denom x) (ex_balance a (coin_denom x) b - coin_amount x) b)" for d
    using 2(3) [of d] by (auto split: if_splits)
  ultimately show ?case using 2(1,2) by (simp add: not_less)
qed simp

lemma ex_other_accounts: "ex_account a \<noteq> ex_module m" "ex_module m = ex_module m' \<longleftrightarrow> m = m'"
  by (simp_all add: ex_account_def ex_module_def)

text \<open>The hypotheses about the bank hold of the bank of the examples, in which no account belongs to the module.\<close>

lemma ex_bank_laws: "bank_laws ex_env [] (\<lambda>_. False) ex_held"
proof -
  note ev = ex_env_def ex_bank_def ex_held_def ex_move_def ex_other_accounts ex_other_accounts(1) [symmetric]
  note pos = ex_positive amount_of_nonneg
  show ?thesis
    unfolding bank_laws_def
  proof (intro conjI allI impI)
    show "0 \<le> amount_of d cs" if "coins_validate (coin_lib ex_env) cs = None" for cs d
      using that pos by blast
  next
    fix a cs b b' d
    assume "send_account_to_module (bank ex_env) a DaoModuleName cs b = (Inr (), b')"
    then show "ex_held d b' = ex_held d b + amount_of d cs"
      by (auto simp: ev ex_debit_balance split: option.splits)
  next
    fix a m cs b b' d
    assume "m \<noteq> DaoModuleName" "send_account_to_module (bank ex_env) a m cs b = (Inr (), b')"
    then show "ex_held d b' = ex_held d b" by (auto simp: ev ex_debit_balance split: option.splits)
  next
    fix m cs b b' d
    assume "m \<noteq> DaoModuleName" "burn_coins (bank ex_env) m cs b = (Inr (), b')"
    then show "ex_held d b' = ex_held d b" by (auto simp: ev ex_debit_balance split: option.splits)
  next
    fix cs b r b' d
    assume "mint_coins (bank ex_env) DaoModuleName cs b = (r, b')"
    then show "ex_held d b' = (if is_ok r then ex_held d b + amount_of d cs else ex_held d b)"
      by (auto simp: ev)
  next
    fix a cs b r b'
    assume cs: "coins_validate (coin_lib ex_env) cs = None" and enough: "\<forall>d. amount_of d cs \<le> ex_held d b"
      and send: "send_module_to_account (bank ex_env) DaoModuleName a cs b = (r, b')"
    obtain b1 where "ex_debit (ex_module DaoModuleName) cs b = Some b1"
      using ex_debit_enough [OF ex_positive [OF cs]] enough unfolding ex_held_def by blast
    with send have "r = Inr ()" "b' = ex_credit (ex_account a) cs b1"
      "\<And>d. ex_held d b1 = ex_held d b - amount_of d cs"
      by (auto simp: ev ex_debit_balance)
    then show "if False then \<not> is_ok r \<and> (\<forall>d. ex_held d b' = ex_held d b)
        else is_ok r \<and> (\<forall>d. ex_held d b - amount_of d cs \<le> ex_held d b')
          \<and> (a \<noteq> [] \<longrightarrow> (\<forall>d. ex_held d b' = ex_held d b - amount_of d cs))"
      by (simp add: ev)
  next
    fix cs b r b'
    assume cs: "coins_validate (coin_lib ex_env) cs = None" and enough: "\<forall>d. amount_of d cs \<le> ex_held d b"
      and burn: "burn_coins (bank ex_env) DaoModuleName cs b = (r, b')"
    obtain b1 where "ex_debit (ex_module DaoModuleName) cs b = Some b1"
      using ex_debit_enough [OF ex_positive [OF cs]] enough unfolding ex_held_def by blast
    with burn have r: "r = Inr ()" "\<And>d. ex_held d b' = ex_held d b - amount_of d cs"
      by (auto simp: ev ex_debit_balance)
    show "is_ok r" using r(1) by simp
    show "ex_held d b' = ex_held d b - amount_of d cs" for d by (rule r(2))
  qed
qed

lemma ex_valid_deposits: "valid_deposits ex_env ex_dao_params"
  by (simp add: valid_deposits_def ex_env_def ex_coin_lib_def ex_dao_params_def ex_coins_def)

lemma ex_fair_steps: "fair_run ex_env [] ex_held 2 (ex_ctx, ex_world) (ex_ctx, ex_p2)"
proof -
  have "deliver (run_tx ex_env ex_ctx (DaoTx (SubmitProposal ex_submit))) ex_world = ex_p1"
    "deliver (run_tx ex_env ex_ctx (DaoTx (Vote ex_vote))) ex_p1 = ex_p2"
    using ex_p1(1) ex_p2(1) by (simp_all add: deliver_def run_tx_def dao_handle_def then_op_def bind_op_def ret_def)
  moreover have "tx_payer ex_env (DaoTx (SubmitProposal ex_submit)) \<noteq> Some []" "tx_payer ex_env (DaoTx (Vote ex_vote)) \<noteq> Some []"
    by (simp_all add: tx_payer_def ex_submit_def ex_string_to_bytes ex_bytes_def)
  ultimately have "fair_step ex_env [] ex_held (ex_ctx, ex_world) (ex_ctx, ex_p1)"
    "fair_step ex_env [] ex_held (ex_ctx, ex_p1) (ex_ctx, ex_p2)"
    using fair_step.Deliver [of ex_env _ "[]" ex_held ex_ctx] by metis+
  then have "fair_run ex_env [] ex_held (Suc (Suc 0)) (ex_ctx, ex_world) (ex_ctx, ex_p2)"
    by (blast intro: fair_refl fair_more)
  then show ?thesis by (simp add: numeral_2_eq_2)
qed

section \<open>The properties\<close>

text \<open>C3: No deposit is lost: along every run in which only the proposals of \<^verbatim>\<open>x/dao\<close> spend from its
  account, the account holds, in every denomination, at least the deposits of all open proposals
  together. Fees that are burned, coins that are minted for executed proposals, and deposits that
  are burned or refunded never come from the deposit of another proposal.\<close>

theorem deposits_always_covered:
  assumes laws: "bank_laws E dao_addr blocked held" and ul: "lower_laws (unicode_lower E)"
    and inv: "chain_inv E w" and room: "room n w"
    and params: "dao_params_item (dao w) = Some params" "validate_dao_params E params = None"
    and start: "\<forall>d. deposits E params (dao w) d \<le> held d (ledger w)"
    and run: "fair_run E dao_addr held n (c, w) (c', w')"
  shows "dao_params_item (dao w') = Some params \<and> (\<forall>d. deposits E params (dao w') d \<le> held d (ledger w'))"
proof -
  have "0 \<le> surplus E held params d w" for d using start by (simp add: surplus_def)
  with fair_run_surplus [OF laws valid_deposits_params [OF params(2)] ul run, of 0] inv room params(1)
  have "dao_params_item (dao w') = Some params \<and> (\<forall>d. 0 \<le> surplus E held params d w')" by simp
  then show ?thesis by (simp add: surplus_def)
qed

lemma ex_dao_params_valid: "validate_dao_params ex_env ex_dao_params = None"
  by (simp add: validate_dao_params_def ex_dao_params_def ex_env_defs ex_coins_def dec_unit_def)

theorem deposits_always_covered_witness:
  "deposits ex_env ex_dao_params (dao ex_p2) ''udns'' = 5 \<and> 5 \<le> ex_held ''udns'' (ledger ex_p2)"
proof -
  have start: "\<forall>d. deposits ex_env ex_dao_params (dao ex_world) d \<le> ex_held d (ledger ex_world)"
    by (simp add: deposits_def kv_walk_def ex_world_def ex_dao_def ex_held_def ex_balance_def ex_module_def kv_get_def)
  have par: "dao_params_item (dao ex_world) = Some ex_dao_params" by (simp add: ex_world_def ex_dao_def)
  have "deposits ex_env ex_dao_params (dao ex_p2) ''udns'' = 5"
    by (simp add: deposits_def ex_p2 ex_proposal_def active_def owed_def deposit_to_handle_def kv_walk_def ex_dao_params_def
        ex_coins_def amount_of_def) (simp add: ex_env_def ex_coin_lib_def)
  moreover have "deposits ex_env ex_dao_params (dao ex_p2) ''udns'' \<le> ex_held ''udns'' (ledger ex_p2)"
    using deposits_always_covered [OF ex_bank_laws ex_lower_laws ex_chain_inv ex_world_room par ex_dao_params_valid start ex_fair_steps]
    by simp
  ultimately show ?thesis by simp
qed

text \<open>C8: The end of a block settles to the coin: when the deposits are covered and the proposals whose voting
  period is over pay accounts outside the module, the balance of the module falls in every
  denomination by exactly the deposits of these proposals, whether they are refunded or burned, and
  the execution of the proposals leaves nothing behind.\<close>

theorem end_block_pays_deposits:
  assumes laws: "bank_laws E dao_addr blocked held" and inv: "chain_inv E w"
    and params: "dao_params_item (dao w) = Some params" "validate_dao_params E params = None"
    and covered: "\<forall>d. deposits E params (dao w) d \<le> held d (ledger w)"
    and pays: "\<forall>i p. kv_get (proposals (dao w)) i = Some p \<longrightarrow> voting_over (block_height_u64 c) p \<longrightarrow> pays_outside E dao_addr blocked p"
  shows "\<exists>w'. end_block E c w = (Inr (), w') \<and> (\<forall>d. held d (ledger w') = held d (ledger w)
    - (\<Sum>p\<leftarrow>filter (voting_over (block_height_u64 c)) (map snd (kv_walk (proposals (dao w)))). amount_of d (owed E params p)))"
proof -
  have dao: "dao_inv E w" and kv: "kv_ok (proposals (dao w))" using inv by (auto simp: chain_inv_def dao_inv_def dest: dao_okD(1))
  obtain w' where run: "end_block E c w = (Inr (), w')" using end_block_total [OF dao] params(1) by auto
  have pos: "0 \<le> surplus E held params d w" for d using covered by (simp add: surplus_def)
  note s = end_block_surplus [OF dao laws valid_deposits_params [OF params(2)] params(1) pos run]
  have "\<forall>p \<in> set (filter (voting_over (block_height_u64 c)) (map snd (kv_walk (proposals (dao w))))). pays_outside E dao_addr blocked p"
    using pays by (auto simp: kv_walk_get [OF kv])
  from s(2) [OF this] s(3) have "held d (ledger w') = held d (ledger w)
    - (\<Sum>p\<leftarrow>filter (voting_over (block_height_u64 c)) (map snd (kv_walk (proposals (dao w)))). amount_of d (owed E params p))" for d
    unfolding surplus_def by (simp add: algebra_simps)
  with run show ?thesis by blast
qed

theorem end_block_pays_deposits_witness:
  "\<exists>w'. end_block ex_env ex_ctx16 ex_p2 = (Inr (), w') \<and> ex_held ''udns'' (ledger ex_p2) = 5 \<and> ex_held ''udns'' (ledger w') = 0"
proof -
  have par: "dao_params_item (dao ex_p2) = Some ex_dao_params" by (simp add: ex_p2 ex_dao_def)
  have owed: "owed ex_env ex_dao_params ex_proposal = ex_coins 5"
    by (simp add: owed_def deposit_to_handle_def ex_proposal_def ex_dao_params_def ex_coins_def)
      (simp add: ex_env_def ex_coin_lib_def)
  have over: "voting_over (block_height_u64 ex_ctx16) ex_proposal"
    by (simp add: voting_over_def ex_proposal_def block_height_u64_def ex_ctx16_def)
  have walk: "map snd (kv_walk (proposals (dao ex_p2))) = [ex_proposal]" by (simp add: ex_p2 kv_walk_def)
  have h: "ex_held d (ledger ex_p2) = (if d = ''udns'' then 5 else 0)" for d
    by (simp add: ex_held_def ex_p2 ex_ledger1_def ex_balance_def ex_module_def DaoModuleName_def kv_get_def)
  have cov: "\<forall>d. deposits ex_env ex_dao_params (dao ex_p2) d \<le> ex_held d (ledger ex_p2)"
    unfolding h by (simp add: deposits_def ex_p2 kv_walk_def owed ex_coins_def amount_of_def)
  have "pays_outside ex_env [] (\<lambda>_. False) ex_proposal"
    by (simp add: pays_outside_def ex_proposal_def ex_string_to_bytes outside_def) (simp add: ex_bytes_def)
  then have pays: "\<forall>i p. kv_get (proposals (dao ex_p2)) i = Some p \<longrightarrow> voting_over (block_height_u64 ex_ctx16) p
      \<longrightarrow> pays_outside ex_env [] (\<lambda>_. False) p"
    by (simp add: ex_p2 kv_get_def)
  obtain w' where w': "end_block ex_env ex_ctx16 ex_p2 = (Inr (), w')" "ex_held ''udns'' (ledger w') = ex_held ''udns'' (ledger ex_p2)
      - (\<Sum>p\<leftarrow>filter (voting_over (block_height_u64 ex_ctx16)) (map snd (kv_walk (proposals (dao ex_p2)))).
           amount_of ''udns'' (owed ex_env ex_dao_params p))"
    using end_block_pays_deposits [OF ex_bank_laws ex_p2_inv(1) par ex_dao_params_valid cov pays] by blast
  then show ?thesis by (simp add: h walk over owed ex_coins_def amount_of_def)
qed

end
