(* ===== verification/Gateway_Runtime.thy ===== *)
theory Gateway_Runtime
  imports Dao_Queries
begin

text \<open>
  What the generated gateways of both modules (\<^verbatim>\<open>types/query.pb.gw.go\<close>) share: the functions that they
  call from \<^verbatim>\<open>grpc-gateway\<close> as a record of parameters, the reading of path parameters and forms, and
  the two kinds of HTTP handlers, which call the query server in the same process or a gRPC client.
\<close>

section \<open>The functions of the libraries\<close>

type_synonym form = "(string \<times> string list) list"
type_synonym path_params = "string \<rightharpoonup> string"

record double_array =
  da_encoding :: "(string \<times> int) list"
  da_base :: "int list"
  da_check :: "int list"

record pattern =
  pt_version :: int
  pt_ops :: "int list"
  pt_pool :: "string list"
  pt_verb :: string
  pt_colon_verb :: bool

text \<open>
  Of \<^verbatim>\<open>'q\<close> (a request of \<^verbatim>\<open>net/http\<close>), \<^verbatim>\<open>'m\<close> (the metadata of a response) and \<^verbatim>\<open>'p\<close> (the page request of the
  SDK): \<^verbatim>\<open>runtime.Uint64\<close>, \<^verbatim>\<open>runtime.String\<close>, \<^verbatim>\<open>req.ParseForm\<close> with the form it leaves, \<^verbatim>\<open>runtime.PopulateQueryParameters\<close>
  for each message it is used with, \<^verbatim>\<open>runtime.AnnotateContext\<close> and \<^verbatim>\<open>AnnotateIncomingContext\<close> with
  their errors, the zero value of the metadata and \<^verbatim>\<open>metadata.Join\<close> with the metadata of the server stream.
\<close>

record ('q, 'm, 'p) gateway_runtime =
  rt_uint64 :: "string \<Rightarrow> u64 res"
  rt_string :: "string \<Rightarrow> string res"
  rt_parse_form :: "'q \<Rightarrow> form res"
  rt_populate_proposals :: "double_array \<Rightarrow> form \<Rightarrow> proposals_request \<Rightarrow> proposals_request res"
  rt_populate_votes :: "double_array \<Rightarrow> form \<Rightarrow> u64 \<times> page_request option \<Rightarrow> (u64 \<times> page_request option) res"
  rt_populate_domains :: "double_array \<Rightarrow> form \<Rightarrow> 'p option \<Rightarrow> 'p option res"
  rt_annotate_context :: "'q \<Rightarrow> gerr option"
  rt_annotate_incoming :: "'q \<Rightarrow> gerr option"
  rt_no_metadata :: 'm
  rt_join_stream :: "'m \<Rightarrow> 'm"

section \<open>Requests\<close>

text \<open>A call that returns a message or an error together with metadata.\<close>

type_synonym ('s, 'm, 'a) call = "'s \<Rightarrow> ('a res \<times> 'm) \<times> 's"

definition invalid_argument :: "('q, 'm, 'p) gateway_runtime \<Rightarrow> ('s, 'm, 'a) call" where
  "invalid_argument G s = ((Inl StatusInvalidArgument, rt_no_metadata G), s)"

text \<open>The call of a method of the query server in the same process fills no metadata.\<close>

definition server_call :: "('q, 'm, 'p) gateway_runtime \<Rightarrow> ('s, 'a) op \<Rightarrow> ('s, 'm, 'a) call" where
  "server_call G m s = (case m s of (r, s') \<Rightarrow> ((r, rt_no_metadata G), s'))"

text \<open>A message of the reply, for the union of the messages of a service.\<close>

definition reply :: "('a \<Rightarrow> 'b) \<Rightarrow> ('s, 'm, 'a) call \<Rightarrow> ('s, 'm, 'b) call" where
  "reply f m s = (case m s of ((r, md), s') \<Rightarrow> ((case r of Inl e \<Rightarrow> Inl e | Inr x \<Rightarrow> Inr (f x), md), s'))"

text \<open>A path parameter of each type: missing or ill-typed ones are errors.\<close>

definition uint64_param ::
  "('q, 'm, 'p) gateway_runtime \<Rightarrow> path_params \<Rightarrow> string \<Rightarrow> (u64 \<Rightarrow> ('s, 'm, 'a) call) \<Rightarrow> ('s, 'm, 'a) call" where
  "uint64_param G pathParams name k = (case pathParams name of None \<Rightarrow> invalid_argument G
     | Some val \<Rightarrow> (case rt_uint64 G val of Inl _ \<Rightarrow> invalid_argument G | Inr x \<Rightarrow> k x))"

definition string_param ::
  "('q, 'm, 'p) gateway_runtime \<Rightarrow> path_params \<Rightarrow> string \<Rightarrow> (string \<Rightarrow> ('s, 'm, 'a) call) \<Rightarrow> ('s, 'm, 'a) call" where
  "string_param G pathParams name k = (case pathParams name of None \<Rightarrow> invalid_argument G
     | Some val \<Rightarrow> (case rt_string G val of Inl _ \<Rightarrow> invalid_argument G | Inr x \<Rightarrow> k x))"

text \<open>The form of the URL, read into a message.\<close>

definition form_params ::
  "('q, 'm, 'p) gateway_runtime \<Rightarrow> (form \<Rightarrow> 'x res) \<Rightarrow> 'q \<Rightarrow> ('x \<Rightarrow> ('s, 'm, 'a) call) \<Rightarrow> ('s, 'm, 'a) call" where
  "form_params G populate req k = (case rt_parse_form G req of Inl _ \<Rightarrow> invalid_argument G
     | Inr form \<Rightarrow> (case populate form of Inl _ \<Rightarrow> invalid_argument G | Inr x \<Rightarrow> k x))"

section \<open>Handlers\<close>

text \<open>
  What a handler writes: the error, with the metadata once the query has been made, or the message
  with the metadata.
\<close>

datatype ('m, 'r) http_answer = HTTPError "'m option" gerr | ForwardResponse 'm 'r

type_synonym ('s, 'm, 'r) handler = "path_params \<Rightarrow> 's \<Rightarrow> ('m, 'r) http_answer \<times> 's"

definition answer :: "('r res \<times> 'm) \<Rightarrow> ('m, 'r) http_answer" where
  "answer x = (case x of (Inl e, md) \<Rightarrow> HTTPError (Some md) e | (Inr r, md) \<Rightarrow> ForwardResponse md r)"

definition server_handler ::
  "('q, 'm, 'p) gateway_runtime \<Rightarrow> ('q \<Rightarrow> path_params \<Rightarrow> ('s, 'm, 'r) call) \<Rightarrow> 'q \<Rightarrow> ('s, 'm, 'r) handler" where
  "server_handler G local_request req pathParams s = (case rt_annotate_incoming G req of
     Some e \<Rightarrow> (HTTPError None e, s)
   | None \<Rightarrow> (case local_request req pathParams s of ((r, md), s') \<Rightarrow> (answer (r, rt_join_stream G md), s')))"

definition client_handler ::
  "('q, 'm, 'p) gateway_runtime \<Rightarrow> ('q \<Rightarrow> path_params \<Rightarrow> ('s, 'm, 'r) call) \<Rightarrow> 'q \<Rightarrow> ('s, 'm, 'r) handler" where
  "client_handler G request req pathParams s = (case rt_annotate_context G req of
     Some e \<Rightarrow> (HTTPError None e, s)
   | None \<Rightarrow> (case request req pathParams s of ((r, md), s') \<Rightarrow> (answer (r, md), s')))"

text \<open>The routes of a \<^verbatim>\<open>ServeMux\<close>, in the order of their registration; their choice is up to the library.\<close>

record ('q, 's, 'm, 'r) route =
  route_method :: string
  route_pattern :: pattern
  route_handler :: "'q \<Rightarrow> ('s, 'm, 'r) handler"

definition mux_handle ::
  "string \<Rightarrow> pattern \<Rightarrow> ('q \<Rightarrow> ('s, 'm, 'r) handler) \<Rightarrow> (('q, 's, 'm, 'r) route list, unit) op" where
  "mux_handle meth pat h = update_op (\<lambda>mux. mux @ [\<lparr>route_method = meth, route_pattern = pat, route_handler = h\<rparr>])"

definition must_pattern :: "int list \<Rightarrow> string list \<Rightarrow> pattern" where
  "must_pattern ops pool = \<lparr>pt_version = 1, pt_ops = ops, pt_pool = pool, pt_verb = [], pt_colon_verb = False\<rparr>"

definition no_filter :: double_array where
  "no_filter = \<lparr>da_encoding = [], da_base = [], da_check = []\<rparr>"

text \<open>When the connection of a gateway is closed: at once, or when the context of the registration ends.\<close>

datatype conn_fate = ClosedNow | ClosedWhenDone

section \<open>The same answer over both ways\<close>

text \<open>
  A gRPC client gives what the server returns, an error as it comes over the wire, and leaves the
  state that the server leaves. This is the documented behaviour of a generated client whose connection leads to
  the server.
\<close>

definition carries :: "(gerr \<Rightarrow> gerr) \<Rightarrow> ('s, 'm, 'a) call \<Rightarrow> ('s, 'a) op \<Rightarrow> bool" where
  "carries wire c m \<longleftrightarrow> (\<forall>s. \<exists>md. c s = (case m s of (Inl e, s') \<Rightarrow> ((Inl (wire e), md), s') | (Inr x, s') \<Rightarrow> ((Inr x, md), s')))"

definition same_res :: "(gerr \<Rightarrow> gerr) \<Rightarrow> 'a res \<Rightarrow> 'a res \<Rightarrow> bool" where
  "same_res wire a b = (case b of
     Inr x \<Rightarrow> a = Inr x
   | Inl e \<Rightarrow> a = Inl (wire e) \<or> a = Inl e \<and> e = StatusInvalidArgument)"

definition same_call :: "(gerr \<Rightarrow> gerr) \<Rightarrow> ('s, 'm, 'a) call \<Rightarrow> ('s, 'm, 'a) call \<Rightarrow> bool" where
  "same_call wire c d \<longleftrightarrow> (\<forall>s. snd (c s) = snd (d s) \<and> same_res wire (fst (fst (c s))) (fst (fst (d s))))"

definition same_answer :: "(gerr \<Rightarrow> gerr) \<Rightarrow> ('m, 'r) http_answer \<Rightarrow> ('m, 'r) http_answer \<Rightarrow> bool" where
  "same_answer wire a b = (case b of
     ForwardResponse _ x \<Rightarrow> (\<exists>md. a = ForwardResponse md x)
   | HTTPError _ e \<Rightarrow> (\<exists>md. a = HTTPError md (wire e)) \<or> (\<exists>md. a = HTTPError md e) \<and> e = StatusInvalidArgument)"

lemma same_call_server:
  assumes "carries wire c m"
  shows "same_call wire c (server_call G m)"
  unfolding same_call_def
proof
  fix s
  obtain md where "c s = (case m s of (Inl e, s') \<Rightarrow> ((Inl (wire e), md), s') | (Inr x, s') \<Rightarrow> ((Inr x, md), s'))"
    using assms unfolding carries_def by blast
  then show "snd (c s) = snd (server_call G m s) \<and> same_res wire (fst (fst (c s))) (fst (fst (server_call G m s)))"
    by (auto simp: server_call_def same_res_def split: prod.splits sum.splits)
qed

lemma same_call_invalid: "same_call wire (invalid_argument G) (invalid_argument G)"
  by (simp add: same_call_def same_res_def invalid_argument_def)

lemma same_call_reply:
  assumes "same_call wire c d"
  shows "same_call wire (reply f c) (reply f d)"
  unfolding same_call_def
proof
  fix s
  obtain r md s1 where c: "c s = ((r, md), s1)" by (metis prod.collapse)
  obtain r' md' s2 where d: "d s = ((r', md'), s2)" by (metis prod.collapse)
  have "s1 = s2" "same_res wire r r'" using spec [OF assms [unfolded same_call_def], of s] by (simp_all add: c d)
  then show "snd (reply f c s) = snd (reply f d s) \<and> same_res wire (fst (fst (reply f c s))) (fst (fst (reply f d s)))"
    by (cases r') (auto simp: reply_def c d same_res_def)
qed

lemma same_call_params:
  "(\<And>x. same_call wire (k x) (k' x)) \<Longrightarrow> same_call wire (uint64_param G ps n k) (uint64_param G ps n k')"
  "(\<And>y. same_call wire (h y) (h' y)) \<Longrightarrow> same_call wire (string_param G ps n h) (string_param G ps n h')"
  "(\<And>z. same_call wire (l z) (l' z)) \<Longrightarrow> same_call wire (form_params G p req l) (form_params G p req l')"
  by (auto simp: uint64_param_def string_param_def form_params_def same_call_invalid split: option.splits sum.splits)

lemmas same_call_intros = same_call_reply same_call_params same_call_server

lemma same_handler:
  assumes "same_call wire (f req ps) (g req ps)" "rt_annotate_context G req = None" "rt_annotate_incoming G req = None"
  shows "snd (client_handler G f req ps s) = snd (server_handler G g req ps s)
    \<and> same_answer wire (fst (client_handler G f req ps s)) (fst (server_handler G g req ps s))"
proof -
  obtain r md s1 where f: "f req ps s = ((r, md), s1)" by (metis prod.collapse)
  obtain r' md' s2 where g: "g req ps s = ((r', md'), s2)" by (metis prod.collapse)
  have "s1 = s2" "same_res wire r r'"
    using spec [OF assms(1) [unfolded same_call_def], of s] by (simp_all add: f g)
  then show ?thesis
    using assms(2,3) f g
    by (cases r') (auto simp: client_handler_def server_handler_def same_answer_def answer_def same_res_def)
qed

text \<open>Two routes for the same requests with the same answers.\<close>

definition same_route ::
  "('q, 'm, 'p) gateway_runtime \<Rightarrow> (gerr \<Rightarrow> gerr) \<Rightarrow> ('q, 's, 'm, 'r) route \<Rightarrow> ('q, 's, 'm, 'r) route \<Rightarrow> bool" where
  "same_route G wire r r' \<longleftrightarrow> route_method r = route_method r' \<and> route_pattern r = route_pattern r'
   \<and> (\<forall>req ps s. rt_annotate_context G req = None \<longrightarrow> rt_annotate_incoming G req = None \<longrightarrow>
        snd (route_handler r req ps s) = snd (route_handler r' req ps s)
        \<and> same_answer wire (fst (route_handler r req ps s)) (fst (route_handler r' req ps s)))"

lemma same_route_handlers:
  assumes "\<And>req ps. same_call wire (f req ps) (g req ps)"
  shows "same_route G wire \<lparr>route_method = meth, route_pattern = pat, route_handler = client_handler G f\<rparr>
    \<lparr>route_method = meth, route_pattern = pat, route_handler = server_handler G g\<rparr>"
  unfolding same_route_def
proof (intro conjI allI impI)
  fix req ps s
  assume "rt_annotate_context G req = None" "rt_annotate_incoming G req = None"
  note h = same_handler [where f = f and g = g and req = req and ps = ps and s = s, OF assms this]
  show "snd (route_handler \<lparr>route_method = meth, route_pattern = pat, route_handler = client_handler G f\<rparr> req ps s)
      = snd (route_handler \<lparr>route_method = meth, route_pattern = pat, route_handler = server_handler G g\<rparr> req ps s)"
    using h by simp
  show "same_answer wire (fst (route_handler \<lparr>route_method = meth, route_pattern = pat, route_handler = client_handler G f\<rparr> req ps s))
      (fst (route_handler \<lparr>route_method = meth, route_pattern = pat, route_handler = server_handler G g\<rparr> req ps s))"
    using h by simp
qed simp_all

section \<open>Requests that change nothing\<close>

definition quiet :: "('s, 'm, 'a) call \<Rightarrow> bool" where
  "quiet c \<longleftrightarrow> (\<forall>s. snd (c s) = s)"

lemma quiet_server: "(\<And>s. snd (m s) = s) \<Longrightarrow> quiet (server_call G m)"
  by (simp add: quiet_def server_call_def split_beta)

lemma quiet_same: "same_call wire c d \<Longrightarrow> quiet d \<Longrightarrow> quiet c"
  by (simp add: quiet_def same_call_def)

lemma quiet_intros:
  "quiet (invalid_argument G)" "quiet c \<Longrightarrow> quiet (reply f c)"
  "(\<And>x. quiet (k x)) \<Longrightarrow> quiet (uint64_param G ps n k)" "(\<And>x. quiet (k' x)) \<Longrightarrow> quiet (string_param G ps n k')"
  "(\<And>x. quiet (k'' x)) \<Longrightarrow> quiet (form_params G p req k'')"
  by (auto simp: quiet_def invalid_argument_def reply_def uint64_param_def string_param_def form_params_def split_beta
      split: option.splits sum.splits)

lemma quiet_handlers:
  "quiet (f req ps) \<Longrightarrow> snd (client_handler G f req ps s) = s"
  "quiet (f req ps) \<Longrightarrow> snd (server_handler G f req ps s) = s"
  by (auto simp: quiet_def client_handler_def server_handler_def split_beta split: option.splits)

end
