(* ===== verification/Dao_Gateway.thy ===== *)
theory Dao_Gateway
  imports Gateway_Runtime
begin

text \<open>
  The HTTP gateway of \<^verbatim>\<open>x/dao\<close> (\<^verbatim>\<open>types/query.pb.gw.go\<close>): patterns, requests and their registration for the
  query server itself and for a gRPC client.
\<close>

section \<open>The service\<close>

text \<open>The replies of the service, for the one kind of message that a handler forwards.\<close>

datatype 'd dao_reply = DaoParamsReply "'d dao_params" | ProposalReply proposal | ProposalsReply "proposal list \<times> u64"
  | VoteReply vote | VotesReply "vote list \<times> u64" | TallyReply tally_result

record ('s, 'd) dao_query_server =
  ds_params :: "unit option \<Rightarrow> ('s, 'd dao_params) op"
  ds_proposal :: "u64 option \<Rightarrow> ('s, proposal) op"
  ds_proposals :: "proposals_request option \<Rightarrow> ('s, proposal list \<times> u64) op"
  ds_vote :: "(u64 \<times> string) option \<Rightarrow> ('s, vote) op"
  ds_votes :: "(u64 \<times> page_request option) option \<Rightarrow> ('s, vote list \<times> u64) op"
  ds_tally_result :: "u64 option \<Rightarrow> ('s, tally_result) op"

record ('s, 'm, 'd) dao_query_client =
  dc_params :: "unit \<Rightarrow> ('s, 'm, 'd dao_params) call"
  dc_proposal :: "u64 \<Rightarrow> ('s, 'm, proposal) call"
  dc_proposals :: "proposals_request \<Rightarrow> ('s, 'm, proposal list \<times> u64) call"
  dc_vote :: "u64 \<times> string \<Rightarrow> ('s, 'm, vote) call"
  dc_votes :: "u64 \<times> page_request option \<Rightarrow> ('s, 'm, vote list \<times> u64) call"
  dc_tally_result :: "u64 \<Rightarrow> ('s, 'm, tally_result) call"

text \<open>\<^verbatim>\<open>NewQueryServerImpl\<close> gives the query server of the keeper.\<close>

definition dao_query_server_impl :: "('b, 'd) env \<Rightarrow> 'd dao_params \<Rightarrow> (('b, 'd) world, 'd) dao_query_server" where
  "dao_query_server_impl E zero_params = \<lparr>ds_params = query_dao_params E zero_params, ds_proposal = query_proposal E,
     ds_proposals = query_proposals E, ds_vote = query_vote E, ds_votes = query_votes E, ds_tally_result = query_tally E\<rparr>"

section \<open>Patterns and filters\<close>

definition dao_pattern_Query_Params_0 :: pattern where
  "dao_pattern_Query_Params_0 = must_pattern [2, 0, 2, 1, 2, 2, 2, 3]
    [''dnsblockchain'', ''dao'', ''v1'', ''params'']"

definition dao_pattern_Query_Proposal_0 :: pattern where
  "dao_pattern_Query_Proposal_0 = must_pattern [2, 0, 2, 1, 2, 2, 2, 3, 1, 0, 4, 1, 5, 4]
    [''dnsblockchain'', ''dao'', ''v1'', ''proposals'', ''proposal_id'']"

definition dao_pattern_Query_Proposals_0 :: pattern where
  "dao_pattern_Query_Proposals_0 = must_pattern [2, 0, 2, 1, 2, 2, 2, 3]
    [''dnsblockchain'', ''dao'', ''v1'', ''proposals'']"

definition dao_pattern_Query_Vote_0 :: pattern where
  "dao_pattern_Query_Vote_0 = must_pattern [2, 0, 2, 1, 2, 2, 2, 3, 1, 0, 4, 1, 5, 4, 2, 5, 1, 0, 4, 1, 5, 6]
    [''dnsblockchain'', ''dao'', ''v1'', ''proposals'', ''proposal_id'', ''votes'', ''voter'']"

definition dao_pattern_Query_Votes_0 :: pattern where
  "dao_pattern_Query_Votes_0 = must_pattern [2, 0, 2, 1, 2, 2, 2, 3, 1, 0, 4, 1, 5, 4, 2, 5]
    [''dnsblockchain'', ''dao'', ''v1'', ''proposals'', ''proposal_id'', ''votes'']"

definition dao_pattern_Query_TallyResult_0 :: pattern where
  "dao_pattern_Query_TallyResult_0 = must_pattern [2, 0, 2, 1, 2, 2, 2, 3, 1, 0, 4, 1, 5, 4, 2, 5]
    [''dnsblockchain'', ''dao'', ''v1'', ''proposals'', ''proposal_id'', ''tally'']"

definition filter_Query_Proposals_0 :: double_array where "filter_Query_Proposals_0 = no_filter"

definition filter_Query_Votes_0 :: double_array where
  "filter_Query_Votes_0 = \<lparr>da_encoding = [(''proposal_id'', 0)], da_base = [1, 1, 0], da_check = [0, 1, 2]\<rparr>"

definition zero_proposals_request :: proposals_request where
  "zero_proposals_request = \<lparr>pq_status = PROPOSAL_STATUS_UNSPECIFIED, pq_voter = [], pq_proposer = [], pq_page = None\<rparr>"

section \<open>Requests\<close>

definition dao_request_Query_Params_0 ::
  "('q, 'm, 'p) gateway_runtime \<Rightarrow> ('s, 'm, 'd) dao_query_client \<Rightarrow> 'q \<Rightarrow> path_params \<Rightarrow> ('s, 'm, 'd dao_reply) call" where
  "dao_request_Query_Params_0 G client req pathParams =
     reply DaoParamsReply (dc_params client ())"

definition dao_local_request_Query_Params_0 ::
  "('q, 'm, 'p) gateway_runtime \<Rightarrow> ('s, 'd) dao_query_server \<Rightarrow> 'q \<Rightarrow> path_params \<Rightarrow> ('s, 'm, 'd dao_reply) call" where
  "dao_local_request_Query_Params_0 G server req pathParams =
     reply DaoParamsReply (server_call G (ds_params server (Some ())))"

definition dao_request_Query_Proposal_0 ::
  "('q, 'm, 'p) gateway_runtime \<Rightarrow> ('s, 'm, 'd) dao_query_client \<Rightarrow> 'q \<Rightarrow> path_params \<Rightarrow> ('s, 'm, 'd dao_reply) call" where
  "dao_request_Query_Proposal_0 G client req pathParams =
     reply ProposalReply (uint64_param G pathParams ''proposal_id'' (\<lambda>i. dc_proposal client i))"

definition dao_local_request_Query_Proposal_0 ::
  "('q, 'm, 'p) gateway_runtime \<Rightarrow> ('s, 'd) dao_query_server \<Rightarrow> 'q \<Rightarrow> path_params \<Rightarrow> ('s, 'm, 'd dao_reply) call" where
  "dao_local_request_Query_Proposal_0 G server req pathParams =
     reply ProposalReply (uint64_param G pathParams ''proposal_id'' (\<lambda>i. server_call G (ds_proposal server (Some i))))"

definition dao_request_Query_Proposals_0 ::
  "('q, 'm, 'p) gateway_runtime \<Rightarrow> ('s, 'm, 'd) dao_query_client \<Rightarrow> 'q \<Rightarrow> path_params \<Rightarrow> ('s, 'm, 'd dao_reply) call" where
  "dao_request_Query_Proposals_0 G client req pathParams =
     reply ProposalsReply (form_params G (\<lambda>form. rt_populate_proposals G filter_Query_Proposals_0 form zero_proposals_request) req
       (\<lambda>x. dc_proposals client x))"

definition dao_local_request_Query_Proposals_0 ::
  "('q, 'm, 'p) gateway_runtime \<Rightarrow> ('s, 'd) dao_query_server \<Rightarrow> 'q \<Rightarrow> path_params \<Rightarrow> ('s, 'm, 'd dao_reply) call" where
  "dao_local_request_Query_Proposals_0 G server req pathParams =
     reply ProposalsReply (form_params G (\<lambda>form. rt_populate_proposals G filter_Query_Proposals_0 form zero_proposals_request) req
       (\<lambda>x. server_call G (ds_proposals server (Some x))))"

definition dao_request_Query_Vote_0 ::
  "('q, 'm, 'p) gateway_runtime \<Rightarrow> ('s, 'm, 'd) dao_query_client \<Rightarrow> 'q \<Rightarrow> path_params \<Rightarrow> ('s, 'm, 'd dao_reply) call" where
  "dao_request_Query_Vote_0 G client req pathParams =
     reply VoteReply (uint64_param G pathParams ''proposal_id'' (\<lambda>i.
       string_param G pathParams ''voter'' (\<lambda>v. dc_vote client (i, v))))"

definition dao_local_request_Query_Vote_0 ::
  "('q, 'm, 'p) gateway_runtime \<Rightarrow> ('s, 'd) dao_query_server \<Rightarrow> 'q \<Rightarrow> path_params \<Rightarrow> ('s, 'm, 'd dao_reply) call" where
  "dao_local_request_Query_Vote_0 G server req pathParams =
     reply VoteReply (uint64_param G pathParams ''proposal_id'' (\<lambda>i.
       string_param G pathParams ''voter'' (\<lambda>v. server_call G (ds_vote server (Some (i, v))))))"

definition dao_request_Query_Votes_0 ::
  "('q, 'm, 'p) gateway_runtime \<Rightarrow> ('s, 'm, 'd) dao_query_client \<Rightarrow> 'q \<Rightarrow> path_params \<Rightarrow> ('s, 'm, 'd dao_reply) call" where
  "dao_request_Query_Votes_0 G client req pathParams =
     reply VotesReply (uint64_param G pathParams ''proposal_id'' (\<lambda>i.
       form_params G (\<lambda>form. rt_populate_votes G filter_Query_Votes_0 form (i, None)) req (\<lambda>x. dc_votes client x)))"

definition dao_local_request_Query_Votes_0 ::
  "('q, 'm, 'p) gateway_runtime \<Rightarrow> ('s, 'd) dao_query_server \<Rightarrow> 'q \<Rightarrow> path_params \<Rightarrow> ('s, 'm, 'd dao_reply) call" where
  "dao_local_request_Query_Votes_0 G server req pathParams =
     reply VotesReply (uint64_param G pathParams ''proposal_id'' (\<lambda>i.
       form_params G (\<lambda>form. rt_populate_votes G filter_Query_Votes_0 form (i, None)) req (\<lambda>x. server_call G (ds_votes server (Some x)))))"

definition dao_request_Query_TallyResult_0 ::
  "('q, 'm, 'p) gateway_runtime \<Rightarrow> ('s, 'm, 'd) dao_query_client \<Rightarrow> 'q \<Rightarrow> path_params \<Rightarrow> ('s, 'm, 'd dao_reply) call" where
  "dao_request_Query_TallyResult_0 G client req pathParams =
     reply TallyReply (uint64_param G pathParams ''proposal_id'' (\<lambda>i. dc_tally_result client i))"

definition dao_local_request_Query_TallyResult_0 ::
  "('q, 'm, 'p) gateway_runtime \<Rightarrow> ('s, 'd) dao_query_server \<Rightarrow> 'q \<Rightarrow> path_params \<Rightarrow> ('s, 'm, 'd dao_reply) call" where
  "dao_local_request_Query_TallyResult_0 G server req pathParams =
     reply TallyReply (uint64_param G pathParams ''proposal_id'' (\<lambda>i. server_call G (ds_tally_result server (Some i))))"

section \<open>Registration\<close>

definition dao_RegisterQueryHandlerServer ::
  "('q, 'm, 'p) gateway_runtime \<Rightarrow> ('s, 'd) dao_query_server \<Rightarrow> (('q, 's, 'm, 'd dao_reply) route list, unit) op" where
  "dao_RegisterQueryHandlerServer G server =
     then_op (mux_handle ''GET'' dao_pattern_Query_Params_0 (server_handler G (dao_local_request_Query_Params_0 G server)))
    (then_op (mux_handle ''GET'' dao_pattern_Query_Proposal_0 (server_handler G (dao_local_request_Query_Proposal_0 G server)))
    (then_op (mux_handle ''GET'' dao_pattern_Query_Proposals_0 (server_handler G (dao_local_request_Query_Proposals_0 G server)))
    (then_op (mux_handle ''GET'' dao_pattern_Query_Vote_0 (server_handler G (dao_local_request_Query_Vote_0 G server)))
    (then_op (mux_handle ''GET'' dao_pattern_Query_Votes_0 (server_handler G (dao_local_request_Query_Votes_0 G server)))
    (then_op (mux_handle ''GET'' dao_pattern_Query_TallyResult_0 (server_handler G (dao_local_request_Query_TallyResult_0 G server))) (ret ()))))))"

definition dao_RegisterQueryHandlerClient ::
  "('q, 'm, 'p) gateway_runtime \<Rightarrow> ('s, 'm, 'd) dao_query_client \<Rightarrow> (('q, 's, 'm, 'd dao_reply) route list, unit) op" where
  "dao_RegisterQueryHandlerClient G client =
     then_op (mux_handle ''GET'' dao_pattern_Query_Params_0 (client_handler G (dao_request_Query_Params_0 G client)))
    (then_op (mux_handle ''GET'' dao_pattern_Query_Proposal_0 (client_handler G (dao_request_Query_Proposal_0 G client)))
    (then_op (mux_handle ''GET'' dao_pattern_Query_Proposals_0 (client_handler G (dao_request_Query_Proposals_0 G client)))
    (then_op (mux_handle ''GET'' dao_pattern_Query_Vote_0 (client_handler G (dao_request_Query_Vote_0 G client)))
    (then_op (mux_handle ''GET'' dao_pattern_Query_Votes_0 (client_handler G (dao_request_Query_Votes_0 G client)))
    (then_op (mux_handle ''GET'' dao_pattern_Query_TallyResult_0 (client_handler G (dao_request_Query_TallyResult_0 G client))) (ret ()))))))"

definition dao_RegisterQueryHandler ::
  "('q, 'm, 'p) gateway_runtime \<Rightarrow> ('conn \<Rightarrow> ('s, 'm, 'd) dao_query_client) \<Rightarrow> 'conn \<Rightarrow> (('q, 's, 'm, 'd dao_reply) route list, unit) op" where
  "dao_RegisterQueryHandler G NewQueryClient conn = dao_RegisterQueryHandlerClient G (NewQueryClient conn)"

text \<open>\<open>dial\<close> is \<^verbatim>\<open>grpc.Dial\<close>; the deferred function decides when the connection is closed.\<close>

definition dao_RegisterQueryHandlerFromEndpoint ::
  "('q, 'm, 'p) gateway_runtime \<Rightarrow> ('conn \<Rightarrow> ('s, 'm, 'd) dao_query_client) \<Rightarrow> (string \<Rightarrow> 'conn res) \<Rightarrow> string \<Rightarrow>
    ('q, 's, 'm, 'd dao_reply) route list \<Rightarrow> (unit res \<times> conn_fate option) \<times> ('q, 's, 'm, 'd dao_reply) route list" where
  "dao_RegisterQueryHandlerFromEndpoint G NewQueryClient dial endpoint mux = (case dial endpoint of
     Inl e \<Rightarrow> ((Inl e, None), mux)
   | Inr conn \<Rightarrow> (case dao_RegisterQueryHandler G NewQueryClient conn mux of
        (Inl e, mux') \<Rightarrow> ((Inl e, Some ClosedNow), mux')
      | (Inr _, mux') \<Rightarrow> ((Inr (), Some ClosedWhenDone), mux')))"

text \<open>The module registers the client for the connection of its context; an error would be a panic.\<close>

definition dao_register_grpc_gateway_routes ::
  "('q, 'm, 'p) gateway_runtime \<Rightarrow> ('conn \<Rightarrow> ('s, 'm, 'd) dao_query_client) \<Rightarrow> 'conn \<Rightarrow> (('q, 's, 'm, 'd dao_reply) route list, unit) op" where
  "dao_register_grpc_gateway_routes G NewQueryClient clientCtx =
     map_err (\<lambda>_. Panic) (dao_RegisterQueryHandlerClient G (NewQueryClient clientCtx))"

section \<open>Both ways agree\<close>

text \<open>A client whose connection leads to the server.\<close>

definition dao_client_of :: "(gerr \<Rightarrow> gerr) \<Rightarrow> ('s, 'm, 'd) dao_query_client \<Rightarrow> ('s, 'd) dao_query_server \<Rightarrow> bool" where
  "dao_client_of wire client server \<longleftrightarrow>
     (\<forall>x. carries wire (dc_params client x) (ds_params server (Some x)))
   \<and> (\<forall>x. carries wire (dc_proposal client x) (ds_proposal server (Some x)))
   \<and> (\<forall>x. carries wire (dc_proposals client x) (ds_proposals server (Some x)))
   \<and> (\<forall>x. carries wire (dc_vote client x) (ds_vote server (Some x)))
   \<and> (\<forall>x. carries wire (dc_votes client x) (ds_votes server (Some x)))
   \<and> (\<forall>x. carries wire (dc_tally_result client x) (ds_tally_result server (Some x)))"

lemmas dao_request_defs =
  dao_request_Query_Params_0_def dao_local_request_Query_Params_0_def
  dao_request_Query_Proposal_0_def dao_local_request_Query_Proposal_0_def
  dao_request_Query_Proposals_0_def dao_local_request_Query_Proposals_0_def
  dao_request_Query_Vote_0_def dao_local_request_Query_Vote_0_def
  dao_request_Query_Votes_0_def dao_local_request_Query_Votes_0_def
  dao_request_Query_TallyResult_0_def dao_local_request_Query_TallyResult_0_def

lemma dao_requests_agree:
  assumes "dao_client_of wire client server"
  shows "same_call wire (dao_request_Query_Params_0 G client req ps) (dao_local_request_Query_Params_0 G server req ps)"
    and "same_call wire (dao_request_Query_Proposal_0 G client req ps) (dao_local_request_Query_Proposal_0 G server req ps)"
    and "same_call wire (dao_request_Query_Proposals_0 G client req ps) (dao_local_request_Query_Proposals_0 G server req ps)"
    and "same_call wire (dao_request_Query_Vote_0 G client req ps) (dao_local_request_Query_Vote_0 G server req ps)"
    and "same_call wire (dao_request_Query_Votes_0 G client req ps) (dao_local_request_Query_Votes_0 G server req ps)"
    and "same_call wire (dao_request_Query_TallyResult_0 G client req ps) (dao_local_request_Query_TallyResult_0 G server req ps)"
  using assms unfolding dao_request_defs dao_client_of_def
  by (simp_all add: same_call_intros del: split_paired_All)

definition dao_client_routes :: "('q, 'm, 'p) gateway_runtime \<Rightarrow> ('s, 'm, 'd) dao_query_client \<Rightarrow> ('q, 's, 'm, 'd dao_reply) route list" where
  "dao_client_routes G client = snd (dao_RegisterQueryHandlerClient G client [])"

definition dao_server_routes :: "('q, 'm, 'p) gateway_runtime \<Rightarrow> ('s, 'd) dao_query_server \<Rightarrow> ('q, 's, 'm, 'd dao_reply) route list" where
  "dao_server_routes G server = snd (dao_RegisterQueryHandlerServer G server [])"

lemma dao_routes_eq:
  "dao_client_routes G client =
    [\<lparr>route_method = ''GET'', route_pattern = dao_pattern_Query_Params_0,
       route_handler = client_handler G (dao_request_Query_Params_0 G client)\<rparr>,
     \<lparr>route_method = ''GET'', route_pattern = dao_pattern_Query_Proposal_0,
       route_handler = client_handler G (dao_request_Query_Proposal_0 G client)\<rparr>,
     \<lparr>route_method = ''GET'', route_pattern = dao_pattern_Query_Proposals_0,
       route_handler = client_handler G (dao_request_Query_Proposals_0 G client)\<rparr>,
     \<lparr>route_method = ''GET'', route_pattern = dao_pattern_Query_Vote_0,
       route_handler = client_handler G (dao_request_Query_Vote_0 G client)\<rparr>,
     \<lparr>route_method = ''GET'', route_pattern = dao_pattern_Query_Votes_0,
       route_handler = client_handler G (dao_request_Query_Votes_0 G client)\<rparr>,
     \<lparr>route_method = ''GET'', route_pattern = dao_pattern_Query_TallyResult_0,
       route_handler = client_handler G (dao_request_Query_TallyResult_0 G client)\<rparr>]"
  "dao_server_routes G server =
    [\<lparr>route_method = ''GET'', route_pattern = dao_pattern_Query_Params_0,
       route_handler = server_handler G (dao_local_request_Query_Params_0 G server)\<rparr>,
     \<lparr>route_method = ''GET'', route_pattern = dao_pattern_Query_Proposal_0,
       route_handler = server_handler G (dao_local_request_Query_Proposal_0 G server)\<rparr>,
     \<lparr>route_method = ''GET'', route_pattern = dao_pattern_Query_Proposals_0,
       route_handler = server_handler G (dao_local_request_Query_Proposals_0 G server)\<rparr>,
     \<lparr>route_method = ''GET'', route_pattern = dao_pattern_Query_Vote_0,
       route_handler = server_handler G (dao_local_request_Query_Vote_0 G server)\<rparr>,
     \<lparr>route_method = ''GET'', route_pattern = dao_pattern_Query_Votes_0,
       route_handler = server_handler G (dao_local_request_Query_Votes_0 G server)\<rparr>,
     \<lparr>route_method = ''GET'', route_pattern = dao_pattern_Query_TallyResult_0,
       route_handler = server_handler G (dao_local_request_Query_TallyResult_0 G server)\<rparr>]"
  by (simp_all add: dao_client_routes_def dao_server_routes_def dao_RegisterQueryHandlerClient_def
      dao_RegisterQueryHandlerServer_def mux_handle_def op_defs)

text \<open>Registration only adds routes, never fails and keeps the connection while the context lasts.\<close>

lemma dao_registration:
  "dao_register_grpc_gateway_routes G new conn mux = (Inr (), mux @ dao_client_routes G (new conn))"
  "dial endpoint = Inr conn \<Longrightarrow> dao_RegisterQueryHandlerFromEndpoint G new dial endpoint mux =
     ((Inr (), Some ClosedWhenDone), mux @ dao_client_routes G (new conn))"
  by (simp_all add: dao_routes_eq dao_register_grpc_gateway_routes_def dao_RegisterQueryHandlerFromEndpoint_def
      dao_RegisterQueryHandler_def dao_RegisterQueryHandlerClient_def mux_handle_def op_defs)

lemma dao_routes_agree:
  assumes "dao_client_of wire client server"
  shows "list_all2 (same_route G wire) (dao_client_routes G client) (dao_server_routes G server)"
  unfolding dao_routes_eq
  by (intro list.rel_intros same_route_handlers dao_requests_agree [OF assms])

lemma dao_patterns_distinct: "distinct (map route_pattern (dao_client_routes G client))"
  unfolding dao_routes_eq
  by (simp add: dao_pattern_Query_Params_0_def dao_pattern_Query_Proposal_0_def dao_pattern_Query_Proposals_0_def dao_pattern_Query_Vote_0_def dao_pattern_Query_Votes_0_def dao_pattern_Query_TallyResult_0_def must_pattern_def)

section \<open>No request changes the state\<close>

lemma dao_local_requests_quiet:
  "quiet (dao_local_request_Query_Params_0 G (dao_query_server_impl E z) req ps)"
  "quiet (dao_local_request_Query_Proposal_0 G (dao_query_server_impl E z) req ps)"
  "quiet (dao_local_request_Query_Proposals_0 G (dao_query_server_impl E z) req ps)"
  "quiet (dao_local_request_Query_Vote_0 G (dao_query_server_impl E z) req ps)"
  "quiet (dao_local_request_Query_Votes_0 G (dao_query_server_impl E z) req ps)"
  "quiet (dao_local_request_Query_TallyResult_0 G (dao_query_server_impl E z) req ps)"
  unfolding dao_request_defs
  by (intro quiet_intros quiet_server; simp add: dao_query_server_impl_def dao_queries_read_only)+

lemma dao_requests_quiet:
  assumes "dao_client_of wire client (dao_query_server_impl E z)"
  shows "quiet (dao_request_Query_Params_0 G client req ps)"
    and "quiet (dao_request_Query_Proposal_0 G client req ps)"
    and "quiet (dao_request_Query_Proposals_0 G client req ps)"
    and "quiet (dao_request_Query_Vote_0 G client req ps)"
    and "quiet (dao_request_Query_Votes_0 G client req ps)"
    and "quiet (dao_request_Query_TallyResult_0 G client req ps)"
  by (rule quiet_same, rule dao_requests_agree [OF assms], rule dao_local_requests_quiet)+

lemma dao_routes_quiet:
  assumes "dao_client_of wire client (dao_query_server_impl E z)" and "r \<in> set (dao_client_routes G client)"
  shows "snd (route_handler r req ps w) = w"
  using assms(2) unfolding dao_routes_eq by (auto intro!: quiet_handlers dao_requests_quiet [OF assms(1)])

end
