(* ===== verification/Dns_Gateway.thy ===== *)
theory Dns_Gateway
  imports Gateway_Runtime
begin

text \<open>
  The HTTP gateway of \<^verbatim>\<open>x/dnsblockchain\<close> (\<^verbatim>\<open>types/query.pb.gw.go\<close>): patterns, requests and their registration for the
  query server itself and for a gRPC client.
\<close>

section \<open>The service\<close>

datatype 'r dns_reply = DnsParamsReply dns_params | DomainReply domain | DomainsReply "domain list \<times> 'r"
  | TldsReply "string list" | NameReply name_response

record ('s, 'p, 'r) dns_query_server =
  ns_params :: "unit option \<Rightarrow> ('s, dns_params) op"
  ns_get_domain :: "u64 option \<Rightarrow> ('s, domain) op"
  ns_list_domain :: "'p option option \<Rightarrow> ('s, domain list \<times> 'r) op"
  ns_list_permitted_tlds :: "unit option \<Rightarrow> ('s, string list) op"
  ns_get_domain_by_name :: "string option \<Rightarrow> ('s, name_response) op"

record ('s, 'm, 'p, 'r) dns_query_client =
  nc_params :: "unit \<Rightarrow> ('s, 'm, dns_params) call"
  nc_get_domain :: "u64 \<Rightarrow> ('s, 'm, domain) call"
  nc_list_domain :: "'p option \<Rightarrow> ('s, 'm, domain list \<times> 'r) call"
  nc_list_permitted_tlds :: "unit \<Rightarrow> ('s, 'm, string list) call"
  nc_get_domain_by_name :: "string \<Rightarrow> ('s, 'm, name_response) call"

text \<open>\<^verbatim>\<open>NewQueryServerImpl\<close> gives the query server of the keeper, here at one block and with the pagination of the SDK.\<close>

definition dns_query_server_impl ::
  "('b, 'd) env \<Rightarrow> ctx \<Rightarrow> ((u64 \<times> domain) list \<Rightarrow> 'p option \<Rightarrow> (domain list \<times> 'r) res) \<Rightarrow> (('b, 'd) world, 'p, 'r) dns_query_server" where
  "dns_query_server_impl E c paginate = \<lparr>ns_params = query_dns_params E, ns_get_domain = query_get_domain E,
     ns_list_domain = query_list_domain E paginate, ns_list_permitted_tlds = query_list_permitted_tlds E,
     ns_get_domain_by_name = query_domain_by_name E c\<rparr>"

section \<open>Patterns and filters\<close>

definition dns_pattern_Query_Params_0 :: pattern where
  "dns_pattern_Query_Params_0 = must_pattern [2, 0, 2, 0, 2, 1, 2, 2]
    [''dnsblockchain'', ''v1'', ''params'']"

definition dns_pattern_Query_GetDomain_0 :: pattern where
  "dns_pattern_Query_GetDomain_0 = must_pattern [2, 0, 2, 0, 2, 1, 2, 2, 1, 0, 4, 1, 5, 3]
    [''dnsblockchain'', ''v1'', ''domain'', ''id'']"

definition dns_pattern_Query_ListDomain_0 :: pattern where
  "dns_pattern_Query_ListDomain_0 = must_pattern [2, 0, 2, 0, 2, 1, 2, 2]
    [''dnsblockchain'', ''v1'', ''domain'']"

definition dns_pattern_Query_ListPermittedTLDs_0 :: pattern where
  "dns_pattern_Query_ListPermittedTLDs_0 = must_pattern [2, 0, 2, 0, 2, 1, 2, 2]
    [''dnsblockchain'', ''v1'', ''permitted_tlds'']"

definition dns_pattern_Query_GetDomainByName_0 :: pattern where
  "dns_pattern_Query_GetDomainByName_0 = must_pattern [2, 0, 2, 0, 2, 1, 2, 2, 1, 0, 4, 1, 5, 3]
    [''dnsblockchain'', ''v1'', ''domain_by_name'', ''name'']"

definition filter_Query_ListDomain_0 :: double_array where "filter_Query_ListDomain_0 = no_filter"

section \<open>Requests\<close>

definition dns_request_Query_Params_0 ::
  "('q, 'm, 'p) gateway_runtime \<Rightarrow> ('s, 'm, 'p, 'r) dns_query_client \<Rightarrow> 'q \<Rightarrow> path_params \<Rightarrow> ('s, 'm, 'r dns_reply) call" where
  "dns_request_Query_Params_0 G client req pathParams =
     reply DnsParamsReply (nc_params client ())"

definition dns_local_request_Query_Params_0 ::
  "('q, 'm, 'p) gateway_runtime \<Rightarrow> ('s, 'p, 'r) dns_query_server \<Rightarrow> 'q \<Rightarrow> path_params \<Rightarrow> ('s, 'm, 'r dns_reply) call" where
  "dns_local_request_Query_Params_0 G server req pathParams =
     reply DnsParamsReply (server_call G (ns_params server (Some ())))"

definition dns_request_Query_GetDomain_0 ::
  "('q, 'm, 'p) gateway_runtime \<Rightarrow> ('s, 'm, 'p, 'r) dns_query_client \<Rightarrow> 'q \<Rightarrow> path_params \<Rightarrow> ('s, 'm, 'r dns_reply) call" where
  "dns_request_Query_GetDomain_0 G client req pathParams =
     reply DomainReply (uint64_param G pathParams ''id'' (\<lambda>i. nc_get_domain client i))"

definition dns_local_request_Query_GetDomain_0 ::
  "('q, 'm, 'p) gateway_runtime \<Rightarrow> ('s, 'p, 'r) dns_query_server \<Rightarrow> 'q \<Rightarrow> path_params \<Rightarrow> ('s, 'm, 'r dns_reply) call" where
  "dns_local_request_Query_GetDomain_0 G server req pathParams =
     reply DomainReply (uint64_param G pathParams ''id'' (\<lambda>i. server_call G (ns_get_domain server (Some i))))"

definition dns_request_Query_ListDomain_0 ::
  "('q, 'm, 'p) gateway_runtime \<Rightarrow> ('s, 'm, 'p, 'r) dns_query_client \<Rightarrow> 'q \<Rightarrow> path_params \<Rightarrow> ('s, 'm, 'r dns_reply) call" where
  "dns_request_Query_ListDomain_0 G client req pathParams =
     reply DomainsReply (form_params G (\<lambda>form. rt_populate_domains G filter_Query_ListDomain_0 form None) req
       (\<lambda>x. nc_list_domain client x))"

definition dns_local_request_Query_ListDomain_0 ::
  "('q, 'm, 'p) gateway_runtime \<Rightarrow> ('s, 'p, 'r) dns_query_server \<Rightarrow> 'q \<Rightarrow> path_params \<Rightarrow> ('s, 'm, 'r dns_reply) call" where
  "dns_local_request_Query_ListDomain_0 G server req pathParams =
     reply DomainsReply (form_params G (\<lambda>form. rt_populate_domains G filter_Query_ListDomain_0 form None) req
       (\<lambda>x. server_call G (ns_list_domain server (Some x))))"

definition dns_request_Query_ListPermittedTLDs_0 ::
  "('q, 'm, 'p) gateway_runtime \<Rightarrow> ('s, 'm, 'p, 'r) dns_query_client \<Rightarrow> 'q \<Rightarrow> path_params \<Rightarrow> ('s, 'm, 'r dns_reply) call" where
  "dns_request_Query_ListPermittedTLDs_0 G client req pathParams =
     reply TldsReply (nc_list_permitted_tlds client ())"

definition dns_local_request_Query_ListPermittedTLDs_0 ::
  "('q, 'm, 'p) gateway_runtime \<Rightarrow> ('s, 'p, 'r) dns_query_server \<Rightarrow> 'q \<Rightarrow> path_params \<Rightarrow> ('s, 'm, 'r dns_reply) call" where
  "dns_local_request_Query_ListPermittedTLDs_0 G server req pathParams =
     reply TldsReply (server_call G (ns_list_permitted_tlds server (Some ())))"

definition dns_request_Query_GetDomainByName_0 ::
  "('q, 'm, 'p) gateway_runtime \<Rightarrow> ('s, 'm, 'p, 'r) dns_query_client \<Rightarrow> 'q \<Rightarrow> path_params \<Rightarrow> ('s, 'm, 'r dns_reply) call" where
  "dns_request_Query_GetDomainByName_0 G client req pathParams =
     reply NameReply (string_param G pathParams ''name'' (\<lambda>s. nc_get_domain_by_name client s))"

definition dns_local_request_Query_GetDomainByName_0 ::
  "('q, 'm, 'p) gateway_runtime \<Rightarrow> ('s, 'p, 'r) dns_query_server \<Rightarrow> 'q \<Rightarrow> path_params \<Rightarrow> ('s, 'm, 'r dns_reply) call" where
  "dns_local_request_Query_GetDomainByName_0 G server req pathParams =
     reply NameReply (string_param G pathParams ''name'' (\<lambda>s. server_call G (ns_get_domain_by_name server (Some s))))"

section \<open>Registration\<close>

definition dns_RegisterQueryHandlerServer ::
  "('q, 'm, 'p) gateway_runtime \<Rightarrow> ('s, 'p, 'r) dns_query_server \<Rightarrow> (('q, 's, 'm, 'r dns_reply) route list, unit) op" where
  "dns_RegisterQueryHandlerServer G server =
     then_op (mux_handle ''GET'' dns_pattern_Query_Params_0 (server_handler G (dns_local_request_Query_Params_0 G server)))
    (then_op (mux_handle ''GET'' dns_pattern_Query_GetDomain_0 (server_handler G (dns_local_request_Query_GetDomain_0 G server)))
    (then_op (mux_handle ''GET'' dns_pattern_Query_ListDomain_0 (server_handler G (dns_local_request_Query_ListDomain_0 G server)))
    (then_op (mux_handle ''GET'' dns_pattern_Query_ListPermittedTLDs_0 (server_handler G (dns_local_request_Query_ListPermittedTLDs_0 G server)))
    (then_op (mux_handle ''GET'' dns_pattern_Query_GetDomainByName_0 (server_handler G (dns_local_request_Query_GetDomainByName_0 G server))) (ret ())))))"

definition dns_RegisterQueryHandlerClient ::
  "('q, 'm, 'p) gateway_runtime \<Rightarrow> ('s, 'm, 'p, 'r) dns_query_client \<Rightarrow> (('q, 's, 'm, 'r dns_reply) route list, unit) op" where
  "dns_RegisterQueryHandlerClient G client =
     then_op (mux_handle ''GET'' dns_pattern_Query_Params_0 (client_handler G (dns_request_Query_Params_0 G client)))
    (then_op (mux_handle ''GET'' dns_pattern_Query_GetDomain_0 (client_handler G (dns_request_Query_GetDomain_0 G client)))
    (then_op (mux_handle ''GET'' dns_pattern_Query_ListDomain_0 (client_handler G (dns_request_Query_ListDomain_0 G client)))
    (then_op (mux_handle ''GET'' dns_pattern_Query_ListPermittedTLDs_0 (client_handler G (dns_request_Query_ListPermittedTLDs_0 G client)))
    (then_op (mux_handle ''GET'' dns_pattern_Query_GetDomainByName_0 (client_handler G (dns_request_Query_GetDomainByName_0 G client))) (ret ())))))"

definition dns_RegisterQueryHandler ::
  "('q, 'm, 'p) gateway_runtime \<Rightarrow> ('conn \<Rightarrow> ('s, 'm, 'p, 'r) dns_query_client) \<Rightarrow> 'conn \<Rightarrow> (('q, 's, 'm, 'r dns_reply) route list, unit) op" where
  "dns_RegisterQueryHandler G NewQueryClient conn = dns_RegisterQueryHandlerClient G (NewQueryClient conn)"

text \<open>\<open>dial\<close> is \<^verbatim>\<open>grpc.Dial\<close>; the deferred function decides when the connection is closed.\<close>

definition dns_RegisterQueryHandlerFromEndpoint ::
  "('q, 'm, 'p) gateway_runtime \<Rightarrow> ('conn \<Rightarrow> ('s, 'm, 'p, 'r) dns_query_client) \<Rightarrow> (string \<Rightarrow> 'conn res) \<Rightarrow> string \<Rightarrow>
    ('q, 's, 'm, 'r dns_reply) route list \<Rightarrow> (unit res \<times> conn_fate option) \<times> ('q, 's, 'm, 'r dns_reply) route list" where
  "dns_RegisterQueryHandlerFromEndpoint G NewQueryClient dial endpoint mux = (case dial endpoint of
     Inl e \<Rightarrow> ((Inl e, None), mux)
   | Inr conn \<Rightarrow> (case dns_RegisterQueryHandler G NewQueryClient conn mux of
        (Inl e, mux') \<Rightarrow> ((Inl e, Some ClosedNow), mux')
      | (Inr _, mux') \<Rightarrow> ((Inr (), Some ClosedWhenDone), mux')))"

text \<open>The module registers the client for the connection of its context; an error would be a panic.\<close>

definition dns_register_grpc_gateway_routes ::
  "('q, 'm, 'p) gateway_runtime \<Rightarrow> ('conn \<Rightarrow> ('s, 'm, 'p, 'r) dns_query_client) \<Rightarrow> 'conn \<Rightarrow> (('q, 's, 'm, 'r dns_reply) route list, unit) op" where
  "dns_register_grpc_gateway_routes G NewQueryClient clientCtx =
     map_err (\<lambda>_. Panic) (dns_RegisterQueryHandlerClient G (NewQueryClient clientCtx))"

section \<open>Both ways agree\<close>

text \<open>A client whose connection leads to the server.\<close>

definition dns_client_of :: "(gerr \<Rightarrow> gerr) \<Rightarrow> ('s, 'm, 'p, 'r) dns_query_client \<Rightarrow> ('s, 'p, 'r) dns_query_server \<Rightarrow> bool" where
  "dns_client_of wire client server \<longleftrightarrow>
     (\<forall>x. carries wire (nc_params client x) (ns_params server (Some x)))
   \<and> (\<forall>x. carries wire (nc_get_domain client x) (ns_get_domain server (Some x)))
   \<and> (\<forall>x. carries wire (nc_list_domain client x) (ns_list_domain server (Some x)))
   \<and> (\<forall>x. carries wire (nc_list_permitted_tlds client x) (ns_list_permitted_tlds server (Some x)))
   \<and> (\<forall>x. carries wire (nc_get_domain_by_name client x) (ns_get_domain_by_name server (Some x)))"

lemmas dns_request_defs =
  dns_request_Query_Params_0_def dns_local_request_Query_Params_0_def
  dns_request_Query_GetDomain_0_def dns_local_request_Query_GetDomain_0_def
  dns_request_Query_ListDomain_0_def dns_local_request_Query_ListDomain_0_def
  dns_request_Query_ListPermittedTLDs_0_def dns_local_request_Query_ListPermittedTLDs_0_def
  dns_request_Query_GetDomainByName_0_def dns_local_request_Query_GetDomainByName_0_def

lemma dns_requests_agree:
  assumes "dns_client_of wire client server"
  shows "same_call wire (dns_request_Query_Params_0 G client req ps) (dns_local_request_Query_Params_0 G server req ps)"
    and "same_call wire (dns_request_Query_GetDomain_0 G client req ps) (dns_local_request_Query_GetDomain_0 G server req ps)"
    and "same_call wire (dns_request_Query_ListDomain_0 G client req ps) (dns_local_request_Query_ListDomain_0 G server req ps)"
    and "same_call wire (dns_request_Query_ListPermittedTLDs_0 G client req ps) (dns_local_request_Query_ListPermittedTLDs_0 G server req ps)"
    and "same_call wire (dns_request_Query_GetDomainByName_0 G client req ps) (dns_local_request_Query_GetDomainByName_0 G server req ps)"
  using assms unfolding dns_request_defs dns_client_of_def
  by (simp_all add: same_call_intros del: split_paired_All)

definition dns_client_routes :: "('q, 'm, 'p) gateway_runtime \<Rightarrow> ('s, 'm, 'p, 'r) dns_query_client \<Rightarrow> ('q, 's, 'm, 'r dns_reply) route list" where
  "dns_client_routes G client = snd (dns_RegisterQueryHandlerClient G client [])"

definition dns_server_routes :: "('q, 'm, 'p) gateway_runtime \<Rightarrow> ('s, 'p, 'r) dns_query_server \<Rightarrow> ('q, 's, 'm, 'r dns_reply) route list" where
  "dns_server_routes G server = snd (dns_RegisterQueryHandlerServer G server [])"

lemma dns_routes_eq:
  "dns_client_routes G client =
    [\<lparr>route_method = ''GET'', route_pattern = dns_pattern_Query_Params_0,
       route_handler = client_handler G (dns_request_Query_Params_0 G client)\<rparr>,
     \<lparr>route_method = ''GET'', route_pattern = dns_pattern_Query_GetDomain_0,
       route_handler = client_handler G (dns_request_Query_GetDomain_0 G client)\<rparr>,
     \<lparr>route_method = ''GET'', route_pattern = dns_pattern_Query_ListDomain_0,
       route_handler = client_handler G (dns_request_Query_ListDomain_0 G client)\<rparr>,
     \<lparr>route_method = ''GET'', route_pattern = dns_pattern_Query_ListPermittedTLDs_0,
       route_handler = client_handler G (dns_request_Query_ListPermittedTLDs_0 G client)\<rparr>,
     \<lparr>route_method = ''GET'', route_pattern = dns_pattern_Query_GetDomainByName_0,
       route_handler = client_handler G (dns_request_Query_GetDomainByName_0 G client)\<rparr>]"
  "dns_server_routes G server =
    [\<lparr>route_method = ''GET'', route_pattern = dns_pattern_Query_Params_0,
       route_handler = server_handler G (dns_local_request_Query_Params_0 G server)\<rparr>,
     \<lparr>route_method = ''GET'', route_pattern = dns_pattern_Query_GetDomain_0,
       route_handler = server_handler G (dns_local_request_Query_GetDomain_0 G server)\<rparr>,
     \<lparr>route_method = ''GET'', route_pattern = dns_pattern_Query_ListDomain_0,
       route_handler = server_handler G (dns_local_request_Query_ListDomain_0 G server)\<rparr>,
     \<lparr>route_method = ''GET'', route_pattern = dns_pattern_Query_ListPermittedTLDs_0,
       route_handler = server_handler G (dns_local_request_Query_ListPermittedTLDs_0 G server)\<rparr>,
     \<lparr>route_method = ''GET'', route_pattern = dns_pattern_Query_GetDomainByName_0,
       route_handler = server_handler G (dns_local_request_Query_GetDomainByName_0 G server)\<rparr>]"
  by (simp_all add: dns_client_routes_def dns_server_routes_def dns_RegisterQueryHandlerClient_def
      dns_RegisterQueryHandlerServer_def mux_handle_def op_defs)

text \<open>Registration only adds routes, never fails and keeps the connection while the context lasts.\<close>

lemma dns_registration:
  "dns_register_grpc_gateway_routes G new conn mux = (Inr (), mux @ dns_client_routes G (new conn))"
  "dial endpoint = Inr conn \<Longrightarrow> dns_RegisterQueryHandlerFromEndpoint G new dial endpoint mux =
     ((Inr (), Some ClosedWhenDone), mux @ dns_client_routes G (new conn))"
  by (simp_all add: dns_routes_eq dns_register_grpc_gateway_routes_def dns_RegisterQueryHandlerFromEndpoint_def
      dns_RegisterQueryHandler_def dns_RegisterQueryHandlerClient_def mux_handle_def op_defs)

lemma dns_routes_agree:
  assumes "dns_client_of wire client server"
  shows "list_all2 (same_route G wire) (dns_client_routes G client) (dns_server_routes G server)"
  unfolding dns_routes_eq
  by (intro list.rel_intros same_route_handlers dns_requests_agree [OF assms])

lemma dns_patterns_distinct: "distinct (map route_pattern (dns_client_routes G client))"
  unfolding dns_routes_eq
  by (simp add: dns_pattern_Query_Params_0_def dns_pattern_Query_GetDomain_0_def dns_pattern_Query_ListDomain_0_def dns_pattern_Query_ListPermittedTLDs_0_def dns_pattern_Query_GetDomainByName_0_def must_pattern_def)

section \<open>No request changes the state\<close>

lemma dns_local_requests_quiet:
  "quiet (dns_local_request_Query_Params_0 G (dns_query_server_impl E c pg) req ps)"
  "quiet (dns_local_request_Query_GetDomain_0 G (dns_query_server_impl E c pg) req ps)"
  "quiet (dns_local_request_Query_ListDomain_0 G (dns_query_server_impl E c pg) req ps)"
  "quiet (dns_local_request_Query_ListPermittedTLDs_0 G (dns_query_server_impl E c pg) req ps)"
  "quiet (dns_local_request_Query_GetDomainByName_0 G (dns_query_server_impl E c pg) req ps)"
  unfolding dns_request_defs
  by (intro quiet_intros quiet_server; simp add: dns_query_server_impl_def dns_queries_read_only)+

lemma dns_requests_quiet:
  assumes "dns_client_of wire client (dns_query_server_impl E c pg)"
  shows "quiet (dns_request_Query_Params_0 G client req ps)"
    and "quiet (dns_request_Query_GetDomain_0 G client req ps)"
    and "quiet (dns_request_Query_ListDomain_0 G client req ps)"
    and "quiet (dns_request_Query_ListPermittedTLDs_0 G client req ps)"
    and "quiet (dns_request_Query_GetDomainByName_0 G client req ps)"
  by (rule quiet_same, rule dns_requests_agree [OF assms], rule dns_local_requests_quiet)+

lemma dns_routes_quiet:
  assumes "dns_client_of wire client (dns_query_server_impl E c pg)" and "r \<in> set (dns_client_routes G client)"
  shows "snd (route_handler r req ps w) = w"
  using assms(2) unfolding dns_routes_eq by (auto intro!: quiet_handlers dns_requests_quiet [OF assms(1)])

end
