(* ===== verification/Gateway_Properties.thy ===== *)
theory Gateway_Properties
  imports Dao_Gateway Dns_Gateway Dns_Properties
begin

text \<open>
  The HTTP gateways of both modules: whether they run in the process of the query server or reach it over
  gRPC, they give the answers of the queries and change nothing.
\<close>

section \<open>Answers of single requests\<close>

text \<open>A path parameter that is missing or that is no number never reaches the server.\<close>

lemma bad_proposal_id:
  assumes "rt_annotate_context G req = None"
    and "case ps ''proposal_id'' of None \<Rightarrow> True | Some val \<Rightarrow> \<not> is_ok (rt_uint64 G val)"
  shows "client_handler G (dao_request_Query_Proposal_0 G client) req ps s =
    (HTTPError (Some (rt_no_metadata G)) StatusInvalidArgument, s)"
  using assms
  by (auto simp: client_handler_def dao_request_Query_Proposal_0_def reply_def uint64_param_def invalid_argument_def
      answer_def split: option.splits sum.splits)

text \<open>The domain of a name, over HTTP.\<close>

lemma name_over_http:
  assumes client: "dns_client_of wire client (dns_query_server_impl E c pg)" and E: "store_total E"
    and req: "rt_annotate_context G req = None" and param: "ps ''name'' = Some name" "rt_string G name = Inr name" "name \<noteq> []"
  shows "\<exists>md. client_handler G (dns_request_Query_GetDomainByName_0 G client) req ps w =
    (ForwardResponse md (NameReply (case resolve E w name of None \<Rightarrow> not_found_response
       | Some d \<Rightarrow> \<lparr>qn_domain = d, qn_found = True, qn_expired = is_expired c d\<rparr>)), w)"
proof -
  have "carries wire (nc_get_domain_by_name client name) (query_domain_by_name E c (Some name))"
    using client by (simp add: dns_client_of_def dns_query_server_impl_def)
  then obtain md where "nc_get_domain_by_name client name w = ((Inr (case resolve E w name of None \<Rightarrow> not_found_response
       | Some d \<Rightarrow> \<lparr>qn_domain = d, qn_found = True, qn_expired = is_expired c d\<rparr>), md), w)"
    unfolding carries_def query_domain_by_name_resolve [OF E param(3)] by fastforce
  then show ?thesis
    using req param
    by (simp add: client_handler_def dns_request_Query_GetDomainByName_0_def reply_def string_param_def answer_def)
qed

section \<open>Both gateways\<close>

text \<open>C40: The HTTP gateways are faithful: in both modules the routes that call a gRPC client and those that
  call the query server in the same process are the same and give the same answers (errors of the
  server as they come over the wire); no request changes the state; and the route for a name
  answers in every spelling with the domain that the store has for the name.\<close>

theorem gateways_serve_queries:
  assumes dao: "dao_client_of wire dc (dao_query_server_impl E z)" and dns: "dns_client_of wire nc (dns_query_server_impl E c pg)"
    and E: "store_total E"
    and req: "rt_annotate_context G req = None" and param: "ps ''name'' = Some name" "rt_string G name = Inr name" "name \<noteq> []"
  shows "list_all2 (same_route G wire) (dao_client_routes G dc) (dao_server_routes G (dao_query_server_impl E z))
   \<and> list_all2 (same_route G wire) (dns_client_routes G nc) (dns_server_routes G (dns_query_server_impl E c pg))
   \<and> (\<forall>r \<in> set (dao_client_routes G dc). \<forall>req ps w. snd (route_handler r req ps w) = w)
   \<and> (\<forall>r \<in> set (dns_client_routes G nc). \<forall>req ps w. snd (route_handler r req ps w) = w)
   \<and> (\<exists>r \<in> set (dns_client_routes G nc). route_pattern r = dns_pattern_Query_GetDomainByName_0
        \<and> (\<exists>md. route_handler r req ps w = (ForwardResponse md (NameReply (case resolve E w name of None \<Rightarrow> not_found_response
             | Some d \<Rightarrow> \<lparr>qn_domain = d, qn_found = True, qn_expired = is_expired c d\<rparr>)), w)))"
proof (intro conjI)
  show "list_all2 (same_route G wire) (dao_client_routes G dc) (dao_server_routes G (dao_query_server_impl E z))"
    by (rule dao_routes_agree [OF dao])
  show "list_all2 (same_route G wire) (dns_client_routes G nc) (dns_server_routes G (dns_query_server_impl E c pg))"
    by (rule dns_routes_agree [OF dns])
  show "\<forall>r \<in> set (dao_client_routes G dc). \<forall>req ps w. snd (route_handler r req ps w) = w"
    by (intro ballI allI) (rule dao_routes_quiet [OF dao])
  show "\<forall>r \<in> set (dns_client_routes G nc). \<forall>req ps w. snd (route_handler r req ps w) = w"
    by (intro ballI allI) (rule dns_routes_quiet [OF dns])
  show "\<exists>r \<in> set (dns_client_routes G nc). route_pattern r = dns_pattern_Query_GetDomainByName_0
        \<and> (\<exists>md. route_handler r req ps w = (ForwardResponse md (NameReply (case resolve E w name of None \<Rightarrow> not_found_response
             | Some d \<Rightarrow> \<lparr>qn_domain = d, qn_found = True, qn_expired = is_expired c d\<rparr>)), w))"
    unfolding dns_routes_eq using name_over_http [where ps = ps and w = w, OF dns E req param] by simp
qed

section \<open>An example\<close>

text \<open>A client that runs the server, with the errors of a wire, and a gateway on plain parameters.\<close>

definition over_wire :: "(gerr \<Rightarrow> gerr) \<Rightarrow> ('s, 'a) op \<Rightarrow> ('s, unit, 'a) call" where
  "over_wire wire m s = (case m s of (Inl e, s') \<Rightarrow> ((Inl (wire e), ()), s') | (Inr x, s') \<Rightarrow> ((Inr x, ()), s'))"

lemma carries_over_wire [simp]: "carries wire (over_wire wire m) m"
  unfolding carries_def over_wire_def by (intro allI exI) (rule refl)

definition ex_dao_client :: "((ex_ledger, int) world, unit, int) dao_query_client" where
  "ex_dao_client = (let s = dao_query_server_impl ex_env ex_dao_params; w = (\<lambda>_. StatusInternal) in
     \<lparr>dc_params = \<lambda>x. over_wire w (ds_params s (Some x)), dc_proposal = \<lambda>x. over_wire w (ds_proposal s (Some x)),
      dc_proposals = \<lambda>x. over_wire w (ds_proposals s (Some x)), dc_vote = \<lambda>x. over_wire w (ds_vote s (Some x)),
      dc_votes = \<lambda>x. over_wire w (ds_votes s (Some x)), dc_tally_result = \<lambda>x. over_wire w (ds_tally_result s (Some x))\<rparr>)"

definition ex_pages :: "(u64 \<times> domain) list \<Rightarrow> unit option \<Rightarrow> (domain list \<times> unit) res" where
  "ex_pages xs _ = Inr (map snd xs, ())"

definition ex_dns_client :: "((ex_ledger, int) world, unit, unit, unit) dns_query_client" where
  "ex_dns_client = (let s = dns_query_server_impl ex_env ex_ctx ex_pages; w = (\<lambda>_. StatusInternal) in
     \<lparr>nc_params = \<lambda>x. over_wire w (ns_params s (Some x)), nc_get_domain = \<lambda>x. over_wire w (ns_get_domain s (Some x)),
      nc_list_domain = \<lambda>x. over_wire w (ns_list_domain s (Some x)),
      nc_list_permitted_tlds = \<lambda>x. over_wire w (ns_list_permitted_tlds s (Some x)),
      nc_get_domain_by_name = \<lambda>x. over_wire w (ns_get_domain_by_name s (Some x))\<rparr>)"

definition ex_gateway :: "(unit, unit, unit) gateway_runtime" where
  "ex_gateway = \<lparr>rt_uint64 = (\<lambda>s. if s \<noteq> [] \<and> list_all (\<lambda>x. x \<in> {CHR ''0''..CHR ''9''}) s
       then Inr (of_nat (read_digits s)) else Inl (ErrExternal 1)),
     rt_string = Inr, rt_parse_form = (\<lambda>_. Inr []), rt_populate_proposals = (\<lambda>_ _ x. Inr x),
     rt_populate_votes = (\<lambda>_ _ x. Inr x), rt_populate_domains = (\<lambda>_ _ x. Inr x), rt_annotate_context = (\<lambda>_. None),
     rt_annotate_incoming = (\<lambda>_. None), rt_no_metadata = (), rt_join_stream = (\<lambda>x. x)\<rparr>"

lemma ex_clients:
  "dao_client_of (\<lambda>_. StatusInternal) ex_dao_client (dao_query_server_impl ex_env ex_dao_params)"
  "dns_client_of (\<lambda>_. StatusInternal) ex_dns_client (dns_query_server_impl ex_env ex_ctx ex_pages)"
  by (simp_all add: dao_client_of_def ex_dao_client_def dns_client_of_def ex_dns_client_def Let_def)

theorem gateways_serve_queries_witness:
  "\<exists>r \<in> set (dns_client_routes ex_gateway ex_dns_client). route_pattern r = dns_pattern_Query_GetDomainByName_0
     \<and> fst (route_handler r () [''name'' \<mapsto> ''Foo.Web3.''] ex_world1)
       = ForwardResponse () (NameReply \<lparr>qn_domain = ex_domain, qn_found = True, qn_expired = is_expired ex_ctx ex_domain\<rparr>)"
proof -
  have g: "rt_annotate_context ex_gateway () = None" "[''name'' \<mapsto> ''Foo.Web3.''] ''name'' = Some ''Foo.Web3.''"
    "rt_string ex_gateway ''Foo.Web3.'' = Inr ''Foo.Web3.''" "''Foo.Web3.'' \<noteq> []"
    by (simp_all add: ex_gateway_def)
  from gateways_serve_queries [where ps = "[''name'' \<mapsto> ''Foo.Web3.'']" and w = ex_world1, OF ex_clients ex_env_total g] show ?thesis
    by (auto simp: ex_resolve)
qed

end
