(* ===== verification/App_Modules.thy ===== *)
theory App_Modules
  imports Chain_History
begin

text \<open>
  The module objects that the application runs (\<^verbatim>\<open>module/module.go\<close>, \<^verbatim>\<open>module/depinject.go\<close> of both
  modules) with their part of the application configuration (\<^verbatim>\<open>app/app_config.go\<close>): genesis states as
  JSON, the hooks of a block, the authority, the registered messages and the permissions of the
  module accounts. A Go panic is the error \<open>Panic\<close>.
\<close>

section \<open>Constructors of the messages (messages\_domain.go)\<close>

definition new_msg_create_domain :: "string \<Rightarrow> string \<Rightarrow> string \<Rightarrow> ns_record option list \<Rightarrow> msg_create_domain" where
  "new_msg_create_domain creator name owner nsRecords =
     \<lparr>cd_creator = creator, cd_name = name, cd_owner = owner, cd_ns_records = nsRecords\<rparr>"

definition new_msg_update_domain :: "string \<Rightarrow> u64 \<Rightarrow> string \<Rightarrow> ns_record option list \<Rightarrow> msg_update_domain" where
  "new_msg_update_domain creator i owner nsRecords =
     \<lparr>ud_creator = creator, ud_id = i, ud_owner = owner, ud_ns_records = nsRecords\<rparr>"

definition new_msg_delete_domain :: "string \<Rightarrow> u64 \<Rightarrow> msg_delete_domain" where
  "new_msg_delete_domain creator i = \<lparr>dd_creator = creator, dd_id = i\<rparr>"

definition new_msg_transfer_domain :: "string \<Rightarrow> u64 \<Rightarrow> string \<Rightarrow> msg_transfer_domain" where
  "new_msg_transfer_domain creator i newOwner = \<lparr>td_creator = creator, td_id = i, td_new_owner = newOwner\<rparr>"

definition new_msg_heartbeat_domain :: "string \<Rightarrow> u64 \<Rightarrow> msg_heartbeat_domain" where
  "new_msg_heartbeat_domain creator i = \<lparr>hd_creator = creator, hd_id = i\<rparr>"

section \<open>Genesis states as JSON\<close>

text \<open>The JSON codec of the SDK for the genesis state of a module, of a type \<open>'g\<close>.\<close>

record 'g json_ops =
  json_marshal :: "'g \<Rightarrow> bytes res"
  json_unmarshal :: "bytes \<Rightarrow> 'g res"

definition must :: "'a res \<Rightarrow> 'a res" where
  "must r = (case r of Inl _ \<Rightarrow> Inl Panic | Inr x \<Rightarrow> Inr x)"

definition dns_default_genesis_json :: "('b, 'd) env \<Rightarrow> dns_genesis json_ops \<Rightarrow> bytes res" where
  "dns_default_genesis_json E J = must (json_marshal J (default_dns_genesis E))"

definition dns_validate_genesis_json :: "('b, 'd) env \<Rightarrow> dns_genesis json_ops \<Rightarrow> bytes \<Rightarrow> gerr option" where
  "dns_validate_genesis_json E J bz = (case json_unmarshal J bz of
     Inl _ \<Rightarrow> Some (ErrPlain ''failed to unmarshal dnsblockchain genesis state'')
   | Inr genState \<Rightarrow> validate_dns_genesis E genState)"

definition dns_module_init_genesis :: "('b, 'd) env \<Rightarrow> dns_genesis json_ops \<Rightarrow> bytes \<Rightarrow> (('b, 'd) world, unit) op" where
  "dns_module_init_genesis E J gs = (case json_unmarshal J gs of
     Inl _ \<Rightarrow> fail Panic | Inr genState \<Rightarrow> map_err (\<lambda>_. Panic) (init_dns_genesis E genState))"

definition dns_module_export_genesis :: "('b, 'd) env \<Rightarrow> dns_genesis json_ops \<Rightarrow> (('b, 'd) world, bytes) op" where
  "dns_module_export_genesis E J =
     bind_op (map_err (\<lambda>_. Panic) (export_dns_genesis E)) (\<lambda>genState.
     map_err (\<lambda>_. Panic) (lift_res (json_marshal J genState)))"

definition dao_default_genesis_json :: "('b, 'd) env \<Rightarrow> 'd dao_genesis json_ops \<Rightarrow> bytes res" where
  "dao_default_genesis_json E J = must (json_marshal J (default_dao_genesis E))"

definition dao_validate_genesis_json :: "('b, 'd) env \<Rightarrow> 'd dao_genesis json_ops \<Rightarrow> bytes \<Rightarrow> gerr option" where
  "dao_validate_genesis_json E J bz = (case json_unmarshal J bz of
     Inl _ \<Rightarrow> Some (ErrPlain ''failed to unmarshal dao genesis state'')
   | Inr genState \<Rightarrow> validate_dao_genesis E genState)"

definition dao_module_init_genesis :: "('b, 'd) env \<Rightarrow> 'd dao_genesis json_ops \<Rightarrow> bytes \<Rightarrow> (('b, 'd) world, unit) op" where
  "dao_module_init_genesis E J gs =
     bind_op (lift_res (must (json_unmarshal J gs))) (\<lambda>genState. map_err (\<lambda>_. Panic) (init_dao_genesis E genState))"

definition dao_module_export_genesis :: "('b, 'd) env \<Rightarrow> 'd dao_genesis json_ops \<Rightarrow> (('b, 'd) world, bytes) op" where
  "dao_module_export_genesis E J =
     bind_op (map_err (\<lambda>_. Panic) (export_dao_genesis E)) (\<lambda>genState. lift_res (must (json_marshal J genState)))"

section \<open>Hooks, names and versions\<close>

definition dns_begin_block :: "(('b, 'd) world, unit) op" where "dns_begin_block = ret ()"
definition dns_end_block :: "(('b, 'd) world, unit) op" where "dns_end_block = ret ()"
definition dns_consensus_version :: u64 where "dns_consensus_version = 1"
definition dao_consensus_version :: u64 where "dao_consensus_version = 1"
definition dns_module_name :: string where "dns_module_name = ModuleName"
definition dao_module_name :: string where "dao_module_name = DaoModuleName"

text \<open>The end blockers of the two modules in the order of the configuration.\<close>

definition run_end_blockers :: "('b, 'd) env \<Rightarrow> ctx \<Rightarrow> (('b, 'd) world, unit) op" where
  "run_end_blockers E c = then_op dns_end_block (end_block E c)"

lemma run_end_blockers_eq: "run_end_blockers E c = end_block E c"
  by (rule ext) (simp add: run_end_blockers_def dns_end_block_def then_op_def bind_op_def ret_def)

section \<open>Authority and keepers\<close>

text \<open>
  \<open>module_address\<close> is \<^verbatim>\<open>authtypes.NewModuleAddress\<close> and \<open>address_or_bech32\<close> is
  \<^verbatim>\<open>NewModuleAddressOrBech32Address\<close>. \<^verbatim>\<open>x/dnsblockchain\<close> reads the authority of a \<^verbatim>\<open>nil\<close> configuration,
  which panics; \<^verbatim>\<open>x/dao\<close> checks for it.
\<close>

definition GovModuleName :: string where "GovModuleName = ''gov''"

definition provide_dns_module ::
  "('b, 'd) env \<Rightarrow> (string \<Rightarrow> bytes) \<Rightarrow> (string \<Rightarrow> bytes) \<Rightarrow> string option \<Rightarrow> (('b, 'd) env \<times> dns_store) res" where
  "provide_dns_module E module_address address_or_bech32 config = (case config of
     None \<Rightarrow> Inl Panic
   | Some a \<Rightarrow>
       (let authority = (if a \<noteq> [] then address_or_bech32 a else module_address GovModuleName);
            E' = E\<lparr>dns_authority := authority\<rparr> in
        (case new_dns_keeper E' of Inl e \<Rightarrow> Inl e | Inr k \<Rightarrow> Inr (E', k))))"

definition provide_dao_module ::
  "('b, 'd) env \<Rightarrow> (string \<Rightarrow> bytes) \<Rightarrow> (string \<Rightarrow> bytes) \<Rightarrow> string option \<Rightarrow> 'd dao_store res" where
  "provide_dao_module E module_address address_or_bech32 config =
     (let authority = (case config of None \<Rightarrow> module_address GovModuleName
        | Some a \<Rightarrow> (if a \<noteq> [] then address_or_bech32 a else module_address GovModuleName)) in
      new_dao_keeper E authority)"

section \<open>Registered messages (codec.go)\<close>

definition dns_registered_msgs :: "string list" where
  "dns_registered_msgs = [''MsgCreateDomain'', ''MsgUpdateDomain'', ''MsgDeleteDomain'', ''MsgTransferDomain'',
     ''MsgHeartbeatDomain''] @ [''MsgUpdateParams'']"

definition dao_registered_msgs :: "string list" where
  "dao_registered_msgs = [''MsgSubmitProposal'', ''MsgVote'']"

definition dao_registered_contents :: "string list" where
  "dao_registered_contents = [''AddTldProposalContent'', ''RequestTokensProposalContent'']"

section \<open>Permissions of the module accounts (app\_config.go)\<close>

text \<open>The names that the SDK gives to its accounts and permissions.\<close>

record sdk_names =
  sn_fee_collector :: string
  sn_distribution :: string
  sn_mint :: string
  sn_bonded_pool :: string
  sn_not_bonded_pool :: string
  sn_staking_module :: string
  sn_gov :: string
  sn_nft :: string
  sn_ibc_transfer :: string
  sn_ica :: string
  sn_minter :: string
  sn_burner :: string
  sn_staking :: string

definition module_acc_perms :: "sdk_names \<Rightarrow> (string \<times> string list) list" where
  "module_acc_perms S =
     [(sn_fee_collector S, []),
      (sn_distribution S, []),
      (sn_mint S, [sn_minter S]),
      (sn_bonded_pool S, [sn_burner S, sn_staking_module S]),
      (sn_not_bonded_pool S, [sn_burner S, sn_staking_module S]),
      (sn_gov S, [sn_burner S]),
      (sn_nft S, []),
      (sn_ibc_transfer S, [sn_minter S, sn_burner S]),
      (sn_ica S, []),
      (DaoModuleName, [sn_minter S, sn_burner S, sn_staking S]),
      (ModuleName, [sn_minter S, sn_burner S])]"

definition block_acc_addrs :: "sdk_names \<Rightarrow> string list" where
  "block_acc_addrs S = [sn_fee_collector S, sn_distribution S, sn_mint S, sn_bonded_pool S, sn_not_bonded_pool S, sn_nft S]"

end
