(* ===== verification/Simulation.thy ===== *)
theory Simulation
  imports App_Modules
begin

text \<open>
  The simulation of \<^verbatim>\<open>x/dnsblockchain\<close> (\<^verbatim>\<open>module/simulation.go\<close>, \<^verbatim>\<open>simulation/domain.go\<close>), the genesis
  state that the simulation of \<^verbatim>\<open>x/dao\<close> starts from, and the command that submits a proposal
  (\<^verbatim>\<open>x/dao/client/cli/tx.go\<close>): which messages these clients build.
\<close>

section \<open>Simulated genesis states\<close>

text \<open>Two domains with an identifier and a creator, their other fields zero.\<close>

definition zero_domain :: domain where
  "zero_domain = \<lparr>dom_id = 0, dom_name = [], dom_owner = [], dom_ns_records = [], dom_creator = [], dom_expiration = 0\<rparr>"

definition sim_dns_genesis :: "('b, 'd) env \<Rightarrow> string \<Rightarrow> string \<Rightarrow> dns_genesis" where
  "sim_dns_genesis E address0 address1 = \<lparr>gs_params = default_dns_params E,
     gs_domain_list = [zero_domain\<lparr>dom_id := 0, dom_creator := address0\<rparr>, zero_domain\<lparr>dom_id := 1, dom_creator := address1\<rparr>],
     gs_domain_count = 2, gs_permitted_tlds = []\<rparr>"

definition sim_dao_genesis :: "('b, 'd) env \<Rightarrow> 'd dao_genesis" where
  "sim_dao_genesis E = \<lparr>dg_params = default_dao_params E\<rparr>"

section \<open>Weights\<close>

datatype sim_operation = SimCreateDomain | SimUpdateDomain | SimDeleteDomain

text \<open>\<open>params\<close> are the weights that a file of application parameters gives.\<close>

definition op_weight :: "(string \<Rightarrow> int option) \<Rightarrow> string \<Rightarrow> int \<Rightarrow> int" where
  "op_weight params key default_weight = (case params key of None \<Rightarrow> default_weight | Some n \<Rightarrow> n)"

definition weighted_operations :: "(string \<Rightarrow> int option) \<Rightarrow> (int \<times> sim_operation) list" where
  "weighted_operations params =
     [(op_weight params ''op_weight_msg_dnsblockchain'' 100, SimCreateDomain),
      (op_weight params ''op_weight_msg_dnsblockchain'' 100, SimUpdateDomain),
      (op_weight params ''op_weight_msg_dnsblockchain'' 100, SimDeleteDomain)]"

section \<open>Operations\<close>

text \<open>
  A simulated operation either does nothing or delivers a message of an account. An account is its
  address with the string that its \<^verbatim>\<open>String()\<close> method gives.
\<close>

type_synonym sim_account = "bytes \<times> string"

datatype sim_outcome = SimNoOp | SimDeliver dns_msg sim_account

definition simulate_create_domain :: "sim_account \<Rightarrow> (('b, 'd) world, sim_outcome) op" where
  "simulate_create_domain simAccount = ret (SimDeliver (CreateDomain
     \<lparr>cd_creator = snd simAccount, cd_name = [], cd_owner = [], cd_ns_records = []\<rparr>) simAccount)"

text \<open>The loop over the domains: the first one whose creator is a simulated account.\<close>

fun sim_find_domain :: "('b, 'd) env \<Rightarrow> sim_account list \<Rightarrow> domain list \<Rightarrow> (domain \<times> sim_account) option res" where
  "sim_find_domain E accs [] = Inr None"
| "sim_find_domain E accs (obj # ds) = (case string_to_bytes (addr E) (dom_creator obj) of
     None \<Rightarrow> Inl (ErrExternal 0)
   | Some acc \<Rightarrow> (case find (\<lambda>a. fst a = acc) accs of
       Some simAccount \<Rightarrow> Inr (Some (obj, simAccount))
     | None \<Rightarrow> sim_find_domain E accs ds))"

definition simulate_on_domain ::
  "('b, 'd) env \<Rightarrow> sim_account list \<Rightarrow> (string \<Rightarrow> u64 \<Rightarrow> dns_msg) \<Rightarrow> (('b, 'd) world, sim_outcome) op" where
  "simulate_on_domain E accs msg =
     bind_op (map_err (\<lambda>_. Panic) (read_op (\<lambda>w. walk_kv (fault E DomainWalk) (domains (dns w))))) (\<lambda>allDomain.
     bind_op (lift_res (sim_find_domain E accs (map snd allDomain))) (\<lambda>found. case found of
        None \<Rightarrow> ret SimNoOp
      | Some (domain, simAccount) \<Rightarrow> ret (SimDeliver (msg (snd simAccount) (dom_id domain)) simAccount)))"

definition simulate_update_domain :: "('b, 'd) env \<Rightarrow> sim_account list \<Rightarrow> (('b, 'd) world, sim_outcome) op" where
  "simulate_update_domain E accs = simulate_on_domain E accs (\<lambda>creator i.
     UpdateDomain \<lparr>ud_creator = creator, ud_id = i, ud_owner = [], ud_ns_records = []\<rparr>)"

definition simulate_delete_domain :: "('b, 'd) env \<Rightarrow> sim_account list \<Rightarrow> (('b, 'd) world, sim_outcome) op" where
  "simulate_delete_domain E accs = simulate_on_domain E accs (\<lambda>creator i.
     DeleteDomain \<lparr>dd_creator = creator, dd_id = i\<rparr>)"

section \<open>The command that submits a proposal\<close>

text \<open>
  What the command broadcasts, given the message in the proposal file and the address of \<^verbatim>\<open>--from\<close>:
  the file may leave out the proposer.
\<close>

definition cli_submit_proposal :: "string \<Rightarrow> msg_submit_proposal \<Rightarrow> msg_submit_proposal res" where
  "cli_submit_proposal fromAddr msg =
     (if sp_proposer msg \<noteq> [] \<and> sp_proposer msg \<noteq> fromAddr then Inl (ErrPlain ''proposer in JSON file does not match the --from address'')
      else if sp_proposer msg = [] then Inr (msg\<lparr>sp_proposer := fromAddr\<rparr>)
      else Inr msg)"

section \<open>What comes out\<close>

text \<open>No operation of the simulation changes the state itself.\<close>

lemma simulations_read_only:
  "snd (simulate_create_domain a w) = w" "snd (simulate_update_domain E accs w) = w" "snd (simulate_delete_domain E accs w) = w"
proof -
  have "keeps I (simulate_on_domain E accs msg)" for I and msg :: "string \<Rightarrow> u64 \<Rightarrow> dns_msg"
    unfolding simulate_on_domain_def by (rule keeps_intros keeps_cases)+
  then have "snd (simulate_on_domain E accs msg w) = w" for msg by (rule keeps_all_read_only)
  then show "snd (simulate_update_domain E accs w) = w" "snd (simulate_delete_domain E accs w) = w"
    by (simp_all only: simulate_update_domain_def simulate_delete_domain_def)
  show "snd (simulate_create_domain a w) = w" by (simp add: simulate_create_domain_def ret_def)
qed

lemma sim_find_domain_creator:
  assumes "sim_find_domain E accs ds = Inr (Some (d, a))"
  shows "d \<in> set ds" "a \<in> set accs" "string_to_bytes (addr E) (dom_creator d) = Some (fst a)"
proof -
  have "d \<in> set ds \<and> a \<in> set accs \<and> string_to_bytes (addr E) (dom_creator d) = Some (fst a)"
    using assms by (induction ds) (auto simp: find_Some_iff split: option.splits)
  then show "d \<in> set ds" "a \<in> set accs" "string_to_bytes (addr E) (dom_creator d) = Some (fst a)" by auto
qed

text \<open>
  The messages to create and to update a domain leave fields empty that \<^verbatim>\<open>ValidateBasic\<close> requires, so
  they fail in every state.
\<close>

lemma simulated_create_fails:
  assumes run: "simulate_create_domain acc v = (Inr (SimDeliver m acc'), v')"
  shows "run_dns_msg E c m w \<noteq> (Inr r, w')"
proof
  assume "run_dns_msg E c m w = (Inr r, w')"
  moreover have "m = CreateDomain \<lparr>cd_creator = snd acc, cd_name = [], cd_owner = [], cd_ns_records = []\<rparr>"
    using run by (simp add: simulate_create_domain_def)
  ultimately show False
    by (simp add: run_dns_msg_Inr dns_validate_basic_def validate_basic_create_def split: if_splits option.splits)
qed

lemma simulated_update_fails:
  assumes run: "simulate_update_domain E accs v = (Inr (SimDeliver m acc), v')"
  shows "run_dns_msg E c m w \<noteq> (Inr r, w')"
proof
  assume ok: "run_dns_msg E c m w = (Inr r, w')"
  obtain i where "m = UpdateDomain \<lparr>ud_creator = snd acc, ud_id = i, ud_owner = [], ud_ns_records = []\<rparr>"
    using run by (auto simp: simulate_update_domain_def simulate_on_domain_def op_success split: option.splits prod.splits)
  with ok show False
    by (simp add: run_dns_msg_Inr dns_validate_basic_def validate_basic_update_def split: if_splits option.splits)
qed

text \<open>
  The message to delete a domain comes from its creator, while only the owner may delete it: it fails
  whenever the two differ, as they do for the domains of the simulated genesis state, which have no owner.
\<close>

lemma simulated_delete_needs_owner:
  assumes run: "simulate_delete_domain E accs w = (Inr (SimDeliver m acc), w)" and ok: "run_dns_msg E c m w = (Inr r, w')"
    and inv: "\<And>i d. kv_get (domains (dns w)) i = Some d \<Longrightarrow> dom_id d = i" and kv: "kv_ok (domains (dns w))"
  shows "\<exists>d. kv_get (domains (dns w)) (dom_id d) = Some d \<and> dom_owner d = snd acc"
proof -
  obtain ds d where ds: "walk_kv (fault E DomainWalk) (domains (dns w)) = Inr ds"
    and f: "sim_find_domain E accs (map snd ds) = Inr (Some (d, acc))"
    and m: "m = DeleteDomain \<lparr>dd_creator = snd acc, dd_id = dom_id d\<rparr>"
    using run by (auto simp: simulate_delete_domain_def simulate_on_domain_def op_success split: option.splits prod.splits)
  have "d \<in> set (map snd (kv_walk (domains (dns w))))"
    using sim_find_domain_creator(1) [OF f] walk_kv_InrD [OF ds] by simp
  then obtain i where "kv_get (domains (dns w)) i = Some d" using kv_walk_get [OF kv] by auto
  then have d: "kv_get (domains (dns w)) (dom_id d) = Some d" using inv by metis
  have "delete_domain E c \<lparr>dd_creator = snd acc, dd_id = dom_id d\<rparr> w = (Inr r, w')"
    using ok m by (simp add: run_dns_msg_Inr dns_handle_def)
  then have "snd acc = dom_owner d" by (rule delete_domain_success) (use d in auto)
  with d show ?thesis by metis
qed

lemma op_weights_shared:
  "params ''op_weight_msg_dnsblockchain'' = Some n \<Longrightarrow> map fst (weighted_operations params) = [n, n, n]"
  by (simp add: weighted_operations_def op_weight_def)

lemma cli_submit_proposal_from:
  "cli_submit_proposal fromAddr msg = Inr m \<Longrightarrow> m = msg\<lparr>sp_proposer := fromAddr\<rparr>"
  by (auto simp: cli_submit_proposal_def split: if_splits)

end
