(* ===== verification/Module_Properties.thy ===== *)
theory Module_Properties
  imports Chain_Properties Simulation
begin

text \<open>
  A chain that is exported and started again from the exported state, through the module objects and
  their JSON codecs.
\<close>

section \<open>Export and restart\<close>

lemma dns_module_export_eq:
  assumes "store_total E" "dns_params_item (dns w) = Some p" "json_marshal J (exported (dns w) p) = Inr b"
  shows "dns_module_export_genesis E J w = (Inr b, w)"
  using assms export_dns_genesis_eq [OF assms(1,2)]
  by (simp add: dns_module_export_genesis_def exported_def op_defs)

lemma dao_module_export_eq:
  assumes "store_total E" "dao_params_item (dao w) = Some q" "json_marshal K \<lparr>dg_params = q\<rparr> = Inr b"
  shows "dao_module_export_genesis E K w = (Inr b, w)"
  using assms by (simp add: dao_module_export_genesis_def export_dao_genesis_total op_defs must_def)

lemma dns_module_init_eq:
  assumes "store_total E" "json_unmarshal J b = Inr gs"
  shows "dns_module_init_genesis E J b w = (Inr (), upd_dns (import_genesis E gs) w)"
  using assms by (simp add: dns_module_init_genesis_def init_dns_genesis_eq map_err_def)

lemma dao_module_init_eq:
  assumes "store_total E" "json_unmarshal K b = Inr gs" "validate_dao_params E (dg_params gs) = None"
  shows "dao_module_init_genesis E K b w = (Inr (), upd_dao (\<lambda>s. s\<lparr>dao_params_item := Some (dg_params gs)\<rparr>) w)"
  using assms
  by (simp add: dao_module_init_genesis_def init_dao_genesis_total validate_dao_genesis_def op_defs must_def)

text \<open>C38: A chain that is restarted from its own export. Both modules export their state and accept the JSON
  that they wrote. Imported into empty stores, it restores every domain, name and TLD, the sequence
  and the parameters of \<^verbatim>\<open>x/dnsblockchain\<close>. Of \<^verbatim>\<open>x/dao\<close> it restores the parameters only: proposals, votes,
  power lots and the proposal sequence start empty. \<open>J\<close> and \<open>K\<close> are the JSON codecs, which read back
  the states written here.\<close>

theorem application_restart:
  assumes inv: "chain_inv E w" and w0: "empty_world w0"
    and p: "dns_params_item (dns w) = Some p" "validate_dns_params E p = None"
    and q: "dao_params_item (dao w) = Some q" "validate_dao_params E q = None"
    and J: "json_marshal J (exported (dns w) p) = Inr b" "json_unmarshal J b = Inr (exported (dns w) p)"
    and K: "json_marshal K \<lparr>dg_params = q\<rparr> = Inr b'" "json_unmarshal K b' = Inr \<lparr>dg_params = q\<rparr>"
  shows "dns_module_export_genesis E J w = (Inr b, w) \<and> dao_module_export_genesis E K w = (Inr b', w)
    \<and> dns_validate_genesis_json E J b = None \<and> dao_validate_genesis_json E K b' = None
    \<and> (\<exists>w1. then_op (dns_module_init_genesis E J b) (dao_module_init_genesis E K b') w0 = (Inr (), w1)
         \<and> dns w1 = dns w \<and> dao w1 = empty_dao_store\<lparr>dao_params_item := Some q\<rparr>)"
proof -
  have ok: "store_total E" "dns_ok E (dns w)" "names_normal E (dns w)"
    using inv by (auto simp: chain_inv_def dns_all_def dns_inv_def)
  let ?w1 = "upd_dao (\<lambda>s. s\<lparr>dao_params_item := Some q\<rparr>) (upd_dns (import_genesis E (exported (dns w) p)) w0)"
  have "then_op (dns_module_init_genesis E J b) (dao_module_init_genesis E K b') w0 = (Inr (), ?w1)"
    using dns_module_init_eq [OF ok(1) J(2)] dao_module_init_eq [OF ok(1) K(2)] q(2)
    by (simp add: then_op_def bind_op_def)
  moreover have "dns ?w1 = dns w" "dao ?w1 = empty_dao_store\<lparr>dao_params_item := Some q\<rparr>"
    using import_exported [OF ok(2,3) p(1)] w0 by (simp_all add: empty_world_def)
  moreover have "dns_validate_genesis_json E J b = None" "dao_validate_genesis_json E K b' = None"
    using exported_valid [OF ok(2) p(2)] J(2) K(2) q(2)
    by (simp_all add: dns_validate_genesis_json_def dao_validate_genesis_json_def validate_dao_genesis_def)
  ultimately show ?thesis
    using dns_module_export_eq [OF ok(1) p(1) J(1)] dao_module_export_eq [OF ok(1) q(1) K(1)] by blast
qed

text \<open>The example chain with an open proposal and a vote, and codecs for its two states.\<close>

definition one_value_json :: "'g \<Rightarrow> 'g json_ops" where
  "one_value_json g = \<lparr>json_marshal = (\<lambda>x. Inr [1]), json_unmarshal = (\<lambda>b. if b = [1] then Inr g else Inl (ErrExternal 0))\<rparr>"

theorem application_restart_witness:
  "\<exists>w1. then_op (dns_module_init_genesis ex_env (one_value_json (exported ex_dns \<lparr>domain_creation_fee = ex_coins 20\<rparr>)) [1])
       (dao_module_init_genesis ex_env (one_value_json \<lparr>dg_params = ex_dao_params\<rparr>) [1]) ex_start = (Inr (), w1)
     \<and> dns w1 = dns ex_p2 \<and> proposals (dao ex_p2) \<noteq> [] \<and> proposals (dao w1) = []"
proof -
  have p: "dns_params_item (dns ex_p2) = Some \<lparr>domain_creation_fee = ex_coins 20\<rparr>"
    by (simp add: ex_p2 ex_dns_def)
  have q: "dao_params_item (dao ex_p2) = Some ex_dao_params" by (simp add: ex_p2 ex_dao_def)
  have pv: "validate_dns_params ex_env \<lparr>domain_creation_fee = ex_coins 20\<rparr> = None"
    by (simp add: validate_dns_params_def validate_domain_creation_fee_def ex_env_defs ex_coins_def)
  have qv: "validate_dao_params ex_env ex_dao_params = None"
    by (simp add: validate_dao_params_def ex_dao_params_def ex_env_defs ex_coins_def dec_unit_def)
  let ?J = "one_value_json (exported (dns ex_p2) \<lparr>domain_creation_fee = ex_coins 20\<rparr>)"
  let ?K = "one_value_json \<lparr>dg_params = ex_dao_params\<rparr>"
  from application_restart [OF ex_p2_inv(1) ex_genesis_ok(2) p pv q qv, of ?J "[1]" ?K "[1]"]
  obtain w1 where "then_op (dns_module_init_genesis ex_env ?J [1]) (dao_module_init_genesis ex_env ?K [1]) ex_start = (Inr (), w1)"
    "dns w1 = dns ex_p2" "dao w1 = empty_dao_store\<lparr>dao_params_item := Some ex_dao_params\<rparr>"
    by (auto simp: one_value_json_def)
  then show ?thesis by (intro exI [of _ w1]) (simp add: ex_p2 empty_dao_store_def)
qed

end
