(* ===== verification/App_Wiring.thy ===== *)
theory App_Wiring
  imports App_Modules
begin

text \<open>
  The configuration of the application (\<^verbatim>\<open>app/app_config.go\<close>): its modules with their settings and the
  orders in which the module manager runs their hooks. The manager and the hooks of the modules of
  the SDK are parameters. A block of the application is made of these parts, and every block of the
  application is a run of the step relation of the two modules.
\<close>

section \<open>Configuration\<close>

text \<open>The names of the modules of the SDK and of \<^verbatim>\<open>ibc-go\<close> that are not names of accounts.\<close>

record app_names =
  an_accounts :: sdk_names
  an_runtime :: string
  an_consensus :: string
  an_auth :: string
  an_bank :: string
  an_slashing :: string
  an_genutil :: string
  an_evidence :: string
  an_authz :: string
  an_feegrant :: string
  an_vesting :: string
  an_group :: string
  an_upgrade :: string
  an_circuit :: string
  an_epochs :: string
  an_params :: string
  an_ibc :: string

abbreviation (input) "an_distribution N \<equiv> sn_distribution (an_accounts N)"
abbreviation (input) "an_mint N \<equiv> sn_mint (an_accounts N)"
abbreviation (input) "an_staking N \<equiv> sn_staking_module (an_accounts N)"
abbreviation (input) "an_gov N \<equiv> sn_gov (an_accounts N)"
abbreviation (input) "an_nft N \<equiv> sn_nft (an_accounts N)"
abbreviation (input) "an_transfer N \<equiv> sn_ibc_transfer (an_accounts N)"
abbreviation (input) "an_ica N \<equiv> sn_ica (an_accounts N)"

definition app_name :: string where "app_name = ''dnsblockchain''"
definition account_address_prefix :: string where "account_address_prefix = ''dns''"

definition pre_blockers :: "app_names \<Rightarrow> string list" where
  "pre_blockers N = [an_upgrade N, an_auth N]"

definition begin_blockers :: "app_names \<Rightarrow> string list" where
  "begin_blockers N = [an_mint N, an_distribution N, an_slashing N, an_evidence N, an_staking N, an_authz N, an_epochs N,
     an_ibc N, ModuleName, DaoModuleName]"

definition end_blockers :: "app_names \<Rightarrow> string list" where
  "end_blockers N = [an_gov N, an_staking N, an_feegrant N, an_group N, ModuleName, DaoModuleName]"

definition override_store_keys :: "app_names \<Rightarrow> (string \<times> string) list" where
  "override_store_keys N = [(an_auth N, ''acc'')]"

definition init_genesis_order :: "app_names \<Rightarrow> string list" where
  "init_genesis_order N = [an_consensus N, an_auth N, an_bank N, an_distribution N, an_staking N, an_slashing N, an_gov N,
     an_mint N, an_genutil N, an_evidence N, an_authz N, an_feegrant N, an_vesting N, an_nft N, an_group N, an_upgrade N,
     an_circuit N, an_epochs N, an_ibc N, an_transfer N, an_ica N, ModuleName, DaoModuleName]"

datatype module_config =
    RuntimeConfig string "string list" "string list" "string list" "(string \<times> string) list" "string list"
  | AuthConfig string "(string \<times> string list) list" bool
  | BankConfig "string list"
  | GroupConfig int u64
  | PlainConfig

definition app_config :: "app_names \<Rightarrow> (string \<times> module_config) list" where
  "app_config N =
     [(an_runtime N, RuntimeConfig app_name (pre_blockers N) (begin_blockers N) (end_blockers N) (override_store_keys N)
        (init_genesis_order N)),
      (an_auth N, AuthConfig account_address_prefix (module_acc_perms (an_accounts N)) True),
      (an_vesting N, PlainConfig),
      (an_bank N, BankConfig (block_acc_addrs (an_accounts N))),
      (an_staking N, PlainConfig),
      (an_slashing N, PlainConfig),
      (''tx'', PlainConfig),
      (an_genutil N, PlainConfig),
      (an_authz N, PlainConfig),
      (an_upgrade N, PlainConfig),
      (an_distribution N, PlainConfig),
      (an_evidence N, PlainConfig),
      (an_mint N, PlainConfig),
      (an_group N, GroupConfig 1209600 255),
      (an_nft N, PlainConfig),
      (an_feegrant N, PlainConfig),
      (an_gov N, PlainConfig),
      (an_consensus N, PlainConfig),
      (an_circuit N, PlainConfig),
      (an_params N, PlainConfig),
      (an_epochs N, PlainConfig),
      (ModuleName, PlainConfig),
      (DaoModuleName, PlainConfig)]"

text \<open>Every module that has a hook in one of the orders is configured or one of the manually registered modules of IBC.\<close>

lemma orders_configured:
  "set (pre_blockers N) \<union> set (begin_blockers N) \<union> set (end_blockers N) \<union> set (init_genesis_order N)
     \<subseteq> set (map fst (app_config N)) \<union> {an_ibc N, an_transfer N, an_ica N}"
  by (simp add: pre_blockers_def begin_blockers_def end_blockers_def init_genesis_order_def app_config_def)

text \<open>Every configured module that keeps a state is in the order of \<^verbatim>\<open>InitGenesis\<close>.\<close>

lemma configured_initialised:
  "set (map fst (app_config N)) \<subseteq> set (init_genesis_order N) \<union> {an_runtime N, ''tx'', an_params N}"
  by (simp add: init_genesis_order_def app_config_def)

text \<open>The comments on the order: the genesis transactions follow staking and accounts, upgrades come first.\<close>

definition runs_before :: "string list \<Rightarrow> string \<Rightarrow> string \<Rightarrow> bool" where
  "runs_before xs a b = (\<exists>i j. i < j \<and> j < length xs \<and> xs ! i = a \<and> xs ! j = b)"

lemma init_order_comments:
  "runs_before (init_genesis_order N) (an_staking N) (an_genutil N)"
  "runs_before (init_genesis_order N) (an_auth N) (an_genutil N)"
  "runs_before (init_genesis_order N) ModuleName DaoModuleName"
  "runs_before (pre_blockers N) (an_upgrade N) (an_auth N)"
  "runs_before (begin_blockers N) (an_distribution N) (an_slashing N)"
  unfolding runs_before_def init_genesis_order_def pre_blockers_def begin_blockers_def
  by (rule exI [of _ 4], rule exI [of _ 8], simp, rule exI [of _ 1], rule exI [of _ 8], simp,
      rule exI [of _ 21], rule exI [of _ 22], simp, rule exI [of _ 0], rule exI [of _ 1], simp,
      rule exI [of _ 1], rule exI [of _ 2], simp)

section \<open>The hooks\<close>

type_synonym ('b, 'd) hooks = "string \<Rightarrow> (('b, 'd) world, unit) op option"

text \<open>The modules of the SDK, by their names; a module without the hook has none.\<close>

record ('b, 'd) sdk_hooks =
  sdk_pre_block :: "('b, 'd) hooks"
  sdk_begin_block :: "('b, 'd) hooks"
  sdk_end_block :: "('b, 'd) hooks"
  sdk_init_genesis :: "('b, 'd) hooks"

text \<open>Of the two modules, \<^verbatim>\<open>x/dnsblockchain\<close> has both hooks of a block and \<^verbatim>\<open>x/dao\<close> the second one.\<close>

definition begin_hooks :: "('b, 'd) sdk_hooks \<Rightarrow> ('b, 'd) hooks" where
  "begin_hooks M n = (if n = ModuleName then Some dns_begin_block else if n = DaoModuleName then None else sdk_begin_block M n)"

definition end_hooks :: "('b, 'd) env \<Rightarrow> ctx \<Rightarrow> ('b, 'd) sdk_hooks \<Rightarrow> ('b, 'd) hooks" where
  "end_hooks E c M n = (if n = ModuleName then Some dns_end_block else if n = DaoModuleName then Some (end_block E c)
     else sdk_end_block M n)"

definition init_hooks ::
  "('b, 'd) env \<Rightarrow> dns_genesis json_ops \<Rightarrow> bytes \<Rightarrow> 'd dao_genesis json_ops \<Rightarrow> bytes \<Rightarrow> ('b, 'd) sdk_hooks \<Rightarrow> ('b, 'd) hooks" where
  "init_hooks E J gs J' gs' M n = (if n = ModuleName then Some (dns_module_init_genesis E J gs)
     else if n = DaoModuleName then Some (dao_module_init_genesis E J' gs') else sdk_init_genesis M n)"

definition optional_hook :: "('s, unit) op option \<Rightarrow> ('s, unit) op" where
  "optional_hook h = (case h of None \<Rightarrow> ret () | Some m \<Rightarrow> m)"

text \<open>
  The module manager: \<open>manager order hooks\<close> runs the hooks of the modules in the order of the
  configuration. \<open>in_order\<close> is its documented behaviour: one after the other, up to the first error.
\<close>

type_synonym ('b, 'd) manager = "string list \<Rightarrow> ('b, 'd) hooks \<Rightarrow> (('b, 'd) world, unit) op"

definition in_order :: "('b, 'd) manager \<Rightarrow> bool" where
  "in_order manager \<longleftrightarrow> (\<forall>order hooks. manager order hooks = for_op order (\<lambda>n. optional_hook (hooks n)))"

section \<open>Blocks\<close>

text \<open>Transactions: one of the two modules, or one of another module or of the ante handler.\<close>

datatype ('b, 'd) app_tx = ModuleTx tx | OtherTx "(('b, 'd) world, unit) op"

definition run_app_tx :: "('b, 'd) env \<Rightarrow> ctx \<Rightarrow> ('b, 'd) app_tx \<Rightarrow> ('b, 'd) world \<Rightarrow> ('b, 'd) world" where
  "run_app_tx E c t = (case t of ModuleTx x \<Rightarrow> deliver (run_tx E c x) | OtherTx m \<Rightarrow> deliver m)"

definition app_block ::
  "('b, 'd) manager \<Rightarrow> ('b, 'd) env \<Rightarrow> app_names \<Rightarrow> ('b, 'd) sdk_hooks \<Rightarrow> ctx \<Rightarrow> ('b, 'd) app_tx list \<Rightarrow>
    (('b, 'd) world, unit) op" where
  "app_block manager E N M c txs =
     then_op (manager (pre_blockers N) (sdk_pre_block M))
    (then_op (manager (begin_blockers N) (begin_hooks M))
    (then_op (update_op (fold (run_app_tx E c) txs))
    (manager (end_blockers N) (end_hooks E c M))))"

definition app_init ::
  "('b, 'd) manager \<Rightarrow> ('b, 'd) env \<Rightarrow> app_names \<Rightarrow> ('b, 'd) sdk_hooks \<Rightarrow> dns_genesis json_ops \<Rightarrow> bytes \<Rightarrow>
    'd dao_genesis json_ops \<Rightarrow> bytes \<Rightarrow> (('b, 'd) world, unit) op" where
  "app_init manager E N M J gs J' gs' = manager (init_genesis_order N) (init_hooks E J gs J' gs' M)"

text \<open>Blocks one after the other, each with its context and its transactions.\<close>

fun app_blocks ::
  "('b, 'd) manager \<Rightarrow> ('b, 'd) env \<Rightarrow> app_names \<Rightarrow> ('b, 'd) sdk_hooks \<Rightarrow> (ctx \<times> ('b, 'd) app_tx list) list \<Rightarrow>
    (('b, 'd) world, unit) op" where
  "app_blocks manager E N M [] = ret ()"
| "app_blocks manager E N M ((c, txs) # bs) = then_op (app_block manager E N M c txs) (app_blocks manager E N M bs)"

section \<open>What the other modules do\<close>

text \<open>
  Modules have stores of their own: the other ones reach the two modules only through the balances.
  The names of the SDK are not the names of the two modules.
\<close>

definition ledger_only :: "(('b, 'd) world, unit) op \<Rightarrow> bool" where
  "ledger_only m \<longleftrightarrow> (\<forall>w r w'. m w = (r, w') \<longrightarrow> (\<exists>b. w' = w\<lparr>ledger := b\<rparr>))"

definition sdk_laws :: "('b, 'd) sdk_hooks \<Rightarrow> bool" where
  "sdk_laws M \<longleftrightarrow> (\<forall>n m. Some m \<in> {sdk_pre_block M n, sdk_begin_block M n, sdk_end_block M n, sdk_init_genesis M n} \<longrightarrow> ledger_only m)"

definition names_ok :: "app_names \<Rightarrow> bool" where
  "names_ok N \<longleftrightarrow> {ModuleName, DaoModuleName} \<inter> (set (pre_blockers N) \<union> set (take 8 (begin_blockers N))
     \<union> set (take 4 (end_blockers N)) \<union> set (take 21 (init_genesis_order N))) = {}"

definition other_txs :: "('b, 'd) app_tx list \<Rightarrow> bool" where
  "other_txs txs \<longleftrightarrow> (\<forall>m. OtherTx m \<in> set txs \<longrightarrow> ledger_only m)"

lemma ledger_only_optional: "(\<And>m. h = Some m \<Longrightarrow> ledger_only m) \<Longrightarrow> ledger_only (optional_hook h)"
proof -
  have "\<exists>b. w = w\<lparr>ledger := b\<rparr>" for w :: "('x, 'y) world" by (rule exI [of _ "ledger w"]) simp
  then show "(\<And>m. h = Some m \<Longrightarrow> ledger_only m) \<Longrightarrow> ledger_only (optional_hook h)"
    by (auto simp: optional_hook_def ledger_only_def ret_def split: option.splits)
qed

lemma ledger_only_noop: "ledger_only (ret ())"
  unfolding ledger_only_def ret_def by (metis prod.inject world.surjective world.update_convs(3))

end
