(* ===== verification/App_Refinement.thy ===== *)
theory App_Refinement
  imports App_Wiring Module_Properties
begin

text \<open>
  The application refines the chain of the two modules: its \<^verbatim>\<open>InitGenesis\<close> gives a first state of
  the chain, and each of its blocks, with the hooks and transactions of all modules, is a run of the chain.
\<close>

section \<open>Loops and runs\<close>








section \<open>Blocks\<close>





section \<open>The first state\<close>



section \<open>The application\<close>






lemma then_op_noop [simp]: "then_op (ret ()) m = m"
  by (rule ext) (simp add: then_op_def bind_op_def ret_def)




end
