(* ===== verification/App_Export.thy ===== *)
theory App_Export
  imports App_Modules
begin

text \<open>
  The export of the whole application (\<^verbatim>\<open>app/export.go\<close>, \<^verbatim>\<open>appExport\<close> in \<^verbatim>\<open>cmd/dnsblockchaind/cmd/commands.go\<close>),
  the simulation accounts (\<^verbatim>\<open>app/genesis_account.go\<close>), the copies of the account tables
  (\<^verbatim>\<open>app/app.go\<close>) and the test network made from a running node (\<^verbatim>\<open>cmd/dnsblockchaind/cmd/testnet.go\<close>). The
  staking, distribution and slashing modules of the SDK are operations on a state \<open>'s\<close>.
\<close>

section \<open>Account tables\<close>

definition get_macc_perms :: "sdk_names \<Rightarrow> string \<Rightarrow> string list option" where
  "get_macc_perms S = foldl (\<lambda>dup p. dup(fst p := Some (snd p))) (\<lambda>_. None) (module_acc_perms S)"

definition blocked_addresses :: "sdk_names \<Rightarrow> string \<Rightarrow> bool" where
  "blocked_addresses S =
     (if 0 < length (block_acc_addrs S) then foldl (\<lambda>result a. result(a := True)) (\<lambda>_. False) (block_acc_addrs S)
      else (\<lambda>a. get_macc_perms S a \<noteq> None))"

lemma blocked_addresses_iff: "blocked_addresses S a \<longleftrightarrow> a \<in> set (block_acc_addrs S)"
  by (auto simp: blocked_addresses_def block_acc_addrs_def)

text \<open>The accounts of the two modules may receive coins, unless the SDK uses their names for a blocked account.\<close>

lemma module_accounts_not_blocked:
  assumes "ModuleName \<notin> set (block_acc_addrs S)" "DaoModuleName \<notin> set (block_acc_addrs S)"
  shows "\<not> blocked_addresses S ModuleName \<and> \<not> blocked_addresses S DaoModuleName
    \<and> (ModuleName \<noteq> DaoModuleName \<longrightarrow> get_macc_perms S DaoModuleName = Some [sn_minter S, sn_burner S, sn_staking S])
    \<and> get_macc_perms S ModuleName = Some [sn_minter S, sn_burner S]"
  using assms by (auto simp: blocked_addresses_iff get_macc_perms_def module_acc_perms_def)

section \<open>Simulation accounts\<close>

record genesis_account =
  ga_base :: bytes
  ga_original_vesting :: coins
  ga_start_time :: int
  ga_end_time :: int
  ga_module_name :: string
  ga_module_permissions :: "string list"

text \<open>\<open>base_error\<close> and \<open>module_error\<close> are the \<^verbatim>\<open>Validate\<close> methods of the SDK's account types.\<close>

definition validate_genesis_account ::
  "('b, 'd) env \<Rightarrow> (bytes \<Rightarrow> gerr option) \<Rightarrow> (bytes \<Rightarrow> string \<Rightarrow> string list \<Rightarrow> gerr option) \<Rightarrow> genesis_account \<Rightarrow> gerr option" where
  "validate_genesis_account E base_error module_error sga =
     (if \<not> coins_is_zero (coin_lib E) (ga_original_vesting sga) \<and> ga_start_time sga \<ge> ga_end_time sga
      then Some (ErrPlain ''vesting start-time cannot be before end-time'')
      else if ga_module_name sga \<noteq> [] then
        (case module_error (ga_base sga) (ga_module_name sga) (ga_module_permissions sga) of
           Some e \<Rightarrow> Some e | None \<Rightarrow> base_error (ga_base sga))
      else base_error (ga_base sga))"

section \<open>Preparation for height zero\<close>

text \<open>
  The parts of the SDK's records that the code changes; \<open>'x\<close> is the rest. Redelegations and unbonding
  delegations are the creation heights of their entries and the rest.
\<close>

record 'x height_entries =
  he_heights :: "int list"
  he_rest :: 'x

record 'x validator =
  val_unbonding_height :: int
  val_jailed :: bool
  val_rest :: 'x

record 'x signing_info =
  si_start_height :: int
  si_rest :: 'x

text \<open>
  The operations on the state \<open>'s\<close>. Those that the code calls with a changed block height take the
  height; \<open>'c\<close> are decimal coins. Iterations are the lists of what they visit.
\<close>

record ('s, 'c, 'x) staking_ops =
  val_bytes :: "string \<Rightarrow> bytes option"
  acc_bytes :: "string \<Rightarrow> bytes option"
  val_text :: "bytes \<Rightarrow> string option"
  validator_operators :: "'s \<Rightarrow> string list res"
  withdraw_commission :: "bytes \<Rightarrow> 's \<Rightarrow> 's"
  all_delegations :: "'s \<Rightarrow> (string \<times> string) list res"
  withdraw_rewards :: "bytes \<Rightarrow> bytes \<Rightarrow> 's \<Rightarrow> 's"
  delete_slash_events :: "'s \<Rightarrow> 's"
  delete_historical_rewards :: "'s \<Rightarrow> 's"
  outstanding_rewards :: "bytes \<Rightarrow> 's \<Rightarrow> 'c res"
  community_pool :: "'s \<Rightarrow> 'c res"
  set_community_pool :: "'c \<Rightarrow> 's \<Rightarrow> unit res \<times> 's"
  add_dec_coins :: "'c \<Rightarrow> 'c \<Rightarrow> 'c"
  after_validator_created :: "int \<Rightarrow> bytes \<Rightarrow> 's \<Rightarrow> unit res \<times> 's"
  before_delegation_created :: "int \<Rightarrow> bytes \<Rightarrow> bytes \<Rightarrow> 's \<Rightarrow> unit res \<times> 's"
  after_delegation_modified :: "int \<Rightarrow> bytes \<Rightarrow> bytes \<Rightarrow> 's \<Rightarrow> unit res \<times> 's"
  redelegations :: "'s \<Rightarrow> 'x height_entries list res"
  set_redelegation :: "'x height_entries \<Rightarrow> 's \<Rightarrow> unit res \<times> 's"
  unbonding_delegations :: "'s \<Rightarrow> 'x height_entries list res"
  set_unbonding_delegation :: "'x height_entries \<Rightarrow> 's \<Rightarrow> unit res \<times> 's"
  validators_reversed :: "'s \<Rightarrow> bytes list"
  get_validator :: "bytes \<Rightarrow> 's \<Rightarrow> 'x validator option"
  set_validator :: "'x validator \<Rightarrow> 's \<Rightarrow> unit res \<times> 's"
  close_iterator_error :: bool
  apply_validator_updates :: "'s \<Rightarrow> unit res \<times> 's"
  signing_infos :: "'s \<Rightarrow> (bytes \<times> 'x signing_info) list res"
  set_signing_info :: "bytes \<Rightarrow> 'x signing_info \<Rightarrow> 's \<Rightarrow> 's"

text \<open>An error that the code turns into a panic, and a call on the state.\<close>

definition must_op :: "('s, 'a) op \<Rightarrow> ('s, 'a) op" where
  "must_op m = map_err (\<lambda>_. Panic) m"

definition call_op :: "('s \<Rightarrow> 'a res \<times> 's) \<Rightarrow> ('s, 'a) op" where
  "call_op f = f"

definition zero_heights :: "'x height_entries \<Rightarrow> 'x height_entries" where
  "zero_heights r = r\<lparr>he_heights := map (\<lambda>_. 0) (he_heights r)\<rparr>"

text \<open>\<open>allowed\<close> is the list of addresses that stay unjailed; an empty list jails nobody.\<close>

definition reset_validator :: "string list \<Rightarrow> string \<Rightarrow> 'x validator \<Rightarrow> 'x validator" where
  "reset_validator allowed valAddr v = (let v1 = v\<lparr>val_unbonding_height := 0\<rparr> in
     if 0 < length allowed \<and> valAddr \<notin> set allowed then v1\<lparr>val_jailed := True\<rparr> else v1)"

definition withdraw_all :: "('s, 'c, 'x) staking_ops \<Rightarrow> ('s, (string \<times> string) list) op" where
  "withdraw_all L =
     bind_op (must_op (read_op (validator_operators L))) (\<lambda>operators.
     then_op (for_op operators (\<lambda>operator. bind_op (of_option Panic (val_bytes L operator)) (\<lambda>valBz.
       update_op (withdraw_commission L valBz))))
    (bind_op (must_op (read_op (all_delegations L))) (\<lambda>dels.
     then_op (for_op dels (\<lambda>(delegator, validator).
       bind_op (of_option Panic (val_bytes L validator)) (\<lambda>valAddr.
       bind_op (of_option Panic (acc_bytes L delegator)) (\<lambda>delAddr.
       update_op (withdraw_rewards L delAddr valAddr)))))
    (then_op (update_op (\<lambda>s. delete_historical_rewards L (delete_slash_events L s)))
     (ret dels)))))"

text \<open>The outstanding rewards of a validator go to the community pool; its record starts again at height 0.\<close>

definition reinit_validator :: "('s, 'c, 'x) staking_ops \<Rightarrow> string \<Rightarrow> ('s, unit) op" where
  "reinit_validator L operator =
     bind_op (of_option Panic (val_bytes L operator)) (\<lambda>valBz.
     bind_op (must_op (read_op (outstanding_rewards L valBz))) (\<lambda>rewards.
     bind_op (must_op (read_op (community_pool L))) (\<lambda>feePool.
     then_op (must_op (call_op (set_community_pool L (add_dec_coins L feePool rewards))))
     (must_op (call_op (after_validator_created L 0 valBz))))))"

definition reinit_delegation :: "('s, 'c, 'x) staking_ops \<Rightarrow> string \<times> string \<Rightarrow> ('s, unit) op" where
  "reinit_delegation L del = (case del of (delegator, validator) \<Rightarrow>
     bind_op (of_option Panic (val_bytes L validator)) (\<lambda>valAddr.
     bind_op (of_option Panic (acc_bytes L delegator)) (\<lambda>delAddr.
     then_op (must_op (call_op (before_delegation_created L 0 delAddr valAddr)))
     (must_op (call_op (after_delegation_modified L 0 delAddr valAddr))))))"

definition reset_staking_validator :: "('s, 'c, 'x) staking_ops \<Rightarrow> string list \<Rightarrow> bytes \<Rightarrow> ('s, unit) op" where
  "reset_staking_validator L allowed acct =
     bind_op (read_op (\<lambda>s. case get_validator L acct s of None \<Rightarrow> Inl Panic | Some v \<Rightarrow> Inr v)) (\<lambda>validator.
     bind_op (of_option Panic (val_text L acct)) (\<lambda>valAddr.
     must_op (call_op (set_validator L (reset_validator allowed valAddr validator)))))"

definition prep_for_zero_height :: "('s, 'c, 'x) staking_ops \<Rightarrow> string list \<Rightarrow> ('s, unit) op" where
  "prep_for_zero_height L jailAllowedAddrs =
     then_op (for_op jailAllowedAddrs (\<lambda>a. require (val_bytes L a \<noteq> None) Panic))
    (bind_op (withdraw_all L) (\<lambda>dels.
     bind_op (must_op (read_op (validator_operators L))) (\<lambda>operators.
     then_op (for_op operators (reinit_validator L))
    (then_op (for_op dels (reinit_delegation L))
    (bind_op (must_op (read_op (redelegations L))) (\<lambda>reds.
     then_op (for_op reds (\<lambda>r. must_op (call_op (set_redelegation L (zero_heights r)))))
    (bind_op (must_op (read_op (unbonding_delegations L))) (\<lambda>ubds.
     then_op (for_op ubds (\<lambda>u. must_op (call_op (set_unbonding_delegation L (zero_heights u)))))
    (bind_op (read_op (\<lambda>s. Inr (validators_reversed L s))) (\<lambda>addrs.
     then_op (for_op addrs (reset_staking_validator L jailAllowedAddrs))
     (if close_iterator_error L then ret ()
      else then_op (must_op (call_op (apply_validator_updates L)))
        (bind_op (must_op (read_op (signing_infos L))) (\<lambda>infos.
         for_op infos (\<lambda>(a, info). update_op (set_signing_info L a (info\<lparr>si_start_height := 0\<rparr>))))))))))))))))"

section \<open>Export of the application\<close>

text \<open>
  \<open>export_modules\<close> is the module manager, \<open>indent\<close> is \<^verbatim>\<open>json.MarshalIndent\<close>, \<open>write_validators\<close> is the function
  of the staking module; the result is the state, the validators and the height.
\<close>

definition export_app_state ::
  "('s, 'c, 'x) staking_ops \<Rightarrow> (string list \<Rightarrow> 's \<Rightarrow> 'g res \<times> 's) \<Rightarrow> ('g \<Rightarrow> bytes res) \<Rightarrow> ('s \<Rightarrow> bytes res)
    \<Rightarrow> int \<Rightarrow> bool \<Rightarrow> string list \<Rightarrow> string list \<Rightarrow> ('s, bytes \<times> bytes \<times> int) op" where
  "export_app_state L export_modules indent write_validators lastHeight forZeroHeight jailAllowedAddrs modulesToExport =
     then_op (when_op forZeroHeight (prep_for_zero_height L jailAllowedAddrs))
    (bind_op (call_op (export_modules modulesToExport)) (\<lambda>genState.
     bind_op (lift_res (indent genState)) (\<lambda>appState.
     bind_op (read_op write_validators) (\<lambda>validators.
     ret (appState, validators, if forZeroHeight then 0 else lastHeight + 1)))))"

text \<open>
  The command: \<open>home\<close> is the home directory, if the option is a string; \<open>load\<close> gives the application at a
  height and \<open>latest\<close> the newest one.
\<close>

definition app_export ::
  "string option \<Rightarrow> bool \<Rightarrow> (int \<Rightarrow> 's res) \<Rightarrow> 's \<Rightarrow> int \<Rightarrow> ('s \<Rightarrow> 'a res) \<Rightarrow> 'a res" where
  "app_export home is_viper load latest height export =
     (if home = None \<or> home = Some [] then Inl (ErrPlain ''application home not set'')
      else if \<not> is_viper then Inl (ErrPlain ''appOpts is not viper.Viper'')
      else if height \<noteq> -1 then (case load height of Inl e \<Rightarrow> Inl e | Inr a \<Rightarrow> export a)
      else export latest)"

text \<open>Who is jailed by an export at height zero, and what does not change.\<close>

lemma reset_validator_jailed:
  "val_jailed (reset_validator allowed a v) \<longleftrightarrow> val_jailed v \<or> (allowed \<noteq> [] \<and> a \<notin> set allowed)"
  "val_unbonding_height (reset_validator allowed a v) = 0" "val_rest (reset_validator allowed a v) = val_rest v"
  by (simp_all add: reset_validator_def Let_def)

lemma zero_heights_simps:
  "he_heights (zero_heights r) = replicate (length (he_heights r)) 0" "he_rest (zero_heights r) = he_rest r"
  by (simp_all add: zero_heights_def map_replicate_const)

lemma export_bad_address_panics:
  assumes "val_bytes L a = None" "a \<in> set allowed"
  shows "fst (prep_for_zero_height L allowed s) = Inl Panic"
proof -
  have "for_op allowed (\<lambda>a. require (val_bytes L a \<noteq> None) Panic) s = (Inl Panic, s)"
    using assms(2,1) by (induction allowed) (auto simp: op_defs)
  then show ?thesis by (simp add: prep_for_zero_height_def then_op_def bind_op_def)
qed

lemma export_height:
  "export_app_state L ex ind wv h z ja ms s = (Inr (st, vs, k), s') \<Longrightarrow> k = (if z then 0 else h + 1)"
  by (auto simp: export_app_state_def op_success)

end
