(* ===== verification/App_Construction.thy ===== *)
theory App_Construction
  imports App_Wiring App_Export
begin

text \<open>
  The construction of the application (\<^verbatim>\<open>app/app.go\<close>) and of its IBC modules, which are wired by hand
  (\<^verbatim>\<open>app/ibc.go\<close>): the order of the steps, what each keeper is given, the routes, and which errors
  are returned and which panic. The functions of the SDK and of \<^verbatim>\<open>ibc-go\<close> are parameters over a state \<open>'s\<close>.
\<close>

section \<open>IBC modules\<close>

text \<open>The names of \<^verbatim>\<open>ibc-go\<close>: store keys, sub-modules and light clients.\<close>

record ibc_names =
  ib_core_store :: string
  ib_transfer_store :: string
  ib_host_store :: string
  ib_controller_store :: string
  ib_host_sub :: string
  ib_controller_sub :: string
  ib_tendermint :: string
  ib_solomachine :: string

text \<open>
  The calls: \<^verbatim>\<open>RegisterStores\<close>, \<^verbatim>\<open>ParamsKeeper.Subspace(...).WithKeyTable(...)\<close> with the names of the tables,
  \<^verbatim>\<open>UnsafeFindStoreKey\<close> (the key with a flag whether it is one of a key-value store), \<^verbatim>\<open>GetSubspace\<close>,
  the address of \<^verbatim>\<open>x/gov\<close> (its error is ignored), \<^verbatim>\<open>SetRouter\<close>, \<^verbatim>\<open>AddRoute\<close> of the client keeper and \<^verbatim>\<open>RegisterModules\<close>.
\<close>

record ('s, 'k, 'u) ibc_lib =
  il_register_stores :: "string list \<Rightarrow> ('s, unit) op"
  il_set_subspace :: "string \<Rightarrow> string list \<Rightarrow> ('s, unit) op"
  il_find_key :: "'s \<Rightarrow> string \<Rightarrow> ('k \<times> bool) option"
  il_find_subspace :: "'s \<Rightarrow> string \<Rightarrow> 'u \<times> bool"
  il_gov_address :: "'s \<Rightarrow> string res"
  il_set_router :: "(string \<times> string) list \<Rightarrow> ('s, unit) op"
  il_add_client_route :: "string \<Rightarrow> ('s, unit) op"
  il_register_modules :: "string list \<Rightarrow> ('s, unit) op"

text \<open>\<^verbatim>\<open>GetKey\<close> is \<^verbatim>\<open>nil\<close> for a key that is missing or of another kind; \<^verbatim>\<open>GetSubspace\<close> drops the flag.\<close>

definition get_key :: "('s, 'k, 'u) ibc_lib \<Rightarrow> 's \<Rightarrow> string \<Rightarrow> 'k option" where
  "get_key L s k = (case il_find_key L s k of Some (x, True) \<Rightarrow> Some x | _ \<Rightarrow> None)"

definition get_subspace :: "('s, 'k, 'u) ibc_lib \<Rightarrow> 's \<Rightarrow> string \<Rightarrow> 'u" where
  "get_subspace L s n = fst (il_find_subspace L s n)"

text \<open>What the constructor of a keeper is given: its store, its parameters and its authority.\<close>

record ('k, 'u) keeper_args =
  ka_store :: "'k option"
  ka_subspace :: 'u
  ka_authority :: string

record ('k, 'u) ibc_keepers =
  ik_core :: "('k, 'u) keeper_args"
  ik_transfer :: "('k, 'u) keeper_args"
  ik_host :: "('k, 'u) keeper_args"
  ik_controller :: "('k, 'u) keeper_args"

definition make_keepers :: "('s, 'k, 'u) ibc_lib \<Rightarrow> ibc_names \<Rightarrow> app_names \<Rightarrow> 's \<Rightarrow> ('k, 'u) ibc_keepers" where
  "make_keepers L I N s =
     (let govModuleAddr = (case il_gov_address L s of Inl _ \<Rightarrow> [] | Inr a \<Rightarrow> a);
          args = (\<lambda>store sub. \<lparr>ka_store = get_key L s store, ka_subspace = get_subspace L s sub, ka_authority = govModuleAddr\<rparr>) in
      \<lparr>ik_core = args (ib_core_store I) (an_ibc N),
       ik_transfer = args (ib_transfer_store I) (an_transfer N),
       ik_host = args (ib_host_store I) (ib_host_sub I),
       ik_controller = args (ib_controller_store I) (ib_controller_sub I)\<rparr>)"

text \<open>The routes of the IBC router, to the module at the top of each stack.\<close>

definition ibc_routes :: "ibc_names \<Rightarrow> app_names \<Rightarrow> (string \<times> string) list" where
  "ibc_routes I N = [(an_transfer N, ''ibctransfer.NewIBCModule''), (ib_controller_sub I, ''icacontroller.NewIBCMiddleware''), (ib_host_sub I, ''icahost.NewIBCModule'')]"

text \<open>First the stores and the tables of the parameters, then the keepers on them, the routes and the modules.\<close>

definition register_stores_and_tables :: "('s, 'k, 'u) ibc_lib \<Rightarrow> ibc_names \<Rightarrow> app_names \<Rightarrow> ('s, unit) op" where
  "register_stores_and_tables L I N =
     then_op (il_register_stores L [ib_core_store I, ib_transfer_store I, ib_host_store I, ib_controller_store I])
       (for_op [(an_ibc N, [''ibcclienttypes.ParamKeyTable'', ''ibcconnectiontypes.Params'']),
                (an_transfer N, [''ibctransfertypes.ParamKeyTable'']),
                (ib_controller_sub I, [''icacontrollertypes.ParamKeyTable'']),
                (ib_host_sub I, [''icahosttypes.ParamKeyTable''])]
          (\<lambda>(n, tables). il_set_subspace L n tables))"

definition register_ibc_modules :: "('s, 'k, 'u) ibc_lib \<Rightarrow> ibc_names \<Rightarrow> app_names \<Rightarrow> ('s, ('k, 'u) ibc_keepers) op" where
  "register_ibc_modules L I N =
     then_op (register_stores_and_tables L I N)
    (bind_op (read_op (\<lambda>s. Inr (make_keepers L I N s))) (\<lambda>keepers.
     then_op (il_set_router L (ibc_routes I N))
    (then_op (il_add_client_route L (ib_tendermint I))
    (then_op (il_add_client_route L (ib_solomachine I))
    (then_op (il_register_modules L [an_ibc N, an_transfer N, an_ica N, ib_tendermint I, ib_solomachine I])
    (ret keepers))))))"

text \<open>
  \<^verbatim>\<open>RegisterIBC\<close>, for the client: the modules by their names. Those that are an \<^verbatim>\<open>AppModuleBasic\<close> register
  their interfaces (Go visits the map in any order; here it is that of the literal).
\<close>

definition register_ibc ::
  "ibc_names \<Rightarrow> app_names \<Rightarrow> (string \<Rightarrow> 'm) \<Rightarrow> ('m \<Rightarrow> bool) \<Rightarrow> ('m \<Rightarrow> ('s, unit) op) \<Rightarrow> ('s, (string \<times> 'm) list) op" where
  "register_ibc I N create is_basic register_interfaces =
     (let modules = map (\<lambda>n. (n, create n)) [an_ibc N, an_transfer N, an_ica N, ib_tendermint I, ib_solomachine I] in
      then_op (for_op modules (\<lambda>(n, m). when_op (is_basic m) (register_interfaces m))) (ret modules))"

text \<open>
  No IBC keeper is built on a store that is missing: the keys that it looks up are the ones that were
  registered before. \<open>keys_law\<close> is the documented behaviour of the registration and the look-up of keys.
\<close>

definition keys_law :: "('s, 'k, 'u) ibc_lib \<Rightarrow> bool" where
  "keys_law L \<longleftrightarrow>
     (\<forall>ks s s' k. il_register_stores L ks s = (Inr (), s') \<longrightarrow> k \<in> set ks \<longrightarrow> get_key L s' k \<noteq> None)
   \<and> (\<forall>n ts s r s' k. il_set_subspace L n ts s = (r, s') \<longrightarrow> get_key L s' k = get_key L s k)"

lemma tables_keep_keys:
  assumes law: "keys_law L" and run: "for_op xs (\<lambda>(n, tables). il_set_subspace L n tables) s = (r, s')"
  shows "get_key L s' k = get_key L s k"
  using run
proof (induction xs arbitrary: s)
  case (Cons x xs)
  obtain n ts where x: "x = (n, ts)" by fastforce
  obtain r1 s1 where st: "il_set_subspace L n ts s = (r1, s1)" by fastforce
  with law have k: "get_key L s1 k = get_key L s k" unfolding keys_law_def by blast
  show ?case using Cons.prems Cons.IH [of s1] st k by (cases r1) (auto simp: x then_op_def bind_op_def)
qed (simp add: ret_def)

lemma stores_are_found:
  assumes law: "keys_law L" and run: "register_stores_and_tables L I N s = (Inr u, s')"
    and k: "k \<in> set [ib_core_store I, ib_transfer_store I, ib_host_store I, ib_controller_store I]"
  shows "get_key L s' k \<noteq> None"
proof -
  obtain u0 s0 where reg: "il_register_stores L [ib_core_store I, ib_transfer_store I, ib_host_store I, ib_controller_store I] s = (Inr u0, s0)"
    and rest: "for_op [(an_ibc N, [''ibcclienttypes.ParamKeyTable'', ''ibcconnectiontypes.Params'']),
                (an_transfer N, [''ibctransfertypes.ParamKeyTable'']),
                (ib_controller_sub I, [''icacontrollertypes.ParamKeyTable'']),
                (ib_host_sub I, [''icahosttypes.ParamKeyTable''])]
          (\<lambda>(n, tables). il_set_subspace L n tables) s0 = (Inr u, s')"
    using run unfolding register_stores_and_tables_def then_op_Inr by blast
  have "il_register_stores L [ib_core_store I, ib_transfer_store I, ib_host_store I, ib_controller_store I] s = (Inr (), s0)"
    using reg by simp
  with law k have "get_key L s0 k \<noteq> None" unfolding keys_law_def by blast
  then show ?thesis using tables_keep_keys [OF law rest] by simp
qed

lemma ibc_store_keys:
  assumes law: "keys_law L" and run: "register_ibc_modules L I N s = (Inr keepers, s')"
  shows "ka_store (ik_core keepers) \<noteq> None" "ka_store (ik_transfer keepers) \<noteq> None"
    "ka_store (ik_host keepers) \<noteq> None" "ka_store (ik_controller keepers) \<noteq> None"
proof -
  from run obtain u s4 where "register_stores_and_tables L I N s = (Inr u, s4)" and k: "keepers = make_keepers L I N s4"
    by (auto simp: register_ibc_modules_def op_success read_op_def ret_def)
  from stores_are_found [OF law this(1)] show "ka_store (ik_core keepers) \<noteq> None" "ka_store (ik_transfer keepers) \<noteq> None"
    "ka_store (ik_host keepers) \<noteq> None" "ka_store (ik_controller keepers) \<noteq> None"
    by (simp_all add: k make_keepers_def Let_def)
qed

section \<open>The application\<close>

text \<open>
  What the packages set when they are loaded: the address prefixes and the coin type of \<^verbatim>\<open>app/config.go\<close>
  and the global settings of \<^verbatim>\<open>app.go\<close>, which panics without a home directory.
\<close>

record address_config =
  ac_coin_type :: int
  ac_account :: "string \<times> string"
  ac_validator :: "string \<times> string"
  ac_consensus_node :: "string \<times> string"
  ac_sealed :: bool

definition chain_coin_type :: int where
  "chain_coin_type = 100600"

definition init_address_config :: address_config where
  "init_address_config =
     (let accountPubKeyPrefix = account_address_prefix @ ''pub'';
          validatorAddressPrefix = account_address_prefix @ ''valoper'';
          validatorPubKeyPrefix = account_address_prefix @ ''valoperpub'';
          consNodeAddressPrefix = account_address_prefix @ ''valcons'';
          consNodePubKeyPrefix = account_address_prefix @ ''valconspub'' in
      \<lparr>ac_coin_type = chain_coin_type, ac_account = (account_address_prefix, accountPubKeyPrefix),
       ac_validator = (validatorAddressPrefix, validatorPubKeyPrefix),
       ac_consensus_node = (consNodeAddressPrefix, consNodePubKeyPrefix), ac_sealed = True\<rparr>)"

record app_globals =
  ag_bond_denom :: string
  ag_env_prefix :: string
  ag_node_home :: string

definition init_app_globals :: "(string \<Rightarrow> string res) \<Rightarrow> app_globals res" where
  "init_app_globals home_directory = (case home_directory (CHR ''.'' # app_name) of
     Inl _ \<Rightarrow> Inl Panic
   | Inr home \<Rightarrow> Inr \<lparr>ag_bond_denom = ''udns'', ag_env_prefix = app_name, ag_node_home = home\<rparr>)"

text \<open>An address of one kind is never one of another: no two prefixes are the same.\<close>

lemma address_prefixes_distinct:
  "distinct [fst (ac_account init_address_config), snd (ac_account init_address_config),
     fst (ac_validator init_address_config), snd (ac_validator init_address_config),
     fst (ac_consensus_node init_address_config), snd (ac_consensus_node init_address_config)]"
  by code_simp

text \<open>
  The steps of \<^verbatim>\<open>New\<close>: the injection of the keepers, \<^verbatim>\<open>Build\<close> with the options, the simulation manager
  with its decoders, the version map and the \<^verbatim>\<open>InitChainer\<close> of the runtime, and \<^verbatim>\<open>Load\<close>.
\<close>

record ('s, 'o) app_lib =
  al_inject :: "('s, unit) op"
  al_build :: "'o list \<Rightarrow> ('s, unit) op"
  al_simulation :: "('s, unit) op"
  al_load :: "bool \<Rightarrow> ('s, unit) op"
  al_set_versions :: "('s, unit) op"
  al_init_chainer :: "('s, unit) op"
  al_optimistic_execution :: 'o

definition init_chainer :: "('s, 'o) app_lib \<Rightarrow> ('s, unit) op" where
  "init_chainer A = then_op (al_set_versions A) (al_init_chainer A)"

text \<open>The result is the application: its IBC keepers and its \<^verbatim>\<open>InitChainer\<close>.\<close>

definition new_app ::
  "('s, 'o) app_lib \<Rightarrow> ('s, 'k, 'u) ibc_lib \<Rightarrow> ibc_names \<Rightarrow> app_names \<Rightarrow> bool \<Rightarrow> 'o list \<Rightarrow>
    ('s, ('k, 'u) ibc_keepers \<times> ('s, unit) op) op" where
  "new_app A L I N loadLatest baseAppOptions =
     then_op (must_op (al_inject A))
    (then_op (al_build A (baseAppOptions @ [al_optimistic_execution A]))
    (bind_op (must_op (register_ibc_modules L I N)) (\<lambda>keepers.
     then_op (al_simulation A)
    (then_op (must_op (al_load A loadLatest))
    (ret (keepers, init_chainer A))))))"

text \<open>\<^verbatim>\<open>newApp\<close> of the commands loads the latest state, with the options of the server.\<close>

definition command_new_app ::
  "('s, 'o) app_lib \<Rightarrow> ('s, 'k, 'u) ibc_lib \<Rightarrow> ibc_names \<Rightarrow> app_names \<Rightarrow> 'o list \<Rightarrow> ('s, ('k, 'u) ibc_keepers \<times> ('s, unit) op) op" where
  "command_new_app A L I N default_options = new_app A L I N True default_options"

lemma must_op_Inr: "must_op m s = (Inr x, s') \<longleftrightarrow> m s = (Inr x, s')"
  by (auto simp: must_op_def map_err_def split: prod.splits sum.splits)

text \<open>An application that was built has its IBC stores, and its genesis stores the versions of the modules first.\<close>

lemma new_app_complete:
  assumes "keys_law L" and "new_app A L I N loadLatest opts s = (Inr (keepers, chainer), s')"
  shows "ka_store (ik_core keepers) \<noteq> None" "ka_store (ik_transfer keepers) \<noteq> None"
    "ka_store (ik_host keepers) \<noteq> None" "ka_store (ik_controller keepers) \<noteq> None"
    and "chainer t = (Inr (), t') \<Longrightarrow> \<exists>t1. al_set_versions A t = (Inr (), t1) \<and> al_init_chainer A t1 = (Inr (), t')"
proof -
  obtain s1 s2 where "register_ibc_modules L I N s1 = (Inr keepers, s2)" and c: "chainer = init_chainer A"
    using assms(2) by (fastforce simp: new_app_def op_success must_op_Inr ret_def)
  from ibc_store_keys [OF assms(1) this(1)] show "ka_store (ik_core keepers) \<noteq> None" "ka_store (ik_transfer keepers) \<noteq> None"
    "ka_store (ik_host keepers) \<noteq> None" "ka_store (ik_controller keepers) \<noteq> None" by simp_all
  show "chainer t = (Inr (), t') \<Longrightarrow> \<exists>t1. al_set_versions A t = (Inr (), t1) \<and> al_init_chainer A t1 = (Inr (), t')"
    by (auto simp: c init_chainer_def then_op_Inr)
qed

end
