(* ===== verification/Client_Commands.thy ===== *)
theory Client_Commands
  imports App_Wiring Simulation
begin

text \<open>
  The command line of the node: the descriptors from which the SDK generates the commands of both modules
  (\<^verbatim>\<open>module/autocli.go\<close>), the hand-written command for proposals (\<^verbatim>\<open>client/cli/tx.go\<close>) and the tree of
  all commands (\<^verbatim>\<open>cmd/commands.go\<close>, \<^verbatim>\<open>cmd/root.go\<close>). The example in the help text of the hand-written command is left out.
\<close>

section \<open>Services\<close>

text \<open>The names of the gRPC services and of their methods.\<close>

definition dns_query_service :: "string \<times> string list" where
  "dns_query_service = (''dnsblockchain.dnsblockchain.v1.Query'', [''Params'', ''GetDomain'', ''ListDomain'', ''ListPermittedTLDs'', ''GetDomainByName''])"

definition dns_msg_service :: "string \<times> string list" where
  "dns_msg_service = (''dnsblockchain.dnsblockchain.v1.Msg'', [''UpdateParams'', ''CreateDomain'', ''UpdateDomain'', ''DeleteDomain'', ''TransferDomain'', ''HeartbeatDomain''])"

definition dao_query_service :: "string \<times> string list" where
  "dao_query_service = (''dnsblockchain.dao.v1.Query'', [''Params'', ''Proposal'', ''Proposals'', ''Vote'', ''Votes'', ''TallyResult''])"

definition dao_msg_service :: "string \<times> string list" where
  "dao_msg_service = (''dnsblockchain.dao.v1.Msg'', [''SubmitProposal'', ''Vote''])"

section \<open>Descriptors of generated commands\<close>

definition text_lines :: "string list \<Rightarrow> string" where
  "text_lines ls = concat (map (\<lambda>l. l @ [CHR 0x0A]) ls)"

record rpc_option =
  ro_method :: string
  ro_use :: string
  ro_short :: string
  ro_long :: string
  ro_example :: string
  ro_alias :: "string list"
  ro_positional :: "string list"
  ro_skip :: bool

record service_commands =
  sc_service :: string
  sc_enhance_custom :: bool
  sc_options :: "rpc_option list"

definition dns_query_options :: "rpc_option list" where
  "dns_query_options =
     [\<lparr>ro_method = ''Params'', ro_use = ''params'',
        ro_short = ''Shows the parameters of the module'', ro_long = [], ro_example = [], ro_alias = [], ro_positional = [], ro_skip = False\<rparr>,
      \<lparr>ro_method = ''ListDomain'', ro_use = ''list-domain'',
        ro_short = ''List all domain'', ro_long = [], ro_example = [], ro_alias = [], ro_positional = [], ro_skip = False\<rparr>,
      \<lparr>ro_method = ''GetDomain'', ro_use = ''get-domain [id]'',
        ro_short = ''Gets a domain by id'', ro_long = [], ro_example = [], ro_alias = [''show-domain''], ro_positional = [''id''], ro_skip = False\<rparr>,
      \<lparr>ro_method = ''ListPermittedTLDs'', ro_use = ''list-permitted-tlds'',
        ro_short = ''List all permitted TLDs'', ro_long = [], ro_example = [], ro_alias = [], ro_positional = [], ro_skip = False\<rparr>,
      \<lparr>ro_method = ''GetDomainByName'', ro_use = ''get-domain-by-name [name]'',
        ro_short = ''Gets a domain by its FQDN (e.g., example.dweb)'', ro_long = [], ro_example = [], ro_alias = [''show-domain-by-name''], ro_positional = [''name''], ro_skip = False\<rparr>]"

definition dns_tx_options :: "rpc_option list" where
  "dns_tx_options =
     [\<lparr>ro_method = ''UpdateParams'', ro_use = [],
        ro_short = [], ro_long = [], ro_example = [], ro_alias = [], ro_positional = [], ro_skip = True\<rparr>,
      \<lparr>ro_method = ''CreateDomain'', ro_use = ''create-domain [name] [owner] --ns-records-json <json_string_or_path>'',
        ro_short = ''Create a new domain. NS records must be provided as a JSON string or path to a JSON file via the --ns-records-json flag.'', ro_long = text_lines [
        ''Create a new domain.'',
        ''Example:'',
        (''dnsblockchaind tx dnsblockchain create-domain example.web3 cosmos1... --ns-records-json '' @ [CHR 0x27] @ ''[{\"name\":\"ns1.example.web3\",\"ipv4_addresses\":[\"1.2.3.4\"]},{\"name\":\"ns2.example.web3\",\"ipv4_addresses\":[\"5.6.7.8\"]}]'' @ [CHR 0x27] @ '' --from mykey''),
        [],
        ''Or using a file:'',
        ''dnsblockchaind tx dnsblockchain create-domain example.web3 cosmos1... --ns-records-json path/to/ns_records.json --from mykey'',
        [],
        ''ns_records.json content:'',
        ''['',
        ''  {\"name\":\"ns1.example.web3\",\"ipv4_addresses\":[\"1.2.3.4\"],\"ipv6_addresses\":[\"2001:db8::1\"]},'',
        ''  {\"name\":\"ns2.example.web3\",\"ipv4_addresses\":[\"5.6.7.8\"]}'',
        '']''], ro_example = [], ro_alias = [], ro_positional = [''name'', ''owner''], ro_skip = False\<rparr>,
      \<lparr>ro_method = ''UpdateDomain'', ro_use = ''update-domain [id] --owner [new-owner] --ns-records-json <json_string_or_path>'',
        ro_short = ''Update domain owner (creator only) or NS records (creator or owner).'', ro_long = text_lines [
        ''Update an existing domain.'',
        ''Provide the domain ID. Optionally provide a new owner (if you are the creator)'',
        ''and/or new NS records as a JSON string or path to a file via --ns-records-json.''], ro_example = [], ro_alias = [], ro_positional = [''id''], ro_skip = False\<rparr>,
      \<lparr>ro_method = ''DeleteDomain'', ro_use = ''delete-domain [id]'',
        ro_short = ''Delete domain'', ro_long = [], ro_example = [], ro_alias = [], ro_positional = [''id''], ro_skip = False\<rparr>,
      \<lparr>ro_method = ''HeartbeatDomain'', ro_use = ''heartbeat-domain [id]'',
        ro_short = ''Send a heartbeat to a domain to extend its expiration'', ro_long = [], ro_example = [], ro_alias = [], ro_positional = [''id''], ro_skip = False\<rparr>,
      \<lparr>ro_method = ''TransferDomain'', ro_use = ''transfer-domain [id] [new-owner]'',
        ro_short = ''Transfer a domain to a new owner'', ro_long = [], ro_example = [], ro_alias = [], ro_positional = [''id'', ''new_owner''], ro_skip = False\<rparr>]"

definition dao_query_options :: "rpc_option list" where
  "dao_query_options =
     [\<lparr>ro_method = ''Params'', ro_use = ''params'',
        ro_short = ''Shows the parameters of the module'', ro_long = [], ro_example = [], ro_alias = [], ro_positional = [], ro_skip = False\<rparr>,
      \<lparr>ro_method = ''Proposal'', ro_use = ''proposal [proposal-id]'',
        ro_short = ''Query a proposal by ID'', ro_long = [], ro_example = [], ro_alias = [], ro_positional = [''proposal_id''], ro_skip = False\<rparr>,
      \<lparr>ro_method = ''Proposals'', ro_use = ''proposals [--proposal-status <status>] [--voter <address>] [--proposer <address>] [--page-key <key>] [--offset <offset>] [--limit <limit>] [--count-total]'',
        ro_short = ''Query proposals with optional filters and pagination'', ro_long = ''Query proposals with optional filters by status, proposer, or voter (Note: voter filter might require specific implementation). Supports pagination.'', ro_example = ''dnsblockchaind query dao proposals --proposal-status PROPOSAL_STATUS_VOTING_PERIOD'', ro_alias = [], ro_positional = [], ro_skip = False\<rparr>,
      \<lparr>ro_method = ''Vote'', ro_use = ''vote [proposal-id] [voter-address]'',
        ro_short = ''Query a specific vote on a proposal by a voter'', ro_long = [], ro_example = [], ro_alias = [], ro_positional = [''proposal_id'', ''voter''], ro_skip = False\<rparr>,
      \<lparr>ro_method = ''Votes'', ro_use = ''votes [proposal-id] [--page-key <key>] [--offset <offset>] [--limit <limit>] [--count-total]'',
        ro_short = ''Query all votes on a proposal with optional pagination'', ro_long = [], ro_example = [], ro_alias = [], ro_positional = [''proposal_id''], ro_skip = False\<rparr>,
      \<lparr>ro_method = ''TallyResult'', ro_use = ''tally [proposal-id]'',
        ro_short = ''Query the tally result of a proposal'', ro_long = [], ro_example = [], ro_alias = [], ro_positional = [''proposal_id''], ro_skip = False\<rparr>]"

definition dao_tx_options :: "rpc_option list" where
  "dao_tx_options =
     [\<lparr>ro_method = ''SubmitProposal'', ro_use = [],
        ro_short = [], ro_long = [], ro_example = [], ro_alias = [], ro_positional = [], ro_skip = True\<rparr>,
      \<lparr>ro_method = ''Vote'', ro_use = ''vote [proposal-id] [option]'',
        ro_short = ''Vote on an active proposal'', ro_long = [], ro_example = ''dnsblockchaind tx dao vote 1 VOTE_OPTION_YES --from <key_or_address>'', ro_alias = [], ro_positional = [''proposal_id'', ''option''], ro_skip = False\<rparr>]"

text \<open>\<^verbatim>\<open>AutoCLIOptions\<close>: the commands for queries and for transactions.\<close>

definition dns_auto_cli_options :: "service_commands \<times> service_commands" where
  "dns_auto_cli_options =
     (\<lparr>sc_service = fst dns_query_service, sc_enhance_custom = False, sc_options = dns_query_options\<rparr>,
      \<lparr>sc_service = fst dns_msg_service, sc_enhance_custom = True, sc_options = dns_tx_options\<rparr>)"

definition dao_auto_cli_options :: "service_commands \<times> service_commands" where
  "dao_auto_cli_options =
     (\<lparr>sc_service = fst dao_query_service, sc_enhance_custom = False, sc_options = dao_query_options\<rparr>,
      \<lparr>sc_service = fst dao_msg_service, sc_enhance_custom = True, sc_options = dao_tx_options\<rparr>)"

section \<open>The command for proposals\<close>

text \<open>
  The calls of the SDK and the operating system that \<^verbatim>\<open>RunE\<close> makes: the client context with the address of
  \<^verbatim>\<open>--from\<close>, the file, its reading as a message, and the broadcast, which is given the message.
\<close>

record 'w cli_runtime =
  cl_from_address :: "string res"
  cl_read_file :: "string \<Rightarrow> bytes res"
  cl_unmarshal :: "bytes \<Rightarrow> msg_submit_proposal res"
  cl_broadcast :: "msg_submit_proposal \<Rightarrow> ('w, unit) op"

definition run_submit_proposal :: "'w cli_runtime \<Rightarrow> string list \<Rightarrow> ('w, unit) op" where
  "run_submit_proposal L args =
     then_op (require (length args = 1) (ErrPlain ''accepts 1 arg(s)''))
    (bind_op (lift_res (cl_from_address L)) (\<lambda>fromAddr.
     bind_op (map_err (\<lambda>_. ErrPlain ''failed to read proposal file'') (lift_res (cl_read_file L (hd args)))) (\<lambda>contents.
     bind_op (map_err (\<lambda>_. ErrPlain ''failed to unmarshal proposal JSON'') (lift_res (cl_unmarshal L contents))) (\<lambda>msg.
     bind_op (lift_res (cli_submit_proposal fromAddr msg)) (cl_broadcast L)))))"

text \<open>Whatever the file says, the message that is broadcast is the one of the file in the name of \<^verbatim>\<open>--from\<close>.\<close>

lemma run_submit_proposal_from:
  assumes "run_submit_proposal L args w = (Inr (), w')"
  obtains a contents msg where "cl_from_address L = Inr a" "cl_read_file L (hd args) = Inr contents"
    "cl_unmarshal L contents = Inr msg" "sp_proposer msg \<in> {[], a}"
    "cl_broadcast L (msg\<lparr>sp_proposer := a\<rparr>) w = (Inr (), w')"
proof -
  obtain a contents msg msg' where *: "cl_from_address L = Inr a" "cl_read_file L (hd args) = Inr contents"
    "cl_unmarshal L contents = Inr msg" "cli_submit_proposal a msg = Inr msg'" "cl_broadcast L msg' w = (Inr (), w')"
    using assms by (auto simp: run_submit_proposal_def op_success)
  moreover have "sp_proposer msg \<in> {[], a}" using *(4) by (auto simp: cli_submit_proposal_def split: if_splits)
  moreover have "msg' = msg\<lparr>sp_proposer := a\<rparr>" using *(4) by (rule cli_submit_proposal_from)
  ultimately show ?thesis using that by metis
qed

section \<open>The tree of commands\<close>

text \<open>The fields of a \<^verbatim>\<open>cobra.Command\<close> that the code sets; \<open>ci_run\<close> names the function of \<^verbatim>\<open>RunE\<close>.\<close>

record command_info =
  ci_use :: string
  ci_short :: string
  ci_long :: string
  ci_aliases :: "string list"
  ci_exact_args :: "nat option"
  ci_disable_flag_parsing :: bool
  ci_suggestions_distance :: int
  ci_silence_errors :: bool
  ci_run :: "string option"

definition command_of :: "string \<Rightarrow> string \<Rightarrow> command_info" where
  "command_of u short = \<lparr>ci_use = u, ci_short = short, ci_long = [], ci_aliases = [], ci_exact_args = None,
     ci_disable_flag_parsing = False, ci_suggestions_distance = 0, ci_silence_errors = False, ci_run = None\<rparr>"

text \<open>A command of the code with its sub-commands, or one that the library function of the given name makes.\<close>

datatype command = Command command_info "command list" | Library string

fun add_commands :: "command list \<Rightarrow> command \<Rightarrow> command" where
  "add_commands cs (Command u subs) = Command u (subs @ cs)"
| "add_commands cs (Library f) = Library f"

definition submit_proposal_use :: string where
  "submit_proposal_use = ''submit-proposal [proposal-file]''"

definition new_submit_proposal_cmd :: command where
  "new_submit_proposal_cmd = Command ((command_of submit_proposal_use ''Submit a new proposal'')
     \<lparr>ci_long := ''Submit a new proposal supported by the DAO module. Proposal details must be supplied in a JSON file.'',
      ci_exact_args := Some 1, ci_run := Some ''run_submit_proposal''\<rparr>) []"

definition dao_get_tx_cmd :: command where
  "dao_get_tx_cmd = add_commands [new_submit_proposal_cmd] (Command ((command_of DaoModuleName (DaoModuleName @ '' transactions subcommands''))
     \<lparr>ci_disable_flag_parsing := True, ci_suggestions_distance := 2, ci_run := Some ''client.ValidateCmd''\<rparr>) [])"

definition query_command :: command where
  "query_command = add_commands [Library ''rpc.WaitTxCmd'', Library ''rpc.ValidatorCommand'', Library ''server.QueryBlockCmd'',
     Library ''authcmd.QueryTxsByEventsCmd'', Library ''server.QueryBlocksCmd'', Library ''authcmd.QueryTxCmd'',
     Library ''server.QueryBlockResultsCmd''] (Command ((command_of ''query'' ''Querying subcommands'')
     \<lparr>ci_aliases := [''q''], ci_suggestions_distance := 2, ci_run := Some ''client.ValidateCmd''\<rparr>) [])"

definition tx_command :: command where
  "tx_command = add_commands [dao_get_tx_cmd] (add_commands
     [Library ''authcmd.GetSignCommand'', Library ''authcmd.GetSignBatchCommand'', Library ''authcmd.GetMultiSignCommand'',
      Library ''authcmd.GetMultiSignBatchCmd'', Library ''authcmd.GetValidateSignaturesCommand'', Library ''flags.LineBreak'',
      Library ''authcmd.GetBroadcastCommand'', Library ''authcmd.GetEncodeCommand'', Library ''authcmd.GetDecodeCommand'',
      Library ''authcmd.GetSimulateCmd''] (Command ((command_of ''tx'' ''Transactions subcommands'')
     \<lparr>ci_suggestions_distance := 2, ci_run := Some ''client.ValidateCmd''\<rparr>) []))"

text \<open>
  \<open>in_place\<close> and \<open>multi_node\<close> are the commands of \<^verbatim>\<open>testnet.go\<close> and \<^verbatim>\<open>testnet_multi_node.go\<close>, \<open>server\<close> is
  \<^verbatim>\<open>server.AddCommandsWithStartCmdOptions\<close>.
\<close>

definition init_root_cmd :: "(command \<Rightarrow> command) \<Rightarrow> command \<Rightarrow> command \<Rightarrow> command \<Rightarrow> command" where
  "init_root_cmd server in_place multi_node root =
     add_commands [Library ''server.StatusCommand'', Library ''genutilcli.Commands'', query_command, tx_command, Library ''keys.Commands'']
    (server
    (add_commands [Library ''genutilcli.InitCmd'', in_place, multi_node, Library ''debug.Cmd'', Library ''confixcmd.ConfigCommand'',
       Library ''pruning.Cmd'', Library ''snapshot.Cmd''] root))"

definition root_command :: command where
  "root_command = Command ((command_of (app_name @ ''d'') ''dnsblockchain node'')\<lparr>ci_silence_errors := True\<rparr>) []"

text \<open>
  \<^verbatim>\<open>NewRootCmd\<close>: \<open>inject\<close> gives the options of the generated commands and the modules of the client, by
  their names, \<open>ibc\<close> are the modules of \<^verbatim>\<open>RegisterIBC\<close>, which are added to both, and \<open>enhance\<close> is
  \<^verbatim>\<open>EnhanceRootCommand\<close>. Errors are panics.
\<close>

definition new_root_cmd ::
  "((string \<rightharpoonup> 'm) \<times> (string \<rightharpoonup> 'a)) res \<Rightarrow> (string \<times> 'm) list \<Rightarrow> ('m \<Rightarrow> 'a) \<Rightarrow> ((string \<rightharpoonup> 'm) \<Rightarrow> command \<Rightarrow> command res) \<Rightarrow>
    (command \<Rightarrow> command) \<Rightarrow> command \<Rightarrow> command \<Rightarrow> (command \<times> (string \<rightharpoonup> 'a)) res" where
  "new_root_cmd inject ibc basic enhance server in_place multi_node = (case inject of
     Inl _ \<Rightarrow> Inl Panic
   | Inr (autoModules, basics) \<Rightarrow>
       (let root = root_command;
            basics' = basics ++ map_of (map (\<lambda>(n, m). (n, basic m)) ibc);
            autoModules' = autoModules ++ map_of ibc in
        (case enhance autoModules' (init_root_cmd server in_place multi_node root) of
           Inl _ \<Rightarrow> Inl Panic | Inr cmd \<Rightarrow> Inr (cmd, basics'))))"

text \<open>The start of every command: the steps of \<^verbatim>\<open>PersistentPreRunE\<close>, up to the first error.\<close>

definition persistent_pre_run ::
  "('c \<Rightarrow> 'c res) \<Rightarrow> ('c \<Rightarrow> 'c res) \<Rightarrow> ('c \<Rightarrow> gerr option) \<Rightarrow> gerr option \<Rightarrow> 'c \<Rightarrow> gerr option" where
  "persistent_pre_run read_flags read_config set_context intercept clientCtx = (case read_flags clientCtx of
     Inl e \<Rightarrow> Some e
   | Inr clientCtx1 \<Rightarrow> (case read_config clientCtx1 of
       Inl e \<Rightarrow> Some e
     | Inr clientCtx2 \<Rightarrow> (case set_context clientCtx2 of
         Some e \<Rightarrow> Some e
       | None \<Rightarrow> intercept)))"

section \<open>Every message and query has a command\<close>

definition generated :: "service_commands \<Rightarrow> string set" where
  "generated s = set (map ro_method (filter (\<lambda>r. \<not> ro_skip r) (sc_options s)))"

fun has_command :: "string \<Rightarrow> command \<Rightarrow> bool" where
  "has_command u (Command v subs) \<longleftrightarrow> u = ci_use v \<or> (\<exists>c \<in> set subs. has_command u c)"
| "has_command u (Library f) \<longleftrightarrow> False"

lemmas option_defs = dns_query_options_def dns_tx_options_def dao_query_options_def dao_tx_options_def
  dns_auto_cli_options_def dao_auto_cli_options_def dns_query_service_def dns_msg_service_def dao_query_service_def dao_msg_service_def

text \<open>
  All queries are generated; of the messages all but the change of parameters, which only the authority may
  send, and the submission of proposals, which has the hand-written command.
\<close>

lemma generated_commands:
  "generated (fst dns_auto_cli_options) = set (snd dns_query_service)"
  "generated (fst dao_auto_cli_options) = set (snd dao_query_service)"
  "generated (snd dns_auto_cli_options) = set (snd dns_msg_service) - {''UpdateParams''}"
  "generated (snd dao_auto_cli_options) = set (snd dao_msg_service) - {''SubmitProposal''}"
  by code_simp+

lemma submit_proposal_in_tx: "has_command submit_proposal_use tx_command"
  by (simp add: tx_command_def dao_get_tx_cmd_def new_submit_proposal_cmd_def command_of_def)

text \<open>No method has two descriptors.\<close>

lemma options_distinct:
  "distinct (map ro_method dns_query_options)" "distinct (map ro_method dns_tx_options)"
  "distinct (map ro_method dao_query_options)" "distinct (map ro_method dao_tx_options)"
  by (simp_all add: option_defs)

text \<open>The hand-written command is in the tree of every root command.\<close>

lemma submit_proposal_in_root:
  assumes server: "\<And>i subs. \<exists>subs'. server (Command i subs) = Command i (subs @ subs')"
    and enhance: "\<And>ms c c'. enhance ms c = Inr c' \<Longrightarrow> has_command submit_proposal_use c \<Longrightarrow> has_command submit_proposal_use c'"
    and run: "new_root_cmd inject ibc basic enhance server in_place multi_node = Inr (cmd, basics)"
  shows "has_command submit_proposal_use cmd"
proof -
  obtain ms where e: "enhance ms (init_root_cmd server in_place multi_node root_command) = Inr cmd"
    using run by (auto simp: new_root_cmd_def Let_def split: sum.splits prod.splits)
  obtain i subs where "server (add_commands [Library ''genutilcli.InitCmd'', in_place, multi_node, Library ''debug.Cmd'',
      Library ''confixcmd.ConfigCommand'', Library ''pruning.Cmd'', Library ''snapshot.Cmd''] root_command) = Command i subs"
    using server unfolding root_command_def add_commands.simps(1) by metis
  then have "has_command submit_proposal_use (init_root_cmd server in_place multi_node root_command)"
    using submit_proposal_in_tx by (simp add: init_root_cmd_def)
  with enhance e show ?thesis by blast
qed

end
