(* ===== verification/Go_Paths.thy ===== *)
theory Go_Paths
  imports Dns_Prelude
begin

text \<open>
  What the commands use of Go's \<^verbatim>\<open>strings\<close>, \<^verbatim>\<open>strconv\<close> and \<^verbatim>\<open>path/filepath\<close> on a Unix system: splitting
  at a separator, decimal integers, and slash-separated paths (\<^verbatim>\<open>Clean\<close>, \<^verbatim>\<open>Join\<close>, \<^verbatim>\<open>Abs\<close>, \<^verbatim>\<open>Rel\<close> of
  absolute paths, \<^verbatim>\<open>Base\<close>).
\<close>

section \<open>Strings\<close>

text \<open>\<^verbatim>\<open>strings.Split(s, sep)\<close> for a separator of one byte, and its inverse.\<close>

fun split_at :: "char \<Rightarrow> string \<Rightarrow> string list" where
  "split_at sep [] = [[]]"
| "split_at sep (c # s) =
     (if c = sep then [] # split_at sep s
      else (case split_at sep s of [] \<Rightarrow> [[c]] | p # ps \<Rightarrow> (c # p) # ps))"

fun join_with :: "char \<Rightarrow> string list \<Rightarrow> string" where
  "join_with sep [] = []"
| "join_with sep [p] = p"
| "join_with sep (p # q # ps) = p @ sep # join_with sep (q # ps)"

lemma split_at_nonempty [simp]: "split_at sep s \<noteq> []"
  by (induction s) (auto split: list.splits)

lemma split_at_plain: "sep \<notin> set p \<Longrightarrow> split_at sep p = [p]"
  by (induction p) auto

lemma split_at_append: "sep \<notin> set p \<Longrightarrow> split_at sep (p @ sep # s) = p # split_at sep s"
  by (induction p) auto

lemma split_join:
  assumes "ps \<noteq> []" "\<And>p. p \<in> set ps \<Longrightarrow> sep \<notin> set p"
  shows "split_at sep (join_with sep ps) = ps"
  using assms by (induction sep ps rule: join_with.induct) (auto simp: split_at_plain split_at_append)

text \<open>\<^verbatim>\<open>strconv.Itoa\<close>.\<close>

definition itoa :: "int \<Rightarrow> string" where
  "itoa n = (if n < 0 then CHR ''-'' # show_nat (nat (- n)) else show_nat (nat n))"

lemma itoa_inject:
  assumes "0 \<le> m" "0 \<le> n" "itoa m = itoa n"
  shows "m = n"
proof -
  have "read_digits (itoa m) = read_digits (itoa n)" using assms(3) by simp
  with assms(1,2) show ?thesis by (simp add: itoa_def read_show_nat)
qed

section \<open>Paths\<close>

definition rooted :: "string \<Rightarrow> bool" where
  "rooted p = (take 1 p = ''/'')"

text \<open>One element of a path, after the elements \<open>acc\<close> of the result so far.\<close>

definition clean_step :: "bool \<Rightarrow> string list \<Rightarrow> string \<Rightarrow> string list" where
  "clean_step r acc e =
     (if e = [] \<or> e = ''.'' then acc
      else if e = ''..'' then
        (if acc \<noteq> [] \<and> last acc \<noteq> ''..'' then butlast acc else if r then acc else acc @ [e])
      else acc @ [e])"

definition clean_elems :: "string \<Rightarrow> string list" where
  "clean_elems p = foldl (clean_step (rooted p)) [] (split_at (CHR ''/'') p)"

definition path_of :: "bool \<Rightarrow> string list \<Rightarrow> string" where
  "path_of r es = (let s = (if r then ''/'' else []) @ join_with (CHR ''/'') es in if s = [] then ''.'' else s)"

definition path_clean :: "string \<Rightarrow> string" where
  "path_clean p = path_of (rooted p) (clean_elems p)"

definition path_join :: "string list \<Rightarrow> string" where
  "path_join ps = (let qs = filter (\<lambda>p. p \<noteq> []) ps in if qs = [] then [] else path_clean (join_with (CHR ''/'') qs))"

text \<open>\<open>cwd\<close> is the working directory, or \<open>None\<close> when the system cannot tell.\<close>

definition path_abs :: "string option \<Rightarrow> string \<Rightarrow> string option" where
  "path_abs cwd p = (if rooted p then Some (path_clean p) else (case cwd of None \<Rightarrow> None | Some d \<Rightarrow> Some (path_join [d, p])))"

text \<open>What is left of two element lists without their common prefix.\<close>

fun strip_common :: "string list \<Rightarrow> string list \<Rightarrow> string list \<times> string list" where
  "strip_common (a # as) (b # bs) = (if a = b then strip_common as bs else (a # as, b # bs))"
| "strip_common as bs = (as, bs)"

text \<open>\<^verbatim>\<open>filepath.Rel\<close> of two absolute paths, for which it does not fail.\<close>

definition path_rel :: "string \<Rightarrow> string \<Rightarrow> string" where
  "path_rel base targ = (case strip_common (clean_elems base) (clean_elems targ) of
     (bs, ts) \<Rightarrow> path_of False (map (\<lambda>_. ''..'') bs @ ts))"

definition path_base :: "string \<Rightarrow> string" where
  "path_base p = (if p = [] then ''.''
     else (let es = filter (\<lambda>e. e \<noteq> []) (split_at (CHR ''/'') p) in if es = [] then ''/'' else last es))"

text \<open>
  A plain element: not empty, without a slash and not one of the special names. Absolute paths of
  plain elements are clean.
\<close>

definition plain_elem :: "string \<Rightarrow> bool" where
  "plain_elem e \<longleftrightarrow> e \<noteq> [] \<and> e \<noteq> ''.'' \<and> e \<noteq> ''..'' \<and> CHR ''/'' \<notin> set e"

abbreviation abs_path :: "string list \<Rightarrow> string" where
  "abs_path es \<equiv> path_of True es"

lemma clean_step_plain: "plain_elem e \<Longrightarrow> clean_step r acc e = acc @ [e]"
  by (simp add: clean_step_def plain_elem_def)

lemma foldl_clean_plain: "list_all plain_elem es \<Longrightarrow> foldl (clean_step r) acc es = acc @ es"
  by (induction es arbitrary: acc) (auto simp: clean_step_plain)

lemma plain_no_slash: "list_all plain_elem es \<Longrightarrow> e \<in> set es \<Longrightarrow> CHR ''/'' \<notin> set e"
  by (auto simp: list_all_iff plain_elem_def)

lemma abs_path_alt: "abs_path es = CHR ''/'' # join_with (CHR ''/'') es"
  by (simp add: path_of_def)

lemma clean_elems_abs:
  assumes "list_all plain_elem es"
  shows "clean_elems (abs_path es) = es"
proof (cases "es = []")
  case True
  then show ?thesis by (simp add: clean_elems_def abs_path_alt rooted_def clean_step_def)
next
  case False
  have "split_at (CHR ''/'') (join_with (CHR ''/'') es) = es"
    by (rule split_join [OF False plain_no_slash [OF assms]])
  then show ?thesis
    using foldl_clean_plain [OF assms, of True "[]"]
    by (simp add: clean_elems_def abs_path_alt rooted_def clean_step_def)
qed

lemma path_clean_abs: "list_all plain_elem es \<Longrightarrow> path_clean (abs_path es) = abs_path es"
  by (simp add: path_clean_def clean_elems_abs) (simp add: abs_path_alt rooted_def)

lemma path_abs_abs: "list_all plain_elem es \<Longrightarrow> path_abs cwd (abs_path es) = Some (abs_path es)"
  by (simp add: path_abs_def path_clean_abs) (simp add: abs_path_alt rooted_def)

lemma strip_common_prefix: "strip_common es (es @ fs) = ([], fs)"
proof (induction es)
  case Nil
  show ?case by (cases fs) simp_all
qed simp

lemma join_with_snoc: "es \<noteq> [] \<Longrightarrow> join_with s (es @ [e]) = join_with s es @ s # e"
  by (induction s es rule: join_with.induct) auto

lemma path_join_abs:
  assumes "list_all plain_elem es" "plain_elem e"
  shows "path_join [abs_path es, e] = abs_path (es @ [e])"
proof (cases "es = []")
  case True
  have e: "e \<noteq> []" "CHR ''/'' \<notin> set e" using assms(2) by (auto simp: plain_elem_def)
  have "clean_elems (''/'' @ CHR ''/'' # e) = [e]"
    using e assms(2) by (simp add: clean_elems_def rooted_def split_at_plain clean_step_def plain_elem_def)
  then have "path_clean (''/'' @ CHR ''/'' # e) = abs_path [e]"
    by (simp add: path_clean_def rooted_def)
  with True e(1) show ?thesis by (simp add: path_join_def Let_def path_of_def)
next
  case False
  have "abs_path es @ CHR ''/'' # e = abs_path (es @ [e])" by (simp add: abs_path_alt join_with_snoc [OF False])
  moreover have "abs_path es \<noteq> []" "e \<noteq> []" using assms(2) by (simp_all add: abs_path_alt plain_elem_def)
  ultimately show ?thesis
    using path_clean_abs [of "es @ [e]"] assms by (simp add: path_join_def Let_def)
qed

lemma path_base_abs:
  assumes "list_all plain_elem es" "plain_elem e"
  shows "path_base (abs_path (es @ [e])) = e"
proof -
  have all: "list_all plain_elem (es @ [e])" using assms by simp
  have "split_at (CHR ''/'') (join_with (CHR ''/'') (es @ [e])) = es @ [e]"
    by (rule split_join [OF _ plain_no_slash [OF all]]) simp
  then have "filter (\<lambda>e. e \<noteq> []) (split_at (CHR ''/'') (abs_path (es @ [e]))) = es @ [e]"
    using all by (auto simp: abs_path_alt list_all_iff plain_elem_def)
  moreover have "abs_path (es @ [e]) \<noteq> []" by (simp add: abs_path_alt)
  ultimately show ?thesis by (simp add: path_base_def Let_def)
qed

end
