(* ===== verification/Testnet.thy ===== *)
theory Testnet
  imports Go_Paths Go_Op
begin

text \<open>
  The command that sets up a network of local nodes (\<^verbatim>\<open>cmd/dnsblockchaind/cmd/testnet_multi_node.go\<close>):
  its flags, the configuration of every node, the files it writes and the exchange of the genesis
  transactions. The file system and the functions of the SDK are parameters; values that the command
  only passes on between such functions (keyrings, messages, transactions, genesis documents) are \<open>opaque\<close>.
\<close>

type_synonym opaque = bytes

section \<open>Configurations\<close>

text \<open>The fields that the command sets in the configurations of CometBFT and of the application.\<close>

record node_config =
  nc_root :: string
  nc_moniker :: string
  nc_rpc_laddr :: string
  nc_p2p_laddr :: string
  nc_peers :: string
  nc_allow_duplicate_ip :: bool
  nc_proxy_app :: string
  nc_prometheus_laddr :: string
  nc_prometheus :: bool

text \<open>The minimum gas prices are one field: \<^verbatim>\<open>MinGasPrices\<close> is promoted from the embedded \<^verbatim>\<open>BaseConfig\<close>.\<close>

record app_config =
  ac_min_gas_prices :: string
  ac_api_enable :: bool
  ac_hostname_label :: bool
  ac_telemetry :: bool
  ac_retention :: int
  ac_grpc_address :: string
  ac_api_address :: string

record init_args =
  ia_algo :: string
  ia_chain_id :: string
  ia_keyring_backend :: string
  ia_min_gas_prices :: string
  ia_node_dir_prefix :: string
  ia_num_validators :: int
  ia_output_dir :: string
  ia_starting_ip :: string
  ia_stakes :: "nat \<Rightarrow> coin option"
  ia_ports :: "nat \<Rightarrow> string option"

section \<open>Dependencies\<close>

record 'f fs_ops =
  mkdir_all :: "string \<Rightarrow> 'f \<Rightarrow> unit res \<times> 'f"
  remove_all :: "string \<Rightarrow> 'f \<Rightarrow> 'f"
  write_bytes :: "string \<Rightarrow> bytes \<Rightarrow> 'f \<Rightarrow> unit res \<times> 'f"
  open_file :: "string \<Rightarrow> 'f \<Rightarrow> unit res \<times> 'f"
  create_file :: "string \<Rightarrow> 'f \<Rightarrow> unit res \<times> 'f"
  io_copy :: "string \<Rightarrow> string \<Rightarrow> 'f \<Rightarrow> int res \<times> 'f"
  sync_file :: "string \<Rightarrow> 'f \<Rightarrow> unit res \<times> 'f"
  working_dir :: "string option"

text \<open>\<open>new_coin\<close> fails with \<open>Panic\<close>, as \<^verbatim>\<open>sdk.NewCoin\<close> does for a negative amount.\<close>

record 'f sdk_ops =
  bond_denom :: string
  int_from_string :: "string \<Rightarrow> int option"
  new_coin :: "string \<Rightarrow> int \<Rightarrow> coin res"
  power_tokens :: "int \<Rightarrow> int"
  sort_coins :: "coins \<Rightarrow> coins"
  add_coins :: "coins \<Rightarrow> coins \<Rightarrow> coins"
  acc_string :: "bytes \<Rightarrow> string"
  val_string :: "bytes \<Rightarrow> string"
  genesis_file :: "node_config \<Rightarrow> string"
  init_validator_files :: "node_config \<Rightarrow> 'f \<Rightarrow> (string \<times> opaque) res \<times> 'f"
  new_keyring :: "string \<Rightarrow> string \<Rightarrow> 'f \<Rightarrow> opaque res \<times> 'f"
  signing_algo :: "opaque \<Rightarrow> string \<Rightarrow> opaque res"
  save_coin_key :: "opaque \<Rightarrow> string \<Rightarrow> opaque \<Rightarrow> 'f \<Rightarrow> (bytes \<times> string) res \<times> 'f"
  marshal_secret :: "string \<Rightarrow> bytes res"
  create_validator_msg :: "string \<Rightarrow> opaque \<Rightarrow> coin \<Rightarrow> string \<Rightarrow> opaque res"
  tx_of_msg :: "opaque \<Rightarrow> opaque res"
  set_memo :: "string \<Rightarrow> opaque \<Rightarrow> opaque"
  sign_tx :: "string \<Rightarrow> string \<Rightarrow> opaque \<Rightarrow> string \<Rightarrow> opaque \<Rightarrow> opaque res"
  encode_tx :: "opaque \<Rightarrow> bytes res"
  write_app_config :: "string \<Rightarrow> app_config \<Rightarrow> 'f \<Rightarrow> 'f"
  write_node_config :: "string \<Rightarrow> node_config \<Rightarrow> 'f \<Rightarrow> 'f"
  pack_accounts :: "bytes list \<Rightarrow> opaque res"
  sanitize_balances :: "(string \<times> coins) list \<Rightarrow> (string \<times> coins) list"
  default_supply :: coins
  genesis_state_json :: "opaque \<Rightarrow> (string \<times> coins) list \<Rightarrow> coins \<Rightarrow> bytes res"
  save_genesis_doc :: "string \<Rightarrow> bytes \<Rightarrow> string \<Rightarrow> 'f \<Rightarrow> unit res \<times> 'f"
  load_genesis :: "string \<Rightarrow> 'f \<Rightarrow> opaque res \<times> 'f"
  gen_app_state :: "node_config \<Rightarrow> string \<Rightarrow> string \<Rightarrow> string \<Rightarrow> opaque \<Rightarrow> opaque \<Rightarrow> 'f \<Rightarrow> bytes res \<times> 'f"
  export_genesis_with_time :: "string \<Rightarrow> string \<Rightarrow> bytes \<Rightarrow> opaque \<Rightarrow> 'f \<Rightarrow> unit res \<times> 'f"

section \<open>Flags\<close>

text \<open>The amounts that parse are numbered from 0; an amount that does not parse is skipped.\<close>

fun parse_stakes :: "'f sdk_ops \<Rightarrow> nat \<Rightarrow> (nat \<Rightarrow> coin option) \<Rightarrow> string list \<Rightarrow> (nat \<Rightarrow> coin option) res" where
  "parse_stakes L k m [] = Inr m"
| "parse_stakes L k m (amount # amounts) = (case int_from_string L amount of
     None \<Rightarrow> parse_stakes L k m amounts
   | Some a \<Rightarrow> (case new_coin L (bond_denom L) a of
       Inl e \<Rightarrow> Inl e
     | Inr c \<Rightarrow> parse_stakes L (Suc k) (m(k := Some c)) amounts))"

definition parse_ports :: "int \<Rightarrow> string \<Rightarrow> nat \<Rightarrow> string option" where
  "parse_ports numValidators s =
     (if s = [] then (\<lambda>i. if int i < numValidators then Some (itoa (26657 - 3 * int i)) else None)
      else (let ps = split_at (CHR '','') s in (\<lambda>i. if i < length ps then Some (ps ! i) else None)))"

text \<open>The entry of a Go map, with the empty string for a missing key.\<close>

definition port_of :: "init_args \<Rightarrow> nat \<Rightarrow> string" where
  "port_of args i = (case ia_ports args i of None \<Rightarrow> [] | Some p \<Rightarrow> p)"

section \<open>What a node is configured with\<close>

definition node_dir_name :: "init_args \<Rightarrow> nat \<Rightarrow> string" where
  "node_dir_name args i = ia_node_dir_prefix args @ show_nat i"

definition node_dir :: "init_args \<Rightarrow> nat \<Rightarrow> string" where
  "node_dir args i = path_join [ia_output_dir args, node_dir_name args i]"

definition gentxs_dir :: "init_args \<Rightarrow> nat \<Rightarrow> string" where
  "gentxs_dir args i = path_join [ia_output_dir args, node_dir_name args i, ''config'', ''gentx'']"

definition initial_app_config :: "'f sdk_ops \<Rightarrow> init_args \<Rightarrow> app_config \<Rightarrow> app_config" where
  "initial_app_config L args c = (let
     c1 = c\<lparr>ac_min_gas_prices := ia_min_gas_prices args\<rparr>;
     c2 = c1\<lparr>ac_api_enable := False\<rparr>;
     c3 = c2\<lparr>ac_min_gas_prices := ''0.0001'' @ bond_denom L\<rparr> in
     c3\<lparr>ac_hostname_label := False, ac_telemetry := False, ac_retention := 0\<rparr>)"

definition node_memo :: "init_args \<Rightarrow> string \<Rightarrow> nat \<Rightarrow> string" where
  "node_memo args nodeID i = nodeID @ ''@'' @ ia_starting_ip args @ '':'' @ itoa (26656 - 3 * int i)"

definition add_peer :: "string \<Rightarrow> string \<Rightarrow> string" where
  "add_peer persistentPeers memo = (if persistentPeers = [] then memo else persistentPeers @ '','' @ memo)"

definition node_app_addresses :: "init_args \<Rightarrow> nat \<Rightarrow> app_config \<Rightarrow> app_config" where
  "node_app_addresses args i c =
     c\<lparr>ac_grpc_address := ia_starting_ip args @ '':'' @ itoa (9090 - 2 * int i),
       ac_api_address := ''tcp://localhost:'' @ itoa (1317 - int i)\<rparr>"

definition node_network :: "init_args \<Rightarrow> string \<Rightarrow> nat \<Rightarrow> node_config \<Rightarrow> node_config" where
  "node_network args persistentPeers i c =
     c\<lparr>nc_peers := persistentPeers,
       nc_allow_duplicate_ip := True,
       nc_p2p_laddr := ''tcp://0.0.0.0:'' @ itoa (26656 - 3 * int i),
       nc_rpc_laddr := ''tcp://127.0.0.1:'' @ port_of args i,
       nc_proxy_app := ''tcp://127.0.0.1:'' @ itoa (26658 - 3 * int i),
       nc_prometheus_laddr := '':'' @ itoa (26660 + int i),
       nc_prometheus := True\<rparr>"

definition validator_stake :: "'f sdk_ops \<Rightarrow> init_args \<Rightarrow> nat \<Rightarrow> coin res" where
  "validator_stake L args i = (case ia_stakes args i of
     Some c \<Rightarrow> Inr c
   | None \<Rightarrow> new_coin L (bond_denom L) (power_tokens L 100))"

section \<open>Files\<close>

text \<open>The variables of the command: the file system, the two configurations it changes, and its slices.\<close>

record 'f tn_state =
  tn_fs :: 'f
  tn_node :: node_config
  tn_app :: app_config
  tn_ids :: "string list"
  tn_pubkeys :: "opaque list"
  tn_accounts :: "bytes list"
  tn_balances :: "(string \<times> coins) list"
  tn_gen_files :: "string list"
  tn_gentxs :: "string list"
  tn_peers :: string

definition run_fs :: "('f \<Rightarrow> 'a res \<times> 'f) \<Rightarrow> ('f tn_state, 'a) op" where
  "run_fs f s = (case f (tn_fs s) of (r, fs') \<Rightarrow> (r, s\<lparr>tn_fs := fs'\<rparr>))"

text \<open>An error after which the output directory is removed.\<close>

definition or_remove :: "'f fs_ops \<Rightarrow> init_args \<Rightarrow> ('f tn_state, 'a) op \<Rightarrow> ('f tn_state, 'a) op" where
  "or_remove F args m = bind_op (try_op m) (\<lambda>r. case r of
     Inl e \<Rightarrow> then_op (update_op (\<lambda>s. s\<lparr>tn_fs := remove_all F (ia_output_dir args) (tn_fs s)\<rparr>)) (fail e)
   | Inr x \<Rightarrow> ret x)"

definition write_file :: "'f fs_ops \<Rightarrow> string \<Rightarrow> string \<Rightarrow> bytes \<Rightarrow> ('f tn_state, unit) op" where
  "write_file F file dir contents =
     then_op (map_err (\<lambda>_. ErrPlain ''could not create directory'') (run_fs (mkdir_all F dir)))
     (run_fs (write_bytes F file contents))"

definition copy_file :: "'f fs_ops \<Rightarrow> string \<Rightarrow> string \<Rightarrow> ('f tn_state, int) op" where
  "copy_file F src dstDir = (let dst = path_join [dstDir, path_base src] in
     then_op (run_fs (open_file F src))
    (then_op (run_fs (create_file F dst))
    (bind_op (run_fs (io_copy F src dst)) (\<lambda>bytesCopied.
     then_op (run_fs (sync_file F dst)) (ret bytesCopied)))))"

definition is_sub_dir :: "string option \<Rightarrow> string \<Rightarrow> string \<Rightarrow> bool option" where
  "is_sub_dir cwd src dstDir = (case path_abs cwd src of
     None \<Rightarrow> None
   | Some absSrc \<Rightarrow> (case path_abs cwd dstDir of
       None \<Rightarrow> None
     | Some absDstDir \<Rightarrow> (let relativePath = path_rel absDstDir absSrc in
         Some (take 2 relativePath \<noteq> ''..'' \<and> \<not> rooted relativePath))))"

section \<open>The command\<close>

text \<open>The body of the first loop, in three parts: node key and peers, account, genesis transaction.\<close>

definition init_node_files :: "'f fs_ops \<Rightarrow> 'f sdk_ops \<Rightarrow> init_args \<Rightarrow> nat \<Rightarrow> ('f tn_state, string \<times> opaque \<times> string) op" where
  "init_node_files F L args i =
     then_op (update_op (\<lambda>s. s\<lparr>tn_node := (tn_node s)\<lparr>nc_root := node_dir args i, nc_moniker := node_dir_name args i,
       nc_rpc_laddr := ''tcp://0.0.0.0:'' @ port_of args i\<rparr>\<rparr>))
    (then_op (or_remove F args (run_fs (mkdir_all F (path_join [node_dir args i, ''config'']))))
    (bind_op (read_op (\<lambda>s. Inr (tn_node s))) (\<lambda>nodeConfig.
     bind_op (or_remove F args (run_fs (init_validator_files L nodeConfig))) (\<lambda>(nodeID, valPubKey).
     then_op (update_op (\<lambda>s. s\<lparr>tn_ids := tn_ids s @ [nodeID], tn_pubkeys := tn_pubkeys s @ [valPubKey],
       tn_peers := add_peer (tn_peers s) (node_memo args nodeID i),
       tn_gen_files := tn_gen_files s @ [genesis_file L nodeConfig]\<rparr>))
     (ret (nodeID, valPubKey, node_memo args nodeID i))))))"

definition init_node_account :: "'f fs_ops \<Rightarrow> 'f sdk_ops \<Rightarrow> init_args \<Rightarrow> nat \<Rightarrow> ('f tn_state, opaque \<times> bytes) op" where
  "init_node_account F L args i =
     bind_op (run_fs (new_keyring L (ia_keyring_backend args) (node_dir args i))) (\<lambda>kb.
     bind_op (lift_res (signing_algo L kb (ia_algo args))) (\<lambda>algo.
     bind_op (or_remove F args (run_fs (save_coin_key L kb (node_dir_name args i) algo))) (\<lambda>(acct, secret).
     bind_op (lift_res (marshal_secret L secret)) (\<lambda>cliPrint.
     then_op (write_file F (path_join [node_dir args i, ''key_seed.json'']) (node_dir args i) cliPrint)
    (bind_op (lift_res (new_coin L ''testtoken'' (power_tokens L 1000))) (\<lambda>c1.
     bind_op (lift_res (new_coin L (bond_denom L) (power_tokens L 500))) (\<lambda>c2.
     then_op (update_op (\<lambda>s. s\<lparr>tn_balances := tn_balances s @ [(acc_string L acct, sort_coins L [c1, c2])],
       tn_accounts := tn_accounts s @ [acct]\<rparr>))
     (ret (kb, acct)))))))))"

definition init_node_gentx ::
  "'f fs_ops \<Rightarrow> 'f sdk_ops \<Rightarrow> init_args \<Rightarrow> nat \<Rightarrow> string \<Rightarrow> opaque \<Rightarrow> string \<Rightarrow> opaque \<Rightarrow> bytes \<Rightarrow> ('f tn_state, unit) op" where
  "init_node_gentx F L args i nodeID valPubKey memo kb acct =
     bind_op (lift_res (validator_stake L args i)) (\<lambda>valTokens.
     bind_op (lift_res (create_validator_msg L (val_string L acct) valPubKey valTokens (node_dir_name args i))) (\<lambda>createValMsg.
     bind_op (lift_res (tx_of_msg L createValMsg)) (\<lambda>tx.
     bind_op (lift_res (sign_tx L (ia_chain_id args) memo kb (node_dir_name args i) (set_memo L memo tx))) (\<lambda>signed.
     bind_op (lift_res (encode_tx L signed)) (\<lambda>txBz.
     let file = path_join [gentxs_dir args i, ''gentx-'' @ nodeID @ ''.json''] in
     then_op (update_op (\<lambda>s. s\<lparr>tn_gentxs := tn_gentxs s @ [file]\<rparr>))
    (then_op (write_file F file (gentxs_dir args i) txBz)
     (update_op (\<lambda>s. let c = node_app_addresses args i (tn_app s) in
        s\<lparr>tn_app := c, tn_fs := write_app_config L (path_join [node_dir args i, ''config'', ''app.toml'']) c (tn_fs s)\<rparr>))))))))"

definition init_node :: "'f fs_ops \<Rightarrow> 'f sdk_ops \<Rightarrow> init_args \<Rightarrow> nat \<Rightarrow> ('f tn_state, unit) op" where
  "init_node F L args i =
     bind_op (init_node_files F L args i) (\<lambda>(nodeID, valPubKey, memo).
     bind_op (init_node_account F L args i) (\<lambda>(kb, acct).
     init_node_gentx F L args i nodeID valPubKey memo kb acct))"

definition init_gen_files :: "'f sdk_ops \<Rightarrow> string \<Rightarrow> ('f tn_state, unit) op" where
  "init_gen_files L chainID =
     bind_op (read_op (\<lambda>s. pack_accounts L (tn_accounts s))) (\<lambda>accounts.
     bind_op (read_op (\<lambda>s. Inr (sanitize_balances L (tn_balances s)))) (\<lambda>balances.
     bind_op (lift_res (genesis_state_json L accounts balances
       (foldl (\<lambda>supply bal. add_coins L supply (snd bal)) (default_supply L) balances))) (\<lambda>appGenStateJSON.
     bind_op (read_op (\<lambda>s. Inr (tn_gen_files s))) (\<lambda>genFiles.
     for_op genFiles (\<lambda>file. run_fs (save_genesis_doc L chainID appGenStateJSON file))))))"

text \<open>The genesis transaction files go to every node directory they are not in already.\<close>

definition copy_gentxs :: "'f fs_ops \<Rightarrow> init_args \<Rightarrow> nat \<Rightarrow> string list \<Rightarrow> ('f tn_state, unit) op" where
  "copy_gentxs F args i gentxsFiles = for_op gentxsFiles (\<lambda>file.
     let gentxsDir = path_join [node_dir args i, ''config'', ''gentx''] in
     (case is_sub_dir (working_dir F) file gentxsDir of
        None \<Rightarrow> ret ()
      | Some True \<Rightarrow> ret ()
      | Some False \<Rightarrow> then_op (copy_file F file gentxsDir) (ret ())))"

text \<open>\<open>appState\<close> is the application state of the first node, once it is known.\<close>

fun collect_gen_files ::
  "'f sdk_ops \<Rightarrow> init_args \<Rightarrow> opaque \<Rightarrow> bytes option \<Rightarrow> (nat \<times> string \<times> opaque) list \<Rightarrow> ('f tn_state, unit) op" where
  "collect_gen_files L args genTime appState [] = ret ()"
| "collect_gen_files L args genTime appState ((i, nodeID, valPubKey) # nodes) =
     (let gentxsDir = path_join [node_dir args i, ''config'', ''gentx''] in
      then_op (update_op (\<lambda>s. s\<lparr>tn_node := (tn_node s)\<lparr>nc_moniker := node_dir_name args i, nc_root := node_dir args i\<rparr>\<rparr>))
     (bind_op (read_op (\<lambda>s. Inr (tn_node s, tn_peers s))) (\<lambda>(nodeConfig, persistentPeers).
      bind_op (run_fs (load_genesis L (genesis_file L nodeConfig))) (\<lambda>appGenesis.
      bind_op (run_fs (gen_app_state L nodeConfig (ia_chain_id args) gentxsDir nodeID valPubKey appGenesis)) (\<lambda>nodeAppState.
      let c = node_network args persistentPeers i nodeConfig;
          state = (case appState of None \<Rightarrow> nodeAppState | Some st \<Rightarrow> st) in
      then_op (update_op (\<lambda>s. s\<lparr>tn_node := c,
        tn_fs := write_node_config L (path_join [nc_root c, ''config'', ''config.toml'']) c (tn_fs s)\<rparr>))
     (then_op (run_fs (export_genesis_with_time L (genesis_file L c) (ia_chain_id args) state genTime))
      (collect_gen_files L args genTime (Some state) nodes)))))))"

text \<open>
  \<open>randomId\<close> are the six characters for an empty chain identifier and \<open>genTime\<close> is the time of the
  genesis. A negative number of validators panics when the slices are made.
\<close>

definition init_testnet_files ::
  "'f fs_ops \<Rightarrow> 'f sdk_ops \<Rightarrow> string \<Rightarrow> opaque \<Rightarrow> app_config \<Rightarrow> init_args \<Rightarrow> ('f tn_state, unit) op" where
  "init_testnet_files F L randomId genTime defaultAppConfig args0 =
     (let args = (if ia_chain_id args0 = [] then args0\<lparr>ia_chain_id := ''chain-'' @ randomId\<rparr> else args0);
          nodes = [0..<nat (ia_num_validators args)] in
      then_op (require (0 \<le> ia_num_validators args) Panic)
     (then_op (update_op (\<lambda>s. s\<lparr>tn_app := initial_app_config L args defaultAppConfig\<rparr>))
     (then_op (for_op nodes (init_node F L args))
     (then_op (init_gen_files L (ia_chain_id args))
     (bind_op (read_op (\<lambda>s. Inr (tn_gentxs s))) (\<lambda>gentxsFiles.
      then_op (for_op nodes (\<lambda>i. copy_gentxs F args i gentxsFiles))
     (bind_op (read_op (\<lambda>s. Inr (zip (tn_ids s) (tn_pubkeys s)))) (\<lambda>keys.
      collect_gen_files L args genTime None (zip nodes keys)))))))))"

end
