(* ===== verification/Testnet_Properties.thy ===== *)
theory Testnet_Properties
  imports Testnet
begin

text \<open>
  What the command for a network of local nodes writes: the listening addresses, the minimum gas
  prices, the stakes, and which genesis transactions are copied where.
\<close>

section \<open>Flags and files\<close>

text \<open>The flag for the minimum gas prices has no effect: the field is overwritten.\<close>

lemma min_gas_flag_ignored: "ac_min_gas_prices (initial_app_config L args c) = ''0.0001'' @ bond_denom L"
  by (simp add: initial_app_config_def Let_def)

text \<open>
  An amount that does not parse does not give its validator the default stake: the amounts after it
  move up to the validators before.
\<close>

lemma parse_stakes_skips:
  "parse_stakes L k m amounts = parse_stakes L k m (filter (\<lambda>a. int_from_string L a \<noteq> None) amounts)"
  by (induction amounts arbitrary: k m) (auto split: option.splits sum.splits)

lemma parse_stakes_nth:
  assumes "\<And>a. a \<in> set amounts \<Longrightarrow> \<exists>n. int_from_string L a = Some n \<and> new_coin L (bond_denom L) n = Inr (stake a)"
  shows "parse_stakes L k m amounts =
    Inr (\<lambda>i. if k \<le> i \<and> i < k + length amounts then Some (stake (amounts ! (i - k))) else m i)"
  using assms
proof (induction amounts arbitrary: k m)
  case (Cons a as)
  obtain n where "int_from_string L a = Some n" "new_coin L (bond_denom L) n = Inr (stake a)"
    using Cons.prems [of a] by auto
  then have "parse_stakes L k m (a # as) = parse_stakes L (Suc k) (m(k := Some (stake a))) as" by simp
  also have "\<dots> = Inr (\<lambda>i. if Suc k \<le> i \<and> i < Suc k + length as then Some (stake (as ! (i - Suc k))) else (m(k := Some (stake a))) i)"
    by (rule Cons.IH, rule Cons.prems) simp
  also have "\<dots> = Inr (\<lambda>i. if k \<le> i \<and> i < k + length (a # as) then Some (stake ((a # as) ! (i - k))) else m i)"
  proof (rule arg_cong [of _ _ Inr], rule ext)
    fix i
    consider "i < k" | "i = k" | l where "i = Suc k + l" by (metis add_Suc less_imp_Suc_add linorder_neqE_nat)
    then show "(if Suc k \<le> i \<and> i < Suc k + length as then Some (stake (as ! (i - Suc k))) else (m(k := Some (stake a))) i)
      = (if k \<le> i \<and> i < k + length (a # as) then Some (stake ((a # as) ! (i - k))) else m i)"
      by cases simp_all
  qed
  finally show ?case .
qed (auto simp: fun_eq_iff)

section \<open>Exchange of the genesis transactions\<close>

text \<open>A file is inside its own directory and outside a directory beside it.\<close>

lemma inside_own_dir:
  assumes "list_all plain_elem ds" "plain_elem e" "take 2 e \<noteq> ''..''"
  shows "is_sub_dir cwd (abs_path (ds @ [e])) (abs_path ds) = Some True"
proof -
  have "list_all plain_elem (ds @ [e])" using assms by simp
  then have "path_rel (abs_path ds) (abs_path (ds @ [e])) = e"
    using assms(1,2) clean_elems_abs [of ds] clean_elems_abs [of "ds @ [e]"]
    by (simp add: path_rel_def strip_common_prefix path_of_def plain_elem_def)
  moreover have "\<not> rooted e" using assms(2) by (cases e) (auto simp: rooted_def plain_elem_def)
  ultimately show ?thesis
    using assms path_abs_abs [of ds] path_abs_abs [of "ds @ [e]"] by (simp add: is_sub_dir_def)
qed

lemma strip_common_fork: "a \<noteq> b \<Longrightarrow> strip_common (os @ a # as) (os @ b # bs) = (a # as, b # bs)"
  by (induction os) auto

lemma outside_other_dir:
  assumes "list_all plain_elem (os @ a # as)" "list_all plain_elem (os @ b # bs)" "a \<noteq> b"
  shows "is_sub_dir cwd (abs_path (os @ a # as)) (abs_path (os @ b # bs)) = Some False"
proof -
  have "path_rel (abs_path (os @ b # bs)) (abs_path (os @ a # as)) = path_of False (''..'' # map (\<lambda>_. ''..'') bs @ a # as)"
    using strip_common_fork [of b a os bs as] assms clean_elems_abs [OF assms(1)] clean_elems_abs [OF assms(2)]
    by (simp add: path_rel_def)
  moreover have "take 2 (path_of False (''..'' # es)) = ''..''" for es
    by (cases es) (simp_all add: path_of_def)
  ultimately show ?thesis
    using path_abs_abs [OF assms(1)] path_abs_abs [OF assms(2)] by (simp add: is_sub_dir_def)
qed

lemma show_nat_plain: "\<exists>c s. show_nat n = s @ [c] \<and> c \<noteq> CHR ''.''" "CHR ''/'' \<notin> set (show_nat n)"
proof -
  show "\<exists>c s. show_nat n = s @ [c] \<and> c \<noteq> CHR ''.''"
  proof -
    have "char_of (48 + k) \<noteq> CHR ''.''" if "k < 10" for k :: nat
    proof
      assume "char_of (48 + k) = CHR ''.''"
      then have "(of_char (char_of (48 + k)) :: nat) = of_char CHR ''.''" by simp
      with that show False by (simp add: of_char_of)
    qed
    then show ?thesis by (subst show_nat.simps) auto
  qed
  show "CHR ''/'' \<notin> set (show_nat n)"
  proof (induction n rule: show_nat.induct)
    case (1 n)
    have d: "CHR ''/'' \<noteq> char_of (48 + k)" if "k < 10" for k :: nat
    proof
      assume "CHR ''/'' = char_of (48 + k)"
      then have "(of_char (char_of (48 + k)) :: nat) = of_char CHR ''/''" by simp
      with that show False by (simp add: of_char_of)
    qed
    show ?case using 1 d [of n] d [of "n mod 10"] by (subst show_nat.simps) auto
  qed
qed

lemma node_dir_name_plain:
  assumes "CHR ''/'' \<notin> set (ia_node_dir_prefix args)"
  shows "plain_elem (node_dir_name args i)"
proof -
  obtain c s where "show_nat i = s @ [c]" "c \<noteq> CHR ''.''" using show_nat_plain(1) by blast
  then have "last (node_dir_name args i) \<noteq> CHR ''.''" "node_dir_name args i \<noteq> []" by (simp_all add: node_dir_name_def)
  then show ?thesis
    using assms show_nat_plain(2) [of i] by (auto simp: plain_elem_def node_dir_name_def simp del: last_appendR)
qed

lemma node_dir_name_inject: "node_dir_name args i = node_dir_name args j \<longleftrightarrow> i = j"
  unfolding node_dir_name_def by (metis read_show_nat same_append_eq)

text \<open>
  With an absolute output directory the file of node \<open>j\<close> counts as inside the directory of node \<open>i\<close>
  exactly when they are the same node: every node gets the transactions of all others.
\<close>

lemma gentx_copied_to_others:
  assumes os: "list_all plain_elem os" and pre: "CHR ''/'' \<notin> set (ia_node_dir_prefix args)" and id: "CHR ''/'' \<notin> set nodeID"
  shows "is_sub_dir cwd (abs_path (os @ [node_dir_name args j, ''config'', ''gentx'', ''gentx-'' @ nodeID @ ''.json'']))
     (abs_path (os @ [node_dir_name args i, ''config'', ''gentx''])) = Some (i = j)"
proof -
  have plain: "plain_elem ''config''" "plain_elem ''gentx''" "plain_elem (''gentx-'' @ nodeID @ ''.json'')"
    using id by (auto simp: plain_elem_def)
  note names = node_dir_name_plain [OF pre]
  show ?thesis
  proof (cases "i = j")
    case True
    have "list_all plain_elem (os @ [node_dir_name args j, ''config'', ''gentx''])" using os plain names by simp
    from inside_own_dir [OF this plain(3)] True show ?thesis by simp
  next
    case False
    then show ?thesis
      using outside_other_dir [of os "node_dir_name args j" "[''config'', ''gentx'', ''gentx-'' @ nodeID @ ''.json'']"
          "node_dir_name args i" "[''config'', ''gentx'']" cwd] os plain names node_dir_name_inject [of args j i]
      by simp
  qed
qed

section \<open>Listening addresses\<close>






end
