(* ===== verification/Testnet_App.thy ===== *)
theory Testnet_App
  imports App_Export Go_Paths
begin

text \<open>
  A test network made from the state of a running node (\<^verbatim>\<open>cmd/dnsblockchaind/cmd/testnet.go\<close>): the options
  of the command, the replacement of all validators by one, and the funding of accounts. Where the
  program exits (\<^verbatim>\<open>handleErr\<close>) the operation fails with the error.
\<close>

section \<open>Options\<close>

record val_args =
  va_new_val_addr :: bytes
  va_new_operator :: string
  va_new_val_pubkey :: bytes
  va_accounts :: "string list"
  va_upgrade :: string
  va_home :: string

text \<open>
  The options as the command reads them: \<open>None\<close> for a value of another type; \<^verbatim>\<open>cast.ToString\<close> gives a
  string in any case.
\<close>

record app_opts =
  ao_new_val_addr :: "bytes option"
  ao_user_pubkey :: "bytes option"
  ao_new_op_addr :: "string option"
  ao_trigger_upgrade :: "string option"
  ao_accounts_to_fund :: string
  ao_home :: string

definition get_command_args :: "app_opts \<Rightarrow> val_args res" where
  "get_command_args o' = (case ao_new_val_addr o' of
     None \<Rightarrow> Inl (ErrPlain ''newValAddr is not of type bytes.HexBytes'')
   | Some a \<Rightarrow> (case ao_user_pubkey o' of
     None \<Rightarrow> Inl (ErrPlain ''newValPubKey is not of type crypto.PubKey'')
   | Some k \<Rightarrow> (case ao_new_op_addr o' of
     None \<Rightarrow> Inl (ErrPlain ''newOperatorAddress is not of type string'')
   | Some op' \<Rightarrow> (case ao_trigger_upgrade o' of
     None \<Rightarrow> Inl (ErrPlain ''upgradeToTrigger is not of type string'')
   | Some u \<Rightarrow>
       if ao_home o' = [] then Inl (ErrPlain ''invalid home dir'')
       else Inr \<lparr>va_new_val_addr = a, va_new_operator = op', va_new_val_pubkey = k,
         va_accounts = split_at (CHR '','') (ao_accounts_to_fund o'), va_upgrade = u, va_home = ao_home o'\<rparr>))))"

section \<open>The application for the test network\<close>

definition val_voting_power :: int where "val_voting_power = 900000000000000"

text \<open>The new validator; rates are decimal numbers as they are written.\<close>

record new_validator =
  nv_operator :: string
  nv_pubkey :: bytes
  nv_jailed :: bool
  nv_bonded :: bool
  nv_tokens :: int
  nv_shares :: string
  nv_moniker :: string
  nv_rate :: string
  nv_max_rate :: string
  nv_max_change_rate :: string
  nv_min_self_delegation :: int

definition testnet_validator :: "val_args \<Rightarrow> bytes \<Rightarrow> new_validator" where
  "testnet_validator args pubkeyAny = \<lparr>nv_operator = va_new_operator args, nv_pubkey = pubkeyAny, nv_jailed = False,
     nv_bonded = True, nv_tokens = val_voting_power, nv_shares = ''10000000'', nv_moniker = ''Testnet Validator'',
     nv_rate = ''0.05'', nv_max_rate = ''0.1'', nv_max_change_rate = ''0.05'', nv_min_self_delegation = 1\<rparr>"

text \<open>
  The operations of the SDK's keepers on their state \<open>'s\<close>. The four iterators are the keys they visit:
  by power, of the last validators, with the prefix of validators and of the unbonding queue.
\<close>

record 's testnet_ops =
  tp_pack_pubkey :: "bytes \<Rightarrow> bytes res"
  tp_operator_bytes :: "string \<Rightarrow> bytes res"
  tp_power_keys :: "'s \<Rightarrow> bytes list res"
  tp_last_keys :: "'s \<Rightarrow> bytes list res"
  tp_validator_keys :: "'s \<Rightarrow> bytes list"
  tp_queue_keys :: "'s \<Rightarrow> bytes list"
  tp_delete :: "bytes \<Rightarrow> 's \<Rightarrow> 's"
  tp_set_validator :: "new_validator \<Rightarrow> 's \<Rightarrow> unit res \<times> 's"
  tp_set_by_cons_addr :: "new_validator \<Rightarrow> 's \<Rightarrow> unit res \<times> 's"
  tp_set_by_power :: "new_validator \<Rightarrow> 's \<Rightarrow> unit res \<times> 's"
  tp_set_last_power :: "bytes \<Rightarrow> int \<Rightarrow> 's \<Rightarrow> unit res \<times> 's"
  tp_after_created :: "bytes \<Rightarrow> 's \<Rightarrow> unit res \<times> 's"
  tp_set_historical :: "bytes \<Rightarrow> 's \<Rightarrow> unit res \<times> 's"
  tp_set_current :: "bytes \<Rightarrow> 's \<Rightarrow> unit res \<times> 's"
  tp_set_commission :: "bytes \<Rightarrow> 's \<Rightarrow> unit res \<times> 's"
  tp_set_outstanding :: "bytes \<Rightarrow> 's \<Rightarrow> unit res \<times> 's"
  tp_set_signing_info :: "bytes \<Rightarrow> int \<Rightarrow> 's \<Rightarrow> unit res \<times> 's"
  tp_bond_denom :: "'s \<Rightarrow> string res"

text \<open>The state: that of the keepers and the ledger of the bank.\<close>

type_synonym ('s, 'b) testnet_state = "'s \<times> 'b"

definition on_keepers :: "('s, 'a) op \<Rightarrow> ('s \<times> 'b, 'a) op" where
  "on_keepers m st = (case m (fst st) of (r, s') \<Rightarrow> (r, (s', snd st)))"

definition on_ledger :: "('b, 'a) op \<Rightarrow> ('s \<times> 'b, 'a) op" where
  "on_ledger m st = (case m (snd st) of (r, b') \<Rightarrow> (r, (fst st, b')))"

definition remove_validators :: "'s testnet_ops \<Rightarrow> ('s, unit) op" where
  "remove_validators T =
     bind_op (read_op (tp_power_keys T)) (\<lambda>ks1. then_op (for_op ks1 (\<lambda>k. update_op (tp_delete T k)))
    (bind_op (read_op (tp_last_keys T)) (\<lambda>ks2. then_op (for_op ks2 (\<lambda>k. update_op (tp_delete T k)))
    (bind_op (read_op (\<lambda>s. Inr (tp_validator_keys T s))) (\<lambda>ks3. then_op (for_op ks3 (\<lambda>k. update_op (tp_delete T k)))
    (bind_op (read_op (\<lambda>s. Inr (tp_queue_keys T s))) (\<lambda>ks4. for_op ks4 (\<lambda>k. update_op (tp_delete T k)))))))))"

definition add_testnet_validator :: "'s testnet_ops \<Rightarrow> val_args \<Rightarrow> int \<Rightarrow> new_validator \<Rightarrow> bytes \<Rightarrow> ('s, unit) op" where
  "add_testnet_validator T args lastHeight newVal validator =
     then_op (call_op (tp_set_validator T newVal))
    (then_op (call_op (tp_set_by_cons_addr T newVal))
    (then_op (call_op (tp_set_by_power T newVal))
    (then_op (call_op (tp_set_last_power T validator 0))
    (then_op (call_op (tp_after_created T validator))
    (then_op (call_op (tp_set_historical T validator))
    (then_op (call_op (tp_set_current T validator))
    (then_op (call_op (tp_set_commission T validator))
    (then_op (call_op (tp_set_outstanding T validator))
    (then_op (try_op (call_op (tp_set_signing_info T (va_new_val_addr args) (lastHeight - 1))))
     (ret ()))))))))))"

definition fund_account :: "('b, 'd) env \<Rightarrow> string \<Rightarrow> coins \<Rightarrow> string \<Rightarrow> ('b, unit) op" where
  "fund_account E mintModule defaultCoins accountStr =
     then_op (call_op (mint_coins (bank E) mintModule defaultCoins))
    (bind_op (of_option (ErrExternal 0) (string_to_bytes (addr E) accountStr)) (\<lambda>account.
     call_op (send_module_to_account (bank E) mintModule account defaultCoins)))"

definition init_app_for_testnet ::
  "('b, 'd) env \<Rightarrow> 's testnet_ops \<Rightarrow> string \<Rightarrow> int \<Rightarrow> val_args \<Rightarrow> ('s \<times> 'b, unit) op" where
  "init_app_for_testnet E T mintModule lastHeight args =
     bind_op (lift_res (tp_pack_pubkey T (va_new_val_pubkey args))) (\<lambda>pubkeyAny.
     let newVal = testnet_validator args pubkeyAny in
     bind_op (lift_res (tp_operator_bytes T (nv_operator newVal))) (\<lambda>validator.
     then_op (on_keepers (remove_validators T))
    (then_op (on_keepers (add_testnet_validator T args lastHeight newVal validator))
    (bind_op (on_keepers (read_op (tp_bond_denom T))) (\<lambda>bondDenom.
     let defaultCoins = new_coins (coin_lib E) [\<lparr>coin_denom = bondDenom, coin_amount = 1000000000\<rparr>] in
     for_op (va_accounts args) (\<lambda>accountStr. on_ledger (fund_account E mintModule defaultCoins accountStr)))))))"

section \<open>No accounts to fund\<close>

text \<open>
  Without the option the list of accounts is one empty string, not empty. As the empty string is no
  address, the command exits, and the coins for it have been minted.
\<close>

lemma no_accounts_is_one:
  "ao_accounts_to_fund o' = [] \<Longrightarrow> get_command_args o' = Inr args \<Longrightarrow> va_accounts args = [[]]"
  by (auto simp: get_command_args_def split: option.splits if_splits)

lemma fund_no_accounts_fails:
  assumes "string_to_bytes (addr E) [] = None"
  shows "fst (fund_account E m cs [] b) \<noteq> Inr ()"
    and "mint_coins (bank E) m cs b = (Inr (), b') \<Longrightarrow> snd (fund_account E m cs [] b) = b'"
  using assms
  by (auto simp: fund_account_def then_op_def bind_op_def of_option_def fail_def call_op_def split: prod.splits sum.splits)

lemma testnet_needs_accounts:
  fixes st :: "'s \<times> 'b"
  assumes opts: "ao_accounts_to_fund o' = []" "get_command_args o' = Inr args"
    and empty: "string_to_bytes (addr E) [] = None"
  shows "fst (init_app_for_testnet E T m h args st) \<noteq> Inr ()"
proof
  assume "fst (init_app_for_testnet E T m h args st) = Inr ()"
  then obtain st' where "init_app_for_testnet E T m h args st = (Inr (), st')" by (metis prod.collapse)
  then obtain cs and s1 s2 :: "'s \<times> 'b" where "on_ledger (fund_account E m cs []) s1 = (Inr (), s2)"
    using no_accounts_is_one [OF opts] by (auto simp: init_app_for_testnet_def Let_def op_success)
  then have "fst (fund_account E m cs [] (snd s1)) = Inr ()"
    by (auto simp: then_op_Inr on_ledger_def split: prod.splits)
  with fund_no_accounts_fails(1) [OF empty] show False by blast
qed

text \<open>The keepers' part leaves the ledger alone and the funding leaves the keepers alone.\<close>

lemma on_keepers_ledger: "snd (snd (on_keepers m st)) = snd st"
  by (simp add: on_keepers_def split: prod.splits)

lemma on_ledger_keepers: "fst (snd (on_ledger m st)) = fst st"
  by (simp add: on_ledger_def split: prod.splits)

end
