(* ===== verification/Spec2Isabelle.thy ===== *)
theory Spec2Isabelle
  imports Dns_Properties Dns_Store_Properties Dao_Properties Dao_Vote_Properties Dao_Close_Properties Query_Properties
    Chain_Properties Custody_Properties Gateway_Properties Module_Properties App_Refinement App_Construction Client_Commands
    Testnet_Properties Testnet_App
begin

text \<open>
  A model of the DNS blockchain: a Cosmos SDK application whose module \<^verbatim>\<open>x/dnsblockchain\<close> registers domain
  names under permitted top-level domains and whose module \<^verbatim>\<open>x/dao\<close> decides by vote which TLDs are
  permitted and who gets tokens.

  \<^bold>\<open>How the parts interact.\<close> A transaction carries a message of one of the modules to its handler; what
  a failing handler wrote is discarded. At the end of a block \<^verbatim>\<open>x/dao\<close> closes the proposals whose voting is
  over: it counts the votes, executes the proposals that passed (adding a TLD to the store of
  \<^verbatim>\<open>x/dnsblockchain\<close> through the keeper interface of \<^verbatim>\<open>types/expected_keepers.go\<close>, or minting tokens with
  power lots that decay) and refunds or burns the deposits. Both modules import and export a genesis state.

  \<^bold>\<open>Basis.\<close>
  \<^item> \<open>Dns_Prelude\<close>: machine words, error values, collections of rules, facts on lists and decimal printing.
  \<^item> \<open>Go_Strings\<close>, \<open>Go_Paths\<close>, \<open>Net_IP\<close>, \<open>Go_Time\<close>: what the code uses of Go's \<^verbatim>\<open>strings\<close>, \<^verbatim>\<open>strconv\<close>, \<^verbatim>\<open>path/filepath\<close>,
    \<^verbatim>\<open>net.ParseIP\<close> and \<^verbatim>\<open>time.AddDate\<close>, with the facts that the modules rest on (normal forms are stable,
    a year is 365 or 366 days).
  \<^item> \<open>Data_Types\<close>: the messages, stored values and parameters of both modules (\<^verbatim>\<open>types/*.pb.go\<close>).
  \<^item> \<open>KV_Store\<close>: maps and sequences of \<^verbatim>\<open>collections\<close>, walked in the order of the keys.
  \<^item> \<open>Environment\<close>: the dependencies as a record of functions (address codec, coins, decimals, bank, \<^verbatim>\<open>Any\<close>
    codec, failures of the store) and the state \<open>world\<close>: both stores, the ledger of the bank and the events.
  \<^item> \<open>Go_Op\<close>: a Go method as a function from a state to a result or error and the state it leaves; sequencing,
    early returns, loops; the locale \<open>message_handler\<close> for what the router makes of a handler.

  \<^bold>\<open>x/dnsblockchain.\<close> \<open>Reserved_TLDs\<close> (\<^verbatim>\<open>types/reserved_tlds.go\<close>, \<^verbatim>\<open>types/utils.go\<close>), \<open>Dns_Types\<close> (\<^verbatim>\<open>ValidateBasic\<close>,
  \<^verbatim>\<open>GetSigners\<close>, parameters, genesis validation), \<open>Dns_Keeper\<close> (\<^verbatim>\<open>keeper/keeper.go\<close>, with the invariant \<open>dns_ok\<close>),
  \<open>Dns_Msgs\<close> (the handlers of \<^verbatim>\<open>keeper/msg_server_domain.go\<close> and \<^verbatim>\<open>msg_update_params.go\<close>), \<open>Dns_Queries\<close>,
  \<open>Dns_Genesis\<close>, \<open>Dns_Module\<close> (the message type and the interpretation of the handler locale), \<open>Dns_Registry\<close>
  (the abstract registry: a partial map from names to domains). \<open>Dns_Properties\<close> and \<open>Dns_Store_Properties\<close>
  hold the properties: a registration resolves, a taken name is refused, fees, who may change what, renewal,
  deletion, exactly when a registration succeeds, refinement of the registry, export and import.

  \<^bold>\<open>x/dao.\<close> \<open>Dao_Types\<close> (contents, parameters), \<open>Dao_Keeper\<close> (\<^verbatim>\<open>keeper/keeper.go\<close>: collections, voting power and its
  decay), \<open>Dao_Msgs\<close> (\<^verbatim>\<open>SubmitProposal\<close>, \<^verbatim>\<open>Vote\<close>), \<open>Dao_EndBlocker\<close> (\<^verbatim>\<open>keeper/end_blocker.go\<close>), \<open>Dao_Module\<close> (the
  invariant \<open>dao_ok\<close>), \<open>Dao_Execution\<close>, \<open>Dao_Genesis\<close>, \<open>Dao_Queries\<close>. The properties are in \<open>Dao_Properties\<close>
  (submission), \<open>Dao_Vote_Properties\<close> (votes, power, tally, decision), \<open>Dao_Close_Properties\<close> (execution and
  deposits) and \<open>Query_Properties\<close> (queries of both modules, pages, missing items).

  \<^bold>\<open>The chain.\<close> \<open>Chain\<close> is the step relation of blocks and transactions with the invariant \<open>chain_inv\<close> of both
  modules, \<open>Chain_History\<close> relates earlier to later states. \<open>Chain_Properties\<close>: every reachable state satisfies
  the invariant, closed proposals and votes are final, a new TLD has an executed proposal, proposals are
  closed by their deadline. \<open>Dao_Custody\<close> follows the balance of the account of \<^verbatim>\<open>x/dao\<close> through execution, refunds
  and burns, and \<open>Custody_Properties\<close> through every transaction and block: the account always covers the
  deposits of the open proposals, and a block takes out exactly those of the proposals it closes. \<open>App_Modules\<close> are the module objects (\<^verbatim>\<open>module/module.go\<close>, \<^verbatim>\<open>depinject.go\<close>, \<^verbatim>\<open>codec.go\<close>) with
  the tables of \<^verbatim>\<open>app/app_config.go\<close>, \<open>Module_Properties\<close> the restart of a chain from its own export. \<open>App_Wiring\<close> is the
  configuration of the application with the orders of the hooks, \<open>App_Refinement\<close> shows that the application with
  the hooks and transactions of all modules refines the chain, so that what holds of every run holds of it.

  \<^bold>\<open>HTTP.\<close> \<open>Gateway_Runtime\<close> (requests and handlers over the functions of \<^verbatim>\<open>grpc-gateway\<close>), \<open>Dao_Gateway\<close> and \<open>Dns_Gateway\<close>
  (\<^verbatim>\<open>types/query.pb.gw.go\<close>, \<^verbatim>\<open>RegisterGRPCGatewayRoutes\<close>), \<open>Gateway_Properties\<close>: the routes give the answers of the
  queries, in process and over gRPC, and change nothing.

  \<^bold>\<open>Start of a node.\<close> \<open>App_Construction\<close> (\<^verbatim>\<open>New\<close> of \<^verbatim>\<open>app/app.go\<close>, \<^verbatim>\<open>app/ibc.go\<close>, \<^verbatim>\<open>app/config.go\<close>): the steps
  and their panics; every IBC keeper has a registered store. \<open>Client_Commands\<close> (\<^verbatim>\<open>module/autocli.go\<close>,
  \<^verbatim>\<open>client/cli/tx.go\<close>, \<^verbatim>\<open>cmd/commands.go\<close>, \<^verbatim>\<open>cmd/root.go\<close>): the descriptors of generated commands and the tree of
  commands; every query and every message but \<^verbatim>\<open>UpdateParams\<close> has one.

  \<^bold>\<open>Around the chain.\<close> \<open>Simulation\<close> (\<^verbatim>\<open>simulation/domain.go\<close>, \<^verbatim>\<open>module/simulation.go\<close>, the check of
  \<^verbatim>\<open>client/cli/tx.go\<close>), \<open>App_Export\<close> (\<^verbatim>\<open>app/export.go\<close>, \<^verbatim>\<open>genesis_account.go\<close>, account tables), \<open>Testnet\<close> with
  \<open>Testnet_Properties\<close> (\<^verbatim>\<open>testnet_multi_node.go\<close>) and \<open>Testnet_App\<close> (\<^verbatim>\<open>testnet.go\<close>).

  \<^bold>\<open>Examples.\<close> \<open>Example_Env\<close> instantiates every dependency with computing functions (a ledger, decimals with
  18 digits, a codec) and proves the laws that properties assume of them; \<open>Example_Run\<close> runs a proposal from
  submission to execution. The witnesses use these states.

  \<^bold>\<open>Hypotheses on dependencies.\<close> \<open>store_total\<close> (no access to the store of a running node fails), \<open>dec_laws\<close>
  (arithmetic of decimals up to one unit of the last digit), \<open>lower_laws\<close> (the Unicode mapping to lower case
  is stable and keeps dots where they are), \<open>no_empty_address\<close>,
  \<open>bank_laws\<close> (what the bank does to the balance of the account of \<^verbatim>\<open>x/dao\<close>; with it, \<open>fair_run\<close>: nobody else
  spends from that account), \<open>dao_client_of\<close> and \<open>dns_client_of\<close> (a gRPC client gives what its server
  returns), \<open>in_order\<close> and \<open>sdk_laws\<close> (the module manager runs the hooks in the given order, the modules of the SDK
  reach the two modules through balances only). Properties about errors do without
  \<open>store_total\<close> where the code handles the failure.

  \<^bold>\<open>Bounds.\<close> Heights, identifiers and voting periods are 64-bit words that wrap around. A run of \<open>n\<close> steps is
  assumed to have \<open>room n\<close> in both sequences, as they would otherwise repeat identifiers after \<open>2 ^ 64\<close> of
  them. No definition uses fuel: all loops go over lists or have a decreasing measure.

  \<^bold>\<open>Not modelled.\<close> Logging; generated marshalling and gRPC plumbing (\<^verbatim>\<open>*.pb.go\<close> beyond its data types,
  services and their interfaces); the inside of \<^verbatim>\<open>grpc-gateway\<close> (matching of patterns, writing of responses)
  and of the constructors that \<^verbatim>\<open>app.go\<close>, \<^verbatim>\<open>ibc.go\<close> and \<^verbatim>\<open>root.go\<close> call; \<^verbatim>\<open>ProvideClientContext\<close> and the default
  configurations of \<^verbatim>\<open>cmd/config.go\<close>, which hand on values of the SDK; the server of static documents; test
  helpers. The pagination of \<^verbatim>\<open>ListDomain\<close> is a function of the SDK and a parameter.
\<close>

end
